(* ===== verification/Prelude.thy ===== *)
theory Prelude
  imports Complex_Main "HOL-Library.Word"
begin

text \<open>
  Shared vocabulary of the development.

  \<^item> Doubles. A \<open>double\<close> of the program is a finite real value, an infinity or a NaN;
    the comparisons are those of IEEE 754, so every ordered comparison with a NaN is false.
    Zero has one representation here: the two signed zeros compare equal in the program.
  \<^item> Exceptions. A function of the program that may throw returns \<open>exn + 'a\<close>.
  \<^item> Machine integers. \<open>int32\<close> is the two's complement reading of the low 32 bits, the
    result of an arithmetic operation on \<open>std::atomic<int>\<close>.
  \<^item> Optional values. \<open>Optional<T>\<close> (\<open>optional.h\<close>) is \<open>'a option\<close>; the comparison
    of two optionals puts the empty one first.
\<close>

named_theorems dbl_simps \<open>IEEE comparisons of doubles\<close>
named_theorems frame_simps \<open>fields an operation leaves alone\<close>

section \<open>Doubles\<close>

datatype double = Fin real | PInf | NInf | NaN

fun dbl_lt :: "double \<Rightarrow> double \<Rightarrow> bool" where
  "dbl_lt NaN y = False"
| "dbl_lt x NaN = False"
| "dbl_lt (Fin a) (Fin b) = (a < b)"
| "dbl_lt PInf y = False"
| "dbl_lt x NInf = False"
| "dbl_lt NInf y = True"
| "dbl_lt x PInf = True"

fun dbl_eq :: "double \<Rightarrow> double \<Rightarrow> bool" where
  "dbl_eq NaN y = False"
| "dbl_eq x NaN = False"
| "dbl_eq x y = (x = y)"

definition dbl_le :: "double \<Rightarrow> double \<Rightarrow> bool" where
  "dbl_le x y \<longleftrightarrow> dbl_lt x y \<or> dbl_eq x y"

abbreviation dbl_gt :: "double \<Rightarrow> double \<Rightarrow> bool" where
  "dbl_gt x y \<equiv> dbl_lt y x"

abbreviation dbl_ge :: "double \<Rightarrow> double \<Rightarrow> bool" where
  "dbl_ge x y \<equiv> dbl_le y x"

section \<open>Exceptions\<close>

datatype exn = runtime_error string | out_of_range string | logic_error string

type_synonym 'a result = "exn + 'a"

text \<open>A call that may throw, followed by the rest of the function.\<close>

definition result_bind :: "'a result \<Rightarrow> ('a \<Rightarrow> 'b result) \<Rightarrow> 'b result" where
  "result_bind m k = (case m of Inl e \<Rightarrow> Inl e | Inr x \<Rightarrow> k x)"

section \<open>Machine integers\<close>

definition int32 :: "int \<Rightarrow> int" where
  "int32 x = (x + 2 ^ 31) mod 2 ^ 32 - 2 ^ 31"

section \<open>Optional values\<close>

fun opt_lt :: "double option \<Rightarrow> double option \<Rightarrow> bool" where
  "opt_lt x None = False"
| "opt_lt None (Some y) = True"
| "opt_lt (Some x) (Some y) = dbl_lt x y"

definition opt_le :: "double option \<Rightarrow> double option \<Rightarrow> bool" where
  "opt_le x y \<longleftrightarrow> \<not> opt_lt y x"

section \<open>Lemmas\<close>

lemma result_bind_simps [simp]: "result_bind (Inl e) k = Inl e" "result_bind (Inr x) k = k x"
  by (simp_all add: result_bind_def)

lemma result_bind_Inr: "result_bind m k = Inr y \<longleftrightarrow> (\<exists>x. m = Inr x \<and> k x = Inr y)"
  by (cases m) simp_all

lemma dbl_lt_irrefl [simp]: "\<not> dbl_lt x x"
  by (cases x) auto

lemma dbl_lt_asym: "dbl_lt x y \<Longrightarrow> \<not> dbl_lt y x"
  by (cases x; cases y) auto

lemma dbl_lt_trans: "dbl_lt x y \<Longrightarrow> dbl_lt y z \<Longrightarrow> dbl_lt x z"
  by (cases x; cases y; cases z) auto

lemma dbl_lt_NaN [simp]: "\<not> dbl_lt NaN x" "\<not> dbl_lt x NaN"
  by (cases x; simp)+

lemma dbl_eq_NaN [simp]: "\<not> dbl_eq NaN x" "\<not> dbl_eq x NaN"
  by (cases x; simp)+

lemma dbl_eq_iff: "dbl_eq x y \<longleftrightarrow> x = y \<and> x \<noteq> NaN"
  by (cases x; cases y) auto

lemma dbl_le_NaN [simp]: "\<not> dbl_le NaN x" "\<not> dbl_le x NaN"
  by (simp_all add: dbl_le_def)

lemma dbl_le_Fin [simp]: "dbl_le (Fin a) (Fin b) \<longleftrightarrow> a \<le> b"
  by (auto simp: dbl_le_def)

lemma dbl_not_lt: "x \<noteq> NaN \<Longrightarrow> y \<noteq> NaN \<Longrightarrow> \<not> dbl_lt x y \<longleftrightarrow> dbl_le y x"
  by (cases x; cases y) (auto simp: dbl_le_def)

lemma dbl_le_trans: "dbl_le x y \<Longrightarrow> dbl_le y z \<Longrightarrow> dbl_le x z"
  by (auto simp: dbl_le_def dbl_eq_iff intro: dbl_lt_trans)

lemma dbl_le_refl_iff: "dbl_le x x \<longleftrightarrow> x \<noteq> NaN"
  by (simp add: dbl_le_def dbl_eq_iff)

lemma dbl_lt_imp_le: "dbl_lt x y \<Longrightarrow> dbl_le x y"
  by (simp add: dbl_le_def)

lemma dbl_lt_le_trans: "dbl_lt x y \<Longrightarrow> dbl_le y z \<Longrightarrow> dbl_lt x z"
  by (auto simp: dbl_le_def dbl_eq_iff intro: dbl_lt_trans)

lemmas dbl_order = dbl_lt_asym dbl_not_lt dbl_le_trans dbl_le_refl_iff dbl_lt_imp_le

declare dbl_le_refl_iff [dbl_simps] dbl_eq_iff [dbl_simps]

lemma int32_id [simp]: "- (2 ^ 31) \<le> x \<Longrightarrow> x < 2 ^ 31 \<Longrightarrow> int32 x = x"
  by (simp add: int32_def)

lemma int32_range: "- (2 ^ 31) \<le> int32 x \<and> int32 x < 2 ^ 31"
proof -
  have "0 \<le> (x + 2 ^ 31) mod 2 ^ 32" "(x + 2 ^ 31) mod 2 ^ 32 < (2 ^ 32 :: int)"
    by simp_all
  then show ?thesis by (simp add: int32_def)
qed

end
