(* ===== verification/Data_Model.thy ===== *)
theory Data_Model
  imports Prelude
begin

text \<open>
  The value types of the service: WGS84 coordinates (\<open>wgs84/*.h\<close>), positions
  (\<open>position.h\<close>, \<open>position.cpp\<close>), timestamped updates (\<open>update.h\<close>) and the source
  tag of an update (\<open>update_selector.h\<close>).

  A quantity with a unit is its \<open>double\<close>; the unit is part of the field's meaning.
  A timestamp is the signed number of nanoseconds of \<open>std::chrono::high_resolution_clock\<close>.
  The rounding of the difference of two doubles is the parameter \<open>rnd\<close>; that it is exact
  on integers up to \<open>2 ^ 53\<close> is the hypothesis \<open>rounds_ints\<close>. The library functions
  \<open>sin\<close>, \<open>cos\<close>, \<open>pow\<close>, \<open>sqrt\<close> and \<open>atan2\<close> enter \<open>haversine_distance\<close> through the
  parameter \<open>arc\<close>, the value of its last two expressions.
\<close>

section \<open>Coordinates\<close>

definition latitude_min :: double where "latitude_min = Fin (- 90)"
definition latitude_max :: double where "latitude_max = Fin 90"
definition longitude_min :: double where "longitude_min = Fin (- 180)"
definition longitude_max :: double where "longitude_max = Fin 180"

definition check_latitude :: "double \<Rightarrow> unit result" where
  "check_latitude c =
     (if dbl_lt c latitude_min then Inl (out_of_range ''Latitude(coordinate.value() < min())'')
      else if dbl_gt c latitude_max then Inl (out_of_range ''Latitude(coordinate.value() > max())'')
      else Inr ())"

definition check_longitude :: "double \<Rightarrow> unit result" where
  "check_longitude c =
     (if dbl_lt c longitude_min then Inl (out_of_range ''Longitude(coordinate.value() < min())'')
      else if dbl_gt c longitude_max then Inl (out_of_range ''Longitude(coordinate.value() > max())'')
      else Inr ())"

definition check_altitude :: "double \<Rightarrow> unit result" where
  "check_altitude c = Inr ()"

text \<open>The constructor of \<open>Coordinate\<close>: it stores the value and runs the check of its traits.\<close>

definition make_coordinate :: "(double \<Rightarrow> unit result) \<Rightarrow> double \<Rightarrow> double result" where
  "make_coordinate check v = (case check v of Inl e \<Rightarrow> Inl e | Inr _ \<Rightarrow> Inr v)"

definition rounds_ints :: "(real \<Rightarrow> double) \<Rightarrow> bool" where
  "rounds_ints rnd \<longleftrightarrow> (\<forall>n::int. \<bar>n\<bar> \<le> 2 ^ 53 \<longrightarrow> rnd (of_int n) = Fin (of_int n))"

fun dbl_minus :: "(real \<Rightarrow> double) \<Rightarrow> double \<Rightarrow> double \<Rightarrow> double" where
  "dbl_minus rnd NaN y = NaN"
| "dbl_minus rnd x NaN = NaN"
| "dbl_minus rnd (Fin a) (Fin b) = rnd (a - b)"
| "dbl_minus rnd PInf PInf = NaN"
| "dbl_minus rnd NInf NInf = NaN"
| "dbl_minus rnd PInf y = PInf"
| "dbl_minus rnd NInf y = NInf"
| "dbl_minus rnd x PInf = NInf"
| "dbl_minus rnd x NInf = PInf"

text \<open>\<open>operator-\<close> on coordinates: the difference is itself a checked coordinate.\<close>

definition coordinate_minus ::
    "(real \<Rightarrow> double) \<Rightarrow> (double \<Rightarrow> unit result) \<Rightarrow> double \<Rightarrow> double \<Rightarrow> double result" where
  "coordinate_minus rnd check lhs rhs = make_coordinate check (dbl_minus rnd rhs lhs)"

section \<open>Positions\<close>

record position =
  latitude :: double
  longitude :: double
  altitude :: "double option"
  horizontal :: "double option"
  vertical :: "double option"

text \<open>The five constructors of \<open>Position\<close>; the coordinates arrive checked.\<close>

definition position_default :: position where
  "position_default = \<lparr>latitude = Fin 0, longitude = Fin 0, altitude = None,
     horizontal = None, vertical = None\<rparr>"

definition position_lat_lon :: "double \<Rightarrow> double \<Rightarrow> position" where
  "position_lat_lon lat lon = position_default\<lparr>latitude := lat, longitude := lon\<rparr>"

definition position_lat_lon_alt :: "double \<Rightarrow> double \<Rightarrow> double \<Rightarrow> position" where
  "position_lat_lon_alt lat lon alt =
     position_default\<lparr>latitude := lat, longitude := lon, altitude := Some alt\<rparr>"

definition position_hor :: "double \<Rightarrow> double \<Rightarrow> double \<Rightarrow> double \<Rightarrow> position" where
  "position_hor lat lon alt hor_acc =
     (position_lat_lon_alt lat lon alt)\<lparr>horizontal := Some hor_acc\<rparr>"

definition position_hor_ver :: "double \<Rightarrow> double \<Rightarrow> double \<Rightarrow> double \<Rightarrow> double \<Rightarrow> position" where
  "position_hor_ver lat lon alt hor_acc ver_acc =
     (position_hor lat lon alt hor_acc)\<lparr>vertical := Some ver_acc\<rparr>"

fun opt_dbl_eq :: "double option \<Rightarrow> double option \<Rightarrow> bool" where
  "opt_dbl_eq None None = True"
| "opt_dbl_eq (Some x) (Some y) = dbl_eq x y"
| "opt_dbl_eq _ _ = False"

definition position_eq :: "position \<Rightarrow> position \<Rightarrow> bool" where
  "position_eq p q \<longleftrightarrow>
     dbl_eq (latitude p) (latitude q) \<and> dbl_eq (longitude p) (longitude q) \<and>
     opt_dbl_eq (altitude p) (altitude q) \<and>
     opt_dbl_eq (horizontal p) (horizontal q) \<and> opt_dbl_eq (vertical p) (vertical q)"

definition position_neq :: "position \<Rightarrow> position \<Rightarrow> bool" where
  "position_neq p q \<longleftrightarrow> \<not> position_eq p q"

definition haversine_distance ::
    "(real \<Rightarrow> double) \<Rightarrow> (double \<Rightarrow> double \<Rightarrow> double \<Rightarrow> double \<Rightarrow> double) \<Rightarrow>
     position \<Rightarrow> position \<Rightarrow> double result" where
  "haversine_distance rnd arc p1 p2 =
     (case coordinate_minus rnd check_latitude (latitude p2) (latitude p1) of
        Inl e \<Rightarrow> Inl e
      | Inr dLat \<Rightarrow>
          (case coordinate_minus rnd check_longitude (longitude p2) (longitude p1) of
             Inl e \<Rightarrow> Inl e
           | Inr dLon \<Rightarrow> Inr (arc dLat dLon (latitude p1) (latitude p2))))"

section \<open>Updates\<close>

record 'a update =
  update_value :: 'a
  update_when :: int

definition make_update :: "'a \<Rightarrow> int \<Rightarrow> 'a update" where
  "make_update v now = \<lparr>update_value = v, update_when = now\<rparr>"

definition update_eq :: "('a \<Rightarrow> 'a \<Rightarrow> bool) \<Rightarrow> 'a update \<Rightarrow> 'a update \<Rightarrow> bool" where
  "update_eq eq u v \<longleftrightarrow> eq (update_value u) (update_value v) \<and> update_when u = update_when v"

definition update_neq :: "('a \<Rightarrow> 'a \<Rightarrow> bool) \<Rightarrow> 'a update \<Rightarrow> 'a update \<Rightarrow> bool" where
  "update_neq eq u v \<longleftrightarrow> \<not> (eq (update_value u) (update_value v) \<and> update_when u = update_when v)"

record 'a with_source =
  source :: nat
  sourced :: 'a

abbreviation seconds :: "int \<Rightarrow> int" where "seconds n \<equiv> n * 1000000000"
abbreviation minutes :: "int \<Rightarrow> int" where "minutes n \<equiv> seconds (n * 60)"

section \<open>Lemmas\<close>

lemma make_coordinate_Inr: "make_coordinate check v = Inr w \<longleftrightarrow> check v = Inr () \<and> w = v"
  by (auto simp: make_coordinate_def split: sum.splits)

lemma make_coordinate_Inl: "make_coordinate check v = Inl e \<longleftrightarrow> check v = Inl e"
  by (auto simp: make_coordinate_def split: sum.splits)

lemma check_latitude_Inr: "check_latitude v = Inr () \<longleftrightarrow> v = NaN \<or> (\<exists>r. v = Fin r \<and> - 90 \<le> r \<and> r \<le> 90)"
  by (cases v) (auto simp: check_latitude_def latitude_min_def latitude_max_def)

lemma check_longitude_Inr:
  "check_longitude v = Inr () \<longleftrightarrow> v = NaN \<or> (\<exists>r. v = Fin r \<and> - 180 \<le> r \<and> r \<le> 180)"
  by (cases v) (auto simp: check_longitude_def longitude_min_def longitude_max_def)

lemma opt_dbl_eq_iff: "opt_dbl_eq x y \<longleftrightarrow> x = y \<and> x \<noteq> Some NaN"
  by (cases x; cases y) (auto simp: dbl_eq_iff)

text \<open>
  The latitude constructor accepts exactly the finite degrees between -90 and 90 and,
  because both comparisons with it are false, a NaN; anything else throws
  \<open>std::out_of_range\<close>. An accepted value is stored as it is.
\<close>

theorem latitude_accepts:
  "make_coordinate check_latitude v = Inr w \<longleftrightarrow>
     w = v \<and> (v = NaN \<or> (\<exists>r. v = Fin r \<and> - 90 \<le> r \<and> r \<le> 90))"
  by (auto simp: make_coordinate_Inr check_latitude_Inr)

text \<open>
  Position equality is equality of all five fields except that it is not reflexive: a
  position compares equal to itself exactly when none of its fields is a NaN.
\<close>

theorem position_eq_characterised:
  "position_eq p q \<longleftrightarrow> p = q \<and> latitude p \<noteq> NaN \<and> longitude p \<noteq> NaN \<and>
     altitude p \<noteq> Some NaN \<and> horizontal p \<noteq> Some NaN \<and> vertical p \<noteq> Some NaN"
  by (cases p; cases q) (auto simp: position_eq_def dbl_eq_iff opt_dbl_eq_iff)

text \<open>
  The haversine distance of two valid positions throws when their latitudes are more than
  90 degrees apart (in whole degrees), because the difference of two latitudes is constructed
  as a latitude and range-checked.
\<close>

theorem haversine_rejects_far_latitudes:
  assumes rnd: "rounds_ints rnd"
    and p1: "latitude p1 = Fin (of_int a)" and p2: "latitude p2 = Fin (of_int b)"
    and range: "\<bar>a\<bar> \<le> 90" "\<bar>b\<bar> \<le> 90" and far: "90 < \<bar>a - b\<bar>"
  shows "\<exists>msg. haversine_distance rnd arc p1 p2 = Inl (out_of_range msg)"
proof -
  have "rnd (of_int (a - b)) = Fin (of_int (a - b))"
    using rnd range by (auto simp: rounds_ints_def simp del: of_int_diff)
  then have d: "dbl_minus rnd (latitude p1) (latitude p2) = Fin (of_int (a - b))"
    using p1 p2 by (simp del: of_int_diff add: of_int_diff [symmetric])
  have "(of_int (a - b) :: real) < - 90 \<or> 90 < (of_int (a - b) :: real)"
    using far by linarith
  then show ?thesis
    using d by (auto simp: haversine_distance_def coordinate_minus_def make_coordinate_def
        check_latitude_def latitude_min_def latitude_max_def)
qed

theorem haversine_rejects_far_latitudes_witness:
  "\<exists>msg. haversine_distance Fin (\<lambda>_ _ _ _. Fin 0)
      (position_lat_lon (Fin 60) (Fin 0)) (position_lat_lon (Fin (- 60)) (Fin 0)) = Inl (out_of_range msg)"
  by (rule haversine_rejects_far_latitudes [where a = 60 and b = "- 60"])
    (simp_all add: rounds_ints_def position_lat_lon_def)

end
