(* ===== verification/Criteria.thy ===== *)
theory Criteria
  imports Data_Model
begin

text \<open>
  Session criteria (\<open>criteria.h\<close>, \<open>criteria.cpp\<close>). \<open>satisfies\<close> and \<open>criteria_plus\<close>
  (\<open>operator+\<close>) follow the code statement by statement. \<open>meets\<close> is the specification the
  header gives: a criteria instance meets another when it asks for at least the same
  measurements at at least the same accuracy.
\<close>

record criteria =
  requires_position :: bool
  requires_altitude :: bool
  requires_velocity :: bool
  requires_heading :: bool
  accuracy_horizontal :: double
  accuracy_vertical :: "double option"
  accuracy_velocity :: "double option"
  accuracy_heading :: "double option"

definition criteria_default :: criteria where
  "criteria_default = \<lparr>requires_position = True, requires_altitude = False,
     requires_velocity = False, requires_heading = False,
     accuracy_horizontal = Fin 3000, accuracy_vertical = None,
     accuracy_velocity = None, accuracy_heading = None\<rparr>"

definition satisfies :: "criteria \<Rightarrow> criteria \<Rightarrow> bool" where
  "satisfies self rhs =
     (let result = False;
          result = (if requires_position rhs then result \<and> requires_position self else result);
          result = (if requires_altitude rhs then result \<and> requires_altitude self else result);
          result = (if requires_heading rhs then result \<and> requires_heading self else result);
          result = (if requires_velocity rhs then result \<and> requires_velocity self else result);
          result = (result \<and> dbl_le (accuracy_horizontal self) (accuracy_horizontal rhs));
          result = (if accuracy_vertical rhs \<noteq> None
                    then result \<and> accuracy_vertical self \<noteq> None \<and>
                         opt_le (accuracy_vertical self) (accuracy_vertical rhs) else result);
          result = (if accuracy_heading rhs \<noteq> None
                    then result \<and> accuracy_heading self \<noteq> None \<and>
                         opt_le (accuracy_heading self) (accuracy_heading rhs) else result);
          result = (if accuracy_velocity rhs \<noteq> None
                    then result \<and> accuracy_velocity self \<noteq> None \<and>
                         opt_le (accuracy_velocity self) (accuracy_velocity rhs) else result)
      in result)"

text \<open>One of the three optional accuracies of \<open>operator+\<close>.\<close>

definition merge_accuracy :: "double option \<Rightarrow> double option \<Rightarrow> double option" where
  "merge_accuracy result rhs =
     (if result \<noteq> None then (if rhs \<noteq> None \<and> opt_lt rhs result then rhs else result) else rhs)"

definition criteria_plus :: "criteria \<Rightarrow> criteria \<Rightarrow> criteria" where
  "criteria_plus lhs rhs =
     (let result = lhs;
          result = result\<lparr>requires_position := requires_position result \<or> requires_position rhs\<rparr>;
          result = result\<lparr>requires_velocity := requires_velocity result \<or> requires_velocity rhs\<rparr>;
          result = result\<lparr>requires_heading := requires_heading result \<or> requires_heading rhs\<rparr>;
          result = result\<lparr>requires_altitude := requires_altitude result \<or> requires_altitude rhs\<rparr>;
          result = (if dbl_lt (accuracy_horizontal rhs) (accuracy_horizontal result)
                    then result\<lparr>accuracy_horizontal := accuracy_horizontal rhs\<rparr> else result);
          result = result\<lparr>accuracy_vertical := merge_accuracy (accuracy_vertical result) (accuracy_vertical rhs)\<rparr>;
          result = result\<lparr>accuracy_velocity := merge_accuracy (accuracy_velocity result) (accuracy_velocity rhs)\<rparr>;
          result = result\<lparr>accuracy_heading := merge_accuracy (accuracy_heading result) (accuracy_heading rhs)\<rparr>
      in result)"

section \<open>The documented contract\<close>

fun opt_meets :: "double option \<Rightarrow> double option \<Rightarrow> bool" where
  "opt_meets _ None = True"
| "opt_meets None (Some _) = False"
| "opt_meets (Some x) (Some y) = dbl_le x y"

definition meets :: "criteria \<Rightarrow> criteria \<Rightarrow> bool" where
  "meets c d \<longleftrightarrow>
     (requires_position d \<longrightarrow> requires_position c) \<and> (requires_altitude d \<longrightarrow> requires_altitude c) \<and>
     (requires_velocity d \<longrightarrow> requires_velocity c) \<and> (requires_heading d \<longrightarrow> requires_heading c) \<and>
     dbl_le (accuracy_horizontal c) (accuracy_horizontal d) \<and>
     opt_meets (accuracy_vertical c) (accuracy_vertical d) \<and>
     opt_meets (accuracy_velocity c) (accuracy_velocity d) \<and>
     opt_meets (accuracy_heading c) (accuracy_heading d)"

definition criteria_no_nan :: "criteria \<Rightarrow> bool" where
  "criteria_no_nan c \<longleftrightarrow> accuracy_horizontal c \<noteq> NaN \<and> accuracy_vertical c \<noteq> Some NaN \<and>
     accuracy_velocity c \<noteq> Some NaN \<and> accuracy_heading c \<noteq> Some NaN"

section \<open>Lemmas\<close>

lemma criteria_plus_fields [simp]:
  "requires_position (criteria_plus c d) = (requires_position c \<or> requires_position d)"
  "requires_altitude (criteria_plus c d) = (requires_altitude c \<or> requires_altitude d)"
  "requires_velocity (criteria_plus c d) = (requires_velocity c \<or> requires_velocity d)"
  "requires_heading (criteria_plus c d) = (requires_heading c \<or> requires_heading d)"
  "accuracy_horizontal (criteria_plus c d) =
     (if dbl_lt (accuracy_horizontal d) (accuracy_horizontal c)
      then accuracy_horizontal d else accuracy_horizontal c)"
  "accuracy_vertical (criteria_plus c d) = merge_accuracy (accuracy_vertical c) (accuracy_vertical d)"
  "accuracy_velocity (criteria_plus c d) = merge_accuracy (accuracy_velocity c) (accuracy_velocity d)"
  "accuracy_heading (criteria_plus c d) = merge_accuracy (accuracy_heading c) (accuracy_heading d)"
  by (simp_all add: criteria_plus_def Let_def)

lemma dbl_min_le:
  "x \<noteq> NaN \<Longrightarrow> y \<noteq> NaN \<Longrightarrow>
     dbl_le (if dbl_lt y x then y else x) x \<and> dbl_le (if dbl_lt y x then y else x) y"
  by (cases x; cases y) (auto simp: dbl_le_def)

lemma merge_accuracy_meets:
  assumes "x \<noteq> Some NaN" "y \<noteq> Some NaN"
  shows "opt_meets (merge_accuracy x y) x \<and> opt_meets (merge_accuracy x y) y"
  using assms by (cases x; cases y) (auto simp: merge_accuracy_def dbl_le_refl_iff dbl_min_le dbl_lt_imp_le dbl_not_lt)

lemma merge_accuracy_least:
  "opt_meets z x \<Longrightarrow> opt_meets z y \<Longrightarrow> opt_meets z (merge_accuracy x y)"
  by (cases x; cases y) (auto simp: merge_accuracy_def)

text \<open>
  C4. Merging two criteria gives the weakest criteria that meets both: the sum meets each
  summand, and whatever meets both summands meets the sum. Accuracies are numbers here; with a
  NaN among them no accuracy can be met.
\<close>

theorem criteria_plus_is_least_upper_bound:
  assumes "criteria_no_nan c" "criteria_no_nan d"
  shows "meets (criteria_plus c d) c \<and> meets (criteria_plus c d) d \<and>
    (\<forall>e. meets e c \<and> meets e d \<longrightarrow> meets e (criteria_plus c d))"
proof -
  have "meets (criteria_plus c d) c" "meets (criteria_plus c d) d"
    using assms merge_accuracy_meets dbl_min_le
    unfolding meets_def criteria_no_nan_def criteria_plus_fields by blast+
  moreover have "meets e (criteria_plus c d)" if "meets e c" "meets e d" for e
    using that by (auto simp: meets_def merge_accuracy_least)
  ultimately show ?thesis by blast
qed

theorem criteria_plus_is_least_upper_bound_witness:
  "meets (criteria_plus criteria_default (criteria_default\<lparr>accuracy_horizontal := Fin 10\<rparr>))
     (criteria_default\<lparr>accuracy_horizontal := Fin 10\<rparr>)"
  using criteria_plus_is_least_upper_bound
    [of criteria_default "criteria_default\<lparr>accuracy_horizontal := Fin 10\<rparr>"]
  by (simp add: criteria_no_nan_def criteria_default_def)

text \<open>
  The check the header documents as "true iff this instance also satisfies the other" is
  false for every pair of criteria, since its accumulator starts at false and is only ever
  conjoined; not even the default criteria satisfies itself, although it meets itself.
\<close>

theorem satisfies_never_holds:
  "\<not> satisfies c d \<and> meets criteria_default criteria_default"
  by (simp add: satisfies_def meets_def criteria_default_def)

end
