(* ===== verification/Update_Policy.thy ===== *)
theory Update_Policy
  imports Data_Model
begin

text \<open>
  The heuristics that choose between two updates: the policy of the engine
  (\<open>update_policy.h\<close>, \<open>time_based_update_policy.cpp\<close>) and the selectors of the fusion
  provider (\<open>newer_update_selector.h\<close>, \<open>newer_or_more_accurate_update_selector.h\<close>).

  The position overload of \<open>verify_update\<close> decides on every path. The heading and velocity
  overloads leave the local \<open>use_new_update\<close> uninitialised when the update lies inside the
  time bracket; its indeterminate value is their argument \<open>indet\<close>.
\<close>

section \<open>The time-based policy\<close>

record policy =
  last_position_update :: "position update"
  last_heading_update :: "double update"
  last_velocity_update :: "double update"
  policy_limit :: int

definition default_timeout :: int where
  "default_timeout = minutes 2"

definition is_significantly_newer :: "'a update \<Rightarrow> 'a update \<Rightarrow> int \<Rightarrow> bool" where
  "is_significantly_newer last_update u bound \<longleftrightarrow> update_when u - update_when last_update > bound"

definition is_significantly_older :: "'a update \<Rightarrow> 'a update \<Rightarrow> int \<Rightarrow> bool" where
  "is_significantly_older last_update u bound \<longleftrightarrow> update_when u - update_when last_update < - 1 * bound"

text \<open>Inside the bracket: keep the update that is at least as accurate.\<close>

definition at_least_as_accurate :: "position update \<Rightarrow> position update \<Rightarrow> bool" where
  "at_least_as_accurate last_update u \<longleftrightarrow>
     (case horizontal (update_value last_update) of None \<Rightarrow> True
      | Some old \<Rightarrow> (case horizontal (update_value u) of None \<Rightarrow> False
                   | Some new \<Rightarrow> dbl_ge old new))"

definition verify_position_update :: "policy \<Rightarrow> position update \<Rightarrow> position update \<times> policy" where
  "verify_position_update p u =
     (let use_new_update =
            (if is_significantly_newer (last_position_update p) u (policy_limit p) then True
             else if is_significantly_older (last_position_update p) u (policy_limit p) then False
             else at_least_as_accurate (last_position_update p) u)
      in if use_new_update then (u, p\<lparr>last_position_update := u\<rparr>) else (last_position_update p, p))"

definition verify_heading_update :: "bool \<Rightarrow> policy \<Rightarrow> double update \<Rightarrow> double update \<times> policy" where
  "verify_heading_update indet p u =
     (let use_new_update =
            (if is_significantly_newer (last_heading_update p) u (policy_limit p) then True
             else if is_significantly_older (last_heading_update p) u (policy_limit p) then False
             else indet)
      in if use_new_update then (u, p\<lparr>last_heading_update := u\<rparr>) else (last_heading_update p, p))"

definition verify_velocity_update :: "bool \<Rightarrow> policy \<Rightarrow> double update \<Rightarrow> double update \<times> policy" where
  "verify_velocity_update indet p u =
     (let use_new_update =
            (if is_significantly_newer (last_velocity_update p) u (policy_limit p) then True
             else if is_significantly_older (last_velocity_update p) u (policy_limit p) then False
             else indet)
      in if use_new_update then (u, p\<lparr>last_velocity_update := u\<rparr>) else (last_velocity_update p, p))"

text \<open>The policy after a sequence of position updates.\<close>

fun verify_position_updates :: "policy \<Rightarrow> position update list \<Rightarrow> policy" where
  "verify_position_updates p [] = p"
| "verify_position_updates p (u # us) = verify_position_updates (snd (verify_position_update p u)) us"

section \<open>The selectors of the fusion provider\<close>

type_synonym sourced_update = "position update with_source"

definition newer_select :: "sourced_update \<Rightarrow> sourced_update \<Rightarrow> sourced_update" where
  "newer_select older newer = newer"

definition newer_or_more_accurate_select :: "sourced_update \<Rightarrow> sourced_update \<Rightarrow> sourced_update" where
  "newer_or_more_accurate_select older newer =
     (let cutoff = seconds 11;
          old_acc = horizontal (update_value (sourced older));
          new_acc = horizontal (update_value (sourced newer))
      in if source newer = source older then newer
         else if update_when (sourced newer) > update_when (sourced older) + cutoff then newer
         else if old_acc = None then newer
         else if new_acc = None then older
         else if opt_lt new_acc old_acc then newer
         else older)"

section \<open>Lemmas\<close>

lemma verify_position_update_result:
  "fst (verify_position_update p u) = last_position_update (snd (verify_position_update p u))"
  by (simp add: verify_position_update_def Let_def)

lemma verify_position_update_limit [frame_simps]:
  "policy_limit (snd (verify_position_update p u)) = policy_limit p"
  "last_heading_update (snd (verify_position_update p u)) = last_heading_update p"
  "last_velocity_update (snd (verify_position_update p u)) = last_velocity_update p"
  by (simp_all add: verify_position_update_def Let_def)

lemma verify_position_update_cases:
  "last_position_update (snd (verify_position_update p u)) \<in> {u, last_position_update p}"
  by (simp add: verify_position_update_def Let_def)

definition finite_accuracy :: "position update \<Rightarrow> bool" where
  "finite_accuracy u \<longleftrightarrow> (\<exists>r. horizontal (update_value u) = Some (Fin r))"

definition within_bracket :: "int \<Rightarrow> position update list \<Rightarrow> bool" where
  "within_bracket bound us \<longleftrightarrow> (\<forall>u\<in>set us. \<forall>v\<in>set us. \<bar>update_when u - update_when v\<bar> \<le> bound)"

definition acc_le :: "position update \<Rightarrow> position update \<Rightarrow> bool" where
  "acc_le u v \<longleftrightarrow> (\<exists>r s. horizontal (update_value u) = Some (Fin r) \<and>
     horizontal (update_value v) = Some (Fin s) \<and> r \<le> s)"

lemma verify_within_bracket:
  assumes "\<bar>update_when u - update_when (last_position_update p)\<bar> \<le> policy_limit p"
    and "finite_accuracy u" "finite_accuracy (last_position_update p)"
  defines "r \<equiv> last_position_update (snd (verify_position_update p u))"
  shows "finite_accuracy r \<and> acc_le r u \<and> acc_le r (last_position_update p)"
  using assms
  by (auto simp: verify_position_update_def is_significantly_newer_def is_significantly_older_def
      at_least_as_accurate_def finite_accuracy_def acc_le_def Let_def)

lemma acc_le_trans: "acc_le u v \<Longrightarrow> acc_le v w \<Longrightarrow> acc_le u w"
  by (auto simp: acc_le_def)

lemma verify_position_updates_best:
  assumes "within_bracket (policy_limit p) (last_position_update p # us)"
    and "list_all finite_accuracy (last_position_update p # us)"
  defines "r \<equiv> last_position_update (verify_position_updates p us)"
  shows "r \<in> set (last_position_update p # us) \<and> list_all (acc_le r) (last_position_update p # us)"
  using assms(1,2) unfolding r_def
proof (induction us arbitrary: p)
  case Nil
  then show ?case by (auto simp: finite_accuracy_def acc_le_def)
next
  case (Cons u us)
  let ?p = "snd (verify_position_update p u)"
  have step: "finite_accuracy (last_position_update ?p) \<and> acc_le (last_position_update ?p) u \<and>
      acc_le (last_position_update ?p) (last_position_update p)"
    using Cons.prems by (intro verify_within_bracket) (auto simp: within_bracket_def)
  have mem: "last_position_update ?p \<in> {u, last_position_update p}"
    by (rule verify_position_update_cases)
  have bracket: "within_bracket (policy_limit ?p) (last_position_update ?p # us)"
    using Cons.prems(1) mem by (auto simp: within_bracket_def frame_simps)
  have fin: "list_all finite_accuracy (last_position_update ?p # us)"
    using Cons.prems(2) step by simp
  let ?r = "last_position_update (verify_position_updates ?p us)"
  from Cons.IH [OF bracket fin] have r: "?r \<in> set (last_position_update ?p # us)"
    and best: "acc_le ?r (last_position_update ?p)" "list_all (acc_le ?r) us"
    by simp_all
  from best(1) step have "acc_le ?r u" "acc_le ?r (last_position_update p)"
    by (blast intro: acc_le_trans)+
  with r best(2) mem show ?case by auto
qed

text \<open>
  A position update that is newer than the reference by more than the limit always becomes
  the reference, one that is older by more than the limit never does, and between the two it
  does exactly when it is at least as accurate; the caller receives the reference that is
  kept, and nothing else of the policy changes.
\<close>

theorem verify_position_update_spec:
  "verify_position_update p u =
     (let d = update_when u - update_when (last_position_update p);
          accept = d > policy_limit p \<or> (d \<ge> - policy_limit p \<and> at_least_as_accurate (last_position_update p) u);
          r = (if accept then u else last_position_update p)
      in (r, p\<lparr>last_position_update := r\<rparr>))"
  by (auto simp: verify_position_update_def is_significantly_newer_def is_significantly_older_def Let_def)

text \<open>
  C5. Over any sequence of updates that lie in one time bracket with the reference and carry a
  finite accuracy, the reference that remains is one of them (or the first reference) and is at
  least as accurate as all of them.
\<close>

theorem policy_keeps_best_of_bracket:
  assumes "within_bracket (policy_limit p) (last_position_update p # us)"
    and "list_all finite_accuracy (last_position_update p # us)"
  shows "last_position_update (verify_position_updates p us) \<in> set (last_position_update p # us) \<and>
    list_all (acc_le (last_position_update (verify_position_updates p us))) (last_position_update p # us)"
  using verify_position_updates_best [OF assms] .

definition example_update :: "real \<Rightarrow> int \<Rightarrow> position update" where
  "example_update acc t = make_update (position_hor (Fin 51) (Fin 7) (Fin 0) (Fin acc)) t"

definition example_policy :: policy where
  "example_policy = \<lparr>last_position_update = example_update 30 0,
     last_heading_update = make_update (Fin 0) 0, last_velocity_update = make_update (Fin 0) 0,
     policy_limit = default_timeout\<rparr>"

theorem policy_keeps_best_of_bracket_witness:
  "last_position_update (verify_position_updates example_policy [example_update 50 5, example_update 10 9])
     = example_update 10 9 \<and>
   list_all (acc_le (example_update 10 9))
     [example_update 30 0, example_update 50 5, example_update 10 9]"
proof -
  let ?us = "[example_update 50 5, example_update 10 9]"
  have run: "last_position_update (verify_position_updates example_policy ?us) = example_update 10 9"
    by (simp add: example_policy_def example_update_def verify_position_update_def make_update_def
        is_significantly_newer_def is_significantly_older_def at_least_as_accurate_def position_hor_def
        position_lat_lon_alt_def position_default_def default_timeout_def)
  have "within_bracket (policy_limit example_policy) (last_position_update example_policy # ?us)"
    "list_all finite_accuracy (last_position_update example_policy # ?us)"
    by (simp_all add: within_bracket_def example_policy_def example_update_def make_update_def
        default_timeout_def finite_accuracy_def position_hor_def)
  from policy_keeps_best_of_bracket [OF this] show ?thesis
    unfolding run by (simp add: example_policy_def)
qed

text \<open>
  Whether a heading inside the time bracket becomes the reference is decided by the
  indeterminate value of an uninitialised local: with the two possible values the function
  returns the new heading or the old one.
\<close>

theorem verify_heading_update_indeterminate:
  assumes "\<bar>update_when u - update_when (last_heading_update p)\<bar> \<le> policy_limit p"
  shows "fst (verify_heading_update True p u) = u \<and>
    fst (verify_heading_update False p u) = last_heading_update p"
  using assms
  by (auto simp: verify_heading_update_def is_significantly_newer_def is_significantly_older_def)

theorem verify_heading_update_indeterminate_witness:
  "fst (verify_heading_update True example_policy (make_update (Fin 90) 5)) = make_update (Fin 90) 5 \<and>
   fst (verify_heading_update False example_policy (make_update (Fin 90) 5)) = make_update (Fin 0) 0"
  using verify_heading_update_indeterminate [of "make_update (Fin 90) 5" example_policy]
  by (simp add: example_policy_def make_update_def default_timeout_def)

end
