(* ===== verification/Provider_Controller.thy ===== *)
theory Provider_Controller
  imports Prelude
begin

unbundle bit_operations_syntax

text \<open>
  Providers (\<open>provider.h\<close>, \<open>provider.cpp\<close>): the feature and requirement flags and the
  controller, which counts the observers of position, heading and velocity updates and starts
  and stops the provider instance.

  Flags are the \<open>std::size_t\<close> of the enumerations, 64 bits; the operators compute on
  \<open>unsigned int\<close>, 32 bits. A counter is a \<open>std::atomic<int>\<close>; its increment wraps. An
  operation of the controller returns the new controller and the calls it makes on the
  instance, in order. The locale \<open>refcounted\<close> is the contract shared by the three update
  channels, proved once and interpreted for each of them.
\<close>

section \<open>Features and requirements\<close>

type_synonym flags = "64 word"

definition feature_none :: flags where "feature_none = 0"
definition feature_position :: flags where "feature_position = push_bit 0 1"
definition feature_velocity :: flags where "feature_velocity = push_bit 1 1"
definition feature_heading :: flags where "feature_heading = push_bit 2 1"

definition requirement_none :: flags where "requirement_none = 0"
definition requirement_satellites :: flags where "requirement_satellites = push_bit 0 1"
definition requirement_cell_network :: flags where "requirement_cell_network = push_bit 1 1"
definition requirement_data_network :: flags where "requirement_data_network = push_bit 2 1"
definition requirement_monetary_spending :: flags where "requirement_monetary_spending = push_bit 3 1"

definition features_or :: "flags \<Rightarrow> flags \<Rightarrow> flags" where
  "features_or lhs rhs = ucast ((ucast lhs :: 32 word) OR ucast rhs)"

definition features_and :: "flags \<Rightarrow> flags \<Rightarrow> flags" where
  "features_and lhs rhs = ucast ((ucast lhs :: 32 word) AND ucast rhs)"

definition requirements_or :: "flags \<Rightarrow> flags \<Rightarrow> flags" where
  "requirements_or lhs rhs = ucast ((ucast lhs :: 32 word) OR ucast rhs)"

definition requirements_and :: "flags \<Rightarrow> flags \<Rightarrow> flags" where
  "requirements_and lhs rhs = ucast ((ucast lhs :: 32 word) AND ucast rhs)"

definition supports :: "flags \<Rightarrow> flags \<Rightarrow> bool" where
  "supports features f \<longleftrightarrow> features_and features f \<noteq> feature_none"

definition requires_flag :: "flags \<Rightarrow> flags \<Rightarrow> bool" where
  "requires_flag requirements r \<longleftrightarrow> requirements_and requirements r \<noteq> requirement_none"

section \<open>The controller\<close>

datatype channel = ch_position | ch_heading | ch_velocity

datatype call = Start channel | Stop channel

record controller =
  position_updates_counter :: int
  heading_updates_counter :: int
  velocity_updates_counter :: int

definition our_magic_disabling_value :: int where
  "our_magic_disabling_value = - 1"

definition new_controller :: controller where
  "new_controller = \<lparr>position_updates_counter = 0, heading_updates_counter = 0, velocity_updates_counter = 0\<rparr>"

definition enable :: "controller \<Rightarrow> controller" where
  "enable c = c\<lparr>position_updates_counter := 0, heading_updates_counter := 0, velocity_updates_counter := 0\<rparr>"

definition disable :: "controller \<Rightarrow> controller \<times> call list" where
  "disable c =
     (let calls =
            (if position_updates_counter c > 0 then [Stop ch_position] else []) @
            (if heading_updates_counter c > 0 then [Stop ch_heading] else []) @
            (if velocity_updates_counter c > 0 then [Stop ch_velocity] else [])
      in (c\<lparr>position_updates_counter := our_magic_disabling_value,
            heading_updates_counter := our_magic_disabling_value,
            velocity_updates_counter := our_magic_disabling_value\<rparr>, calls))"

definition start_position_updates :: "controller \<Rightarrow> controller \<times> call list" where
  "start_position_updates c =
     (if position_updates_counter c < 0 then (c, [])
      else let n = int32 (position_updates_counter c + 1)
           in (c\<lparr>position_updates_counter := n\<rparr>, if n = 1 then [Start ch_position] else []))"

definition stop_position_updates :: "controller \<Rightarrow> controller \<times> call list" where
  "stop_position_updates c =
     (if position_updates_counter c < 0 then (c, [])
      else let n = int32 (position_updates_counter c - 1)
           in (c\<lparr>position_updates_counter := n\<rparr>, if n = 0 then [Stop ch_position] else []))"

definition are_position_updates_running :: "controller \<Rightarrow> bool" where
  "are_position_updates_running c \<longleftrightarrow> position_updates_counter c > 0"

definition start_heading_updates :: "controller \<Rightarrow> controller \<times> call list" where
  "start_heading_updates c =
     (if heading_updates_counter c < 0 then (c, [])
      else let n = int32 (heading_updates_counter c + 1)
           in (c\<lparr>heading_updates_counter := n\<rparr>, if n = 1 then [Start ch_heading] else []))"

definition stop_heading_updates :: "controller \<Rightarrow> controller \<times> call list" where
  "stop_heading_updates c =
     (if heading_updates_counter c < 0 then (c, [])
      else let n = int32 (heading_updates_counter c - 1)
           in (c\<lparr>heading_updates_counter := n\<rparr>, if n = 0 then [Stop ch_heading] else []))"

definition are_heading_updates_running :: "controller \<Rightarrow> bool" where
  "are_heading_updates_running c \<longleftrightarrow> heading_updates_counter c > 0"

definition start_velocity_updates :: "controller \<Rightarrow> controller \<times> call list" where
  "start_velocity_updates c =
     (if velocity_updates_counter c < 0 then (c, [])
      else let n = int32 (velocity_updates_counter c + 1)
           in (c\<lparr>velocity_updates_counter := n\<rparr>, if n = 1 then [Start ch_velocity] else []))"

definition stop_velocity_updates :: "controller \<Rightarrow> controller \<times> call list" where
  "stop_velocity_updates c =
     (if velocity_updates_counter c < 0 then (c, [])
      else let n = int32 (velocity_updates_counter c - 1)
           in (c\<lparr>velocity_updates_counter := n\<rparr>, if n = 0 then [Stop ch_velocity] else []))"

definition are_velocity_updates_running :: "controller \<Rightarrow> bool" where
  "are_velocity_updates_running c \<longleftrightarrow> velocity_updates_counter c > 0"

text \<open>An operation by name, and a sequence of operations with the calls they make.\<close>

fun controller_op :: "call \<Rightarrow> controller \<Rightarrow> controller \<times> call list" where
  "controller_op (Start ch_position) c = start_position_updates c"
| "controller_op (Stop ch_position) c = stop_position_updates c"
| "controller_op (Start ch_heading) c = start_heading_updates c"
| "controller_op (Stop ch_heading) c = stop_heading_updates c"
| "controller_op (Start ch_velocity) c = start_velocity_updates c"
| "controller_op (Stop ch_velocity) c = stop_velocity_updates c"

fun counter :: "channel \<Rightarrow> controller \<Rightarrow> int" where
  "counter ch_position c = position_updates_counter c"
| "counter ch_heading c = heading_updates_counter c"
| "counter ch_velocity c = velocity_updates_counter c"

fun controller_run :: "call list \<Rightarrow> controller \<Rightarrow> controller \<times> call list" where
  "controller_run [] c = (c, [])"
| "controller_run (k # ks) c =
     (case controller_op k c of (c', calls) \<Rightarrow>
        case controller_run ks c' of (c'', calls') \<Rightarrow> (c'', calls @ calls'))"

section \<open>The contract of a channel\<close>

text \<open>
  What the class comment promises for one channel: the instance is started when the number of
  observers becomes positive and stopped when it becomes zero. \<open>observers\<close> counts the
  requests of a sequence that never stops more than it started, \<open>running\<close> is the state
  the instance is in after a sequence of calls.
\<close>

fun observers :: "channel \<Rightarrow> int \<Rightarrow> call list \<Rightarrow> int option" where
  "observers ch n [] = Some n"
| "observers ch n (Start c # ks) = (if c = ch then observers ch (n + 1) ks else observers ch n ks)"
| "observers ch n (Stop c # ks) =
     (if c = ch then (if n > 0 then observers ch (n - 1) ks else None) else observers ch n ks)"

fun running :: "channel \<Rightarrow> bool \<Rightarrow> call list \<Rightarrow> bool option" where
  "running ch b [] = Some b"
| "running ch b (Start c # ks) =
     (if c = ch then (if b then None else running ch True ks) else running ch b ks)"
| "running ch b (Stop c # ks) =
     (if c = ch then (if b then running ch False ks else None) else running ch b ks)"

lemma counter_frame [simp]:
  "ch \<noteq> ch_position \<Longrightarrow> counter ch (c\<lparr>position_updates_counter := n\<rparr>) = counter ch c"
  "ch \<noteq> ch_heading \<Longrightarrow> counter ch (c\<lparr>heading_updates_counter := n\<rparr>) = counter ch c"
  "ch \<noteq> ch_velocity \<Longrightarrow> counter ch (c\<lparr>velocity_updates_counter := n\<rparr>) = counter ch c"
  by (cases ch; simp)+

locale refcounted =
  fixes ch :: channel
    and start :: "controller \<Rightarrow> controller \<times> call list"
    and stop :: "controller \<Rightarrow> controller \<times> call list"
  assumes op_start: "controller_op (Start ch) = start"
    and op_stop: "controller_op (Stop ch) = stop"
    and counter_start: "counter ch (fst (start c)) =
      (if counter ch c < 0 then counter ch c else int32 (counter ch c + 1))"
    and counter_stop: "counter ch (fst (stop c)) =
      (if counter ch c < 0 then counter ch c else int32 (counter ch c - 1))"
    and calls_start: "snd (start c) =
      (if counter ch c \<ge> 0 \<and> int32 (counter ch c + 1) = 1 then [Start ch] else [])"
    and calls_stop: "snd (stop c) =
      (if counter ch c \<ge> 0 \<and> int32 (counter ch c - 1) = 0 then [Stop ch] else [])"
    and start_other: "c' \<noteq> ch \<Longrightarrow> counter c' (fst (start c)) = counter c' c"
    and stop_other: "c' \<noteq> ch \<Longrightarrow> counter c' (fst (stop c)) = counter c' c"
begin

lemma disabled_start: "counter ch c < 0 \<Longrightarrow> counter ch (fst (start c)) = counter ch c \<and> snd (start c) = []"
  by (simp add: counter_start calls_start)

lemma disabled_stop: "counter ch c < 0 \<Longrightarrow> counter ch (fst (stop c)) = counter ch c \<and> snd (stop c) = []"
  by (simp add: counter_stop calls_stop)

lemma stop_at_zero: "counter ch c = 0 \<Longrightarrow> counter ch (fst (stop c)) = - 1 \<and> snd (stop c) = []"
  by (simp add: counter_stop calls_stop)

lemma start_running:
  assumes "0 \<le> counter ch c" "counter ch c < 2 ^ 31 - 1"
  shows "counter ch (fst (start c)) = counter ch c + 1 \<and>
    snd (start c) = (if counter ch c = 0 then [Start ch] else [])"
  using assms by (simp add: counter_start calls_start)

lemma stop_running:
  assumes "0 < counter ch c" "counter ch c < 2 ^ 31"
  shows "counter ch (fst (stop c)) = counter ch c - 1 \<and>
    snd (stop c) = (if counter ch c = 1 then [Stop ch] else [])"
  using assms by (simp add: counter_stop calls_stop)

end

interpretation position: refcounted ch_position start_position_updates stop_position_updates
  by unfold_locales
    (auto simp: start_position_updates_def stop_position_updates_def Let_def fun_eq_iff)

interpretation heading: refcounted ch_heading start_heading_updates stop_heading_updates
  by unfold_locales
    (auto simp: start_heading_updates_def stop_heading_updates_def Let_def fun_eq_iff)

interpretation velocity: refcounted ch_velocity start_velocity_updates stop_velocity_updates
  by unfold_locales
    (auto simp: start_velocity_updates_def stop_velocity_updates_def Let_def fun_eq_iff)

section \<open>Lemmas\<close>

lemma controller_run_Cons:
  "controller_run (k # ks) c =
     (fst (controller_run ks (fst (controller_op k c))),
      snd (controller_op k c) @ snd (controller_run ks (fst (controller_op k c))))"
  by (simp split: prod.splits)

lemma controller_run_append:
  "controller_run (ks @ ks') c =
     (fst (controller_run ks' (fst (controller_run ks c))),
      snd (controller_run ks c) @ snd (controller_run ks' (fst (controller_run ks c))))"
  by (induction ks arbitrary: c) (simp_all add: controller_run_Cons del: controller_run.simps(2))

text \<open>The facts of the three interpretations, by channel.\<close>

lemma controller_op_start:
  assumes "0 \<le> counter ch c" "counter ch c < 2 ^ 31 - 1"
  shows "counter ch (fst (controller_op (Start ch) c)) = counter ch c + 1 \<and>
    snd (controller_op (Start ch) c) = (if counter ch c = 0 then [Start ch] else [])"
  using assms position.start_running heading.start_running velocity.start_running
  by (cases ch) auto

lemma controller_op_stop:
  assumes "0 < counter ch c" "counter ch c < 2 ^ 31"
  shows "counter ch (fst (controller_op (Stop ch) c)) = counter ch c - 1 \<and>
    snd (controller_op (Stop ch) c) = (if counter ch c = 1 then [Stop ch] else [])"
  using assms position.stop_running heading.stop_running velocity.stop_running
  by (cases ch) auto

lemma controller_op_other:
  assumes "k \<in> {Start ch', Stop ch'}" "ch' \<noteq> ch"
  shows "counter ch (fst (controller_op k c)) = counter ch c"
  using assms
  by (cases ch') (auto simp: position.start_other position.stop_other heading.start_other
      heading.stop_other velocity.start_other velocity.stop_other)

lemma controller_op_disabled:
  assumes "k \<in> {Start ch, Stop ch}" "counter ch c < 0"
  shows "counter ch (fst (controller_op k c)) = counter ch c \<and> snd (controller_op k c) = []"
  using assms position.disabled_start position.disabled_stop heading.disabled_start
    heading.disabled_stop velocity.disabled_start velocity.disabled_stop
  by (cases ch) auto

lemma controller_op_calls: "snd (controller_op k c) \<in> {[], [k]}"
  by (cases "(k, c)" rule: controller_op.cases)
    (auto simp: position.calls_start position.calls_stop heading.calls_start heading.calls_stop
      velocity.calls_start velocity.calls_stop)

lemma running_append:
  "running ch b (ks @ ks') = (case running ch b ks of None \<Rightarrow> None | Some b' \<Rightarrow> running ch b' ks')"
  by (induction ch b ks rule: running.induct) auto

lemma running_other_call:
  "k \<in> {Start ch', Stop ch'} \<Longrightarrow> ch' \<noteq> ch \<Longrightarrow> ks \<in> {[], [k]} \<Longrightarrow> running ch b ks = Some b"
  by auto

lemma controller_run_refcount:
  assumes "observers ch (counter ch c) ks = Some n" "0 \<le> counter ch c"
    and "counter ch c + int (length ks) < 2 ^ 31"
  shows "counter ch (fst (controller_run ks c)) = n \<and>
    running ch (counter ch c > 0) (snd (controller_run ks c)) = Some (n > 0)"
  using assms
proof (induction ks arbitrary: c)
  case Nil
  then show ?case by simp
next
  case (Cons k ks)
  let ?c = "fst (controller_op k c)" and ?calls = "snd (controller_op k c)"
  have step: "0 \<le> counter ch ?c \<and> observers ch (counter ch ?c) ks = Some n \<and>
      counter ch ?c \<le> counter ch c + 1 \<and>
      running ch (counter ch c > 0) ?calls = Some (counter ch ?c > 0)"
  proof (cases "k \<in> {Start ch, Stop ch}")
    case False
    then obtain ch' where k: "k \<in> {Start ch', Stop ch'}" and ne: "ch' \<noteq> ch"
      by (cases k) auto
    from controller_op_other [OF k ne] have "counter ch ?c = counter ch c" .
    moreover have "observers ch (counter ch c) ks = Some n"
      using Cons.prems(1) k ne by auto
    moreover have "running ch (counter ch c > 0) ?calls = Some (counter ch c > 0)"
      by (rule running_other_call [OF k ne controller_op_calls])
    ultimately show ?thesis using Cons.prems(2) by simp
  next
    case True
    then show ?thesis
      using Cons.prems controller_op_start [of ch c] controller_op_stop [of ch c]
      by (auto split: if_splits)
  qed
  then have "counter ch (fst (controller_run ks ?c)) = n \<and>
      running ch (counter ch ?c > 0) (snd (controller_run ks ?c)) = Some (n > 0)"
    using Cons.prems(3) by (intro Cons.IH) auto
  with step show ?case
    unfolding controller_run_Cons by (simp add: running_append)
qed

text \<open>
  C2. Reference counting. For any sequence of start and stop requests on the three channels
  that never stops a channel more often than it was started (fewer than \<open>2 ^ 31\<close> requests),
  starting from a new controller: the channel's counter is the number of observers left, and
  the calls on the instance alternate between start and stop for that channel and leave the
  instance running exactly when an observer is left.
\<close>

theorem controller_refcounts:
  assumes "observers ch 0 ks = Some n" and "length ks < 2 ^ 31"
  shows "counter ch (fst (controller_run ks new_controller)) = n \<and>
    running ch False (snd (controller_run ks new_controller)) = Some (n > 0)"
proof -
  have z: "counter ch new_controller = 0"
    by (cases ch) (simp_all add: new_controller_def)
  have "int (length ks) < 2 ^ 31"
    using assms(2) by (metis of_nat_less_iff of_nat_numeral of_nat_power)
  then show ?thesis
    using controller_run_refcount [of ch new_controller ks n] assms(1) z by simp
qed

theorem controller_refcounts_witness:
  "counter ch_position (fst (controller_run
      [Start ch_position, Start ch_heading, Start ch_position, Stop ch_position] new_controller)) = 1"
  using controller_refcounts [of ch_position
      "[Start ch_position, Start ch_heading, Start ch_position, Stop ch_position]" 1]
  by simp

text \<open>
  A disabled controller ignores every request: no sequence of requests makes a call on the
  instance or changes a counter, and enabling it brings back the state of a new controller.
\<close>

theorem disabled_controller_ignores_requests:
  "controller_run ks (fst (disable c)) = (fst (disable c), []) \<and>
   enable (fst (disable c)) = new_controller"
proof -
  have "controller_op k (fst (disable c)) = (fst (disable c), [])" for k
    by (cases "(k, c)" rule: controller_op.cases)
      (simp_all add: disable_def Let_def our_magic_disabling_value_def start_position_updates_def
        stop_position_updates_def start_heading_updates_def stop_heading_updates_def
        start_velocity_updates_def stop_velocity_updates_def)
  then have "controller_run ks (fst (disable c)) = (fst (disable c), [])"
    by (induction ks) simp_all
  then show ?thesis
    by (simp add: enable_def disable_def new_controller_def Let_def)
qed

text \<open>
  Disabling stops exactly the channels that run: for each channel the instance receives a
  stop call if and only if its counter was positive, and none is running afterwards.
\<close>

theorem disable_stops_running_channels:
  "(Stop ch \<in> set (snd (disable c)) \<longleftrightarrow> counter ch c > 0) \<and>
   Start ch \<notin> set (snd (disable c)) \<and> distinct (snd (disable c)) \<and>
   \<not> are_position_updates_running (fst (disable c)) \<and>
   \<not> are_heading_updates_running (fst (disable c)) \<and>
   \<not> are_velocity_updates_running (fst (disable c))"
  by (cases ch) (auto simp: disable_def Let_def our_magic_disabling_value_def
      are_position_updates_running_def are_heading_updates_running_def are_velocity_updates_running_def)

text \<open>
  A stop request without a preceding start drives the counter to the value that marks a
  disabled controller: from then on no sequence of requests on the channel reaches the instance.
\<close>

theorem unmatched_stop_disables_channel:
  assumes "counter ch c = 0"
  defines "c' \<equiv> fst (controller_op (Stop ch) c)"
  shows "counter ch c' = our_magic_disabling_value \<and>
    (\<forall>ks. counter ch (fst (controller_run ks c')) = our_magic_disabling_value \<and>
          running ch b (snd (controller_run ks c')) = Some b)"
proof -
  have neg: "counter ch c' = - 1"
    using assms position.stop_at_zero heading.stop_at_zero velocity.stop_at_zero
    by (cases ch) auto
  have "counter ch (fst (controller_run ks d)) = - 1 \<and> running ch b (snd (controller_run ks d)) = Some b"
    if "counter ch d = - 1" for ks d
    using that
  proof (induction ks arbitrary: d)
    case (Cons k ks)
    let ?d = "fst (controller_op k d)" and ?calls = "snd (controller_op k d)"
    obtain ch' where k: "k \<in> {Start ch', Stop ch'}" by (cases k) auto
    have "counter ch ?d = - 1 \<and> running ch b ?calls = Some b"
    proof (cases "ch' = ch")
      case True
      with k Cons.prems show ?thesis using controller_op_disabled [of k ch d] by auto
    next
      case False
      with k Cons.prems show ?thesis
        using controller_op_other [OF k False, of d] running_other_call [OF k False controller_op_calls, of b d]
        by simp
    qed
    with Cons.IH [of ?d] show ?case
      unfolding controller_run_Cons by (simp add: running_append)
  qed simp
  with neg show ?thesis by (simp add: our_magic_disabling_value_def)
qed

theorem unmatched_stop_disables_channel_witness:
  "counter ch_heading (fst (controller_op (Stop ch_heading) new_controller)) = our_magic_disabling_value"
  using unmatched_stop_disables_channel [of ch_heading new_controller]
  by (simp add: new_controller_def)

text \<open>
  The flag operators are union and intersection as far as the queries can see: a provider
  built with two feature sets supports a feature exactly when one of the sets does, and the
  same holds for requirements.
\<close>

theorem flags_union:
  "(supports (features_or f g) x \<longleftrightarrow> supports f x \<or> supports g x) \<and>
   (requires_flag (requirements_or r s) y \<longleftrightarrow> requires_flag r y \<or> requires_flag s y)"
proof -
  have up: "uint (ucast (w :: 32 word) :: 64 word) = uint w" for w
    by (rule uint_up_ucast) (simp add: is_up)
  have cast: "(ucast (w :: 32 word) :: 64 word) = 0 \<longleftrightarrow> w = 0" for w
    using up [of w] by (simp add: word_uint_eq_iff)
  have down: "(ucast (ucast (w :: 32 word) :: 64 word) :: 32 word) = w" for w
    by (rule ucast_up_ucast_id) (simp add: is_up)
  show ?thesis
    by (simp add: supports_def requires_flag_def features_or_def features_and_def requirements_or_def
        requirements_and_def feature_none_def requirement_none_def cast down bit.conj_disj_distrib2 or_eq_0_iff)
qed

end
