(* ===== verification/Enum_Streams.thy ===== *)
theory Enum_Streams
  imports Prelude
begin

text \<open>
  The stream operators of the service's enumerations: \<open>Engine::Status\<close> (\<open>engine.cpp\<close>),
  \<open>SatelliteBasedPositioningState\<close>, \<open>WifiAndCellIdReportingState\<close> and \<open>service::State\<close>.
  \<open>operator<<\<close> looks the value up in a table and prints its name; \<open>operator>>\<close> reads one
  whitespace-delimited token and looks it up in the reverse table, throwing when it is not
  there. An input stream is the list of its remaining characters.

  \<open>enum_stream\<close> is the interface the settings and the D-Bus codec rely on: reading what was
  printed gives the value back. Each enumeration is an interpretation of it.
\<close>

section \<open>Reading a token\<close>

definition is_space :: "char \<Rightarrow> bool" where
  "is_space c \<longleftrightarrow> c \<in> set [CHR '' '', CHR 0x09, CHR 0x0A, CHR 0x0B, CHR 0x0C, CHR 0x0D]"

definition read_token :: "string \<Rightarrow> string \<times> string" where
  "read_token s = (let t = dropWhile is_space s
     in (takeWhile (\<lambda>c. \<not> is_space c) t, dropWhile (\<lambda>c. \<not> is_space c) t))"

section \<open>Engine::Status\<close>

datatype engine_status = engine_off | engine_on | engine_active

definition engine_status_lut :: "(engine_status \<times> string) list" where
  "engine_status_lut = [(engine_off, ''Engine::Status::off''), (engine_on, ''Engine::Status::on''),
     (engine_active, ''Engine::Status::active'')]"

definition print_engine_status :: "engine_status \<Rightarrow> string" where
  "print_engine_status s = (case map_of engine_status_lut s of
     Some n \<Rightarrow> n | None \<Rightarrow> ''Engine::Status::unknown'')"

definition read_engine_status :: "string \<Rightarrow> (engine_status \<times> string) result" where
  "read_engine_status inp = (case read_token inp of (s, rest) \<Rightarrow>
     (case map_of [(''Engine::Status::off'', engine_off), (''Engine::Status::on'', engine_on),
          (''Engine::Status::active'', engine_active)] s of
        Some v \<Rightarrow> Inr (v, rest)
      | None \<Rightarrow> Inl (runtime_error
          (''cll::operator>>(std::istream&, Engine::Status&): Could not resolve state '' @ s))))"

section \<open>SatelliteBasedPositioningState\<close>

datatype sat_state = sat_on | sat_off

definition print_sat_state :: "sat_state \<Rightarrow> string" where
  "print_sat_state s = (case map_of [(sat_off, ''SatelliteBasedPositioningState::off''),
       (sat_on, ''SatelliteBasedPositioningState::on'')] s of
     Some n \<Rightarrow> n | None \<Rightarrow> ''SatelliteBasedPositioningState::unknown'')"

definition read_sat_state :: "string \<Rightarrow> (sat_state \<times> string) result" where
  "read_sat_state inp = (case read_token inp of (s, rest) \<Rightarrow>
     (case map_of [(''SatelliteBasedPositioningState::off'', sat_off),
          (''SatelliteBasedPositioningState::on'', sat_on)] s of
        Some v \<Rightarrow> Inr (v, rest)
      | None \<Rightarrow> Inl (runtime_error
          (''location::operator>>(std::istream&, SatelliteBasedPositioningState&): Could not resolve state '' @ s))))"

section \<open>WifiAndCellIdReportingState\<close>

datatype wifi_state = wifi_on | wifi_off

definition print_wifi_state :: "wifi_state \<Rightarrow> string" where
  "print_wifi_state s = (case map_of [(wifi_off, ''WifiAndCellIdReportingState::off''),
       (wifi_on, ''WifiAndCellIdReportingState::on'')] s of
     Some n \<Rightarrow> n | None \<Rightarrow> ''WifiAndCellIdReportingState::unknown'')"

definition read_wifi_state :: "string \<Rightarrow> (wifi_state \<times> string) result" where
  "read_wifi_state inp = (case read_token inp of (s, rest) \<Rightarrow>
     (case map_of [(''WifiAndCellIdReportingState::off'', wifi_off),
          (''WifiAndCellIdReportingState::on'', wifi_on)] s of
        Some v \<Rightarrow> Inr (v, rest)
      | None \<Rightarrow> Inl (runtime_error
          (''location::operator>>(std::istream&, WifiAndCellIdReportingState&): Could not resolve state '' @ s))))"

section \<open>service::State\<close>

datatype service_state = service_disabled | service_enabled | service_active

definition service_state_lut :: "(service_state \<times> string) list \<times> (string \<times> service_state) list" where
  "service_state_lut =
     ([(service_disabled, ''disabled''), (service_enabled, ''enabled''), (service_active, ''active'')],
      [(''disabled'', service_disabled), (''enabled'', service_enabled), (''active'', service_active)])"

definition print_service_state :: "service_state \<Rightarrow> string result" where
  "print_service_state s = (case map_of (fst service_state_lut) s of
     Some n \<Rightarrow> Inr n | None \<Rightarrow> Inl (out_of_range ''map::at''))"

definition read_service_state :: "string \<Rightarrow> (service_state \<times> string) result" where
  "read_service_state inp = (case read_token inp of (s, rest) \<Rightarrow>
     (case map_of (snd service_state_lut) s of
        Some v \<Rightarrow> Inr (v, rest) | None \<Rightarrow> Inl (out_of_range ''map::at'')))"

section \<open>The interface\<close>

definition token_end :: "string \<Rightarrow> bool" where
  "token_end rest \<longleftrightarrow> (case rest of [] \<Rightarrow> True | c # _ \<Rightarrow> is_space c)"

locale enum_stream =
  fixes pr :: "'e \<Rightarrow> string" and rd :: "string \<Rightarrow> ('e \<times> string) result"
  assumes rd_pr: "token_end rest \<Longrightarrow> rd (pr v @ rest) = Inr (v, rest)"
begin

lemma rd_pr_all: "rd (pr v) = Inr (v, [])"
  using rd_pr [of "[]" v] by (simp add: token_end_def)

lemma pr_inj: "pr v = pr w \<longleftrightarrow> v = w"
  by (metis rd_pr_all sum.inject(2) prod.inject)

end

lemma read_token_append:
  assumes "s \<noteq> []" "list_all (\<lambda>c. \<not> is_space c) s" "token_end rest"
  shows "read_token (s @ rest) = (s, rest)"
proof -
  have "dropWhile is_space (s @ rest) = s @ rest"
    using assms by (cases s) auto
  moreover have "takeWhile (\<lambda>c. \<not> is_space c) (s @ rest) = s"
    "dropWhile (\<lambda>c. \<not> is_space c) (s @ rest) = rest"
    using assms(2,3) by (auto simp: takeWhile_append list_all_iff token_end_def split: list.splits)
  ultimately show ?thesis by (simp add: read_token_def)
qed

lemma print_engine_status_simps [simp]:
  "print_engine_status engine_off = ''Engine::Status::off''"
  "print_engine_status engine_on = ''Engine::Status::on''"
  "print_engine_status engine_active = ''Engine::Status::active''"
  by (simp_all add: print_engine_status_def engine_status_lut_def)

lemma print_sat_state_simps [simp]:
  "print_sat_state sat_off = ''SatelliteBasedPositioningState::off''"
  "print_sat_state sat_on = ''SatelliteBasedPositioningState::on''"
  by (simp_all add: print_sat_state_def)

lemma print_wifi_state_simps [simp]:
  "print_wifi_state wifi_off = ''WifiAndCellIdReportingState::off''"
  "print_wifi_state wifi_on = ''WifiAndCellIdReportingState::on''"
  by (simp_all add: print_wifi_state_def)

lemma print_service_state_simps [simp]:
  "print_service_state service_disabled = Inr ''disabled''"
  "print_service_state service_enabled = Inr ''enabled''"
  "print_service_state service_active = Inr ''active''"
  by (simp_all add: print_service_state_def service_state_lut_def)

interpretation engine_status: enum_stream print_engine_status read_engine_status
proof
  fix rest v
  assume r: "token_end rest"
  have "read_token (print_engine_status v @ rest) = (print_engine_status v, rest)"
    by (rule read_token_append) (cases v; simp add: is_space_def r)+
  then show "read_engine_status (print_engine_status v @ rest) = Inr (v, rest)"
    by (cases v) (simp_all add: read_engine_status_def)
qed

interpretation sat_state: enum_stream print_sat_state read_sat_state
proof
  fix rest v
  assume r: "token_end rest"
  have "read_token (print_sat_state v @ rest) = (print_sat_state v, rest)"
    by (rule read_token_append) (cases v; simp add: is_space_def r)+
  then show "read_sat_state (print_sat_state v @ rest) = Inr (v, rest)"
    by (cases v) (simp_all add: read_sat_state_def)
qed

interpretation wifi_state: enum_stream print_wifi_state read_wifi_state
proof
  fix rest v
  assume r: "token_end rest"
  have "read_token (print_wifi_state v @ rest) = (print_wifi_state v, rest)"
    by (rule read_token_append) (cases v; simp add: is_space_def r)+
  then show "read_wifi_state (print_wifi_state v @ rest) = Inr (v, rest)"
    by (cases v) (simp_all add: read_wifi_state_def)
qed

definition service_state_name :: "service_state \<Rightarrow> string" where
  "service_state_name s = (case print_service_state s of Inr n \<Rightarrow> n | Inl _ \<Rightarrow> [])"

interpretation service_state: enum_stream service_state_name read_service_state
proof
  fix rest v
  assume r: "token_end rest"
  have "read_token (service_state_name v @ rest) = (service_state_name v, rest)"
    by (rule read_token_append) (cases v; simp add: is_space_def service_state_name_def r)+
  then show "read_service_state (service_state_name v @ rest) = Inr (v, rest)"
    by (cases v) (simp_all add: read_service_state_def service_state_lut_def service_state_name_def)
qed

end
