(* ===== verification/Settings_Store.thy ===== *)
theory Settings_Store
  imports Enum_Streams
begin

text \<open>
  Persistent settings: the interface with its enum wrappers (\<open>settings.h\<close>,
  \<open>settings.cpp\<close>), the implementation over a boost property tree
  (\<open>boost_ptree_settings.cpp\<close>) and the decorator that writes through
  (\<open>SyncingSettings\<close>).

  The property tree is library code: its operations are the parameter \<open>ptree_ops\<close>, a record
  of functions over an arbitrary tree type. \<open>ptree_laws\<close> states what the boost
  documentation promises for keys without the path separator: a successful \<open>put\<close> makes the
  key present, \<open>get\<close> returns the value that was put, other such keys are unaffected, and
  \<open>get\<close> succeeds for a present key. The persisted file is the tree that was written last;
  whether \<open>write_ini\<close> succeeds is part of the parameter.
\<close>

record 't ptree_ops =
  pt_count :: "'t \<Rightarrow> string \<Rightarrow> nat"
  pt_get :: "'t \<Rightarrow> string \<Rightarrow> string option"
  pt_put :: "'t \<Rightarrow> string \<Rightarrow> string \<Rightarrow> 't option"
  pt_write_ini :: "'t \<Rightarrow> bool"

record 't settings =
  tree :: 't
  ini_file :: "'t option"

section \<open>BoostPtreeSettings\<close>

text \<open>The constructor: a file that does not parse leaves the tree empty.\<close>

definition open_settings :: "'t \<Rightarrow> 't option \<Rightarrow> 't settings" where
  "open_settings new_tree parsed =
     (case parsed of None \<Rightarrow> \<lparr>tree = new_tree, ini_file = None\<rparr> | Some t \<Rightarrow> \<lparr>tree = t, ini_file = Some t\<rparr>)"

definition sync :: "'t ptree_ops \<Rightarrow> 't settings \<Rightarrow> 't settings" where
  "sync ops s = (if pt_write_ini ops (tree s) then s\<lparr>ini_file := Some (tree s)\<rparr> else s)"

definition has_value_for_key :: "'t ptree_ops \<Rightarrow> 't settings \<Rightarrow> string \<Rightarrow> bool" where
  "has_value_for_key ops s key \<longleftrightarrow> pt_count ops (tree s) key > 0"

definition get_string_for_key_or_throw :: "'t ptree_ops \<Rightarrow> 't settings \<Rightarrow> string \<Rightarrow> string result" where
  "get_string_for_key_or_throw ops s key =
     (case pt_get ops (tree s) key of
        Some v \<Rightarrow> Inr v
      | None \<Rightarrow> Inl (runtime_error (''location::Settings: Could not find value for key: '' @ key)))"

definition set_string_for_key :: "'t ptree_ops \<Rightarrow> 't settings \<Rightarrow> string \<Rightarrow> string \<Rightarrow> bool \<times> 't settings" where
  "set_string_for_key ops s key v =
     (case pt_put ops (tree s) key v of
        Some t \<Rightarrow> (True, s\<lparr>tree := t\<rparr>)
      | None \<Rightarrow> (False, s))"

section \<open>Settings\<close>

definition get_string_for_key :: "'t ptree_ops \<Rightarrow> 't settings \<Rightarrow> string \<Rightarrow> string \<Rightarrow> string result" where
  "get_string_for_key ops s key default_value =
     (if \<not> has_value_for_key ops s key then Inr default_value
      else get_string_for_key_or_throw ops s key)"

definition get_enum_for_key ::
    "'t ptree_ops \<Rightarrow> ('e \<Rightarrow> string) \<Rightarrow> (string \<Rightarrow> ('e \<times> string) result) \<Rightarrow>
     't settings \<Rightarrow> string \<Rightarrow> 'e \<Rightarrow> 'e result" where
  "get_enum_for_key ops pr rd s key default_value =
     (case get_string_for_key ops s key (pr default_value) of
        Inl e \<Rightarrow> Inl e
      | Inr str \<Rightarrow> (case rd str of Inl e \<Rightarrow> Inl e | Inr (v, rest) \<Rightarrow> Inr v))"

definition get_enum_for_key_or_throw ::
    "'t ptree_ops \<Rightarrow> (string \<Rightarrow> ('e \<times> string) result) \<Rightarrow> 't settings \<Rightarrow> string \<Rightarrow> 'e result" where
  "get_enum_for_key_or_throw ops rd s key =
     (case get_string_for_key_or_throw ops s key of
        Inl e \<Rightarrow> Inl e
      | Inr str \<Rightarrow> (case rd str of Inl e \<Rightarrow> Inl e | Inr (v, rest) \<Rightarrow> Inr v))"

definition set_enum_for_key ::
    "'t ptree_ops \<Rightarrow> ('e \<Rightarrow> string) \<Rightarrow> 't settings \<Rightarrow> string \<Rightarrow> 'e \<Rightarrow> bool \<times> 't settings" where
  "set_enum_for_key ops pr s key v = set_string_for_key ops s key (pr v)"

section \<open>SyncingSettings\<close>

definition syncing_set_string_for_key ::
    "'t ptree_ops \<Rightarrow> 't settings \<Rightarrow> string \<Rightarrow> string \<Rightarrow> bool \<times> 't settings" where
  "syncing_set_string_for_key ops s key v =
     (case set_string_for_key ops s key v of
        (result, s') \<Rightarrow> if result then (result, sync ops s') else (result, s'))"

definition syncing_set_enum_for_key ::
    "'t ptree_ops \<Rightarrow> ('e \<Rightarrow> string) \<Rightarrow> 't settings \<Rightarrow> string \<Rightarrow> 'e \<Rightarrow> bool \<times> 't settings" where
  "syncing_set_enum_for_key ops pr s key v = syncing_set_string_for_key ops s key (pr v)"

section \<open>Laws of the property tree\<close>

definition plain_key :: "string \<Rightarrow> bool" where
  "plain_key k \<longleftrightarrow> k \<noteq> [] \<and> CHR ''.'' \<notin> set k"

definition ptree_laws :: "'t ptree_ops \<Rightarrow> bool" where
  "ptree_laws ops \<longleftrightarrow>
     (\<forall>t k v t'. plain_key k \<longrightarrow> pt_put ops t k v = Some t' \<longrightarrow>
        pt_count ops t' k > 0 \<and> pt_get ops t' k = Some v \<and>
        (\<forall>j. plain_key j \<and> j \<noteq> k \<longrightarrow>
           pt_count ops t' j = pt_count ops t j \<and> pt_get ops t' j = pt_get ops t j))"

text \<open>An instance of the laws: a tree of depth one as a map.\<close>

definition map_ptree :: "(string \<rightharpoonup> string) ptree_ops" where
  "map_ptree = \<lparr>pt_count = (\<lambda>t k. if t k = None then 0 else 1), pt_get = (\<lambda>t k. t k),
     pt_put = (\<lambda>t k v. Some (t(k \<mapsto> v))), pt_write_ini = (\<lambda>_. True)\<rparr>"

section \<open>Lemmas\<close>

lemma ptree_laws_map [simp]: "ptree_laws map_ptree"
  by (simp add: ptree_laws_def map_ptree_def)

lemma ptree_put_same:
  "ptree_laws ops \<Longrightarrow> plain_key k \<Longrightarrow> pt_put ops t k v = Some t' \<Longrightarrow>
     pt_count ops t' k > 0 \<and> pt_get ops t' k = Some v"
  by (auto simp: ptree_laws_def)

lemma ptree_put_other:
  "ptree_laws ops \<Longrightarrow> plain_key k \<Longrightarrow> plain_key j \<Longrightarrow> j \<noteq> k \<Longrightarrow> pt_put ops t k v = Some t' \<Longrightarrow>
     pt_count ops t' j = pt_count ops t j \<and> pt_get ops t' j = pt_get ops t j"
  by (auto simp: ptree_laws_def)

lemma set_string_for_key_same:
  assumes "ptree_laws ops" "plain_key k" "set_string_for_key ops s k v = (True, s')"
  shows "get_string_for_key ops s' k d = Inr v"
proof (cases "pt_put ops (tree s) k v")
  case (Some t)
  from ptree_put_same [OF assms(1,2) Some] show ?thesis
    using assms(3) Some
    by (auto simp: set_string_for_key_def get_string_for_key_def get_string_for_key_or_throw_def
        has_value_for_key_def)
qed (use assms(3) in \<open>auto simp: set_string_for_key_def\<close>)

lemma set_string_for_key_other:
  assumes "ptree_laws ops" "plain_key k" "plain_key j" "j \<noteq> k"
    and "set_string_for_key ops s k v = (r, s')"
  shows "get_string_for_key ops s' j d = get_string_for_key ops s j d"
proof (cases "pt_put ops (tree s) k v")
  case (Some t)
  from ptree_put_other [OF assms(1-4) Some] show ?thesis
    using assms(5) Some
    by (auto simp: set_string_for_key_def get_string_for_key_def get_string_for_key_or_throw_def
        has_value_for_key_def)
qed (use assms(5) in \<open>auto simp: set_string_for_key_def\<close>)

context enum_stream
begin

lemma get_set_enum:
  assumes "ptree_laws ops" "plain_key k" "set_enum_for_key ops pr s k v = (True, s')"
  shows "get_enum_for_key ops pr rd s' k d = Inr v"
  using set_string_for_key_same [OF assms(1,2)] assms(3)
  by (simp add: set_enum_for_key_def get_enum_for_key_def rd_pr_all)

lemma get_unset_enum:
  "\<not> has_value_for_key ops s k \<Longrightarrow> get_enum_for_key ops pr rd s k d = Inr d"
  by (simp add: get_enum_for_key_def get_string_for_key_def rd_pr_all)

end

lemma syncing_set_agrees:
  assumes "syncing_set_string_for_key ops s k v = (r, s')"
  obtains s'' where "set_string_for_key ops s k v = (r, s'')" "tree s' = tree s''"
  using assms
  by (auto simp: syncing_set_string_for_key_def sync_def split: prod.splits if_splits)

lemma get_string_tree_cong:
  "tree s = tree s' \<Longrightarrow> get_string_for_key ops s k d = get_string_for_key ops s' k d"
  by (simp add: get_string_for_key_def get_string_for_key_or_throw_def has_value_for_key_def)

context enum_stream
begin

lemma get_syncing_set_enum:
  assumes laws: "ptree_laws ops" and key: "plain_key k"
    and set: "syncing_set_enum_for_key ops pr s k v = (True, s')"
  shows "get_enum_for_key ops pr rd s' k d = Inr v"
proof -
  from set obtain s'' where s'': "set_string_for_key ops s k (pr v) = (True, s'')"
    and t: "tree s' = tree s''"
    unfolding syncing_set_enum_for_key_def by (rule syncing_set_agrees)
  show ?thesis
    using set_string_for_key_same [OF laws key s''] get_string_tree_cong [OF t, of ops k]
    by (simp add: get_enum_for_key_def rd_pr_all)
qed

end

lemma syncing_set_enum_succeeds:
  "pt_put ops (tree s) k (pr v) \<noteq> None \<Longrightarrow> fst (syncing_set_enum_for_key ops pr s k v)"
  by (auto simp: syncing_set_enum_for_key_def syncing_set_string_for_key_def set_string_for_key_def
      split: prod.splits)

text \<open>
  An engine status that was stored through the syncing settings is read back as the same
  status, whatever the default, every other key without a path separator reads as before, and
  when the file could be written it holds the same tree.
\<close>

theorem engine_status_settings_roundtrip:
  assumes laws: "ptree_laws ops" and key: "plain_key k"
    and set: "syncing_set_enum_for_key ops print_engine_status s k v = (True, s')"
  shows "get_enum_for_key ops print_engine_status read_engine_status s' k d = Inr v \<and>
    (\<forall>j e. plain_key j \<and> j \<noteq> k \<longrightarrow> get_string_for_key ops s' j e = get_string_for_key ops s j e) \<and>
    (pt_write_ini ops (tree s') \<longrightarrow> ini_file s' = Some (tree s'))"
proof -
  from set obtain s'' where s'': "set_string_for_key ops s k (print_engine_status v) = (True, s'')"
    and t: "tree s' = tree s''"
    unfolding syncing_set_enum_for_key_def by (rule syncing_set_agrees)
  have "get_enum_for_key ops print_engine_status read_engine_status s' k d = Inr v"
    by (rule engine_status.get_syncing_set_enum [OF laws key set])
  moreover have "get_string_for_key ops s' j e = get_string_for_key ops s j e"
    if "plain_key j" "j \<noteq> k" for j e
    using set_string_for_key_other [OF laws key that s''] get_string_tree_cong [OF t, of ops j] by simp
  moreover have "pt_write_ini ops (tree s') \<longrightarrow> ini_file s' = Some (tree s')"
    using set by (auto simp: syncing_set_enum_for_key_def syncing_set_string_for_key_def sync_def
        split: prod.splits if_splits)
  ultimately show ?thesis by blast
qed

theorem engine_status_settings_roundtrip_witness:
  "get_enum_for_key map_ptree print_engine_status read_engine_status
     (snd (syncing_set_enum_for_key map_ptree print_engine_status
        (open_settings Map.empty None) ''Engine::State'' engine_active)) ''Engine::State'' engine_on = Inr engine_active"
proof -
  let ?r = "syncing_set_enum_for_key map_ptree print_engine_status
        (open_settings Map.empty None) ''Engine::State'' engine_active"
  have "?r = (True, snd ?r)"
    by (simp add: syncing_set_enum_for_key_def syncing_set_string_for_key_def set_string_for_key_def
        map_ptree_def split: prod.splits)
  then show ?thesis
    using engine_status_settings_roundtrip [of map_ptree "''Engine::State''"]
    by (simp add: plain_key_def)
qed

text \<open>
  Reading a setting that was never stored gives the default; reading one whose text names
  no status throws.
\<close>

theorem engine_status_setting_missing_or_corrupt:
  assumes "pt_get ops (tree s) k = Some str"
    and "map_of (map (\<lambda>(v, n). (n, v)) engine_status_lut) (fst (read_token str)) = None"
  shows "get_enum_for_key ops print_engine_status read_engine_status s k d =
    (if pt_count ops (tree s) k = 0 then Inr d
     else Inl (runtime_error (''cll::operator>>(std::istream&, Engine::Status&): Could not resolve state ''
            @ fst (read_token str))))"
proof (cases "pt_count ops (tree s) k = 0")
  case True
  then show ?thesis
    by (simp add: engine_status.get_unset_enum has_value_for_key_def)
next
  case False
  with assms show ?thesis
    by (auto simp: get_enum_for_key_def get_string_for_key_def get_string_for_key_or_throw_def
        has_value_for_key_def read_engine_status_def engine_status_lut_def split: prod.splits if_splits)
qed

theorem engine_status_setting_missing_or_corrupt_witness:
  "get_enum_for_key map_ptree print_engine_status read_engine_status
     \<lparr>tree = [''k'' \<mapsto> ''gibberish here''], ini_file = None\<rparr> ''k'' engine_on
   = Inl (runtime_error ''cll::operator>>(std::istream&, Engine::Status&): Could not resolve state gibberish'')"
  using engine_status_setting_missing_or_corrupt
    [of map_ptree "\<lparr>tree = [''k'' \<mapsto> ''gibberish here''], ini_file = None\<rparr>" "''k''" "''gibberish here''" engine_on]
  by (simp add: map_ptree_def read_token_def is_space_def engine_status_lut_def)

end
