(* ===== verification/Std_Containers.thy ===== *)
theory Std_Containers
  imports Prelude
begin

text \<open>
  The ordered containers of the C++ standard library the program uses, over an explicit
  comparator \<open>lt\<close>, as the program passes it (\<open>operator<\<close> of a key type, a lambda).
  A \<open>std::set\<close> is the list of its elements in iteration order, a \<open>std::map\<close> the list of
  its key/value pairs in iteration order. Two keys are the same key for the container when
  neither is less than the other.

  \<open>set_insert\<close> is \<open>std::set::insert\<close>, \<open>map_insert\<close> is \<open>std::map::insert\<close> (an existing
  entry is kept), \<open>map_put\<close> is \<open>m[k] = v\<close> (an existing entry is overwritten), \<open>map_find\<close>
  is \<open>find\<close>, \<open>map_erase\<close> is \<open>erase\<close> and \<open>erase_remove\<close> the erase-remove idiom on a vector.
  The locale \<open>weak_order\<close> states what the standard requires of a comparator and
  \<open>total_order\<close> adds that distinct keys are ordered; every comparator of the program is an
  interpretation of one of them.
\<close>

fun set_insert :: "('a \<Rightarrow> 'a \<Rightarrow> bool) \<Rightarrow> 'a \<Rightarrow> 'a list \<Rightarrow> 'a list" where
  "set_insert lt x [] = [x]"
| "set_insert lt x (y # ys) =
     (if lt y x then y # set_insert lt x ys
      else if lt x y then x # y # ys
      else y # ys)"

fun map_insert :: "('k \<Rightarrow> 'k \<Rightarrow> bool) \<Rightarrow> 'k \<Rightarrow> 'v \<Rightarrow> ('k \<times> 'v) list \<Rightarrow> ('k \<times> 'v) list" where
  "map_insert lt k v [] = [(k, v)]"
| "map_insert lt k v ((j, w) # m) =
     (if lt j k then (j, w) # map_insert lt k v m
      else if lt k j then (k, v) # (j, w) # m
      else (j, w) # m)"

fun map_put :: "('k \<Rightarrow> 'k \<Rightarrow> bool) \<Rightarrow> 'k \<Rightarrow> 'v \<Rightarrow> ('k \<times> 'v) list \<Rightarrow> ('k \<times> 'v) list" where
  "map_put lt k v [] = [(k, v)]"
| "map_put lt k v ((j, w) # m) =
     (if lt j k then (j, w) # map_put lt k v m
      else if lt k j then (k, v) # (j, w) # m
      else (j, v) # m)"

fun map_find :: "('k \<Rightarrow> 'k \<Rightarrow> bool) \<Rightarrow> 'k \<Rightarrow> ('k \<times> 'v) list \<Rightarrow> 'v option" where
  "map_find lt k [] = None"
| "map_find lt k ((j, w) # m) =
     (if \<not> lt j k \<and> \<not> lt k j then Some w else map_find lt k m)"

definition map_erase :: "('k \<Rightarrow> 'k \<Rightarrow> bool) \<Rightarrow> 'k \<Rightarrow> ('k \<times> 'v) list \<Rightarrow> ('k \<times> 'v) list" where
  "map_erase lt k m = filter (\<lambda>(j, w). lt j k \<or> lt k j) m"

definition erase_remove :: "'a \<Rightarrow> 'a list \<Rightarrow> 'a list" where
  "erase_remove x xs = filter (\<lambda>y. y \<noteq> x) xs"

definition map_sorted :: "('k \<Rightarrow> 'k \<Rightarrow> bool) \<Rightarrow> ('k \<times> 'v) list \<Rightarrow> bool" where
  "map_sorted lt m = sorted_wrt lt (map fst m)"

section \<open>Comparators\<close>

locale weak_order =
  fixes lt :: "'a \<Rightarrow> 'a \<Rightarrow> bool"
  assumes less_irrefl: "\<not> lt x x"
    and less_trans: "lt x y \<Longrightarrow> lt y z \<Longrightarrow> lt x z"
    and incomparable_trans:
      "\<not> lt x y \<Longrightarrow> \<not> lt y x \<Longrightarrow> \<not> lt y z \<Longrightarrow> \<not> lt z y \<Longrightarrow> \<not> lt x z"
begin

lemma less_asym: "lt x y \<Longrightarrow> \<not> lt y x"
  using less_irrefl less_trans by blast

lemma less_cong_left: "\<not> lt x y \<Longrightarrow> \<not> lt y x \<Longrightarrow> lt x z \<Longrightarrow> lt y z"
  using incomparable_trans less_trans by blast

lemma less_cong_right: "\<not> lt x y \<Longrightarrow> \<not> lt y x \<Longrightarrow> lt z x \<Longrightarrow> lt z y"
  using incomparable_trans less_trans by blast

lemma set_insert_elems: "set (set_insert lt x xs) \<subseteq> insert x (set xs)"
  by (induction xs) auto

lemma set_insert_sorted:
  "sorted_wrt lt xs \<Longrightarrow> sorted_wrt lt (set_insert lt x xs)"
proof (induction xs)
  case (Cons y ys)
  have "set (set_insert lt x ys) \<subseteq> insert x (set ys)"
    by (rule set_insert_elems)
  with Cons show ?case
    by (auto intro: less_trans)
qed simp

lemma set_insert_keeps: "y \<in> set xs \<Longrightarrow> y \<in> set (set_insert lt x xs)"
  by (induction xs) auto

lemma set_insert_covers:
  "\<exists>y \<in> set (set_insert lt x xs). \<not> lt x y \<and> \<not> lt y x"
  by (induction xs) (auto simp: less_irrefl)

lemma map_put_keys: "map fst (map_put lt k v m) = set_insert lt k (map fst m)"
  by (induction m) auto

lemma map_insert_keys: "map fst (map_insert lt k v m) = set_insert lt k (map fst m)"
  by (induction m) auto

lemma map_put_sorted: "map_sorted lt m \<Longrightarrow> map_sorted lt (map_put lt k v m)"
  by (simp add: map_sorted_def map_put_keys set_insert_sorted)

lemma map_insert_sorted: "map_sorted lt m \<Longrightarrow> map_sorted lt (map_insert lt k v m)"
  by (simp add: map_sorted_def map_insert_keys set_insert_sorted)

lemma set_insert_hd:
  "hd (set_insert lt x xs) = (if xs = [] \<or> lt x (hd xs) then x else hd xs)"
  by (cases xs) (auto dest: less_asym)

end

locale total_order = weak_order +
  assumes less_total: "x \<noteq> y \<Longrightarrow> lt x y \<or> lt y x"
begin

lemma incomparable_iff: "\<not> lt x y \<and> \<not> lt y x \<longleftrightarrow> x = y"
  using less_irrefl less_total by blast

lemma set_insert_set: "set (set_insert lt x xs) = insert x (set xs)"
  using less_total by (induction xs) auto

lemma map_find_map_of: "map_find lt k m = map_of m k"
proof (induction m)
  case (Cons p m)
  then show ?case
    by (cases p) (use incomparable_iff [of _ k] in auto)
qed simp

lemma map_put_map_of: "map_sorted lt m \<Longrightarrow> map_of (map_put lt k v m) = (map_of m)(k \<mapsto> v)"
proof (induction m)
  case (Cons p m)
  obtain j w where p: "p = (j, w)" by force
  show ?case
  proof (cases "lt j k")
    case True
    with less_irrefl have "j \<noteq> k" by blast
    with Cons p \<open>lt j k\<close> show ?thesis
      by (auto simp: map_sorted_def fun_eq_iff)
  next
    case False
    then show ?thesis
      using p less_total [of j k] by (cases "j = k") (auto simp: fun_eq_iff)
  qed
qed simp

lemma map_find_put:
  "map_sorted lt m \<Longrightarrow> map_find lt j (map_put lt k v m) =
     (if j = k then Some v else map_find lt j m)"
  by (simp add: map_find_map_of map_put_map_of)

lemma map_insert_map_of:
  "map_sorted lt m \<Longrightarrow> map_of (map_insert lt k v m) =
     (case map_of m k of None \<Rightarrow> (map_of m)(k \<mapsto> v) | Some _ \<Rightarrow> map_of m)"
proof (induction m)
  case (Cons p m)
  obtain j w where p: "p = (j, w)" by force
  show ?case
  proof (cases "lt j k")
    case True
    with less_irrefl have "j \<noteq> k" by blast
    with Cons p \<open>lt j k\<close> show ?thesis
      by (auto simp: map_sorted_def fun_eq_iff split: option.splits)
  next
    case False
    show ?thesis
    proof (cases "j = k")
      case True
      with p show ?thesis by (auto simp: less_irrefl)
    next
      case neq: False
      with False less_total have lt: "lt k j" by blast
      have "map_of m k = None"
      proof (rule ccontr)
        assume "map_of m k \<noteq> None"
        then have "k \<in> fst ` set m" by (simp add: map_of_eq_None_iff)
        with Cons.prems p have "lt j k" by (auto simp: map_sorted_def)
        with False show False by simp
      qed
      with p False lt neq show ?thesis by auto
    qed
  qed
qed simp

lemma map_insert_fresh:
  "k \<notin> fst ` set m \<Longrightarrow> (\<And>j. j \<in> fst ` set m \<Longrightarrow> lt j k) \<Longrightarrow> map_insert lt k v m = m @ [(k, v)]"
  by (induction m) auto

lemma map_erase_map_of: "map_of (map_erase lt k m) = (map_of m)(k := None)"
proof
  fix j
  show "map_of (map_erase lt k m) j = ((map_of m)(k := None)) j"
    by (induction m) (auto simp: map_erase_def less_irrefl dest: less_total)
qed

lemma map_erase_sorted: "map_sorted lt m \<Longrightarrow> map_sorted lt (map_erase lt k m)"
  by (induction m) (auto simp: map_sorted_def map_erase_def)

end

section \<open>The natural order on addresses\<close>

text \<open>\<open>std::less\<close> on shared pointers compares addresses; addresses are natural numbers.\<close>

interpretation addr: total_order "(<) :: nat \<Rightarrow> nat \<Rightarrow> bool"
  by unfold_locales auto

section \<open>The order on strings\<close>

text \<open>\<open>std::string::compare\<close>: lexicographic on characters as unsigned bytes.\<close>

fun string_lt :: "string \<Rightarrow> string \<Rightarrow> bool" where
  "string_lt xs [] = False"
| "string_lt [] (y # ys) = True"
| "string_lt (x # xs) (y # ys) =
     ((of_char x :: nat) < of_char y \<or> (x = y \<and> string_lt xs ys))"

lemma string_lt_irrefl: "\<not> string_lt xs xs"
  by (induction xs) auto

lemma string_lt_trans: "string_lt xs ys \<Longrightarrow> string_lt ys zs \<Longrightarrow> string_lt xs zs"
proof (induction xs ys arbitrary: zs rule: string_lt.induct)
  case (2 y ys)
  then show ?case by (cases zs) auto
next
  case (3 x xs y ys)
  then show ?case by (cases zs) auto
qed simp

lemma string_lt_total: "xs \<noteq> ys \<Longrightarrow> string_lt xs ys \<or> string_lt ys xs"
proof (induction xs ys rule: string_lt.induct)
  case (1 xs)
  then show ?case by (cases xs) auto
next
  case (3 x xs y ys)
  then show ?case
    using linorder_less_linear [of "of_char x :: nat" "of_char y"] by (cases "x = y") auto
qed simp

interpretation string_order: total_order string_lt
proof
  fix x y z :: string
  show "\<not> string_lt x x" by (rule string_lt_irrefl)
  show "string_lt x y \<Longrightarrow> string_lt y z \<Longrightarrow> string_lt x z" by (rule string_lt_trans)
  show "\<not> string_lt x y \<Longrightarrow> \<not> string_lt y x \<Longrightarrow> \<not> string_lt y z \<Longrightarrow> \<not> string_lt z y \<Longrightarrow> \<not> string_lt x z"
    using string_lt_total [of x y] string_lt_total [of y z] by auto
  show "x \<noteq> y \<Longrightarrow> string_lt x y \<or> string_lt y x" by (rule string_lt_total)
qed

section \<open>Vectors\<close>

lemma erase_remove_set [simp]: "set (erase_remove x xs) = set xs - {x}"
  by (auto simp: erase_remove_def)

lemma erase_remove_other: "y \<noteq> x \<Longrightarrow> count_list (erase_remove x xs) y = count_list xs y"
  by (induction xs) (auto simp: erase_remove_def)

lemma erase_remove_all: "count_list (erase_remove x xs) x = 0"
  by (induction xs) (auto simp: erase_remove_def)

end
