(* ===== verification/Engine_World.thy ===== *)
theory Engine_World
  imports Provider_Controller Settings_Store Std_Containers
begin

text \<open>
  The engine and the graph of provider objects it controls (\<open>engine.h\<close>, \<open>engine.cpp\<close>,
  \<open>state_tracking_provider.h\<close>, \<open>fusion_provider.cpp\<close>, \<open>proxy_provider.cpp\<close>).

  Provider objects are shared: a session's proxy controls a fusion provider, which controls
  the tracking wrappers the engine made for its providers, which control the providers
  themselves, and several sessions share the wrappers. The objects live in a store \<open>objs\<close>
  from addresses to records with the class (\<open>prov_kind\<close>), the flags and the controller of
  the object. A request on a controller (\<open>ctl_call\<close>) updates its counters and, when the
  counters say so, makes the virtual call on the instance (\<open>inst_call\<close>), which for the
  composite classes requests the controllers of other objects in turn; the calls that reach
  a plain provider are logged in \<open>calls\<close>. The recursion follows pointers, so it is bounded
  by fuel; \<open>wf_world\<close> says that an object only points to older ones, and then the address of
  the object is enough fuel.

  \<open>core::Property\<close> and \<open>core::Signal\<close> are library code. Whether an assignment of a value over
  an old one emits the changed signal is a parameter of the platform record
  (\<open>change_notified\<close> is the documented behaviour: exactly when the two differ). A property
  assigned again from inside the emission of its own changed signal is outside the documented
  behaviour: the model reports it as the fault \<open>Reentrant\<close>. The order of addresses, on which
  the iteration order of the pointer containers depends, is a parameter too.
\<close>

section \<open>Objects, platform and world\<close>

datatype tracking_state = tracking_active | tracking_enabled

datatype prov_kind =
    Null_provider
  | Leaf
  | Tracking nat tracking_state
  | Fusion "nat list"
  | Proxy nat nat nat

record prov =
  prov_kind :: prov_kind
  prov_features :: flags
  prov_requirements :: flags
  prov_controller :: controller

record 't platform =
  ptree :: "'t ptree_ops"
  status_emits :: "engine_status \<Rightarrow> engine_status \<Rightarrow> bool"
  tracking_emits :: "tracking_state \<Rightarrow> tracking_state \<Rightarrow> bool"
  sat_emits :: "sat_state \<Rightarrow> sat_state \<Rightarrow> bool"
  wifi_emits :: "wifi_state \<Rightarrow> wifi_state \<Rightarrow> bool"
  addr_less :: "nat \<Rightarrow> nat \<Rightarrow> bool"

definition change_notified :: "'t platform \<Rightarrow> bool" where
  "change_notified pf \<longleftrightarrow>
     (\<forall>a b. status_emits pf a b \<longleftrightarrow> a \<noteq> b) \<and> (\<forall>a b. tracking_emits pf a b \<longleftrightarrow> a \<noteq> b) \<and>
     (\<forall>a b. sat_emits pf a b \<longleftrightarrow> a \<noteq> b) \<and> (\<forall>a b. wifi_emits pf a b \<longleftrightarrow> a \<noteq> b)"

record 't world =
  objs :: "nat \<Rightarrow> prov option"
  next_addr :: nat
  calls :: "(nat \<times> call) list"
  wifi_calls :: "(nat \<times> wifi_state) list"
  engine_state :: engine_status
  satellite_based_positioning_state :: sat_state
  wifi_and_cell_id_reporting_state :: wifi_state
  emitting :: bool
  providers :: "nat list"
  settings :: "'t settings"

datatype fault = Out_of_fuel | Dangling nat | Reentrant | Threw exn

type_synonym 't outcome = "fault + 't world"

definition upd_controller :: "nat \<Rightarrow> (controller \<Rightarrow> controller) \<Rightarrow> 't world \<Rightarrow> 't world" where
  "upd_controller p f w =
     w\<lparr>objs := (objs w)(p := map_option (\<lambda>ob. ob\<lparr>prov_controller := f (prov_controller ob)\<rparr>) (objs w p))\<rparr>"

text \<open>
  The loop catches the exceptions of its callback and goes on. The callbacks of the model throw none; their faults are not exceptions of the
  program, and end the loop.
\<close>

fun for_each :: "(nat \<Rightarrow> 't world \<Rightarrow> 't outcome) \<Rightarrow> nat list \<Rightarrow> 't world \<Rightarrow> 't outcome" where
  "for_each f [] w = Inr w"
| "for_each f (p # ps) w = (case f p w of Inl e \<Rightarrow> Inl e | Inr w' \<Rightarrow> for_each f ps w')"

definition requires_satellites :: "'t world \<Rightarrow> nat \<Rightarrow> bool" where
  "requires_satellites w p \<longleftrightarrow>
     (case objs w p of None \<Rightarrow> False | Some ob \<Rightarrow> requires_flag (prov_requirements ob) requirement_satellites)"

section \<open>The engine state and its observers\<close>

definition engine_state_key :: string where
  "engine_state_key = ''Engine::State''"

definition wifi_state_key :: string where
  "wifi_state_key = ''Engine::WifiAndCellIdReportingState''"

text \<open>The second slot on \<open>engine_state\<close>, and the one on \<open>wifi_and_cell_id_reporting_state\<close>.\<close>

definition persist_engine_state :: "'t platform \<Rightarrow> engine_status \<Rightarrow> 't world \<Rightarrow> 't world" where
  "persist_engine_state pf st w =
     w\<lparr>settings := snd (syncing_set_enum_for_key (ptree pf) print_engine_status (settings w) engine_state_key st)\<rparr>"

definition persist_wifi_state :: "'t platform \<Rightarrow> wifi_state \<Rightarrow> 't world \<Rightarrow> 't world" where
  "persist_wifi_state pf st w =
     w\<lparr>settings := snd (syncing_set_enum_for_key (ptree pf) print_wifi_state (settings w) wifi_state_key st)\<rparr>"

text \<open>
  The first slot on \<open>engine_state\<close>. Disabling a provider is the argument \<open>disable_fn\<close>.
\<close>

definition on_engine_state_changed ::
    "(nat \<Rightarrow> 't world \<Rightarrow> 't outcome) \<Rightarrow> engine_status \<Rightarrow> 't world \<Rightarrow> 't outcome" where
  "on_engine_state_changed disable_fn status w =
     for_each (\<lambda>p w.
        (case status of
           engine_on \<Rightarrow>
             (if requires_satellites w p \<and> satellite_based_positioning_state w = sat_off then Inr w
              else Inr (upd_controller p enable w))
         | engine_off \<Rightarrow> disable_fn p w
         | engine_active \<Rightarrow> Inr w)) (providers w) w"

text \<open>Assignment to the property \<open>configuration.engine_state\<close>.\<close>

definition assign_engine_state ::
    "'t platform \<Rightarrow> (nat \<Rightarrow> 't world \<Rightarrow> 't outcome) \<Rightarrow> engine_status \<Rightarrow> 't world \<Rightarrow> 't outcome" where
  "assign_engine_state pf disable_fn st w =
     (let w1 = w\<lparr>engine_state := st\<rparr>
      in if \<not> status_emits pf (engine_state w) st then Inr w1
         else if emitting w then Inl Reentrant
         else (case on_engine_state_changed disable_fn st (w1\<lparr>emitting := True\<rparr>) of
                 Inl e \<Rightarrow> Inl e
               | Inr w2 \<Rightarrow> Inr ((persist_engine_state pf st w2)\<lparr>emitting := False\<rparr>)))"

definition is_tracking_active :: "'t world \<Rightarrow> nat \<Rightarrow> bool" where
  "is_tracking_active w p \<longleftrightarrow>
     (case objs w p of None \<Rightarrow> False
      | Some ob \<Rightarrow> (case prov_kind ob of Tracking _ st \<Rightarrow> st = tracking_active | _ \<Rightarrow> False))"

definition is_any_active :: "'t world \<Rightarrow> bool" where
  "is_any_active w \<longleftrightarrow> list_ex (is_tracking_active w) (providers w)"

text \<open>
  The slot \<open>add_provider\<close> connects to the state of a tracking provider. It assigns
  \<open>active\<close> or \<open>on\<close>, so no provider is disabled from here.
\<close>

definition on_provider_state_changed :: "'t platform \<Rightarrow> 't world \<Rightarrow> 't outcome" where
  "on_provider_state_changed pf w =
     assign_engine_state pf (\<lambda>p w. Inr w) (if is_any_active w then engine_active else engine_on) w"

section \<open>StateTrackingProvider, FusionProvider, ProxyProvider\<close>

definition assign_tracking_state :: "'t platform \<Rightarrow> nat \<Rightarrow> tracking_state \<Rightarrow> 't world \<Rightarrow> 't outcome" where
  "assign_tracking_state pf p st w =
     (case objs w p of
        Some ob \<Rightarrow>
          (case prov_kind ob of
             Tracking impl old \<Rightarrow>
               (let w1 = w\<lparr>objs := (objs w)(p \<mapsto> ob\<lparr>prov_kind := Tracking impl st\<rparr>)\<rparr>
                in if tracking_emits pf old st \<and> p \<in> set (providers w)
                   then on_provider_state_changed pf w1 else Inr w1)
           | _ \<Rightarrow> Inl (Dangling p))
      | None \<Rightarrow> Inl (Dangling p))"

fun call_channel :: "call \<Rightarrow> channel" where
  "call_channel (Start c) = c"
| "call_channel (Stop c) = c"

fun tracking_after :: "call \<Rightarrow> tracking_state" where
  "tracking_after (Start _) = tracking_active"
| "tracking_after (Stop _) = tracking_enabled"

definition tracking_call ::
    "'t platform \<Rightarrow> (call \<Rightarrow> nat \<Rightarrow> 't world \<Rightarrow> 't outcome) \<Rightarrow> call \<Rightarrow> nat \<Rightarrow> nat \<Rightarrow> 't world \<Rightarrow> 't outcome" where
  "tracking_call pf request k p impl w =
     (case assign_tracking_state pf p (tracking_after k) w of
        Inl e \<Rightarrow> Inl e
      | Inr w' \<Rightarrow> request k impl w')"

definition fusion_call ::
    "(call \<Rightarrow> nat \<Rightarrow> 't world \<Rightarrow> 't outcome) \<Rightarrow> call \<Rightarrow> nat list \<Rightarrow> 't world \<Rightarrow> 't outcome" where
  "fusion_call request k ps w = for_each (request k) ps w"

definition proxy_call ::
    "(call \<Rightarrow> nat \<Rightarrow> 't world \<Rightarrow> 't outcome) \<Rightarrow> call \<Rightarrow> nat \<Rightarrow> nat \<Rightarrow> nat \<Rightarrow> 't world \<Rightarrow> 't outcome" where
  "proxy_call request k pos hdg vel w =
     (case call_channel k of
        ch_position \<Rightarrow> request k pos w
      | ch_heading \<Rightarrow> request k hdg w
      | ch_velocity \<Rightarrow> request k vel w)"

definition leaf_call :: "call \<Rightarrow> nat \<Rightarrow> 't world \<Rightarrow> 't outcome" where
  "leaf_call k p w = Inr (w\<lparr>calls := calls w @ [(p, k)]\<rparr>)"

text \<open>The virtual call on an instance.\<close>

definition inst_call ::
    "'t platform \<Rightarrow> (call \<Rightarrow> nat \<Rightarrow> 't world \<Rightarrow> 't outcome) \<Rightarrow> call \<Rightarrow> nat \<Rightarrow> 't world \<Rightarrow> 't outcome" where
  "inst_call pf request k p w =
     (case objs w p of
        None \<Rightarrow> Inl (Dangling p)
      | Some ob \<Rightarrow>
          (case prov_kind ob of
             Null_provider \<Rightarrow> Inr w
           | Leaf \<Rightarrow> leaf_call k p w
           | Tracking impl st \<Rightarrow> tracking_call pf request k p impl w
           | Fusion ps \<Rightarrow> fusion_call request k ps w
           | Proxy pos hdg vel \<Rightarrow> proxy_call request k pos hdg vel w))"

text \<open>A request on the controller of the object at \<open>p\<close>.\<close>

primrec ctl_call :: "'t platform \<Rightarrow> nat \<Rightarrow> call \<Rightarrow> nat \<Rightarrow> 't world \<Rightarrow> 't outcome" where
  "ctl_call pf 0 = (\<lambda>k p w. Inl Out_of_fuel)"
| "ctl_call pf (Suc fuel) = (\<lambda>k p w.
     (case objs w p of
        None \<Rightarrow> Inl (Dangling p)
      | Some ob \<Rightarrow>
          (case controller_op k (prov_controller ob) of
             (c, cs) \<Rightarrow>
               (let w' = w\<lparr>objs := (objs w)(p \<mapsto> ob\<lparr>prov_controller := c\<rparr>)\<rparr>
                in if cs = [] then Inr w' else inst_call pf (ctl_call pf fuel) k p w'))))"

text \<open>\<open>Controller::disable\<close> on the object at \<open>p\<close>: the three stops see each other's effects.\<close>

definition stop_if_running :: "'t platform \<Rightarrow> nat \<Rightarrow> channel \<Rightarrow> nat \<Rightarrow> 't world \<Rightarrow> 't outcome" where
  "stop_if_running pf fuel ch p w =
     (case objs w p of
        None \<Rightarrow> Inl (Dangling p)
      | Some ob \<Rightarrow> if counter ch (prov_controller ob) > 0
                  then inst_call pf (ctl_call pf fuel) (Stop ch) p w else Inr w)"

definition ctl_disable :: "'t platform \<Rightarrow> nat \<Rightarrow> nat \<Rightarrow> 't world \<Rightarrow> 't outcome" where
  "ctl_disable pf fuel p w =
     (case stop_if_running pf fuel ch_position p w of Inl e \<Rightarrow> Inl e | Inr w1 \<Rightarrow>
      case stop_if_running pf fuel ch_heading p w1 of Inl e \<Rightarrow> Inl e | Inr w2 \<Rightarrow>
      case stop_if_running pf fuel ch_velocity p w2 of Inl e \<Rightarrow> Inl e | Inr w3 \<Rightarrow>
      Inr (upd_controller p (\<lambda>c. fst (disable c)) w3))"

section \<open>Operations of the engine\<close>

definition set_engine_state :: "'t platform \<Rightarrow> nat \<Rightarrow> engine_status \<Rightarrow> 't world \<Rightarrow> 't outcome" where
  "set_engine_state pf fuel st w = assign_engine_state pf (ctl_disable pf fuel) st w"

text \<open>The slot on \<open>satellite_based_positioning_state\<close> and the assignment that runs it.\<close>

definition on_satellite_state_changed :: "'t platform \<Rightarrow> nat \<Rightarrow> sat_state \<Rightarrow> 't world \<Rightarrow> 't outcome" where
  "on_satellite_state_changed pf fuel st w =
     for_each (\<lambda>p w.
        if requires_satellites w p
        then (case st of
                sat_on \<Rightarrow> if engine_state w = engine_on then Inr (upd_controller p enable w) else Inr w
              | sat_off \<Rightarrow> ctl_disable pf fuel p w)
        else Inr w) (providers w) w"

definition set_satellite_state :: "'t platform \<Rightarrow> nat \<Rightarrow> sat_state \<Rightarrow> 't world \<Rightarrow> 't outcome" where
  "set_satellite_state pf fuel st w =
     (let w1 = w\<lparr>satellite_based_positioning_state := st\<rparr>
      in if sat_emits pf (satellite_based_positioning_state w) st
         then on_satellite_state_changed pf fuel st w1 else Inr w1)"

text \<open>
  The slots on \<open>wifi_and_cell_id_reporting_state\<close>: persist, then tell every provider.
\<close>

definition set_wifi_state :: "'t platform \<Rightarrow> wifi_state \<Rightarrow> 't world \<Rightarrow> 't world" where
  "set_wifi_state pf st w =
     (let w1 = w\<lparr>wifi_and_cell_id_reporting_state := st\<rparr>
      in if wifi_emits pf (wifi_and_cell_id_reporting_state w) st
         then (persist_wifi_state pf st w1)\<lparr>wifi_calls := wifi_calls w @ map (\<lambda>p. (p, st)) (providers w)\<rparr>
         else w1)"

text \<open>The constructor, for a non-null policy and non-null settings.\<close>

definition engine_new :: "'t platform \<Rightarrow> 't settings \<Rightarrow> 't outcome" where
  "engine_new pf s =
     (case get_enum_for_key (ptree pf) print_engine_status read_engine_status s engine_state_key engine_on of
        Inl e \<Rightarrow> Inl (Threw e)
      | Inr st \<Rightarrow>
          (case get_enum_for_key (ptree pf) print_wifi_state read_wifi_state s wifi_state_key wifi_off of
             Inl e \<Rightarrow> Inl (Threw e)
           | Inr wst \<Rightarrow>
               Inr \<lparr>objs = (\<lambda>_. None), next_addr = 0, calls = [], wifi_calls = [], engine_state = st,
                    satellite_based_positioning_state = sat_on,
                    wifi_and_cell_id_reporting_state = wst, emitting = False, providers = [],
                    settings = s\<rparr>))"

definition new_object :: "prov_kind \<Rightarrow> flags \<Rightarrow> flags \<Rightarrow> 't world \<Rightarrow> nat \<times> 't world" where
  "new_object k f r w =
     (next_addr w,
      w\<lparr>objs := (objs w)(next_addr w \<mapsto> \<lparr>prov_kind = k, prov_features = f, prov_requirements = r,
            prov_controller = new_controller\<rparr>), next_addr := Suc (next_addr w)\<rparr>)"

text \<open>A tracking wrapper forwards \<open>supports\<close> and \<open>requires\<close>, so it carries the flags of the wrapped provider.\<close>

definition add_provider :: "'t platform \<Rightarrow> nat \<Rightarrow> nat option \<Rightarrow> 't world \<Rightarrow> 't outcome" where
  "add_provider pf fuel impl w =
     (case impl of
        None \<Rightarrow> Inl (Threw (runtime_error ''Cannot add null provider''))
      | Some i \<Rightarrow>
          (case objs w i of
             None \<Rightarrow> Inl (Dangling i)
           | Some ob \<Rightarrow>
               (case new_object (Tracking i tracking_enabled) (prov_features ob) (prov_requirements ob) w of
                  (p, w1) \<Rightarrow>
                    (case (if requires_satellites w1 p \<and> satellite_based_positioning_state w1 = sat_off
                           then ctl_disable pf fuel p w1 else Inr w1) of
                       Inl e \<Rightarrow> Inl e
                     | Inr w2 \<Rightarrow>
                         (case (if engine_state w2 = engine_off then ctl_disable pf fuel p w2 else Inr w2) of
                            Inl e \<Rightarrow> Inl e
                          | Inr w3 \<Rightarrow> Inr (w3\<lparr>providers := set_insert (addr_less pf) p (providers w3)\<rparr>))))))"

text \<open>The destructor persists the configuration and stops the three channels of every provider.\<close>

definition engine_destroy :: "'t platform \<Rightarrow> nat \<Rightarrow> 't world \<Rightarrow> 't outcome" where
  "engine_destroy pf fuel w =
     (let w1 = persist_wifi_state pf (wifi_and_cell_id_reporting_state w)
                 (persist_engine_state pf (engine_state w) w)
      in for_each (\<lambda>p w.
           (case ctl_call pf fuel (Stop ch_position) p w of Inl e \<Rightarrow> Inl e | Inr w1 \<Rightarrow>
            case ctl_call pf fuel (Stop ch_heading) p w1 of Inl e \<Rightarrow> Inl e | Inr w2 \<Rightarrow>
            ctl_call pf fuel (Stop ch_velocity) p w2)) (providers w1) w1)"

end
