(* ===== verification/Engine_Props.thy ===== *)
theory Engine_Props
  imports Engine_World
begin

text \<open>
  Properties of the engine and of the provider graph: requests terminate and never fault in a
  well-formed world, the engine state follows the states of its providers, switching the engine
  off disables every provider, and the concrete runs behind the findings on re-entrancy and on
  mixed channels.

  \<open>kinds\<close> is the world without its controllers, \<open>shape\<close> the part no operation of this
  component changes. \<open>good\<close> collects what the proofs carry through a request; each operation
  has one lemma that it keeps \<open>good\<close>.
\<close>

section \<open>Well-formed worlds\<close>

fun children :: "prov_kind \<Rightarrow> nat list" where
  "children Null_provider = []"
| "children Leaf = []"
| "children (Tracking impl st) = [impl]"
| "children (Fusion ps) = ps"
| "children (Proxy pos hdg vel) = [pos, hdg, vel]"

fun skeleton :: "prov_kind \<Rightarrow> prov_kind" where
  "skeleton (Tracking impl st) = Tracking impl tracking_enabled"
| "skeleton k = k"

definition kinds :: "'t world \<Rightarrow> nat \<Rightarrow> (prov_kind \<times> flags \<times> flags) option" where
  "kinds w = (\<lambda>p. map_option (\<lambda>ob. (prov_kind ob, prov_features ob, prov_requirements ob)) (objs w p))"

definition shape :: "'t world \<Rightarrow>
    (nat \<Rightarrow> (prov_kind \<times> flags \<times> flags) option) \<times> nat list \<times> sat_state \<times> bool \<times> nat" where
  "shape w = (\<lambda>p. map_option (\<lambda>(k, f, r). (skeleton k, f, r)) (kinds w p), providers w,
     satellite_based_positioning_state w, emitting w, next_addr w)"

definition wf_world :: "'t world \<Rightarrow> bool" where
  "wf_world w \<longleftrightarrow>
     (\<forall>p k f r. kinds w p = Some (k, f, r) \<longrightarrow>
        (\<forall>q \<in> set (children k). q < p \<and> kinds w q \<noteq> None)) \<and>
     (\<forall>p \<in> set (providers w). \<exists>impl st f r. kinds w p = Some (Tracking impl st, f, r))"

fun ctl_disabled :: "controller \<Rightarrow> bool" where
  "ctl_disabled c \<longleftrightarrow> position_updates_counter c < 0 \<and> heading_updates_counter c < 0 \<and>
     velocity_updates_counter c < 0"

definition disabled_at :: "'t world \<Rightarrow> nat \<Rightarrow> bool" where
  "disabled_at w p \<longleftrightarrow> (case objs w p of None \<Rightarrow> False | Some ob \<Rightarrow> ctl_disabled (prov_controller ob))"

definition engine_inv :: "'t world \<Rightarrow> bool" where
  "engine_inv w \<longleftrightarrow>
     (if engine_state w = engine_off
      then list_all (disabled_at w) (providers w) \<and> \<not> is_any_active w
      else engine_state w = engine_active \<longleftrightarrow> is_any_active w)"

definition good :: "'t world \<Rightarrow> 't world \<Rightarrow> bool" where
  "good w0 w \<longleftrightarrow> shape w = shape w0 \<and> wf_world w \<and> \<not> emitting w \<and> engine_inv w \<and>
     (engine_state w = engine_off \<longleftrightarrow> engine_state w0 = engine_off)"

section \<open>Frames\<close>

lemma kinds_Some: "kinds w p = Some (k, f, r) \<longleftrightarrow>
    (\<exists>ob. objs w p = Some ob \<and> prov_kind ob = k \<and> prov_features ob = f \<and> prov_requirements ob = r)"
  by (auto simp: kinds_def)

lemma kinds_None: "kinds w p = None \<longleftrightarrow> objs w p = None"
  by (simp add: kinds_def)

lemma is_tracking_active_kinds:
  "is_tracking_active w p \<longleftrightarrow> (\<exists>impl f r. kinds w p = Some (Tracking impl tracking_active, f, r))"
  by (auto simp: is_tracking_active_def kinds_def split: option.splits prov_kind.splits)

lemma kinds_cong:
  assumes "kinds w = kinds w'" "providers w = providers w'"
  shows "is_any_active w = is_any_active w'" "wf_world w = wf_world w'"
  using assms by (auto simp: is_any_active_def wf_world_def is_tracking_active_kinds list_ex_iff)

lemma skeleton_Tracking: "skeleton k = Tracking impl tracking_enabled \<longleftrightarrow> (\<exists>st'. k = Tracking impl st')"
  by (cases k) auto

lemma skeleton_children: "skeleton k = skeleton k' \<Longrightarrow> children k = children k'"
  by (cases k; cases k') auto

lemma shape_kinds:
  assumes "shape w = shape w'"
  shows "kinds w p = None \<longleftrightarrow> kinds w' p = None"
    and "kinds w p = Some (k, f, r) \<Longrightarrow> \<exists>k'. kinds w' p = Some (k', f, r) \<and> skeleton k' = skeleton k"
proof -
  have *: "map_option (\<lambda>(k, f, r). (skeleton k, f, r)) (kinds w p) =
      map_option (\<lambda>(k, f, r). (skeleton k, f, r)) (kinds w' p)"
    using arg_cong [OF assms, of "\<lambda>s. fst s p"] by (simp add: shape_def)
  then show "kinds w p = None \<longleftrightarrow> kinds w' p = None"
    by (cases "kinds w p"; cases "kinds w' p") auto
  show "kinds w p = Some (k, f, r) \<Longrightarrow> \<exists>k'. kinds w' p = Some (k', f, r) \<and> skeleton k' = skeleton k"
    using * by (cases "kinds w' p") auto
qed

lemma shape_fields:
  "shape w = shape w' \<Longrightarrow> providers w = providers w' \<and> emitting w = emitting w' \<and>
     satellite_based_positioning_state w = satellite_based_positioning_state w'"
  by (simp add: shape_def)

lemma wf_world_shape:
  assumes sh: "shape w = shape w'" and wf: "wf_world w"
  shows "wf_world w'"
  unfolding wf_world_def
proof (intro conjI allI impI ballI)
  fix p k f r q
  assume "kinds w' p = Some (k, f, r)" and q: "q \<in> set (children k)"
  with shape_kinds(2) [OF sh [symmetric]] obtain k' where "kinds w p = Some (k', f, r)" "skeleton k' = skeleton k"
    by blast
  moreover from this have "q \<in> set (children k')" using q skeleton_children by metis
  ultimately have "q < p \<and> kinds w q \<noteq> None"
    using wf unfolding wf_world_def by blast
  then show "q < p" "kinds w' q \<noteq> None"
    using shape_kinds(1) [OF sh] by auto
next
  fix p
  assume "p \<in> set (providers w')"
  with sh wf obtain impl st f r where "kinds w p = Some (Tracking impl st, f, r)"
    using shape_fields [OF sh] unfolding wf_world_def by metis
  from shape_kinds(2) [OF sh this] show "\<exists>impl st f r. kinds w' p = Some (Tracking impl st, f, r)"
    by (auto simp: skeleton_Tracking)
qed

lemma upd_controller_frame [simp]:
  "kinds (upd_controller p f w) = kinds w" "providers (upd_controller p f w) = providers w"
  "satellite_based_positioning_state (upd_controller p f w) = satellite_based_positioning_state w"
  "emitting (upd_controller p f w) = emitting w" "engine_state (upd_controller p f w) = engine_state w"
  "next_addr (upd_controller p f w) = next_addr w" "calls (upd_controller p f w) = calls w"
  by (auto simp: upd_controller_def kinds_def fun_eq_iff option.map_comp comp_def)

lemma persist_frame [simp]:
  "objs (persist_engine_state pf st w) = objs w" "providers (persist_engine_state pf st w) = providers w"
  "satellite_based_positioning_state (persist_engine_state pf st w) = satellite_based_positioning_state w"
  "emitting (persist_engine_state pf st w) = emitting w" "next_addr (persist_engine_state pf st w) = next_addr w"
  "engine_state (persist_engine_state pf st w) = engine_state w"
  "calls (persist_engine_state pf st w) = calls w"
  by (simp_all add: persist_engine_state_def)

lemma kinds_record_frame [simp]:
  "kinds (persist_engine_state pf st w) = kinds w" "kinds (w\<lparr>emitting := b\<rparr>) = kinds w"
  "kinds (w\<lparr>engine_state := st\<rparr>) = kinds w" "kinds (w\<lparr>calls := cs\<rparr>) = kinds w"
  by (simp_all add: kinds_def)

lemma for_each_keeps:
  assumes "\<And>p w. p \<in> set ps \<Longrightarrow> P w \<Longrightarrow> \<exists>w'. f p w = Inr w' \<and> P w'" and "P w"
  shows "\<exists>w'. for_each f ps w = Inr w' \<and> P w'"
  using assms
proof (induction ps arbitrary: w)
  case (Cons p ps)
  from Cons.prems obtain w' where w': "f p w = Inr w'" "P w'"
    by (meson list.set_intros(1))
  from Cons.IH [OF _ w'(2)] Cons.prems(1) obtain w'' where "for_each f ps w' = Inr w''" "P w''"
    by (meson list.set_intros(2))
  with w'(1) show ?case by auto
qed auto

section \<open>The engine state follows the providers\<close>

definition same_but_controllers :: "'t world \<Rightarrow> 't world \<Rightarrow> bool" where
  "same_but_controllers w0 w \<longleftrightarrow> kinds w = kinds w0 \<and> providers w = providers w0 \<and>
     satellite_based_positioning_state w = satellite_based_positioning_state w0 \<and>
     emitting w = emitting w0 \<and> next_addr w = next_addr w0 \<and> engine_state w = engine_state w0 \<and>
     calls w = calls w0"

lemma on_engine_state_changed_running:
  assumes "st \<noteq> engine_off"
  shows "\<exists>w'. on_engine_state_changed d st w = Inr w' \<and> same_but_controllers w w'"
  unfolding on_engine_state_changed_def
  using assms
  by (intro for_each_keeps) (cases st; auto simp: same_but_controllers_def)+

lemma assign_engine_state_running:
  assumes "st \<noteq> engine_off" "\<not> emitting w"
  shows "\<exists>w'. assign_engine_state pf d st w = Inr w' \<and> kinds w' = kinds w \<and> providers w' = providers w \<and>
    shape w' = shape w \<and> engine_state w' = st \<and> calls w' = calls w"
proof (cases "status_emits pf (engine_state w) st")
  case False
  then show ?thesis by (simp add: assign_engine_state_def shape_def)
next
  case True
  from on_engine_state_changed_running [OF assms(1)] obtain w2 where
    "on_engine_state_changed d st (w\<lparr>engine_state := st, emitting := True\<rparr>) = Inr w2"
    "same_but_controllers (w\<lparr>engine_state := st, emitting := True\<rparr>) w2"
    by blast
  with True assms(2) show ?thesis
    by (simp add: assign_engine_state_def same_but_controllers_def shape_def)
qed

lemma on_provider_state_changed_keeps:
  assumes "shape w = shape w0" "wf_world w" "\<not> emitting w" "engine_state w0 \<noteq> engine_off"
  shows "\<exists>w'. on_provider_state_changed pf w = Inr w' \<and> good w0 w' \<and> engine_state w' \<noteq> engine_off \<and>
    kinds w' = kinds w \<and> calls w' = calls w"
proof -
  let ?st = "if is_any_active w then engine_active else engine_on"
  have "?st \<noteq> engine_off" by simp
  from assign_engine_state_running [OF this assms(3)] obtain w' where
    w': "on_provider_state_changed pf w = Inr w'" "kinds w' = kinds w" "providers w' = providers w"
    "shape w' = shape w" "engine_state w' = ?st" "calls w' = calls w"
    unfolding on_provider_state_changed_def by blast
  moreover have "wf_world w'" using w' assms(2) kinds_cong(2) by blast
  moreover have "is_any_active w' = is_any_active w" using w' kinds_cong(1) by blast
  moreover have "\<not> emitting w'" using w'(4) assms(3) by (simp add: shape_def)
  ultimately show ?thesis
    using assms(1,4) by (auto simp: good_def engine_inv_def split: if_splits)
qed

lemma tracking_update_shape:
  assumes "objs w p = Some ob" "prov_kind ob = Tracking impl old"
  shows "shape (w\<lparr>objs := (objs w)(p \<mapsto> ob\<lparr>prov_kind := Tracking impl st\<rparr>)\<rparr>) = shape w"
  using assms by (auto simp: shape_def kinds_def fun_eq_iff)

lemma controller_update_kinds:
  assumes "objs w p = Some ob"
  shows "kinds (w\<lparr>objs := (objs w)(p \<mapsto> ob\<lparr>prov_controller := c\<rparr>)\<rparr>) = kinds w"
  using assms by (auto simp: kinds_def fun_eq_iff)

lemma assign_tracking_state_keeps:
  assumes g: "good w0 w" and cn: "change_notified pf"
    and ob: "objs w p = Some ob" "prov_kind ob = Tracking impl old"
    and on: "p \<in> set (providers w) \<Longrightarrow> engine_state w \<noteq> engine_off"
  shows "\<exists>w'. assign_tracking_state pf p st w = Inr w' \<and> good w0 w'"
proof -
  let ?w1 = "w\<lparr>objs := (objs w)(p \<mapsto> ob\<lparr>prov_kind := Tracking impl st\<rparr>)\<rparr>"
  have sh: "shape ?w1 = shape w" by (rule tracking_update_shape [OF ob])
  have wf1: "wf_world ?w1" using g wf_world_shape [OF sh [symmetric]] by (simp add: good_def)
  show ?thesis
  proof (cases "tracking_emits pf old st \<and> p \<in> set (providers w)")
    case True
    have "\<exists>w'. on_provider_state_changed pf ?w1 = Inr w' \<and> good w0 w'"
      using on_provider_state_changed_keeps [of ?w1 w0 pf] g sh wf1 on True by (auto simp: good_def)
    with True ob show ?thesis by (simp add: assign_tracking_state_def)
  next
    case False
    have "is_tracking_active ?w1 q = is_tracking_active w q" if "q \<in> set (providers w)" for q
      using False that ob cn by (auto simp: is_tracking_active_def change_notified_def)
    then have "is_any_active ?w1 = is_any_active w"
      by (auto simp: is_any_active_def list_ex_iff)
    moreover have "disabled_at ?w1 = disabled_at w"
      using ob(1) by (intro ext) (simp add: disabled_at_def)
    ultimately have "engine_inv ?w1"
      using g unfolding good_def engine_inv_def by simp
    with g sh wf1 have "good w0 ?w1" by (simp add: good_def)
    moreover have "assign_tracking_state pf p st w = Inr ?w1"
      using False ob by (auto simp: assign_tracking_state_def Let_def)
    ultimately show ?thesis by blast
  qed
qed

lemma disabled_op:
  "ctl_disabled c \<Longrightarrow> controller_op k c = (c, [])"
  by (cases "(k, c)" rule: controller_op.cases)
    (simp_all add: start_position_updates_def stop_position_updates_def start_heading_updates_def
        stop_heading_updates_def start_velocity_updates_def stop_velocity_updates_def)

lemma controller_update_good:
  assumes g: "good w0 w" and ob: "objs w p = Some ob"
    and dis: "ctl_disabled (prov_controller ob) \<Longrightarrow> ctl_disabled c"
  shows "good w0 (w\<lparr>objs := (objs w)(p \<mapsto> ob\<lparr>prov_controller := c\<rparr>)\<rparr>)"
proof -
  let ?w = "w\<lparr>objs := (objs w)(p \<mapsto> ob\<lparr>prov_controller := c\<rparr>)\<rparr>"
  have k: "kinds ?w = kinds w" by (rule controller_update_kinds [OF ob])
  have "shape ?w = shape w" using k by (simp add: shape_def)
  moreover have "wf_world ?w = wf_world w" "is_any_active ?w = is_any_active w"
    using kinds_cong [OF k] by simp_all
  moreover have "disabled_at w q \<Longrightarrow> disabled_at ?w q" for q
    using dis ob by (cases "q = p") (simp_all add: disabled_at_def del: ctl_disabled.simps)
  ultimately show ?thesis
    using g by (auto simp: good_def engine_inv_def list_all_iff split: if_splits)
qed

lemma disabled_at_calls: "disabled_at (w\<lparr>calls := cs\<rparr>) = disabled_at w"
  by (rule ext) (simp add: disabled_at_def)

lemma shape_calls: "shape (w\<lparr>calls := cs\<rparr>) = shape w"
  by (simp add: shape_def)

lemma calls_update_good: "good w0 w \<Longrightarrow> good w0 (w\<lparr>calls := cs\<rparr>)"
  using kinds_cong [of "w\<lparr>calls := cs\<rparr>" w]
  by (simp add: good_def shape_calls engine_inv_def disabled_at_calls)

section \<open>Requests terminate and keep the engine consistent\<close>

lemma inst_call_keeps:
  assumes "change_notified pf" and good: "good w0 w" and ob: "objs w p = Some ob"
    and on: "p \<in> set (providers w) \<Longrightarrow> engine_state w \<noteq> engine_off"
    and sub: "\<And>q v. good w0 v \<Longrightarrow> q \<in> set (children (prov_kind ob)) \<Longrightarrow> \<exists>w'. req k q v = Inr w' \<and> good w0 w'"
  shows "\<exists>w'. inst_call pf req k p w = Inr w' \<and> good w0 w'"
proof (cases "prov_kind ob")
  case Null_provider
  with good ob show ?thesis by (simp add: inst_call_def)
next
  case Leaf
  moreover have "good w0 (w\<lparr>calls := calls w @ [(p, k)]\<rparr>)" by (rule calls_update_good [OF good])
  ultimately show ?thesis using ob by (simp add: inst_call_def leaf_call_def)
next
  case (Tracking impl st)
  then obtain w' where "assign_tracking_state pf p (tracking_after k) w = Inr w'" "good w0 w'"
    using assign_tracking_state_keeps [OF good assms(1) ob] on by auto
  with sub [of w' impl] Tracking ob show ?thesis by (simp add: inst_call_def tracking_call_def)
next
  case (Fusion ps)
  have "\<exists>w'. for_each (req k) ps w = Inr w' \<and> good w0 w'"
    using sub Fusion good by (intro for_each_keeps) auto
  with Fusion ob show ?thesis by (simp add: inst_call_def fusion_call_def)
next
  case (Proxy pos hdg vel)
  with sub [OF good] ob show ?thesis by (cases "call_channel k") (simp_all add: inst_call_def proxy_call_def)
qed

lemma ctl_call_keeps:
  assumes "change_notified pf" "good w0 w" "kinds w p \<noteq> None" "p < fuel"
  shows "\<exists>w'. ctl_call pf fuel k p w = Inr w' \<and> good w0 w'"
  using assms
proof (induction fuel arbitrary: k p w)
  case (Suc fuel)
  from Suc.prems(3) obtain ob where ob: "objs w p = Some ob" by (auto simp: kinds_None)
  obtain c cs where op: "controller_op k (prov_controller ob) = (c, cs)" by force
  let ?w = "w\<lparr>objs := (objs w)(p \<mapsto> ob\<lparr>prov_controller := c\<rparr>)\<rparr>"
  have good': "good w0 ?w"
    using op disabled_op by (intro controller_update_good [OF Suc.prems(2) ob]) auto
  have sub: "\<exists>w'. ctl_call pf fuel k q v = Inr w' \<and> good w0 w'"
    if "good w0 v" "q \<in> set (children (prov_kind ob))" for q v
  proof -
    have "q < p \<and> kinds w q \<noteq> None"
      using Suc.prems(2) that(2) ob kinds_Some [of w p] unfolding good_def wf_world_def by blast
    moreover have "shape v = shape w" using that(1) Suc.prems(2) by (simp add: good_def)
    ultimately have "kinds v q \<noteq> None" "q < fuel"
      using shape_kinds(1) [of v w q] Suc.prems(4) by auto
    then show ?thesis by (rule Suc.IH [OF Suc.prems(1) that(1)])
  qed
  show ?case
  proof (cases "cs = []")
    case True
    with op ob good' show ?thesis by simp
  next
    case False
    then have "\<not> ctl_disabled (prov_controller ob)" using op disabled_op by auto
    then have "p \<in> set (providers ?w) \<Longrightarrow> engine_state ?w \<noteq> engine_off"
      using Suc.prems(2) ob by (auto simp: good_def engine_inv_def list_all_iff disabled_at_def split: if_splits)
    then have "\<exists>w'. inst_call pf (ctl_call pf fuel) k p ?w = Inr w' \<and> good w0 w'"
      by (intro inst_call_keeps [OF Suc.prems(1) good', where ob = "ob\<lparr>prov_controller := c\<rparr>"]) (use sub in simp_all)
    with False op ob show ?thesis by (simp add: Let_def)
  qed
qed simp

text \<open>
  C1. Every start or stop request on an existing object of a well-formed world returns when
  the fuel exceeds the address of the object: it neither runs out of fuel nor follows a
  dangling pointer nor re-enters the engine-state signal. The shape of the object graph is
  unchanged, the world stays well-formed, and the engine state stays consistent: while the
  engine is not off it is \<open>active\<close> exactly when one of its providers is active, and while it
  is off every provider is disabled.
\<close>

theorem request_returns_and_keeps_engine_consistent:
  assumes "change_notified pf" "wf_world w" "\<not> emitting w" "engine_inv w"
    and "objs w p \<noteq> None" and "p < fuel"
  shows "\<exists>w'. ctl_call pf fuel k p w = Inr w' \<and> shape w' = shape w \<and> wf_world w' \<and> engine_inv w'"
  using ctl_call_keeps [of pf w w p fuel k] assms by (auto simp: good_def kinds_None)

section \<open>Switching the engine off and on again\<close>

fun idle :: "controller \<Rightarrow> bool" where
  "idle c \<longleftrightarrow> position_updates_counter c \<le> 0 \<and> heading_updates_counter c \<le> 0 \<and> velocity_updates_counter c \<le> 0"

definition idle_at :: "'t world \<Rightarrow> nat \<Rightarrow> bool" where
  "idle_at w p \<longleftrightarrow> (case objs w p of None \<Rightarrow> False | Some ob \<Rightarrow> idle (prov_controller ob))"

lemma ctl_disable_idle:
  assumes "idle_at w p"
  shows "ctl_disable pf fuel p w = Inr (upd_controller p (\<lambda>c. fst (disable c)) w)"
  using assms
  by (auto simp: ctl_disable_def stop_if_running_def idle_at_def split: option.splits)

lemma disabled_after_disable: "ctl_disabled (fst (disable c))"
  by (simp add: disable_def our_magic_disabling_value_def)

lemma idle_disabled: "ctl_disabled c \<Longrightarrow> idle c"
  by simp

lemma upd_controller_disable:
  assumes "idle_at w q"
  shows "disabled_at (upd_controller p (\<lambda>c. fst (disable c)) w) q \<longleftrightarrow> p = q \<or> disabled_at w q"
    and "idle_at (upd_controller p (\<lambda>c. fst (disable c)) w) q"
  using assms disabled_after_disable idle_disabled
  by (auto simp: upd_controller_def disabled_at_def idle_at_def split: option.splits
      simp del: ctl_disabled.simps idle.simps)

lemma objs_upd_controller: "q \<noteq> p \<Longrightarrow> objs (upd_controller p f w) q = objs w q"
  by (simp add: upd_controller_def)

lemma disable_all_idle:
  assumes "list_all (idle_at w) (qs @ ps)" "list_all (disabled_at w) qs"
  shows "\<exists>w'. for_each (ctl_disable pf fuel) ps w = Inr w' \<and> same_but_controllers w w' \<and>
    list_all (disabled_at w') (qs @ ps) \<and> (\<forall>q. q \<notin> set ps \<longrightarrow> objs w' q = objs w q)"
  using assms
proof (induction ps arbitrary: w qs)
  case Nil
  then show ?case by (simp add: same_but_controllers_def)
next
  case (Cons p ps)
  let ?w = "upd_controller p (\<lambda>c. fst (disable c)) w"
  have "list_all (idle_at ?w) ((qs @ [p]) @ ps)" "list_all (disabled_at ?w) (qs @ [p])"
    using Cons.prems by (auto simp: list_all_iff upd_controller_disable)
  from Cons.IH [OF this] obtain w' where w': "for_each (ctl_disable pf fuel) ps ?w = Inr w'"
    "same_but_controllers ?w w'" "list_all (disabled_at w') ((qs @ [p]) @ ps)"
    "\<forall>q. q \<notin> set ps \<longrightarrow> objs w' q = objs ?w q"
    by blast
  moreover have "ctl_disable pf fuel p w = Inr ?w"
    using Cons.prems(1) by (intro ctl_disable_idle) simp
  ultimately show ?case
    by (auto simp: same_but_controllers_def objs_upd_controller)
qed

lemma persisted_state_read_back:
  assumes "ptree_laws (ptree pf)" "\<And>t k v. pt_put (ptree pf) t k v \<noteq> None"
  shows "get_enum_for_key (ptree pf) print_engine_status read_engine_status
    (settings (persist_engine_state pf st w)) engine_state_key d = Inr st"
proof -
  let ?r = "syncing_set_enum_for_key (ptree pf) print_engine_status (settings w) engine_state_key st"
  have "?r = (True, snd ?r)"
    using syncing_set_enum_succeeds [of "ptree pf" "settings w" engine_state_key print_engine_status st] assms(2)
    by (cases ?r) auto
  moreover have "plain_key engine_state_key" by (simp add: plain_key_def engine_state_key_def)
  ultimately show ?thesis
    using engine_status.get_syncing_set_enum [OF assms(1)] by (simp add: persist_engine_state_def)
qed

lemma set_engine_off_idle:
  assumes "change_notified pf" "\<not> emitting w" "engine_state w \<noteq> engine_off"
    and "list_all (idle_at w) (providers w)" "\<not> is_any_active w"
  shows "\<exists>w2. set_engine_state pf fuel engine_off w = Inr ((persist_engine_state pf engine_off w2)\<lparr>emitting := False\<rparr>) \<and>
    kinds w2 = kinds w \<and> providers w2 = providers w \<and> engine_state w2 = engine_off \<and> calls w2 = calls w \<and>
    shape (w2\<lparr>emitting := False\<rparr>) = shape w \<and> engine_inv (w2\<lparr>emitting := False\<rparr>)"
proof -
  let ?w1 = "w\<lparr>engine_state := engine_off, emitting := True\<rparr>"
  have "list_all (idle_at ?w1) ([] @ providers w)"
    using assms(4) by (simp add: list_all_iff idle_at_def)
  from disable_all_idle [OF this, of pf fuel] obtain w2 where
    w2: "for_each (ctl_disable pf fuel) (providers w) ?w1 = Inr w2" "same_but_controllers ?w1 w2"
      "list_all (disabled_at w2) (providers w)"
    by auto
  have run: "set_engine_state pf fuel engine_off w = Inr ((persist_engine_state pf engine_off w2)\<lparr>emitting := False\<rparr>)"
    using assms(1-3) w2(1)
    by (simp add: set_engine_state_def assign_engine_state_def on_engine_state_changed_def change_notified_def Let_def)
  have fr: "kinds w2 = kinds w" "providers w2 = providers w" "engine_state w2 = engine_off"
    "calls w2 = calls w" "shape (w2\<lparr>emitting := False\<rparr>) = shape w"
    using w2(2) assms(2) by (simp_all add: same_but_controllers_def shape_def)
  have "disabled_at (w2\<lparr>emitting := False\<rparr>) = disabled_at w2" by (rule ext) (simp add: disabled_at_def)
  with w2(3) fr(2,3) kinds_cong(1) [of "w2\<lparr>emitting := False\<rparr>" w] fr(1) assms(5) have "engine_inv (w2\<lparr>emitting := False\<rparr>)"
    by (simp add: engine_inv_def)
  with run fr show ?thesis by blast
qed

lemma persist_same:
  "engine_inv (persist_engine_state pf st w\<lparr>emitting := False\<rparr>) = engine_inv (w\<lparr>emitting := False\<rparr>)"
  "shape (persist_engine_state pf st w\<lparr>emitting := False\<rparr>) = shape (w\<lparr>emitting := False\<rparr>)"
  "wf_world (persist_engine_state pf st w\<lparr>emitting := False\<rparr>) = wf_world w"
  by (simp_all add: persist_engine_state_def engine_inv_def disabled_at_def [abs_def] is_any_active_def
      is_tracking_active_def [abs_def] shape_def kinds_def wf_world_def)

text \<open>
  C8. Switching the engine off while no provider is running returns, disables every provider of
  the engine, leaves the engine consistent, makes no call on a provider, and stores the state:
  reading the setting gives \<open>off\<close>.
\<close>

theorem engine_off_disables_idle_providers:
  assumes "change_notified pf" "\<not> emitting w" "engine_state w \<noteq> engine_off"
    and "list_all (idle_at w) (providers w)" "\<not> is_any_active w"
    and "ptree_laws (ptree pf)" "\<And>t k v. pt_put (ptree pf) t k v \<noteq> None"
  shows "\<exists>w'. set_engine_state pf fuel engine_off w = Inr w' \<and> engine_state w' = engine_off \<and>
    shape w' = shape w \<and> engine_inv w' \<and> calls w' = calls w \<and>
    get_enum_for_key (ptree pf) print_engine_status read_engine_status (settings w') engine_state_key engine_on
      = Inr engine_off"
proof -
  obtain w2 where w2: "set_engine_state pf fuel engine_off w = Inr ((persist_engine_state pf engine_off w2)\<lparr>emitting := False\<rparr>)"
    "engine_state w2 = engine_off" "calls w2 = calls w"
    "shape (w2\<lparr>emitting := False\<rparr>) = shape w" "engine_inv (w2\<lparr>emitting := False\<rparr>)"
    using set_engine_off_idle [OF assms(1-5), of fuel] by blast
  then show ?thesis
    using persisted_state_read_back [OF assms(6,7), of engine_off w2] by (simp add: persist_same)
qed

text \<open>A platform and a world with one provider (address 0) and its tracking wrapper (address 1).\<close>

definition demo_platform :: "(string \<rightharpoonup> string) platform" where
  "demo_platform = \<lparr>ptree = map_ptree, status_emits = (\<noteq>), tracking_emits = (\<noteq>), sat_emits = (\<noteq>),
     wifi_emits = (\<noteq>), addr_less = (<)\<rparr>"

definition demo_world :: "(string \<rightharpoonup> string) world" where
  "demo_world = \<lparr>objs = [0 \<mapsto> \<lparr>prov_kind = Leaf, prov_features = feature_position, prov_requirements = 0,
                              prov_controller = new_controller\<rparr>,
                        1 \<mapsto> \<lparr>prov_kind = Tracking 0 tracking_enabled, prov_features = feature_position,
                              prov_requirements = 0, prov_controller = new_controller\<rparr>],
     next_addr = 2, calls = [], wifi_calls = [], engine_state = engine_on,
     satellite_based_positioning_state = sat_on, wifi_and_cell_id_reporting_state = wifi_off,
     emitting = False, providers = [1], settings = open_settings Map.empty None\<rparr>"

lemma demo_platform_laws [simp]:
  "change_notified demo_platform" "ptree_laws (ptree demo_platform)"
  "pt_put (ptree demo_platform) t k v \<noteq> None"
  using ptree_laws_map by (simp_all add: demo_platform_def change_notified_def map_ptree_def)

lemma demo_world_good [simp]:
  "wf_world demo_world" "\<not> emitting demo_world" "engine_inv demo_world"
  "list_all (idle_at demo_world) (providers demo_world)" "\<not> is_any_active demo_world"
  by (auto simp: demo_world_def wf_world_def kinds_def engine_inv_def is_any_active_def
      is_tracking_active_def idle_at_def new_controller_def split: if_splits)

lemma demo_world_fields [simp]:
  "objs demo_world (Suc 0) \<noteq> None" "engine_state demo_world = engine_on"
  by (simp_all add: demo_world_def)

theorem request_returns_and_keeps_engine_consistent_witness:
  "\<exists>w'. ctl_call demo_platform 2 (Start ch_position) 1 demo_world = Inr w' \<and> wf_world w' \<and> engine_inv w'"
  using request_returns_and_keeps_engine_consistent [of demo_platform demo_world 1 2 "Start ch_position"]
  by fastforce

theorem engine_off_disables_idle_providers_witness:
  "\<exists>w'. set_engine_state demo_platform 2 engine_off demo_world = Inr w' \<and> engine_state w' = engine_off \<and>
     engine_inv w'"
  using engine_off_disables_idle_providers [of demo_platform demo_world 2] by fastforce

text \<open>
  C9. The engine state survives a restart: after an assignment that changed it, an engine
  constructed from the settings has the assigned state. No provider of the new engine is
  active, so the new engine is consistent exactly when the stored state was not \<open>active\<close>.
\<close>

theorem engine_state_survives_restart:
  assumes "change_notified pf" "ptree_laws (ptree pf)" "\<And>t k v. pt_put (ptree pf) t k v \<noteq> None"
    and asg: "assign_engine_state pf d st w = Inr w'" "engine_state w \<noteq> st"
    and wifi: "get_enum_for_key (ptree pf) print_wifi_state read_wifi_state (settings w') wifi_state_key wifi_off = Inr wst"
  shows "\<exists>w''. engine_new pf (settings w') = Inr w'' \<and> engine_state w'' = st \<and>
    wifi_and_cell_id_reporting_state w'' = wst \<and> (engine_inv w'' \<longleftrightarrow> st \<noteq> engine_active)"
proof -
  obtain w2 where "w' = (persist_engine_state pf st w2)\<lparr>emitting := False\<rparr>"
    using asg assms(1) by (auto simp: assign_engine_state_def change_notified_def Let_def split: if_splits sum.splits)
  then have "get_enum_for_key (ptree pf) print_engine_status read_engine_status (settings w') engine_state_key d = Inr st" for d
    using persisted_state_read_back [OF assms(2,3), of st w2] by simp
  with wifi show ?thesis
    by (auto simp: engine_new_def engine_inv_def is_any_active_def)
qed

theorem engine_state_survives_restart_witness:
  "\<exists>w' w''. assign_engine_state demo_platform (\<lambda>p. Inr) engine_active demo_world = Inr w' \<and>
     engine_new demo_platform (settings w') = Inr w'' \<and> engine_state w'' = engine_active \<and> \<not> engine_inv w''"
proof -
  let ?w' = "(persist_engine_state demo_platform engine_active
      (demo_world\<lparr>engine_state := engine_active, emitting := True\<rparr>))\<lparr>emitting := False\<rparr>"
  have run: "assign_engine_state demo_platform (\<lambda>p. Inr) engine_active demo_world = Inr ?w'"
    by (simp add: assign_engine_state_def on_engine_state_changed_def demo_world_def demo_platform_def)
  have wifi: "get_enum_for_key (ptree demo_platform) print_wifi_state read_wifi_state (settings ?w') wifi_state_key wifi_off
      = Inr wifi_off"
    by (intro wifi_state.get_unset_enum)
      (simp add: has_value_for_key_def persist_engine_state_def syncing_set_enum_for_key_def
        syncing_set_string_for_key_def set_string_for_key_def sync_def demo_platform_def map_ptree_def
        demo_world_def open_settings_def wifi_state_key_def engine_state_key_def split: prod.splits)
  show ?thesis
    using engine_state_survives_restart [OF demo_platform_laws(1,2) _ run _ wifi] run by fastforce
qed

section \<open>Re-entrancy and mixed channels\<close>

lemma running_iff: "(\<exists>ch. 0 < counter ch c) \<longleftrightarrow> \<not> idle c"
proof
  assume "\<exists>ch. 0 < counter ch c"
  then obtain ch where "0 < counter ch c" by blast
  then show "\<not> idle c" by (cases ch) auto
next
  assume "\<not> idle c"
  then have "0 < counter ch_position c \<or> 0 < counter ch_heading c \<or> 0 < counter ch_velocity c" by auto
  then show "\<exists>ch. 0 < counter ch c" by blast
qed

lemma for_each_append:
  "for_each f (ps @ qs) w = (case for_each f ps w of Inl e \<Rightarrow> Inl e | Inr w' \<Rightarrow> for_each f qs w')"
  by (induction ps arbitrary: w) (auto split: sum.splits)

lemma stop_call_reenters:
  assumes "change_notified pf" "emitting w" "engine_state w = engine_off" "p \<in> set (providers w)"
    and "objs w p = Some ob" "prov_kind ob = Tracking impl tracking_active"
  shows "inst_call pf req (Stop ch) p w = Inl Reentrant"
  using assms
  by (auto simp: inst_call_def tracking_call_def assign_tracking_state_def on_provider_state_changed_def
      assign_engine_state_def change_notified_def Let_def)

lemma ctl_disable_reenters:
  assumes "change_notified pf" "emitting w" "engine_state w = engine_off" "p \<in> set (providers w)"
    and "objs w p = Some ob" "prov_kind ob = Tracking impl tracking_active" "\<not> idle (prov_controller ob)"
  shows "ctl_disable pf fuel p w = Inl Reentrant"
  using stop_call_reenters [OF assms(1-6)] assms(5,7)
  by (auto simp: ctl_disable_def stop_if_running_def split: sum.splits)

text \<open>
  Switching the engine off while one of its providers is running never completes: the slot
  that disables the providers stops the running one, whose tracking wrapper changes its state,
  and the slot on that state assigns the engine state again while its changed signal is still
  being emitted.
\<close>

theorem engine_off_with_running_provider_reenters:
  assumes cn: "change_notified pf" and ne: "\<not> emitting w" and st: "engine_state w \<noteq> engine_off"
    and ps: "providers w = ps @ p # qs" "p \<notin> set ps" "list_all (idle_at w) ps"
    and ob: "objs w p = Some ob" "prov_kind ob = Tracking impl tracking_active"
    and run: "\<exists>ch. 0 < counter ch (prov_controller ob)"
  shows "set_engine_state pf fuel engine_off w = Inl Reentrant"
proof -
  let ?w1 = "w\<lparr>engine_state := engine_off, emitting := True\<rparr>"
  have "list_all (idle_at ?w1) ([] @ ps)"
    using ps(3) by (simp add: list_all_iff idle_at_def)
  from disable_all_idle [OF this, of pf fuel] ps(2) obtain w2 where
    w2: "for_each (ctl_disable pf fuel) ps ?w1 = Inr w2" "same_but_controllers ?w1 w2" "objs w2 p = objs ?w1 p"
    by auto
  have "\<not> idle (prov_controller ob)" using run running_iff by blast
  then have "ctl_disable pf fuel p w2 = Inl Reentrant"
    using w2(2,3) ob ps(1) by (intro ctl_disable_reenters [OF cn]) (simp_all add: same_but_controllers_def)
  with w2(1) ps(1) ne st cn show ?thesis
    by (simp add: set_engine_state_def assign_engine_state_def on_engine_state_changed_def
        change_notified_def for_each_append)
qed

text \<open>The demonstration world after a position request.\<close>

definition busy_world :: "(string \<rightharpoonup> string) world" where
  "busy_world = (case ctl_call demo_platform 2 (Start ch_position) 1 demo_world of Inr w \<Rightarrow> w | Inl _ \<Rightarrow> demo_world)"

lemmas eval_engine = demo_world_def demo_platform_def numeral_2_eq_2 inst_call_def leaf_call_def
  tracking_call_def assign_tracking_state_def on_provider_state_changed_def assign_engine_state_def
  on_engine_state_changed_def is_any_active_def is_tracking_active_def start_position_updates_def
  stop_position_updates_def start_heading_updates_def stop_heading_updates_def new_controller_def
  requires_satellites_def requires_flag_def requirements_and_def requirement_satellites_def
  requirement_none_def upd_controller_def enable_def Let_def

lemma busy_world_facts:
  "\<not> emitting busy_world" "engine_state busy_world = engine_active" "providers busy_world = [1]"
  "objs busy_world 1 = Some \<lparr>prov_kind = Tracking 0 tracking_active, prov_features = feature_position,
     prov_requirements = 0, prov_controller = new_controller\<lparr>position_updates_counter := 1\<rparr>\<rparr>"
  "calls busy_world = [(0, Start ch_position)]"
  by (simp_all add: busy_world_def eval_engine)

theorem engine_off_with_running_provider_reenters_witness:
  "set_engine_state demo_platform 2 engine_off busy_world = Inl Reentrant"
  using engine_off_with_running_provider_reenters
    [of demo_platform busy_world "[]" 1 "[]" _ 0 2] busy_world_facts
  by (simp add: running_iff)

text \<open>
  A stop on one channel loses the requests on another. The tracking wrapper is \<open>enabled\<close>
  after any stop, the engine then goes from \<open>active\<close> to \<open>on\<close>, and that transition resets the
  counters of the wrapper. In the demonstration world a position and a heading request followed
  by the withdrawal of both leave the position channel of the provider running: it gets no stop
  call, its counter stays at one, and the position channel of the wrapper is disabled.
\<close>

theorem mixed_channels_leave_provider_running:
  "case for_each (\<lambda>n w. ctl_call demo_platform 2
        ([Start ch_position, Start ch_heading, Stop ch_heading, Stop ch_position] ! n) 1 w)
      [0, 1, 2, 3] demo_world of
     Inl _ \<Rightarrow> False
   | Inr w \<Rightarrow>
       calls w = [(0, Start ch_position), (0, Start ch_heading), (0, Stop ch_heading)] \<and>
       map_option (\<lambda>ob. position_updates_counter (prov_controller ob)) (objs w 0) = Some 1 \<and>
       map_option (\<lambda>ob. position_updates_counter (prov_controller ob)) (objs w 1) = Some (- 1) \<and>
       engine_state w = engine_on"
  by (simp add: eval_engine persist_engine_state_def)

end
