(* ===== verification/Space_Vehicles.thy ===== *)
theory Space_Vehicles
  imports Data_Model Std_Containers
begin

text \<open>
  Space vehicles (\<open>space_vehicle.h\<close>, \<open>units.h\<close>) and the set of visible vehicles the engine
  keeps (\<open>engine.cpp\<close>, the slot on the \<open>svs\<close> updates of a provider).

  The enumeration \<open>Type\<close> is kept as its underlying 32-bit integer, since decoding casts any
  integer to it; \<open>sv_unknown\<close> to \<open>sv_qzss\<close> are its enumerators. A \<open>float\<close> is a \<open>double\<close> that
  the rounding to single precision leaves alone. A \<open>std::set\<close> of vehicles is the list of its
  elements in order, a \<open>std::map\<close> an association list ordered by key.
\<close>

type_synonym sv_type = "32 word"

definition sv_unknown :: sv_type where "sv_unknown = 0"
definition sv_beidou :: sv_type where "sv_beidou = 1"
definition sv_galileo :: sv_type where "sv_galileo = 2"
definition sv_glonass :: sv_type where "sv_glonass = 3"
definition sv_gps :: sv_type where "sv_gps = 4"
definition sv_compass :: sv_type where "sv_compass = 5"
definition sv_irnss :: sv_type where "sv_irnss = 6"
definition sv_qzss :: sv_type where "sv_qzss = 7"

record sv_key =
  key_type :: sv_type
  key_id :: "32 word"

definition sv_key_default :: sv_key where
  "sv_key_default = \<lparr>key_type = sv_unknown, key_id = 0\<rparr>"

definition sv_key_eq :: "sv_key \<Rightarrow> sv_key \<Rightarrow> bool" where
  "sv_key_eq lhs rhs \<longleftrightarrow> key_type lhs = key_type rhs \<and> key_id lhs = key_id rhs"

definition sv_key_lt :: "sv_key \<Rightarrow> sv_key \<Rightarrow> bool" where
  "sv_key_lt lhs rhs \<longleftrightarrow>
     (if key_type lhs \<noteq> key_type rhs then sint (key_type lhs) < sint (key_type rhs)
      else key_id lhs < key_id rhs)"

record space_vehicle =
  sv_key :: sv_key
  snr :: double
  has_almanac_data :: bool
  has_ephimeris_data :: bool
  used_in_fix :: bool
  azimuth :: double
  elevation :: double

definition float_max :: real where
  "float_max = (2 - 1 / 2 ^ 23) * 2 ^ 127"

definition space_vehicle_default :: space_vehicle where
  "space_vehicle_default = \<lparr>sv_key = sv_key_default, snr = Fin (- float_max), has_almanac_data = False,
     has_ephimeris_data = False, used_in_fix = False, azimuth = Fin 0, elevation = Fin 0\<rparr>"

fun dbl_fabs :: "double \<Rightarrow> double" where
  "dbl_fabs (Fin a) = Fin \<bar>a\<bar>"
| "dbl_fabs NaN = NaN"
| "dbl_fabs _ = PInf"

definition roughly_equals :: "(real \<Rightarrow> double) \<Rightarrow> double \<Rightarrow> double \<Rightarrow> bool" where
  "roughly_equals rnd lhs rhs \<longleftrightarrow> dbl_le (dbl_fabs (dbl_minus rnd lhs rhs)) (Fin (1 / 2 ^ 52))"

definition space_vehicle_eq :: "(real \<Rightarrow> double) \<Rightarrow> space_vehicle \<Rightarrow> space_vehicle \<Rightarrow> bool" where
  "space_vehicle_eq rnd lhs rhs \<longleftrightarrow>
     sv_key_eq (sv_key lhs) (sv_key rhs) \<and>
     has_almanac_data lhs = has_almanac_data rhs \<and>
     has_ephimeris_data lhs = has_ephimeris_data rhs \<and>
     used_in_fix lhs = used_in_fix rhs \<and>
     roughly_equals rnd (azimuth lhs) (azimuth rhs) \<and>
     roughly_equals rnd (elevation lhs) (elevation rhs)"

definition space_vehicle_lt :: "space_vehicle \<Rightarrow> space_vehicle \<Rightarrow> bool" where
  "space_vehicle_lt lhs rhs \<longleftrightarrow> sv_key_lt (sv_key lhs) (sv_key rhs)"

type_synonym visible_vehicles = "(sv_key \<times> space_vehicle) list"

text \<open>The functor the slot passes to \<open>visible_space_vehicles.update\<close>.\<close>

fun merge_visible :: "space_vehicle list \<Rightarrow> visible_vehicles \<Rightarrow> visible_vehicles" where
  "merge_visible [] dest = dest"
| "merge_visible (sv # svs) dest = merge_visible svs (map_put sv_key_lt (sv_key sv) sv dest)"

section \<open>The orders are comparators\<close>

interpretation key_order: total_order sv_key_lt
proof
  fix x y z :: sv_key
  show "\<not> sv_key_lt x x" by (simp add: sv_key_lt_def)
  show "sv_key_lt x y \<Longrightarrow> sv_key_lt y z \<Longrightarrow> sv_key_lt x z"
    by (auto simp: sv_key_lt_def split: if_splits)
  show "\<not> sv_key_lt x y \<Longrightarrow> \<not> sv_key_lt y x \<Longrightarrow> \<not> sv_key_lt y z \<Longrightarrow> \<not> sv_key_lt z y \<Longrightarrow> \<not> sv_key_lt x z"
    by (auto simp: sv_key_lt_def not_less split: if_splits dest: signed_word_eqI)
  show "x \<noteq> y \<Longrightarrow> sv_key_lt x y \<or> sv_key_lt y x"
    by (cases x; cases y) (auto simp: sv_key_lt_def not_less order.order_iff_strict dest: signed_word_eqI)
qed

interpretation vehicle_order: weak_order space_vehicle_lt
  by unfold_locales
    (auto simp: space_vehicle_lt_def key_order.less_irrefl intro: key_order.less_trans
      dest: key_order.incomparable_trans)

definition keys_agree :: "visible_vehicles \<Rightarrow> bool" where
  "keys_agree m \<longleftrightarrow> list_all (\<lambda>(k, sv). sv_key sv = k) m"

lemma map_put_keys_agree: "keys_agree m \<Longrightarrow> keys_agree (map_put sv_key_lt (sv_key sv) sv m)"
  using key_order.incomparable_iff by (induction m) (fastforce simp: keys_agree_def)+

lemma merge_visible_find:
  assumes "map_sorted sv_key_lt dest"
  shows "map_find sv_key_lt k (merge_visible svs dest) =
    (case filter (\<lambda>sv. sv_key sv = k) svs of [] \<Rightarrow> map_find sv_key_lt k dest | fs \<Rightarrow> Some (last fs))"
  using assms
proof (induction svs arbitrary: dest)
  case (Cons sv svs)
  then show ?case
    using key_order.map_put_sorted [OF Cons.prems]
    by (auto simp: key_order.map_find_put split: list.splits)
qed simp

lemma merge_visible_sorted:
  "map_sorted sv_key_lt dest \<Longrightarrow> map_sorted sv_key_lt (merge_visible svs dest)"
  by (induction svs arbitrary: dest) (simp_all add: key_order.map_put_sorted)

lemma merge_visible_keys_agree: "keys_agree dest \<Longrightarrow> keys_agree (merge_visible svs dest)"
  by (induction svs arbitrary: dest) (simp_all add: map_put_keys_agree)

text \<open>
  Merging a report of vehicles into the visible vehicles keeps the map ordered and every
  entry under its own key. A vehicle of the report is found with its reported data, every other
  vehicle as before: entries are replaced or added and never removed.
\<close>

theorem merge_visible_correct:
  assumes "map_sorted sv_key_lt dest" "keys_agree dest" "sorted_wrt space_vehicle_lt svs"
  shows "map_sorted sv_key_lt (merge_visible svs dest) \<and> keys_agree (merge_visible svs dest) \<and>
    (\<forall>k. map_find sv_key_lt k (merge_visible svs dest) =
       (case find (\<lambda>sv. sv_key sv = k) svs of Some sv \<Rightarrow> Some sv | None \<Rightarrow> map_find sv_key_lt k dest))"
proof -
  have "(case filter (\<lambda>sv. sv_key sv = k) svs of [] \<Rightarrow> d | fs \<Rightarrow> Some (last fs)) =
      (case find (\<lambda>sv. sv_key sv = k) svs of Some sv \<Rightarrow> Some sv | None \<Rightarrow> d)" for k d
    using assms(3)
  proof (induction svs)
    case (Cons sv svs)
    have "filter (\<lambda>s. sv_key s = k) svs = []" if "sv_key sv = k"
      using Cons.prems that key_order.less_irrefl
      by (auto simp: filter_empty_conv space_vehicle_lt_def)
    with Cons show ?case by auto
  qed simp
  with assms show ?thesis
    by (simp add: merge_visible_find merge_visible_sorted merge_visible_keys_agree)
qed

theorem merge_visible_correct_witness:
  "map_find sv_key_lt sv_key_default
     (merge_visible [space_vehicle_default\<lparr>snr := Fin 7\<rparr>] [(sv_key_default, space_vehicle_default)])
   = Some (space_vehicle_default\<lparr>snr := Fin 7\<rparr>)"
proof -
  have "map_sorted sv_key_lt [(sv_key_default, space_vehicle_default)]"
    "keys_agree [(sv_key_default, space_vehicle_default)]"
    "sorted_wrt space_vehicle_lt [space_vehicle_default\<lparr>snr := Fin 7\<rparr>]"
    by (simp_all add: map_sorted_def keys_agree_def space_vehicle_default_def)
  from merge_visible_correct [OF this] show ?thesis
    by (simp add: space_vehicle_default_def)
qed

end
