(* ===== verification/Codec.thy ===== *)
theory Codec
  imports Criteria Space_Vehicles Provider_Controller Enum_Streams
begin

text \<open>
  The D-Bus codecs (\<open>codec.h\<close>). An encoder appends typed values to a message; it is the list
  of the values it pushes, in order. A decoder pops values from a reader.

  The message reader belongs to dbus-cpp and is the parameter \<open>ops\<close> of the decoders; \<open>reads ws r\<close>
  says that \<open>r\<close> stands before the values \<open>ws\<close>, and \<open>reader_laws\<close> is what the library documents:
  popping a value of the type that is next gives that value and moves on. The codecs of \<open>bool\<close>,
  \<open>double\<close> and \<open>int64_t\<close> are the library's own and push and pop one value.

  Enumerations travel as their underlying integer. Rounding to single precision is the parameter
  \<open>to_float\<close>. The locale \<open>codec\<close> is the contract of a codec: decoding what was encoded gives the
  value back and leaves the reader behind it. Every codec of the file is an interpretation.
\<close>

section \<open>Messages\<close>

datatype wire =
    W_boolean bool
  | W_int32 "32 word"
  | W_uint32 "32 word"
  | W_int64 "64 word"
  | W_floating_point double
  | W_string string
  | W_structure "wire list"
  | W_array string "wire list"

record 'r reader_ops =
  pop_boolean :: "'r \<Rightarrow> (bool \<times> 'r) result"
  pop_int32 :: "'r \<Rightarrow> (32 word \<times> 'r) result"
  pop_uint32 :: "'r \<Rightarrow> (32 word \<times> 'r) result"
  pop_int64 :: "'r \<Rightarrow> (64 word \<times> 'r) result"
  pop_floating_point :: "'r \<Rightarrow> (double \<times> 'r) result"
  pop_string :: "'r \<Rightarrow> (string \<times> 'r) result"
  pop_structure :: "'r \<Rightarrow> ('r \<times> 'r) result"
  pop_array :: "'r \<Rightarrow> ('r \<times> 'r) result"
  at_end :: "'r \<Rightarrow> bool"

definition reader_laws :: "'r reader_ops \<Rightarrow> (wire list \<Rightarrow> 'r \<Rightarrow> bool) \<Rightarrow> bool" where
  "reader_laws ops reads \<longleftrightarrow>
     (\<forall>b ws r. reads (W_boolean b # ws) r \<longrightarrow> (\<exists>r'. pop_boolean ops r = Inr (b, r') \<and> reads ws r')) \<and>
     (\<forall>i ws r. reads (W_int32 i # ws) r \<longrightarrow> (\<exists>r'. pop_int32 ops r = Inr (i, r') \<and> reads ws r')) \<and>
     (\<forall>i ws r. reads (W_uint32 i # ws) r \<longrightarrow> (\<exists>r'. pop_uint32 ops r = Inr (i, r') \<and> reads ws r')) \<and>
     (\<forall>i ws r. reads (W_int64 i # ws) r \<longrightarrow> (\<exists>r'. pop_int64 ops r = Inr (i, r') \<and> reads ws r')) \<and>
     (\<forall>x ws r. reads (W_floating_point x # ws) r \<longrightarrow> (\<exists>r'. pop_floating_point ops r = Inr (x, r') \<and> reads ws r')) \<and>
     (\<forall>s ws r. reads (W_string s # ws) r \<longrightarrow> (\<exists>r'. pop_string ops r = Inr (s, r') \<and> reads ws r')) \<and>
     (\<forall>vs ws r. reads (W_structure vs # ws) r \<longrightarrow>
        (\<exists>sub r'. pop_structure ops r = Inr (sub, r') \<and> reads vs sub \<and> reads ws r')) \<and>
     (\<forall>sig vs ws r. reads (W_array sig vs # ws) r \<longrightarrow>
        (\<exists>sub r'. pop_array ops r = Inr (sub, r') \<and> reads vs sub \<and> reads ws r')) \<and>
     (\<forall>ws r. reads ws r \<longrightarrow> at_end ops r = (ws = []))"

type_synonym ('a, 'r) reader = "'r \<Rightarrow> ('a \<times> 'r) result"

definition rd_return :: "'a \<Rightarrow> ('a, 'r) reader" where
  "rd_return x = (\<lambda>r. Inr (x, r))"

definition rd_bind :: "('a, 'r) reader \<Rightarrow> ('a \<Rightarrow> ('b, 'r) reader) \<Rightarrow> ('b, 'r) reader" where
  "rd_bind m k = (\<lambda>r. case m r of Inl e \<Rightarrow> Inl e | Inr (x, r') \<Rightarrow> k x r')"

section \<open>Optionals, quantities, coordinates, positions\<close>

definition encode_optional :: "('a \<Rightarrow> wire list) \<Rightarrow> 'a option \<Rightarrow> wire list" where
  "encode_optional enc x = (case x of None \<Rightarrow> [W_boolean False] | Some v \<Rightarrow> W_boolean True # enc v)"

definition decode_optional :: "'r reader_ops \<Rightarrow> ('a, 'r) reader \<Rightarrow> ('a option, 'r) reader" where
  "decode_optional ops dec =
     rd_bind (pop_boolean ops) (\<lambda>has_value.
       if has_value then rd_bind dec (\<lambda>v. rd_return (Some v)) else rd_return None)"

definition encode_quantity :: "double \<Rightarrow> wire list" where
  "encode_quantity x = [W_floating_point x]"

definition decode_quantity :: "'r reader_ops \<Rightarrow> (double, 'r) reader" where
  "decode_quantity ops = pop_floating_point ops"

definition encode_coordinate :: "double \<Rightarrow> wire list" where
  "encode_coordinate c = encode_quantity c"

definition decode_coordinate :: "'r reader_ops \<Rightarrow> (double, 'r) reader" where
  "decode_coordinate ops = decode_quantity ops"

definition encode_position :: "position \<Rightarrow> wire list" where
  "encode_position p =
     encode_coordinate (latitude p) @ encode_coordinate (longitude p) @
     encode_optional encode_coordinate (altitude p) @
     encode_optional encode_quantity (horizontal p) @ encode_optional encode_quantity (vertical p)"

definition decode_position :: "'r reader_ops \<Rightarrow> (position, 'r) reader" where
  "decode_position ops =
     rd_bind (decode_coordinate ops) (\<lambda>lat.
     rd_bind (decode_coordinate ops) (\<lambda>lon.
     rd_bind (decode_optional ops (decode_coordinate ops)) (\<lambda>alt.
     rd_bind (decode_optional ops (decode_quantity ops)) (\<lambda>hor.
     rd_bind (decode_optional ops (decode_quantity ops)) (\<lambda>ver.
     rd_return \<lparr>latitude = lat, longitude = lon, altitude = alt, horizontal = hor, vertical = ver\<rparr>)))))"

section \<open>Space vehicles\<close>

definition encode_sv_key :: "sv_key \<Rightarrow> wire list" where
  "encode_sv_key k = [W_uint32 (key_type k), W_uint32 (key_id k)]"

definition decode_sv_key :: "'r reader_ops \<Rightarrow> (sv_key, 'r) reader" where
  "decode_sv_key ops =
     rd_bind (pop_uint32 ops) (\<lambda>t. rd_bind (pop_uint32 ops) (\<lambda>i. rd_return \<lparr>key_type = t, key_id = i\<rparr>))"

definition encode_space_vehicle :: "space_vehicle \<Rightarrow> wire list" where
  "encode_space_vehicle sv =
     [W_structure (encode_sv_key (sv_key sv) @ [W_floating_point (snr sv)] @
        [W_boolean (has_almanac_data sv)] @ [W_boolean (has_ephimeris_data sv)] @ [W_boolean (used_in_fix sv)] @
        encode_quantity (azimuth sv) @ encode_quantity (elevation sv))]"

definition decode_space_vehicle_fields ::
    "(double \<Rightarrow> double) \<Rightarrow> 'r reader_ops \<Rightarrow> (space_vehicle, 'r) reader" where
  "decode_space_vehicle_fields to_float ops =
     rd_bind (decode_sv_key ops) (\<lambda>k.
     rd_bind (pop_floating_point ops) (\<lambda>s.
     rd_bind (pop_boolean ops) (\<lambda>al.
     rd_bind (pop_boolean ops) (\<lambda>ep.
     rd_bind (pop_boolean ops) (\<lambda>fx.
     rd_bind (decode_quantity ops) (\<lambda>az.
     rd_bind (decode_quantity ops) (\<lambda>el.
     rd_return \<lparr>sv_key = k, snr = to_float s, has_almanac_data = al, has_ephimeris_data = ep,
        used_in_fix = fx, azimuth = az, elevation = el\<rparr>)))))))"

definition in_structure :: "'r reader_ops \<Rightarrow> ('a, 'r) reader \<Rightarrow> ('a, 'r) reader" where
  "in_structure ops dec =
     (\<lambda>r. case pop_structure ops r of Inl e \<Rightarrow> Inl e
        | Inr (sub, r') \<Rightarrow> (case dec sub of Inl e \<Rightarrow> Inl e | Inr (x, _) \<Rightarrow> Inr (x, r')))"

definition decode_space_vehicle :: "(double \<Rightarrow> double) \<Rightarrow> 'r reader_ops \<Rightarrow> (space_vehicle, 'r) reader" where
  "decode_space_vehicle to_float ops = in_structure ops (decode_space_vehicle_fields to_float ops)"

text \<open>
  The type signatures. \<open>float_sig\<close> is the library's signature of \<open>float\<close>.
\<close>

definition sv_key_signature :: string where
  "sv_key_signature = ''u'' @ ''u''"

definition space_vehicle_signature :: "string \<Rightarrow> string" where
  "space_vehicle_signature float_sig =
     ''('' @ sv_key_signature @ float_sig @ ''b'' @ ''b'' @ ''b'' @ ''d'' @ ''d'' @ '')''"

definition visible_signature :: "string \<Rightarrow> string" where
  "visible_signature float_sig = ''a'' @ space_vehicle_signature float_sig"

definition encode_visible :: "string \<Rightarrow> visible_vehicles \<Rightarrow> wire list" where
  "encode_visible float_sig m =
     [W_array (space_vehicle_signature float_sig) (concat (map (\<lambda>(k, sv). encode_space_vehicle sv) m))]"

text \<open>The loop over the array; \<open>None\<close> when the bound on the iterations is used up.\<close>

fun decode_vehicles :: "(double \<Rightarrow> double) \<Rightarrow> 'r reader_ops \<Rightarrow> nat \<Rightarrow> 'r \<Rightarrow> visible_vehicles \<Rightarrow>
    visible_vehicles result option" where
  "decode_vehicles to_float ops 0 sub out = None"
| "decode_vehicles to_float ops (Suc n) sub out =
     (if at_end ops sub then Some (Inr out)
      else case decode_space_vehicle to_float ops sub of
             Inl e \<Rightarrow> Some (Inl e)
           | Inr (sv, sub') \<Rightarrow> decode_vehicles to_float ops n sub' (map_insert sv_key_lt (sv_key sv) sv out))"

definition decode_visible :: "(double \<Rightarrow> double) \<Rightarrow> 'r reader_ops \<Rightarrow> nat \<Rightarrow> 'r \<Rightarrow> visible_vehicles \<Rightarrow>
    (visible_vehicles \<times> 'r) result option" where
  "decode_visible to_float ops n r out =
     (case pop_array ops r of
        Inl e \<Rightarrow> Some (Inl e)
      | Inr (sub, r') \<Rightarrow>
          (case decode_vehicles to_float ops n sub out of
             None \<Rightarrow> None
           | Some (Inl e) \<Rightarrow> Some (Inl e)
           | Some (Inr m) \<Rightarrow> Some (Inr (m, r'))))"

section \<open>Criteria, flags, states, updates\<close>

definition encode_criteria :: "criteria \<Rightarrow> wire list" where
  "encode_criteria c =
     [W_boolean (requires_position c)] @ [W_boolean (requires_altitude c)] @
     [W_boolean (requires_heading c)] @ [W_boolean (requires_velocity c)] @
     encode_quantity (accuracy_horizontal c) @ encode_optional encode_quantity (accuracy_vertical c) @
     encode_optional encode_quantity (accuracy_velocity c) @ encode_optional encode_quantity (accuracy_heading c)"

definition decode_criteria :: "'r reader_ops \<Rightarrow> (criteria, 'r) reader" where
  "decode_criteria ops =
     rd_bind (pop_boolean ops) (\<lambda>p.
     rd_bind (pop_boolean ops) (\<lambda>a.
     rd_bind (pop_boolean ops) (\<lambda>h.
     rd_bind (pop_boolean ops) (\<lambda>v.
     rd_bind (decode_quantity ops) (\<lambda>hor.
     rd_bind (decode_optional ops (decode_quantity ops)) (\<lambda>ver.
     rd_bind (decode_optional ops (decode_quantity ops)) (\<lambda>vel.
     rd_bind (decode_optional ops (decode_quantity ops)) (\<lambda>hdg.
     rd_return \<lparr>requires_position = p, requires_altitude = a, requires_velocity = v, requires_heading = h,
        accuracy_horizontal = hor, accuracy_vertical = ver, accuracy_velocity = vel, accuracy_heading = hdg\<rparr>))))))))"

definition encode_features :: "flags \<Rightarrow> wire list" where
  "encode_features f = [W_int32 (ucast f)]"

definition decode_features :: "'r reader_ops \<Rightarrow> (flags, 'r) reader" where
  "decode_features ops = rd_bind (pop_int32 ops) (\<lambda>i. rd_return (scast i))"

definition encode_requirements :: "flags \<Rightarrow> wire list" where
  "encode_requirements f = [W_int32 (ucast f)]"

definition decode_requirements :: "'r reader_ops \<Rightarrow> (flags, 'r) reader" where
  "decode_requirements ops = rd_bind (pop_int32 ops) (\<lambda>i. rd_return (scast i))"

fun wifi_value :: "wifi_state \<Rightarrow> 32 word" where
  "wifi_value wifi_on = 0"
| "wifi_value wifi_off = 1"

definition encode_wifi :: "32 word \<Rightarrow> wire list" where
  "encode_wifi v = [W_int32 v]"

definition decode_wifi :: "'r reader_ops \<Rightarrow> (32 word, 'r) reader" where
  "decode_wifi ops = pop_int32 ops"

definition encode_service_state :: "service_state \<Rightarrow> wire list result" where
  "encode_service_state st = (case print_service_state st of Inl e \<Rightarrow> Inl e | Inr s \<Rightarrow> Inr [W_string s])"

definition decode_service_state :: "'r reader_ops \<Rightarrow> (service_state, 'r) reader" where
  "decode_service_state ops =
     rd_bind (pop_string ops) (\<lambda>s r. case read_service_state s of Inl e \<Rightarrow> Inl e | Inr (st, _) \<Rightarrow> Inr (st, r))"

definition encode_update :: "('a \<Rightarrow> wire list) \<Rightarrow> 'a update \<Rightarrow> wire list" where
  "encode_update enc u = enc (update_value u) @ [W_int64 (word_of_int (update_when u))]"

definition decode_update :: "'r reader_ops \<Rightarrow> ('a, 'r) reader \<Rightarrow> ('a update, 'r) reader" where
  "decode_update ops dec =
     rd_bind dec (\<lambda>v. rd_bind (pop_int64 ops) (\<lambda>t. rd_return \<lparr>update_value = v, update_when = sint t\<rparr>))"

definition update_signature :: "string \<Rightarrow> string" where
  "update_signature value_sig = value_sig @ ''t''"

section \<open>The contract of a codec\<close>

definition decodes ::
    "(wire list \<Rightarrow> 'r \<Rightarrow> bool) \<Rightarrow> ('a, 'r) reader \<Rightarrow> wire list \<Rightarrow> 'a \<Rightarrow> bool" where
  "decodes reads m ws x \<longleftrightarrow>
     (\<forall>rest r. reads (ws @ rest) r \<longrightarrow> (\<exists>r'. m r = Inr (x, r') \<and> reads rest r'))"

named_theorems pops \<open>what one pop gives\<close>

lemma decodes_pop [pops]:
  assumes "reader_laws ops reads"
  shows "decodes reads (pop_boolean ops) [W_boolean b] b"
    and "decodes reads (pop_int32 ops) [W_int32 i] i"
    and "decodes reads (pop_uint32 ops) [W_uint32 i] i"
    and "decodes reads (pop_int64 ops) [W_int64 t] t"
    and "decodes reads (pop_floating_point ops) [W_floating_point x] x"
    and "decodes reads (pop_string ops) [W_string s] s"
  using assms by (simp_all add: reader_laws_def decodes_def)

lemma decodes_return: "decodes reads (rd_return x) [] x"
  by (simp add: decodes_def rd_return_def)

lemma decodes_bind:
  assumes "decodes reads m ws x" "decodes reads (k x) vs y"
  shows "decodes reads (rd_bind m k) (ws @ vs) y"
  unfolding decodes_def rd_bind_def
proof (intro allI impI)
  fix rest r
  assume "reads ((ws @ vs) @ rest) r"
  with assms(1) obtain r' where "m r = Inr (x, r')" "reads (vs @ rest) r'"
    unfolding decodes_def by (metis append.assoc)
  with assms(2) show "\<exists>r''. (case m r of Inl e \<Rightarrow> Inl e | Inr (x, r') \<Rightarrow> k x r') = Inr (y, r'') \<and> reads rest r''"
    unfolding decodes_def by simp
qed

lemma decodes_last:
  "decodes reads m ws x \<Longrightarrow> f x = y \<Longrightarrow> decodes reads (rd_bind m (\<lambda>x. rd_return (f x))) ws y"
  using decodes_bind [OF _ decodes_return, of reads m ws x f] by simp

lemma reader_sub:
  assumes "reader_laws ops reads"
  shows "reads (W_structure vs # ws) r \<Longrightarrow>
      \<exists>sub r'. pop_structure ops r = Inr (sub, r') \<and> reads vs sub \<and> reads ws r'"
    and "reads (W_array sig vs # ws) r \<Longrightarrow>
      \<exists>sub r'. pop_array ops r = Inr (sub, r') \<and> reads vs sub \<and> reads ws r'"
    and "reads ws r \<Longrightarrow> at_end ops r = (ws = [])"
  using assms by (simp_all add: reader_laws_def)

lemma decodes_structure:
  assumes laws: "reader_laws ops reads" and m: "decodes reads m vs x"
  shows "decodes reads (in_structure ops m) [W_structure vs] x"
  unfolding decodes_def in_structure_def
proof (intro allI impI)
  fix rest r
  assume "reads ([W_structure vs] @ rest) r"
  with reader_sub(1) [OF laws] obtain sub r' where
    "pop_structure ops r = Inr (sub, r')" "reads (vs @ []) sub" "reads rest r'"
    by fastforce
  with m show "\<exists>r''. (case pop_structure ops r of Inl e \<Rightarrow> Inl e
      | Inr (sub, r') \<Rightarrow> (case m sub of Inl e \<Rightarrow> Inl e | Inr (x, _) \<Rightarrow> Inr (x, r'))) = Inr (x, r'') \<and> reads rest r''"
    unfolding decodes_def by fastforce
qed

locale codec =
  fixes enc :: "'a \<Rightarrow> wire list"
    and dec :: "'r reader_ops \<Rightarrow> ('a, 'r) reader"
    and valid :: "'a \<Rightarrow> bool"
  assumes decode_encode: "reader_laws ops reads \<Longrightarrow> valid x \<Longrightarrow> decodes reads (dec ops) (enc x) x"
begin

lemma roundtrip:
  "reader_laws ops reads \<Longrightarrow> valid x \<Longrightarrow> reads (enc x @ rest) r \<Longrightarrow>
     \<exists>r'. dec ops r = Inr (x, r') \<and> reads rest r'"
  using decode_encode unfolding decodes_def by blast

lemma optional_codec: "codec (encode_optional enc) (\<lambda>ops. decode_optional ops (dec ops)) (pred_option valid)"
proof
  fix ops :: "'r reader_ops" and reads x
  assume laws: "reader_laws ops reads" and v: "pred_option valid x"
  show "decodes reads (decode_optional ops (dec ops)) (encode_optional enc x) x"
  proof (cases x)
    case None
    have "decodes reads (decode_optional ops (dec ops)) ([W_boolean False] @ []) None"
      unfolding decode_optional_def by (rule decodes_bind [OF decodes_pop(1) [OF laws]]) (simp add: decodes_return)
    with None show ?thesis by (simp add: encode_optional_def)
  next
    case (Some y)
    with v have "decodes reads (dec ops) (enc y) y" by (simp add: decode_encode [OF laws])
    then have "decodes reads (decode_optional ops (dec ops)) ([W_boolean True] @ enc y) (Some y)"
      unfolding decode_optional_def
      by (intro decodes_bind [OF decodes_pop(1) [OF laws]]) (simp add: decodes_last)
    with Some show ?thesis by (simp add: encode_optional_def)
  qed
qed

lemma update_codec:
  "codec (encode_update enc) (\<lambda>ops. decode_update ops (dec ops))
     (\<lambda>u. valid (update_value u) \<and> - (2 ^ 63) \<le> update_when u \<and> update_when u < 2 ^ 63)"
proof
  fix ops :: "'r reader_ops" and reads and u :: "'a update"
  assume laws: "reader_laws ops reads"
    and v: "valid (update_value u) \<and> - (2 ^ 63) \<le> update_when u \<and> update_when u < 2 ^ 63"
  have "sint (word_of_int (update_when u) :: 64 word) = update_when u"
    using v by (simp add: sint_sbintrunc' signed_take_bit_int_eq_self)
  with v show "decodes reads (decode_update ops (dec ops)) (encode_update enc u) u"
    unfolding decode_update_def encode_update_def
    by (intro decodes_bind [OF decode_encode [OF laws]] decodes_last [OF decodes_pop(4) [OF laws]]) simp_all
qed

end

section \<open>The codecs satisfy it\<close>

interpretation quantity: codec encode_quantity decode_quantity "\<lambda>_. True"
  by unfold_locales (simp add: encode_quantity_def decode_quantity_def decodes_pop)

interpretation coordinate: codec encode_coordinate decode_coordinate "\<lambda>_. True"
  by unfold_locales (simp add: encode_coordinate_def decode_coordinate_def quantity.decode_encode)

interpretation optional_quantity: codec "encode_optional encode_quantity"
    "\<lambda>ops. decode_optional ops (decode_quantity ops)" "pred_option (\<lambda>_. True)"
  by (rule quantity.optional_codec)

interpretation optional_coordinate: codec "encode_optional encode_coordinate"
    "\<lambda>ops. decode_optional ops (decode_coordinate ops)" "pred_option (\<lambda>_. True)"
  by (rule coordinate.optional_codec)

lemma opt_valid [simp]: "pred_option (\<lambda>_. True) x"
  by (cases x) simp_all

lemmas codec_rules = quantity.decode_encode coordinate.decode_encode optional_quantity.decode_encode
  optional_coordinate.decode_encode decodes_pop

interpretation position: codec encode_position decode_position "\<lambda>_. True"
  by unfold_locales
    (unfold encode_position_def decode_position_def, (rule decodes_bind decodes_last codec_rules | assumption | simp)+)

interpretation sv_key: codec encode_sv_key decode_sv_key "\<lambda>_. True"
proof
  fix ops :: "'a reader_ops" and reads and k :: sv_key
  assume laws: "reader_laws ops reads"
  have "decodes reads (decode_sv_key ops) ([W_uint32 (key_type k)] @ [W_uint32 (key_id k)]) k"
    unfolding decode_sv_key_def
    by (intro decodes_bind [OF decodes_pop(3) [OF laws]] decodes_last [OF decodes_pop(3) [OF laws]]) simp
  then show "decodes reads (decode_sv_key ops) (encode_sv_key k) k"
    by (simp add: encode_sv_key_def)
qed

text \<open>The signal to noise ratio of a vehicle has to be a \<open>float\<close> for the rounding to be harmless.\<close>

lemma space_vehicle_codec:
  "codec encode_space_vehicle (decode_space_vehicle to_float) (\<lambda>sv. to_float (snr sv) = snr sv)"
  by unfold_locales
    (unfold encode_space_vehicle_def decode_space_vehicle_def decode_space_vehicle_fields_def,
      (rule decodes_structure decodes_bind decodes_last codec_rules sv_key.decode_encode | assumption | simp)+)

interpretation criteria: codec encode_criteria decode_criteria "\<lambda>_. True"
  by unfold_locales
    (unfold encode_criteria_def decode_criteria_def, (rule decodes_bind decodes_last codec_rules | assumption | simp)+)

interpretation wifi: codec encode_wifi decode_wifi "\<lambda>_. True"
  by unfold_locales (simp add: encode_wifi_def decode_wifi_def decodes_pop)

interpretation position_update: codec "encode_update encode_position"
    "\<lambda>ops. decode_update ops (decode_position ops)"
    "\<lambda>u. True \<and> - (2 ^ 63) \<le> update_when u \<and> update_when u < 2 ^ 63"
  by (rule position.update_codec)

interpretation quantity_update: codec "encode_update encode_quantity"
    "\<lambda>ops. decode_update ops (decode_quantity ops)"
    "\<lambda>u. True \<and> - (2 ^ 63) \<le> update_when u \<and> update_when u < 2 ^ 63"
  by (rule quantity.update_codec)

text \<open>A service state travels by name; the name tables agree, so it is read back.\<close>

lemma encode_service_state_name: "encode_service_state st = Inr [W_string (service_state_name st)]"
  by (cases st) (simp_all add: encode_service_state_def service_state_name_def)

interpretation service_state_codec: codec "\<lambda>st. [W_string (service_state_name st)]" decode_service_state "\<lambda>_. True"
proof
  fix ops :: "'a reader_ops" and reads and st :: service_state
  assume laws: "reader_laws ops reads"
  have "decodes reads (decode_service_state ops) ([W_string (service_state_name st)] @ []) st"
    unfolding decode_service_state_def
    by (rule decodes_bind [OF decodes_pop(6) [OF laws]]) (simp add: decodes_def service_state.rd_pr_all)
  then show "decodes reads (decode_service_state ops) [W_string (service_state_name st)] st" by simp
qed

section \<open>Round trips\<close>

text \<open>The laws hold for a reader that is the list of the values still to be read.\<close>

definition list_reader :: "wire list reader_ops" where
  "list_reader =
     \<lparr>pop_boolean = (\<lambda>r. case r of W_boolean b # ws \<Rightarrow> Inr (b, ws) | _ \<Rightarrow> Inl (runtime_error ''type'')),
      pop_int32 = (\<lambda>r. case r of W_int32 i # ws \<Rightarrow> Inr (i, ws) | _ \<Rightarrow> Inl (runtime_error ''type'')),
      pop_uint32 = (\<lambda>r. case r of W_uint32 i # ws \<Rightarrow> Inr (i, ws) | _ \<Rightarrow> Inl (runtime_error ''type'')),
      pop_int64 = (\<lambda>r. case r of W_int64 i # ws \<Rightarrow> Inr (i, ws) | _ \<Rightarrow> Inl (runtime_error ''type'')),
      pop_floating_point = (\<lambda>r. case r of W_floating_point x # ws \<Rightarrow> Inr (x, ws) | _ \<Rightarrow> Inl (runtime_error ''type'')),
      pop_string = (\<lambda>r. case r of W_string s # ws \<Rightarrow> Inr (s, ws) | _ \<Rightarrow> Inl (runtime_error ''type'')),
      pop_structure = (\<lambda>r. case r of W_structure vs # ws \<Rightarrow> Inr (vs, ws) | _ \<Rightarrow> Inl (runtime_error ''type'')),
      pop_array = (\<lambda>r. case r of W_array sig vs # ws \<Rightarrow> Inr (vs, ws) | _ \<Rightarrow> Inl (runtime_error ''type'')),
      at_end = (\<lambda>r. r = [])\<rparr>"

lemma list_reader_laws [simp]: "reader_laws list_reader (=)"
  by (simp add: reader_laws_def list_reader_def)

text \<open>
  C16. A position update that is encoded and then decoded is the same update, for every position
  and every timestamp of 64 bits, and the reader stands behind it.
\<close>

theorem position_update_roundtrip:
  assumes "reader_laws ops reads" "- (2 ^ 63) \<le> update_when u" "update_when u < 2 ^ 63"
    and "reads (encode_update encode_position u @ rest) r"
  shows "\<exists>r'. decode_update ops (decode_position ops) r = Inr (u, r') \<and> reads rest r'"
  using position_update.roundtrip [OF assms(1) _ assms(4)] assms(2,3) by blast

theorem position_update_roundtrip_witness:
  "\<exists>r'. decode_update list_reader (decode_position list_reader)
     (encode_update encode_position (make_update (position_hor (Fin 9) (Fin 53) (Fin 2) (Fin 10)) 7))
   = Inr (make_update (position_hor (Fin 9) (Fin 53) (Fin 2) (Fin 10)) 7, r')"
  using position_update_roundtrip [of list_reader "(=)" "make_update (position_hor (Fin 9) (Fin 53) (Fin 2) (Fin 10)) 7" "[]"]
  by (simp add: make_update_def)

text \<open>
  Criteria that are encoded and then decoded are the same criteria.
\<close>

theorem criteria_roundtrip:
  assumes "reader_laws ops reads" and "reads (encode_criteria c @ rest) r"
  shows "\<exists>r'. decode_criteria ops r = Inr (c, r') \<and> reads rest r'"
  using criteria.roundtrip [OF assms(1) TrueI assms(2)] .

theorem criteria_roundtrip_witness:
  "\<exists>r'. decode_criteria list_reader (encode_criteria criteria_default) = Inr (criteria_default, r')"
  using criteria_roundtrip [of list_reader "(=)" criteria_default "[]"] by simp

text \<open>Flags survive the cast to 32 bits and back as long as the sign bit is clear.\<close>

lemma flags_cast_roundtrip:
  assumes "f < 2 ^ 31"
  shows "scast (ucast f :: 32 word) = (f :: flags)"
proof -
  have "uint f < 2 ^ 31"
    using assms by (simp add: word_less_def)
  moreover from this have "signed_take_bit 31 (uint f) = uint f"
    by (intro signed_take_bit_int_eq_self) (simp_all add: order.trans [of _ 0])
  ultimately have "sint (ucast f :: 32 word) = uint f"
    by (simp add: sint_uint unsigned_ucast_eq take_bit_int_eq_self)
  then show ?thesis
    by (metis scast_eq word_of_int_uint)
qed

interpretation features: codec encode_features decode_features "\<lambda>f. f < 2 ^ 31"
  by unfold_locales
    (unfold encode_features_def decode_features_def, rule decodes_last, erule decodes_pop, erule flags_cast_roundtrip)

interpretation requirements: codec encode_requirements decode_requirements "\<lambda>f. f < 2 ^ 31"
  by unfold_locales
    (unfold encode_requirements_def decode_requirements_def, rule decodes_last, erule decodes_pop,
      erule flags_cast_roundtrip)

text \<open>
  The features and requirements of a provider survive the trip for all combinations of the
  declared flags, and so does the reporting state.
\<close>

theorem provider_flags_roundtrip:
  assumes "reader_laws ops reads" "f < 2 ^ 31" "q < 2 ^ 31"
    and "reads (encode_features f @ encode_requirements q @ encode_wifi (wifi_value st) @ rest) r"
  shows "\<exists>r'. rd_bind (decode_features ops) (\<lambda>f. rd_bind (decode_requirements ops) (\<lambda>q.
      rd_bind (decode_wifi ops) (\<lambda>v. rd_return (f, q, v)))) r = Inr ((f, q, wifi_value st), r') \<and> reads rest r'"
proof -
  have "decodes reads (rd_bind (decode_features ops) (\<lambda>f. rd_bind (decode_requirements ops) (\<lambda>q.
      rd_bind (decode_wifi ops) (\<lambda>v. rd_return (f, q, v)))))
      (encode_features f @ encode_requirements q @ encode_wifi (wifi_value st)) (f, q, wifi_value st)"
    using assms(1-3)
    by (intro decodes_bind [OF features.decode_encode] decodes_bind [OF requirements.decode_encode]
        decodes_last [OF wifi.decode_encode]) simp_all
  with assms(4) show ?thesis unfolding decodes_def by simp
qed

theorem provider_flags_roundtrip_witness:
  "\<exists>r'. rd_bind (decode_features list_reader) (\<lambda>f. rd_bind (decode_requirements list_reader) (\<lambda>q.
      rd_bind (decode_wifi list_reader) (\<lambda>v. rd_return (f, q, v))))
     (encode_features 7 @ encode_requirements 15 @ encode_wifi (wifi_value wifi_off)) = Inr ((7, 15, 1), r')"
  using provider_flags_roundtrip [of list_reader "(=)" 7 15 wifi_off "[]"] by simp

lemma decode_vehicles_append:
  assumes laws: "reader_laws ops reads"
    and m: "map_sorted sv_key_lt (out @ m)" "keys_agree m" "\<forall>(k, sv) \<in> set m. to_float (snr sv) = snr sv"
    and fuel: "length m < n"
    and sub: "reads (concat (map (\<lambda>(k, sv). encode_space_vehicle sv) m)) sub"
  shows "decode_vehicles to_float ops n sub out = Some (Inr (out @ m))"
  using m fuel sub
proof (induction m arbitrary: out n sub)
  case Nil
  then show ?case using reader_sub(3) [OF laws Nil.prems(5)] by (cases n) auto
next
  case (Cons e m)
  obtain k sv where e: "e = (k, sv)" by force
  obtain n' where n: "n = Suc n'" using Cons.prems(4) by (cases n) auto
  have sv: "sv_key sv = k" "to_float (snr sv) = snr sv" using Cons.prems(2,3) e by (auto simp: keys_agree_def)
  have "decodes reads (decode_space_vehicle to_float ops) (encode_space_vehicle sv) sv"
    using codec.decode_encode [OF space_vehicle_codec laws, of to_float] sv(2) by blast
  with Cons.prems(5) e obtain sub' where
    sub': "decode_space_vehicle to_float ops sub = Inr (sv, sub')"
      "reads (concat (map (\<lambda>(k, sv). encode_space_vehicle sv) m)) sub'"
    unfolding decodes_def by fastforce
  have "\<not> at_end ops sub"
    using reader_sub(3) [OF laws Cons.prems(5)] e by (simp add: encode_space_vehicle_def)
  moreover have "map_insert sv_key_lt k sv out = out @ [(k, sv)]"
    using Cons.prems(1) e key_order.less_irrefl
    by (intro key_order.map_insert_fresh) (auto simp: map_sorted_def sorted_wrt_append)
  moreover have "decode_vehicles to_float ops n' sub' (out @ [(k, sv)]) = Some (Inr ((out @ [(k, sv)]) @ m))"
    using Cons.prems sub'(2) e n by (intro Cons.IH) (auto simp: keys_agree_def)
  ultimately show ?case using n e sub'(1) sv(1) by simp
qed

text \<open>
  The visible vehicles that are encoded and then decoded into an empty map are the same map:
  the loop over the array ends after as many steps as there are vehicles.
\<close>

theorem visible_vehicles_roundtrip:
  assumes "reader_laws ops reads" and "reads (encode_visible float_sig m @ rest) r"
    and "map_sorted sv_key_lt m" "keys_agree m" "\<forall>(k, sv) \<in> set m. to_float (snr sv) = snr sv" "length m < n"
  shows "\<exists>r'. decode_visible to_float ops n r [] = Some (Inr (m, r')) \<and> reads rest r'"
proof -
  from reader_sub(2) [OF assms(1)] assms(2) obtain sub r' where
    "pop_array ops r = Inr (sub, r')" "reads (concat (map (\<lambda>(k, sv). encode_space_vehicle sv) m)) sub" "reads rest r'"
    unfolding encode_visible_def by fastforce
  then show ?thesis
    using decode_vehicles_append [OF assms(1), of "[]" m to_float n sub] assms(3-6)
    by (simp add: decode_visible_def)
qed

theorem visible_vehicles_roundtrip_witness:
  "\<exists>r'. decode_visible (\<lambda>x. x) list_reader 2 (encode_visible ''d'' [(sv_key_default, space_vehicle_default)]) []
     = Some (Inr ([(sv_key_default, space_vehicle_default)], r'))"
  using visible_vehicles_roundtrip
    [of list_reader "(=)" "''d''" "[(sv_key_default, space_vehicle_default)]" "[]" _ "\<lambda>x. x" 2]
  by (simp add: map_sorted_def keys_agree_def space_vehicle_default_def)

section \<open>Signatures and range checks\<close>

text \<open>The D-Bus type code of a value, as the D-Bus specification gives it.\<close>

fun type_code :: "wire \<Rightarrow> string" where
  "type_code (W_boolean _) = ''b''"
| "type_code (W_int32 _) = ''i''"
| "type_code (W_uint32 _) = ''u''"
| "type_code (W_int64 _) = ''x''"
| "type_code (W_floating_point _) = ''d''"
| "type_code (W_string _) = ''s''"
| "type_code (W_structure vs) = ''('' @ concat (map type_code vs) @ '')''"
| "type_code (W_array sig _) = ''a'' @ sig"

text \<open>
  The declared signatures of a vehicle and of the visible vehicles are the type codes of what
  the encoders push; the declared signature of an update never is: it announces an unsigned
  64-bit timestamp where the encoder pushes a signed one.
\<close>

theorem declared_signatures:
  "concat (map type_code (encode_space_vehicle sv)) = space_vehicle_signature ''d'' \<and>
   concat (map type_code (encode_visible ''d'' m)) = visible_signature ''d'' \<and>
   concat (map type_code (encode_update enc u)) \<noteq> update_signature (concat (map type_code (enc (update_value u))))"
  by (simp add: encode_space_vehicle_def encode_sv_key_def encode_quantity_def space_vehicle_signature_def
      sv_key_signature_def encode_visible_def visible_signature_def encode_update_def update_signature_def)

text \<open>
  Decoding a position does not check its coordinates: every pair of numbers on the wire is
  accepted, also one that the constructor of the coordinate rejects.
\<close>

theorem decode_position_unchecked:
  assumes "check_latitude lat = Inl e"
  shows "\<exists>p r'. decode_position list_reader
      [W_floating_point lat, W_floating_point lon, W_boolean False, W_boolean False, W_boolean False] = Inr (p, r') \<and>
    make_coordinate check_latitude (latitude p) = Inl e"
proof -
  let ?p = "position_lat_lon lat lon"
  have "\<exists>r'. decode_position list_reader (encode_position ?p @ []) = Inr (?p, r') \<and> [] = r'"
    by (rule position.roundtrip [OF list_reader_laws TrueI refl])
  then have "\<exists>r'. decode_position list_reader
      [W_floating_point lat, W_floating_point lon, W_boolean False, W_boolean False, W_boolean False] = Inr (?p, r')"
    by (simp add: encode_position_def encode_coordinate_def encode_quantity_def encode_optional_def
        position_lat_lon_def position_default_def)
  moreover have "make_coordinate check_latitude (latitude ?p) = Inl e"
    using assms by (simp add: make_coordinate_def position_lat_lon_def)
  ultimately show ?thesis by blast
qed

theorem decode_position_unchecked_witness:
  "\<exists>p r'. decode_position list_reader
      [W_floating_point (Fin 1000), W_floating_point (Fin 0), W_boolean False, W_boolean False, W_boolean False] = Inr (p, r') \<and>
    make_coordinate check_latitude (latitude p) = Inl (out_of_range ''Latitude(coordinate.value() > max())'')"
  by (rule decode_position_unchecked) (simp add: check_latitude_def latitude_min_def latitude_max_def)

end
