(* ===== verification/Provider_Selection.thy ===== *)
theory Provider_Selection
  imports Engine_Props Criteria Update_Policy
begin

text \<open>
  Selecting providers for a session (\<open>provider_selection.h\<close>,
  \<open>default_provider_selection_policy.cpp\<close>, \<open>non_selecting_provider_selection_policy.cpp\<close>,
  \<open>fusion_provider_selection_policy.cpp\<close>), the fusion of position updates
  (\<open>fusion_provider.cpp\<close>), the proxy a session uses (\<open>proxy_provider.cpp\<close>,
  \<open>Implementation::create_session_for_criteria\<close>) and the provider factory
  (\<open>provider_factory.cpp\<close>).

  The virtual function \<open>matches_criteria\<close> of a plain provider is the argument \<open>matches\<close>; the
  composite classes forward or always match. A \<open>std::set\<close> of providers is the list of its
  elements in the order of its comparator.
\<close>

section \<open>Selections\<close>

record selection =
  position_updates_provider :: "nat option"
  heading_updates_provider :: "nat option"
  velocity_updates_provider :: "nat option"

definition to_feature_flags :: "selection \<Rightarrow> flags" where
  "to_feature_flags s =
     (let fl = feature_none;
          fl = (if position_updates_provider s \<noteq> None then features_or fl feature_position else fl);
          fl = (if heading_updates_provider s \<noteq> None then features_or fl feature_heading else fl);
          fl = (if velocity_updates_provider s \<noteq> None then features_or fl feature_velocity else fl)
      in fl)"

definition selection_eq :: "selection \<Rightarrow> selection \<Rightarrow> bool" where
  "selection_eq lhs rhs \<longleftrightarrow>
     position_updates_provider lhs = position_updates_provider rhs \<and>
     heading_updates_provider lhs = heading_updates_provider rhs \<and>
     velocity_updates_provider lhs = velocity_updates_provider rhs"

section \<open>The default policy\<close>

definition controller_of :: "'t world \<Rightarrow> nat \<Rightarrow> controller" where
  "controller_of w p = (case objs w p of None \<Rightarrow> new_controller | Some ob \<Rightarrow> prov_controller ob)"

definition matches_criteria :: "(nat \<Rightarrow> criteria \<Rightarrow> bool) \<Rightarrow> 't world \<Rightarrow> criteria \<Rightarrow> nat \<Rightarrow> bool" where
  "matches_criteria matches w c p =
     (case objs w p of
        None \<Rightarrow> False
      | Some ob \<Rightarrow> (case prov_kind ob of
           Null_provider \<Rightarrow> False
         | Leaf \<Rightarrow> matches p c
         | Tracking impl _ \<Rightarrow> matches impl c
         | Fusion _ \<Rightarrow> True
         | Proxy _ _ _ \<Rightarrow> False))"

text \<open>The comparator of the set: a running provider comes before one that is not running.\<close>

definition running_first :: "(nat \<Rightarrow> bool) \<Rightarrow> nat \<Rightarrow> nat \<Rightarrow> bool" where
  "running_first runs lhs rhs \<longleftrightarrow> runs lhs \<and> \<not> runs rhs"

fun insert_matching :: "('a \<Rightarrow> 'a \<Rightarrow> bool) \<Rightarrow> ('a \<Rightarrow> bool) \<Rightarrow> 'a list \<Rightarrow> 'a list \<Rightarrow> 'a list" where
  "insert_matching lt ok [] s = s"
| "insert_matching lt ok (p # ps) s = insert_matching lt ok ps (if ok p then set_insert lt p s else s)"

definition determine_position_updates_provider ::
    "(nat \<Rightarrow> criteria \<Rightarrow> bool) \<Rightarrow> nat \<Rightarrow> criteria \<Rightarrow> 't world \<Rightarrow> nat" where
  "determine_position_updates_provider matches null_provider c w =
     (case insert_matching (running_first (\<lambda>p. are_position_updates_running (controller_of w p)))
             (matches_criteria matches w c) (providers w) [] of
        [] \<Rightarrow> null_provider | p # _ \<Rightarrow> p)"

definition determine_heading_updates_provider ::
    "(nat \<Rightarrow> criteria \<Rightarrow> bool) \<Rightarrow> nat \<Rightarrow> criteria \<Rightarrow> 't world \<Rightarrow> nat" where
  "determine_heading_updates_provider matches null_provider c w =
     (case insert_matching (running_first (\<lambda>p. are_heading_updates_running (controller_of w p)))
             (matches_criteria matches w c) (providers w) [] of
        [] \<Rightarrow> null_provider | p # _ \<Rightarrow> p)"

definition determine_velocity_updates_provider ::
    "(nat \<Rightarrow> criteria \<Rightarrow> bool) \<Rightarrow> nat \<Rightarrow> criteria \<Rightarrow> 't world \<Rightarrow> nat" where
  "determine_velocity_updates_provider matches null_provider c w =
     (case insert_matching (running_first (\<lambda>p. are_velocity_updates_running (controller_of w p)))
             (matches_criteria matches w c) (providers w) [] of
        [] \<Rightarrow> null_provider | p # _ \<Rightarrow> p)"

definition default_selection ::
    "(nat \<Rightarrow> criteria \<Rightarrow> bool) \<Rightarrow> nat \<Rightarrow> criteria \<Rightarrow> 't world \<Rightarrow> selection" where
  "default_selection matches null_provider c w =
     \<lparr>position_updates_provider = Some (determine_position_updates_provider matches null_provider c w),
      heading_updates_provider = Some (determine_heading_updates_provider matches null_provider c w),
      velocity_updates_provider = Some (determine_velocity_updates_provider matches null_provider c w)\<rparr>"

section \<open>The policies that fuse all providers\<close>

definition all_features :: flags where
  "all_features = features_or (features_or feature_position feature_heading) feature_velocity"

definition all_requirements :: flags where
  "all_requirements =
     requirements_or (requirements_or (requirements_or requirement_cell_network requirement_data_network)
       requirement_monetary_spending) requirement_satellites"

text \<open>Both policies put all providers in a bag; they differ in the selector of the fusion provider.\<close>

definition bag_of :: "'t platform \<Rightarrow> 't world \<Rightarrow> nat list" where
  "bag_of pf w = insert_matching (addr_less pf) (\<lambda>_. True) (providers w) []"

definition new_fusion_provider :: "nat list \<Rightarrow> 't world \<Rightarrow> nat \<times> 't world" where
  "new_fusion_provider ps w = new_object (Fusion ps) all_features all_requirements w"

definition non_selecting_selection :: "'t platform \<Rightarrow> 't world \<Rightarrow> selection \<times> 't world" where
  "non_selecting_selection pf w =
     (case new_fusion_provider (bag_of pf w) w of
        (bag_of_providers, w') \<Rightarrow>
          (\<lparr>position_updates_provider = Some bag_of_providers,
            heading_updates_provider = Some bag_of_providers,
            velocity_updates_provider = Some bag_of_providers\<rparr>, w'))"

definition fusion_selection :: "'t platform \<Rightarrow> 't world \<Rightarrow> selection \<times> 't world" where
  "fusion_selection pf w =
     (case new_fusion_provider (bag_of pf w) w of
        (fusion_providers, w') \<Rightarrow>
          (\<lparr>position_updates_provider = Some fusion_providers,
            heading_updates_provider = Some fusion_providers,
            velocity_updates_provider = Some fusion_providers\<rparr>, w'))"

text \<open>The slot of the fusion provider on the position updates of one of its providers.\<close>

definition fusion_on_position ::
    "(sourced_update \<Rightarrow> sourced_update \<Rightarrow> sourced_update) \<Rightarrow> nat \<Rightarrow> position update \<Rightarrow>
     sourced_update option \<Rightarrow> position update \<times> sourced_update option" where
  "fusion_on_position select provider u last_position =
     (let new = \<lparr>source = provider, sourced = u\<rparr>
      in case last_position of
           None \<Rightarrow> (u, Some new)
         | Some l \<Rightarrow> (let s = select l new in (sourced s, Some s)))"

section \<open>The proxy of a session\<close>

definition new_proxy_provider :: "selection \<Rightarrow> 't world \<Rightarrow> (nat \<times> 't world) option" where
  "new_proxy_provider s w =
     (case (position_updates_provider s, heading_updates_provider s, velocity_updates_provider s) of
        (Some p, Some h, Some v) \<Rightarrow> Some (new_object (Proxy p h v) (to_feature_flags s) requirement_none w)
      | _ \<Rightarrow> None)"

definition create_session_for_criteria ::
    "('t world \<Rightarrow> selection \<times> 't world) \<Rightarrow> 't world \<Rightarrow> (nat \<times> 't world) option" where
  "create_session_for_criteria policy w = (case policy w of (s, w') \<Rightarrow> new_proxy_provider s w')"

section \<open>The provider factory\<close>

type_synonym 'f factory_store = "(string \<times> 'f) list"

definition extract_undecorated_name :: "string \<Rightarrow> string" where
  "extract_undecorated_name name = takeWhile (\<lambda>c. c \<noteq> CHR ''@'') name"

definition add_factory_for_name :: "string \<Rightarrow> 'f \<Rightarrow> 'f factory_store \<Rightarrow> 'f factory_store" where
  "add_factory_for_name name factory store = map_put string_lt name factory store"

text \<open>The overload with a callback passes the same value to it, and does not call it for \<open>None\<close>.\<close>

definition create_provider_for_name_with_config ::
    "string \<Rightarrow> 'c \<Rightarrow> ('c \<Rightarrow> 'p) factory_store \<Rightarrow> 'p option" where
  "create_provider_for_name_with_config name config store =
     map_option (\<lambda>factory. factory config) (map_find string_lt (extract_undecorated_name name) store)"

definition enumerate_factories :: "(string \<Rightarrow> 'f \<Rightarrow> 's \<Rightarrow> 's) \<Rightarrow> 'f factory_store \<Rightarrow> 's \<Rightarrow> 's" where
  "enumerate_factories enumerator store s = fold (\<lambda>(name, factory). enumerator name factory) store s"

section \<open>The default policy prefers a running provider\<close>

interpretation running_order: weak_order "running_first runs" for runs
  by (unfold_locales; unfold running_first_def; blast)

text \<open>What the first element of the set becomes when the providers \<open>ps\<close> are inserted.\<close>

fun first_running :: "(nat \<Rightarrow> bool) \<Rightarrow> (nat \<Rightarrow> bool) \<Rightarrow> nat list \<Rightarrow> nat option \<Rightarrow> nat option" where
  "first_running runs ok [] f = f"
| "first_running runs ok (p # ps) f =
     first_running runs ok ps
       (if ok p \<and> (case f of None \<Rightarrow> True | Some q \<Rightarrow> runs p \<and> \<not> runs q) then Some p else f)"

fun head :: "'a list \<Rightarrow> 'a option" where
  "head [] = None"
| "head (x # xs) = Some x"

lemma head_set_insert:
  "head (set_insert (running_first runs) p s) =
     (if case head s of None \<Rightarrow> True | Some q \<Rightarrow> runs p \<and> \<not> runs q then Some p else head s)"
  by (cases s) (auto simp: running_first_def)

lemma insert_matching_head:
  "head (insert_matching (running_first runs) ok ps s) = first_running runs ok ps (head s)"
  by (induction ps arbitrary: s) (simp_all add: head_set_insert)

lemma first_running_Some:
  "first_running runs ok ps (Some q) =
     Some (if runs q then q else case filter (\<lambda>p. ok p \<and> runs p) ps of p # _ \<Rightarrow> p | [] \<Rightarrow> q)"
  by (induction ps arbitrary: q) auto

lemma first_running_None:
  "first_running runs ok ps None =
     (case filter (\<lambda>p. ok p \<and> runs p) ps of p # _ \<Rightarrow> Some p | [] \<Rightarrow> head (filter ok ps))"
  by (induction ps) (auto simp: first_running_Some split: list.splits)

lemma first_of_matching:
  "(case insert_matching (running_first runs) ok ps [] of [] \<Rightarrow> d | p # _ \<Rightarrow> p) =
   (case filter (\<lambda>p. ok p \<and> runs p) ps of p # _ \<Rightarrow> p
    | [] \<Rightarrow> (case filter ok ps of p # _ \<Rightarrow> p | [] \<Rightarrow> d))"
proof -
  have "(case s of [] \<Rightarrow> d | p # _ \<Rightarrow> p) = (case head s of None \<Rightarrow> d | Some p \<Rightarrow> p)" for s :: "nat list"
    by (cases s) simp_all
  then show ?thesis
    by (simp add: insert_matching_head first_running_None split: list.splits)
qed

text \<open>
  For each channel the default policy selects the first provider of the engine that matches the
  criteria and already runs the channel; when none runs, the first that matches; when none matches,
  the null provider.
\<close>

theorem default_policy_prefers_running:
  "let pick = (\<lambda>runs. case filter (\<lambda>p. matches_criteria matches w c p \<and> runs (controller_of w p)) (providers w) of
         p # _ \<Rightarrow> Some p
       | [] \<Rightarrow> (case filter (matches_criteria matches w c) (providers w) of p # _ \<Rightarrow> Some p | [] \<Rightarrow> Some null))
   in default_selection matches null c w =
     \<lparr>position_updates_provider = pick are_position_updates_running,
      heading_updates_provider = pick are_heading_updates_running,
      velocity_updates_provider = pick are_velocity_updates_running\<rparr>"
  by (auto simp: default_selection_def determine_position_updates_provider_def
      determine_heading_updates_provider_def determine_velocity_updates_provider_def first_of_matching
      split: list.splits)

text \<open>
  A provider created by name is the one of the factory registered last under the part of the
  name before the first \<open>@\<close>; other names are unaffected by a registration.
\<close>

theorem provider_factory_lookup:
  assumes "map_sorted string_lt store"
  shows "create_provider_for_name_with_config n config (add_factory_for_name name factory store) =
      (if extract_undecorated_name n = name then Some (factory config)
       else create_provider_for_name_with_config n config store) \<and>
    map_sorted string_lt (add_factory_for_name name factory store)"
  using assms
  by (simp add: create_provider_for_name_with_config_def add_factory_for_name_def
      string_order.map_find_put string_order.map_put_sorted)

theorem provider_factory_lookup_witness:
  "create_provider_for_name_with_config ''gps::Provider@host'' (3::nat)
     (add_factory_for_name ''gps::Provider'' (\<lambda>n. n + 1) []) = Some 4"
  using provider_factory_lookup [of "[]" "''gps::Provider@host''" "3::nat" "''gps::Provider''" "\<lambda>n. n + 1"]
  by (simp add: map_sorted_def extract_undecorated_name_def)

section \<open>The fused position is recent\<close>

fun fusion_run ::
    "(sourced_update \<Rightarrow> sourced_update \<Rightarrow> sourced_update) \<Rightarrow> (nat \<times> position update) list \<Rightarrow>
     sourced_update option \<Rightarrow> sourced_update option" where
  "fusion_run select [] l = l"
| "fusion_run select ((p, u) # us) l = fusion_run select us (snd (fusion_on_position select p u l))"

lemma fusion_run_snoc:
  "fusion_run select (us @ [(p, u)]) l = snd (fusion_on_position select p u (fusion_run select us l))"
  by (induction us arbitrary: l) auto

lemma select_cases:
  "newer_or_more_accurate_select older newer = newer \<or>
   newer_or_more_accurate_select older newer = older \<and>
     update_when (sourced newer) \<le> update_when (sourced older) + seconds 11"
  by (simp add: newer_or_more_accurate_select_def Let_def)

text \<open>
  Over a chronological sequence of position updates from any providers the fusion provider
  ends with one of the received updates, tagged with its provider, that is at most eleven seconds
  older than the newest of them.
\<close>

theorem fused_position_is_recent:
  assumes "us \<noteq> []" "sorted_wrt (\<lambda>a b. update_when (snd a) \<le> update_when (snd b)) us"
  shows "\<exists>l. fusion_run newer_or_more_accurate_select us None = Some l \<and> (source l, sourced l) \<in> set us \<and>
    list_all (\<lambda>(p, u). update_when u \<le> update_when (sourced l) + seconds 11) us"
  using assms
proof (induction us rule: rev_induct)
  case (snoc x us)
  obtain p u where x: "x = (p, u)" by force
  let ?new = "\<lparr>source = p, sourced = u\<rparr>"
  have s11: "0 \<le> seconds 11" by simp
  have le: "\<forall>y \<in> set us. update_when (snd y) \<le> update_when u"
    using snoc.prems(2) x by (auto simp: sorted_wrt_append)
  show ?case
  proof (cases "us = []")
    case True
    with x s11 show ?thesis by (simp add: fusion_on_position_def)
  next
    case False
    with snoc obtain l where l: "fusion_run newer_or_more_accurate_select us None = Some l"
      "(source l, sourced l) \<in> set us"
      "list_all (\<lambda>(p, u). update_when u \<le> update_when (sourced l) + seconds 11) us"
      by (auto simp: sorted_wrt_append)
    have run: "fusion_run newer_or_more_accurate_select (us @ [x]) None = Some (newer_or_more_accurate_select l ?new)"
      using l(1) x by (simp add: fusion_run_snoc fusion_on_position_def Let_def)
    from select_cases [of l ?new] show ?thesis
    proof
      assume "newer_or_more_accurate_select l ?new = ?new"
      with run x le s11 show ?thesis by (force simp: list_all_iff)
    next
      assume "newer_or_more_accurate_select l ?new = l \<and>
        update_when (sourced ?new) \<le> update_when (sourced l) + seconds 11"
      with run l(2,3) x show ?thesis by auto
    qed
  qed
qed simp

theorem fused_position_is_recent_witness:
  "\<exists>l. fusion_run newer_or_more_accurate_select [(1, example_update 10 0), (2, example_update 30 5)] None = Some l \<and>
     update_when (sourced l) + seconds 11 \<ge> 5"
  using fused_position_is_recent [of "[(1, example_update 10 0), (2, example_update 30 5)]"]
  by (auto simp: example_update_def make_update_def)

section \<open>New objects keep the world well-formed\<close>

definition fresh_world :: "'t world \<Rightarrow> bool" where
  "fresh_world w \<longleftrightarrow> (\<forall>p. objs w p \<noteq> None \<longrightarrow> p < next_addr w)"

definition sound_world :: "'t world \<Rightarrow> bool" where
  "sound_world w \<longleftrightarrow> wf_world w \<and> fresh_world w \<and> engine_inv w \<and> \<not> emitting w"

lemma new_object_kinds:
  assumes "new_object k f r w = (p, w')"
  shows "p = next_addr w" "kinds w' = (kinds w)(next_addr w \<mapsto> (k, f, r))" "providers w' = providers w"
    "engine_state w' = engine_state w" "emitting w' = emitting w" "next_addr w' = Suc (next_addr w)"
    "calls w' = calls w" "objs w' = (objs w)(next_addr w \<mapsto> \<lparr>prov_kind = k, prov_features = f,
        prov_requirements = r, prov_controller = new_controller\<rparr>)"
  using assms by (auto simp: new_object_def kinds_def fun_eq_iff)

lemma wf_world_provider: "wf_world w \<Longrightarrow> p \<in> set (providers w) \<Longrightarrow> objs w p \<noteq> None"
  unfolding wf_world_def kinds_def by fastforce

lemma engine_inv_agree:
  assumes "providers w' = providers w" "engine_state w' = engine_state w"
    and "\<And>p. p \<in> set (providers w) \<Longrightarrow> objs w' p = objs w p"
  shows "engine_inv w' = engine_inv w"
proof -
  have "is_any_active w' = is_any_active w"
    using assms by (simp add: is_any_active_def list_ex_iff is_tracking_active_def)
  moreover have "list_all (disabled_at w') (providers w') = list_all (disabled_at w) (providers w)"
    using assms by (simp add: list_all_iff disabled_at_def)
  ultimately show ?thesis using assms(2) by (simp add: engine_inv_def)
qed

lemma new_object_sound:
  assumes "sound_world w" "new_object k f r w = (p, w')"
    and "\<And>q. q \<in> set (children k) \<Longrightarrow> objs w q \<noteq> None"
  shows "sound_world w' \<and> objs w' p \<noteq> None \<and> p = next_addr w"
proof -
  note n = new_object_kinds [OF assms(2)]
  have fr: "objs w q \<noteq> None \<Longrightarrow> q < next_addr w" for q
    using assms(1) by (simp add: sound_world_def fresh_world_def)
  have "wf_world w'"
    unfolding wf_world_def
  proof (intro conjI allI impI ballI)
    fix q k' f' r' c
    assume k': "kinds w' q = Some (k', f', r')" and c: "c \<in> set (children k')"
    have "c < q \<and> kinds w c \<noteq> None"
    proof (cases "q = next_addr w")
      case True
      with k' n(2) c assms(3) fr show ?thesis by (simp add: kinds_None)
    next
      case False
      with k' n(2) have "kinds w q = Some (k', f', r')" by simp
      with assms(1) c show ?thesis unfolding sound_world_def wf_world_def by blast
    qed
    with n(2) show "c < q" "kinds w' c \<noteq> None" by auto
  next
    fix q assume q: "q \<in> set (providers w')"
    then have "q \<noteq> next_addr w"
      using wf_world_provider [of w q] fr [of q] assms(1) n(3) by (auto simp: sound_world_def)
    with q n(2,3) assms(1) show "\<exists>impl st f r. kinds w' q = Some (Tracking impl st, f, r)"
      by (simp add: sound_world_def wf_world_def)
  qed
  moreover have "fresh_world w'"
    using fr n(6,8) by (auto simp: fresh_world_def less_Suc_eq)
  moreover have "engine_inv w' = engine_inv w"
    using n(3,4,8) wf_world_provider [of w] fr assms(1)
    by (intro engine_inv_agree) (fastforce simp: sound_world_def)+
  ultimately show ?thesis
    using assms(1) n by (simp add: sound_world_def)
qed

lemma insert_matching_set:
  "total_order lt \<Longrightarrow> set (insert_matching lt (\<lambda>_. True) ps s) = set ps \<union> set s"
  by (induction ps arbitrary: s) (auto simp: total_order.set_insert_set)

text \<open>
  C20. A session created with the fusion policy gets a proxy of its own over a fusion of all
  providers of the engine. The world stays well-formed and the engine consistent, and every
  request the session makes on its proxy returns and keeps it so.
\<close>

theorem session_requests_return:
  assumes "change_notified pf" "total_order (addr_less pf)" "sound_world w"
  shows "\<exists>p w'. create_session_for_criteria (fusion_selection pf) w = Some (p, w') \<and>
    sound_world w' \<and> providers w' = providers w \<and>
    (\<exists>f ps. kinds w' p = Some (Proxy f f f, to_feature_flags \<lparr>position_updates_provider = Some f,
         heading_updates_provider = Some f, velocity_updates_provider = Some f\<rparr>, requirement_none) \<and>
       kinds w' f = Some (Fusion ps, all_features, all_requirements) \<and> set ps = set (providers w)) \<and>
    (\<forall>k. \<exists>w''. ctl_call pf (Suc p) k p w' = Inr w'' \<and> wf_world w'' \<and> engine_inv w'')"
proof -
  obtain f w1 where f: "new_object (Fusion (bag_of pf w)) all_features all_requirements w = (f, w1)" by force
  let ?s = "\<lparr>position_updates_provider = Some f, heading_updates_provider = Some f, velocity_updates_provider = Some f\<rparr>"
  obtain p w2 where p: "new_object (Proxy f f f) (to_feature_flags ?s) requirement_none w1 = (p, w2)" by force
  have bag: "set (bag_of pf w) = set (providers w)"
    using insert_matching_set [OF assms(2)] by (simp add: bag_of_def)
  have w1: "sound_world w1 \<and> objs w1 f \<noteq> None \<and> f = next_addr w"
    using new_object_sound [OF assms(3) f] bag wf_world_provider [of w] assms(3) by (auto simp: sound_world_def)
  with new_object_sound [OF _ p, of] have w2: "sound_world w2" "objs w2 p \<noteq> None" by auto
  have "create_session_for_criteria (fusion_selection pf) w = Some (p, w2)"
    using f p by (simp add: create_session_for_criteria_def fusion_selection_def new_fusion_provider_def
        new_proxy_provider_def)
  moreover have "providers w2 = providers w"
    using new_object_kinds(3) [OF f] new_object_kinds(3) [OF p] by simp
  moreover have "kinds w2 p = Some (Proxy f f f, to_feature_flags ?s, requirement_none)"
    "kinds w2 f = Some (Fusion (bag_of pf w), all_features, all_requirements)"
    using new_object_kinds [OF f] new_object_kinds [OF p] by auto
  moreover have "\<exists>w''. ctl_call pf (Suc p) k p w2 = Inr w'' \<and> wf_world w'' \<and> engine_inv w''" for k
    using ctl_call_keeps [of pf w2 w2 p "Suc p" k] w2 assms(1) by (auto simp: sound_world_def good_def kinds_None)
  ultimately show ?thesis using w2(1) bag by blast
qed

lemma demo_world_sound: "sound_world demo_world"
proof -
  have "fresh_world demo_world" by (auto simp: fresh_world_def demo_world_def split: if_splits)
  then show ?thesis by (simp add: sound_world_def)
qed

theorem session_requests_return_witness:
  "\<exists>p w' w''. create_session_for_criteria (fusion_selection demo_platform) demo_world = Some (p, w') \<and>
     ctl_call demo_platform (Suc p) (Start ch_position) p w' = Inr w'' \<and> engine_inv w''"
proof -
  have "total_order (addr_less demo_platform)"
    by (simp add: demo_platform_def addr.total_order_axioms)
  from session_requests_return [OF demo_platform_laws(1) this demo_world_sound] show ?thesis by metis
qed

lemma disable_step:
  assumes "idle_at w p"
  shows "\<exists>w'. (if b then ctl_disable pf fuel p w else Inr w) = Inr w' \<and> idle_at w' p \<and>
    same_but_controllers w w' \<and> (\<forall>q. q \<noteq> p \<longrightarrow> objs w' q = objs w q) \<and> (b \<or> disabled_at w p \<longrightarrow> disabled_at w' p)"
  using assms ctl_disable_idle [OF assms, of pf fuel] upd_controller_disable [OF assms, of p] objs_upd_controller
  by (cases b) (auto simp: same_but_controllers_def)

lemma same_but_controllers_trans:
  "same_but_controllers w w' \<Longrightarrow> same_but_controllers w' w'' \<Longrightarrow> same_but_controllers w w''"
  by (simp add: same_but_controllers_def)

lemma same_but_controllers_sound:
  assumes "sound_world w" "same_but_controllers w w'" "\<And>q. q \<in> set (providers w) \<Longrightarrow> objs w' q = objs w q"
  shows "sound_world w'"
proof -
  have k: "kinds w' = kinds w" "providers w' = providers w"
    using assms(2) by (simp_all add: same_but_controllers_def)
  moreover have "objs w' q = None \<longleftrightarrow> objs w q = None" for q
    using kinds_None [of w' q] kinds_None [of w q] k(1) by metis
  moreover have "engine_inv w' = engine_inv w"
    using assms(2,3) by (intro engine_inv_agree) (auto simp: same_but_controllers_def)
  ultimately show ?thesis
    using assms(1,2) kinds_cong(2) [OF k]
    by (simp add: sound_world_def fresh_world_def same_but_controllers_def)
qed

lemma insert_provider_sound:
  assumes "total_order (addr_less pf)" "sound_world w" "kinds w p = Some (Tracking i tracking_enabled, f, r)"
    and "engine_state w = engine_off \<Longrightarrow> disabled_at w p"
  shows "sound_world (w\<lparr>providers := set_insert (addr_less pf) p (providers w)\<rparr>)"
proof -
  let ?w = "w\<lparr>providers := set_insert (addr_less pf) p (providers w)\<rparr>"
  have prov: "set (providers ?w) = insert p (set (providers w))"
    using total_order.set_insert_set [OF assms(1)] by simp
  have k: "kinds ?w = kinds w" by (simp add: kinds_def)
  have "wf_world ?w"
    using assms(2,3) k prov unfolding sound_world_def wf_world_def by auto
  moreover have "engine_inv ?w"
  proof -
    have "\<not> is_tracking_active w p" using assms(3) by (simp add: is_tracking_active_kinds)
    moreover have "is_tracking_active ?w q = is_tracking_active w q" "disabled_at ?w q = disabled_at w q" for q
      by (simp_all add: is_tracking_active_def disabled_at_def)
    ultimately show ?thesis
      using prov assms(2,4)
      unfolding sound_world_def engine_inv_def is_any_active_def list_ex_iff list_all_iff by auto
  qed
  ultimately show ?thesis
    using assms(2) by (simp add: sound_world_def fresh_world_def)
qed

lemma add_provider_detail:
  assumes "total_order (addr_less pf)" "sound_world w" "objs w i \<noteq> None"
  shows "\<exists>w'. add_provider pf fuel (Some i) w = Inr w' \<and> sound_world w' \<and>
    set (providers w') = insert (next_addr w) (set (providers w)) \<and>
    (engine_state w = engine_off \<longrightarrow> disabled_at w' (next_addr w)) \<and>
    (\<exists>f r. kinds w' (next_addr w) = Some (Tracking i tracking_enabled, f, r)) \<and>
    add_provider pf fuel None w = Inl (Threw (runtime_error ''Cannot add null provider'')) \<and>
    engine_state w' = engine_state w"
proof -
  from assms(3) obtain ob where ob: "objs w i = Some ob" by blast
  let ?k = "Tracking i tracking_enabled" and ?p = "next_addr w"
  obtain w1 where w1: "new_object ?k (prov_features ob) (prov_requirements ob) w = (?p, w1)"
    by (simp add: new_object_def)
  note n = new_object_kinds [OF w1]
  have s1: "sound_world w1" using new_object_sound [OF assms(2) w1] assms(3) by simp
  have np: "?p \<notin> set (providers w)"
    using wf_world_provider [of w ?p] assms(2) by (auto simp: sound_world_def fresh_world_def)
  have "idle_at w1 ?p" by (simp add: idle_at_def n(8) new_controller_def)
  from disable_step [OF this, of "requires_satellites w1 ?p \<and> satellite_based_positioning_state w1 = sat_off" pf fuel]
  obtain w2 where w2: "(if requires_satellites w1 ?p \<and> satellite_based_positioning_state w1 = sat_off
      then ctl_disable pf fuel ?p w1 else Inr w1) = Inr w2" "idle_at w2 ?p" "same_but_controllers w1 w2"
      "\<forall>q. q \<noteq> ?p \<longrightarrow> objs w2 q = objs w1 q"
    by blast
  from disable_step [OF w2(2), of "engine_state w2 = engine_off" pf fuel] obtain w3 where
    w3: "(if engine_state w2 = engine_off then ctl_disable pf fuel ?p w2 else Inr w2) = Inr w3"
      "same_but_controllers w2 w3" "\<forall>q. q \<noteq> ?p \<longrightarrow> objs w3 q = objs w2 q"
      "engine_state w2 = engine_off \<longrightarrow> disabled_at w3 ?p"
    by blast
  note sm = same_but_controllers_trans [OF w2(3) w3(2)]
  have s3: "sound_world w3"
    using np n(3) w2(4) w3(3) by (intro same_but_controllers_sound [OF s1 sm]) metis
  have k3: "kinds w3 ?p = Some (?k, prov_features ob, prov_requirements ob)" "providers w3 = providers w"
    "engine_state w3 = engine_state w" "engine_state w2 = engine_state w"
    using sm w2(3) n by (simp_all add: same_but_controllers_def)
  let ?w = "w3\<lparr>providers := set_insert (addr_less pf) ?p (providers w3)\<rparr>"
  have "sound_world ?w"
    using insert_provider_sound [OF assms(1) s3 k3(1)] w3(4) k3(3,4) by simp
  moreover have "disabled_at ?w ?p = disabled_at w3 ?p" "kinds ?w ?p = kinds w3 ?p"
    by (simp_all add: disabled_at_def kinds_def)
  moreover have "add_provider pf fuel (Some i) w = Inr ?w"
    using ob w1 w2(1) w3(1) by (simp add: add_provider_def)
  ultimately show ?thesis
    using w3(4) k3 total_order.set_insert_set [OF assms(1)] by (simp add: add_provider_def)
qed

lemma add_provider_consistent:
  assumes "total_order (addr_less pf)" "sound_world w" "objs w i \<noteq> None"
  shows "\<exists>w'. add_provider pf fuel (Some i) w = Inr w' \<and> sound_world w' \<and>
    set (providers w') = insert (next_addr w) (set (providers w)) \<and>
    (engine_state w = engine_off \<longrightarrow> disabled_at w' (next_addr w)) \<and>
    (\<exists>f r. kinds w' (next_addr w) = Some (Tracking i tracking_enabled, f, r)) \<and>
    add_provider pf fuel None w = Inl (Threw (runtime_error ''Cannot add null provider''))"
  using add_provider_detail [OF assms, of fuel] by blast

text \<open>
  Adding a provider wraps it in a fresh tracking provider that becomes one of the engine's
  providers. The world stays well-formed and the engine consistent: while the engine is off the
  new provider is disabled from the start. Adding a null provider throws.
\<close>

theorem add_provider_keeps_engine_consistent:
  assumes "total_order (addr_less pf)" "sound_world w" "objs w i \<noteq> None"
  shows "\<exists>w'. add_provider pf fuel (Some i) w = Inr w' \<and> sound_world w' \<and>
    set (providers w') = insert (next_addr w) (set (providers w)) \<and>
    (engine_state w = engine_off \<longrightarrow> disabled_at w' (next_addr w)) \<and>
    (\<exists>f r. kinds w' (next_addr w) = Some (Tracking i tracking_enabled, f, r)) \<and>
    add_provider pf fuel None w = Inl (Threw (runtime_error ''Cannot add null provider''))"
  using assms by (rule add_provider_consistent)

theorem add_provider_keeps_engine_consistent_witness:
  "\<exists>w'. add_provider demo_platform 3 (Some 0) demo_world = Inr w' \<and> sound_world w' \<and> set (providers w') = {1, 2}"
proof -
  have "total_order (addr_less demo_platform)"
    by (simp add: demo_platform_def addr.total_order_axioms)
  moreover have "objs demo_world 0 \<noteq> None" "next_addr demo_world = 2" "set (providers demo_world) = {1}"
    by (simp_all add: demo_world_def)
  ultimately show ?thesis
    using add_provider_keeps_engine_consistent [OF _ demo_world_sound, of demo_platform 0 3] by auto
qed

end
