(* ===== verification/Session.thy ===== *)
theory Session
  imports Provider_Controller Data_Model
begin

text \<open>
  A session: the implementation (\<open>session/implementation.cpp\<close>, \<open>session/interface.h\<close>) and the
  D-Bus skeleton that drives it (\<open>session/skeleton.cpp\<close>).

  The session requests updates from the controller of its provider, the argument \<open>req\<close>: a
  request changes the state \<open>'w\<close> of the provider side and may throw. A status is a
  \<open>core::Property\<close>; \<open>emits old new\<close> says whether an assignment emits its changed signal. A method
  handler returns the reply it sends, or the exception that escapes it. Updates that the session
  reports to the client are the calls on the remote object, in order.
\<close>

section \<open>State\<close>

datatype update_status = updates_enabled | updates_disabled

record session =
  session_position :: "position update"
  session_heading :: "double update"
  session_velocity :: "double update"
  position_status :: update_status
  heading_status :: update_status
  velocity_status :: update_status

type_synonym 'w request = "call \<Rightarrow> 'w \<Rightarrow> exn option \<times> 'w"

definition new_session :: "position update \<Rightarrow> double update \<Rightarrow> double update \<Rightarrow> session" where
  "new_session p h v = \<lparr>session_position = p, session_heading = h, session_velocity = v,
     position_status = updates_disabled, heading_status = updates_disabled, velocity_status = updates_disabled\<rparr>"

section \<open>The implementation\<close>

text \<open>
  The functions that stop updates are \<open>noexcept\<close>: an exception that would leave one ends the process. It is the exception
  \<open>terminated\<close>, which nothing catches.
\<close>

definition terminated :: exn where
  "terminated = logic_error ''std::terminate''"

definition session_start :: "'w request \<Rightarrow> channel \<Rightarrow> 'w \<Rightarrow> exn option \<times> 'w" where
  "session_start req ch w = req (Start ch) w"

definition session_stop :: "'w request \<Rightarrow> channel \<Rightarrow> 'w \<Rightarrow> exn option \<times> 'w" where
  "session_stop req ch w = (case req (Stop ch) w of (e, w') \<Rightarrow> (map_option (\<lambda>_. terminated) e, w'))"

definition on_position_status_changed :: "'w request \<Rightarrow> update_status \<Rightarrow> 'w \<Rightarrow> exn option \<times> 'w" where
  "on_position_status_changed req st w =
     (case st of updates_enabled \<Rightarrow> session_start req ch_position w | updates_disabled \<Rightarrow> session_stop req ch_position w)"

definition on_velocity_status_changed :: "'w request \<Rightarrow> update_status \<Rightarrow> 'w \<Rightarrow> exn option \<times> 'w" where
  "on_velocity_status_changed req st w =
     (case st of updates_enabled \<Rightarrow> session_start req ch_velocity w | updates_disabled \<Rightarrow> session_stop req ch_velocity w)"

definition on_heading_status_changed :: "'w request \<Rightarrow> update_status \<Rightarrow> 'w \<Rightarrow> exn option \<times> 'w" where
  "on_heading_status_changed req st w =
     (case st of updates_enabled \<Rightarrow> session_start req ch_heading w | updates_disabled \<Rightarrow> session_stop req ch_heading w)"

text \<open>The assignments to the three status properties.\<close>

definition set_position_status ::
    "(update_status \<Rightarrow> update_status \<Rightarrow> bool) \<Rightarrow> 'w request \<Rightarrow> update_status \<Rightarrow> session \<Rightarrow> 'w \<Rightarrow>
     exn option \<times> session \<times> 'w" where
  "set_position_status emits req st s w =
     (let s' = s\<lparr>position_status := st\<rparr>
      in if emits (position_status s) st
         then (case on_position_status_changed req st w of (e, w') \<Rightarrow> (e, s', w')) else (None, s', w))"

definition set_heading_status ::
    "(update_status \<Rightarrow> update_status \<Rightarrow> bool) \<Rightarrow> 'w request \<Rightarrow> update_status \<Rightarrow> session \<Rightarrow> 'w \<Rightarrow>
     exn option \<times> session \<times> 'w" where
  "set_heading_status emits req st s w =
     (let s' = s\<lparr>heading_status := st\<rparr>
      in if emits (heading_status s) st
         then (case on_heading_status_changed req st w of (e, w') \<Rightarrow> (e, s', w')) else (None, s', w))"

definition set_velocity_status ::
    "(update_status \<Rightarrow> update_status \<Rightarrow> bool) \<Rightarrow> 'w request \<Rightarrow> update_status \<Rightarrow> session \<Rightarrow> 'w \<Rightarrow>
     exn option \<times> session \<times> 'w" where
  "set_velocity_status emits req st s w =
     (let s' = s\<lparr>velocity_status := st\<rparr>
      in if emits (velocity_status s) st
         then (case on_velocity_status_changed req st w of (e, w') \<Rightarrow> (e, s', w')) else (None, s', w))"

text \<open>The destructor. The three stops are \<open>noexcept\<close>.\<close>

definition session_destroy :: "'w request \<Rightarrow> 'w \<Rightarrow> exn option \<times> 'w" where
  "session_destroy req w =
     (case session_stop req ch_position w of
        (Some e, w) \<Rightarrow> (Some e, w)
      | (None, w) \<Rightarrow>
          (case session_stop req ch_heading w of (Some e, w) \<Rightarrow> (Some e, w) | (None, w) \<Rightarrow> session_stop req ch_velocity w))"

section \<open>The skeleton\<close>

datatype reply = Method_return | Error_reply string string

definition error_starting_update :: string where
  "error_starting_update = ''com.lomiri.location.Service.Session.ErrorStartingUpdate''"

text \<open>
  The two \<open>try\<close> blocks the six handlers share: a \<open>std::runtime_error\<close> becomes an error reply
  with the message of the handler, any other exception escapes; then the reply is sent.
\<close>

definition reply_with :: "string \<Rightarrow> exn option \<times> session \<times> 'w \<Rightarrow> reply result \<times> session \<times> 'w" where
  "reply_with msg r =
     (case r of (e, s, w) \<Rightarrow>
        (case e of
           None \<Rightarrow> (Inr Method_return, s, w)
         | Some (runtime_error _) \<Rightarrow> (Inr (Error_reply error_starting_update msg), s, w)
         | Some e' \<Rightarrow> (Inl e', s, w)))"

definition on_start_position_updates ::
    "(update_status \<Rightarrow> update_status \<Rightarrow> bool) \<Rightarrow> 'w request \<Rightarrow> session \<Rightarrow> 'w \<Rightarrow> reply result \<times> session \<times> 'w" where
  "on_start_position_updates emits req s w =
     reply_with ''Could not enable position updates'' (set_position_status emits req updates_enabled s w)"

definition on_stop_position_updates ::
    "(update_status \<Rightarrow> update_status \<Rightarrow> bool) \<Rightarrow> 'w request \<Rightarrow> session \<Rightarrow> 'w \<Rightarrow> reply result \<times> session \<times> 'w" where
  "on_stop_position_updates emits req s w =
     reply_with ''Could not disable position updates'' (set_position_status emits req updates_disabled s w)"

definition on_start_heading_updates ::
    "(update_status \<Rightarrow> update_status \<Rightarrow> bool) \<Rightarrow> 'w request \<Rightarrow> session \<Rightarrow> 'w \<Rightarrow> reply result \<times> session \<times> 'w" where
  "on_start_heading_updates emits req s w =
     reply_with ''Could not enable position updates'' (set_position_status emits req updates_enabled s w)"

definition on_stop_heading_updates ::
    "(update_status \<Rightarrow> update_status \<Rightarrow> bool) \<Rightarrow> 'w request \<Rightarrow> session \<Rightarrow> 'w \<Rightarrow> reply result \<times> session \<times> 'w" where
  "on_stop_heading_updates emits req s w =
     reply_with ''Could not enable position updates'' (set_heading_status emits req updates_disabled s w)"

definition on_start_velocity_updates ::
    "(update_status \<Rightarrow> update_status \<Rightarrow> bool) \<Rightarrow> 'w request \<Rightarrow> session \<Rightarrow> 'w \<Rightarrow> reply result \<times> session \<times> 'w" where
  "on_start_velocity_updates emits req s w =
     reply_with ''Could not enable position updates'' (set_velocity_status emits req updates_enabled s w)"

definition on_stop_velocity_updates ::
    "(update_status \<Rightarrow> update_status \<Rightarrow> bool) \<Rightarrow> 'w request \<Rightarrow> session \<Rightarrow> 'w \<Rightarrow> reply result \<times> session \<times> 'w" where
  "on_stop_velocity_updates emits req s w =
     reply_with ''Could not enable position updates'' (set_velocity_status emits req updates_disabled s w)"

text \<open>
  A position of the provider becomes the session's position; when that changes it, the skeleton
  calls \<open>UpdatePosition\<close> on the client's object. The call is asynchronous and its failure is
  dropped. Headings and velocities alike.
\<close>

datatype client_call = UpdatePosition "position update" | UpdateHeading "double update" | UpdateVelocity "double update"

definition on_position_changed :: "position update \<Rightarrow> client_call list" where
  "on_position_changed u = [UpdatePosition u]"

definition on_heading_changed :: "double update \<Rightarrow> client_call list" where
  "on_heading_changed u = [UpdateHeading u]"

definition on_velocity_changed :: "double update \<Rightarrow> client_call list" where
  "on_velocity_changed u = [UpdateVelocity u]"

definition session_on_position ::
    "(position update \<Rightarrow> position update \<Rightarrow> bool) \<Rightarrow> position update \<Rightarrow> session \<Rightarrow> session \<times> client_call list" where
  "session_on_position emits u s =
     (s\<lparr>session_position := u\<rparr>, if emits (session_position s) u then on_position_changed u else [])"

definition session_on_heading ::
    "(double update \<Rightarrow> double update \<Rightarrow> bool) \<Rightarrow> double update \<Rightarrow> session \<Rightarrow> session \<times> client_call list" where
  "session_on_heading emits u s =
     (s\<lparr>session_heading := u\<rparr>, if emits (session_heading s) u then on_heading_changed u else [])"

definition session_on_velocity ::
    "(double update \<Rightarrow> double update \<Rightarrow> bool) \<Rightarrow> double update \<Rightarrow> session \<Rightarrow> session \<times> client_call list" where
  "session_on_velocity emits u s =
     (s\<lparr>session_velocity := u\<rparr>, if emits (session_velocity s) u then on_velocity_changed u else [])"

section \<open>Sequences of method calls\<close>

datatype session_method =
    StartPositionUpdates | StopPositionUpdates
  | StartVelocityUpdates | StopVelocityUpdates
  | StartHeadingUpdates | StopHeadingUpdates

fun handle_method ::
    "(update_status \<Rightarrow> update_status \<Rightarrow> bool) \<Rightarrow> 'w request \<Rightarrow> session_method \<Rightarrow> session \<Rightarrow> 'w \<Rightarrow>
     reply result \<times> session \<times> 'w" where
  "handle_method emits req StartPositionUpdates s w = on_start_position_updates emits req s w"
| "handle_method emits req StopPositionUpdates s w = on_stop_position_updates emits req s w"
| "handle_method emits req StartVelocityUpdates s w = on_start_velocity_updates emits req s w"
| "handle_method emits req StopVelocityUpdates s w = on_stop_velocity_updates emits req s w"
| "handle_method emits req StartHeadingUpdates s w = on_start_heading_updates emits req s w"
| "handle_method emits req StopHeadingUpdates s w = on_stop_heading_updates emits req s w"

fun handle_methods ::
    "(update_status \<Rightarrow> update_status \<Rightarrow> bool) \<Rightarrow> 'w request \<Rightarrow> session_method list \<Rightarrow> session \<Rightarrow> 'w \<Rightarrow> session \<times> 'w" where
  "handle_methods emits req [] s w = (s, w)"
| "handle_methods emits req (m # ms) s w =
     (case handle_method emits req m s w of (_, s', w') \<Rightarrow> handle_methods emits req ms s' w')"

text \<open>A provider side that only records the requests.\<close>

definition record_request :: "call list request" where
  "record_request k tr = (None, tr @ [k])"

fun status :: "channel \<Rightarrow> session \<Rightarrow> update_status" where
  "status ch_position s = position_status s"
| "status ch_heading s = heading_status s"
| "status ch_velocity s = velocity_status s"

lemmas handler_defs = on_start_position_updates_def on_stop_position_updates_def on_start_heading_updates_def
  on_stop_heading_updates_def on_start_velocity_updates_def on_stop_velocity_updates_def reply_with_def
  set_position_status_def set_heading_status_def set_velocity_status_def on_position_status_changed_def
  on_heading_status_changed_def on_velocity_status_changed_def session_start_def session_stop_def Let_def

section \<open>Requests of a session are balanced\<close>

lemma status_updates [simp]:
  "status ch (s\<lparr>position_status := st\<rparr>) = (if ch = ch_position then st else status ch s)"
  "status ch (s\<lparr>heading_status := st\<rparr>) = (if ch = ch_heading then st else status ch s)"
  "status ch (s\<lparr>velocity_status := st\<rparr>) = (if ch = ch_velocity then st else status ch s)"
  by (cases ch; simp)+

lemma status_cases: "st = updates_enabled \<or> st = updates_disabled"
  by (cases st) auto

lemma handle_method_balanced:
  assumes "running ch False tr = Some (status ch s = updates_enabled)"
    and "handle_method (\<noteq>) record_request m s tr = (r, s', tr')"
  shows "running ch False tr' = Some (status ch s' = updates_enabled) \<and> r = Inr Method_return"
  using assms status_cases [of "status ch s"]
  by (cases m; cases ch) (auto simp: handler_defs record_request_def running_append split: if_splits)

lemma handle_methods_balanced:
  assumes "running ch False tr = Some (status ch s = updates_enabled)"
    and "handle_methods (\<noteq>) record_request ms s tr = (s', tr')"
  shows "running ch False tr' = Some (status ch s' = updates_enabled)"
  using assms
proof (induction ms arbitrary: s tr)
  case (Cons m ms)
  obtain r s1 tr1 where m: "handle_method (\<noteq>) record_request m s tr = (r, s1, tr1)"
    by (metis prod_cases3)
  with Cons.prems(2) have "handle_methods (\<noteq>) record_request ms s1 tr1 = (s', tr')" by simp
  with handle_method_balanced [OF Cons.prems(1) m] Cons.IH show ?case by blast
qed simp

lemma controller_run_alternating:
  assumes "running ch b ks = Some b'" "counter ch c = (if b then 1 else 0)"
  shows "counter ch (fst (controller_run ks c)) = (if b' then 1 else 0) \<and>
    running ch b (snd (controller_run ks c)) = Some b'"
  using assms
proof (induction ks arbitrary: b c)
  case (Cons k ks)
  let ?c = "fst (controller_op k c)" and ?calls = "snd (controller_op k c)"
  obtain b1 where step: "running ch b ?calls = Some b1" "counter ch ?c = (if b1 then 1 else 0)" "running ch b1 ks = Some b'"
  proof (cases "k \<in> {Start ch, Stop ch}")
    case False
    then obtain ch' where k: "k \<in> {Start ch', Stop ch'}" and ne: "ch' \<noteq> ch" by (cases k) auto
    have "running ch b ?calls = Some b" by (rule running_other_call [OF k ne controller_op_calls])
    moreover have "running ch b ks = Some b'" using Cons.prems(1) k ne by auto
    ultimately show ?thesis using that controller_op_other [OF k ne, of c] Cons.prems(2) by auto
  next
    case True
    then show ?thesis
      using that [of "k = Start ch"] Cons.prems controller_op_start [of ch c] controller_op_stop [of ch c]
      by (auto split: if_splits)
  qed
  from Cons.IH [OF step(3,2)] step(1) show ?case
    unfolding controller_run_Cons by (simp add: running_append)
qed simp



section \<open>Heading updates cannot be started\<close>

text \<open>
  No sequence of method calls starts heading updates: the handler of \<open>StartHeadingUpdates\<close>
  enables the position status, so the heading status stays disabled, the provider never gets a
  request on the heading channel, and the method starts position updates instead.
\<close>

theorem heading_updates_never_start:
  "(case handle_methods (\<noteq>) record_request ms (new_session p h v) [] of
      (s, tr) \<Rightarrow> heading_status s = updates_disabled \<and> Start ch_heading \<notin> set tr \<and> Stop ch_heading \<notin> set tr) \<and>
   handle_methods (\<noteq>) record_request [StartHeadingUpdates] (new_session p h v) [] =
     ((new_session p h v)\<lparr>position_status := updates_enabled\<rparr>, [Start ch_position])"
proof -
  have step: "heading_status s' = updates_disabled \<and> Start ch_heading \<notin> set tr' \<and> Stop ch_heading \<notin> set tr'"
    if "handle_methods (\<noteq>) record_request ms s tr = (s', tr')"
      "heading_status s = updates_disabled \<and> Start ch_heading \<notin> set tr \<and> Stop ch_heading \<notin> set tr" for s tr s' tr'
    using that
  proof (induction ms arbitrary: s tr)
    case (Cons m ms)
    obtain r s1 tr1 where m: "handle_method (\<noteq>) record_request m s tr = (r, s1, tr1)"
      by (metis prod_cases3)
    have "heading_status s1 = updates_disabled \<and> Start ch_heading \<notin> set tr1 \<and> Stop ch_heading \<notin> set tr1"
      using m Cons.prems(2) by (cases m) (auto simp: handler_defs record_request_def split: if_splits update_status.splits)
    with m Cons show ?case by simp
  qed simp
  show ?thesis
    using step [of "new_session p h v" "[]"]
    by (auto simp: handler_defs record_request_def new_session_def split: prod.splits)
qed



section \<open>A stop that fails\<close>

text \<open>
  A provider that throws while it is stopped takes the service with it, from the handler of the stop method, whose error reply
  is never sent, and from the destructor of the session. One that throws while it is started is reported to the client.
\<close>

theorem stop_failure_terminates:
  assumes "\<And>k. req k w = (Some (runtime_error m), w')" "emits = (\<noteq>)"
  shows "fst (on_stop_position_updates emits req (s\<lparr>position_status := updates_enabled\<rparr>) w) = Inl terminated \<and>
    fst (session_destroy req w) = Some terminated \<and>
    fst (on_start_position_updates emits req (s\<lparr>position_status := updates_disabled\<rparr>) w) =
      Inr (Error_reply error_starting_update ''Could not enable position updates'')"
  using assms(1) [of "Stop ch_position"] assms(1) [of "Start ch_position"] assms(2)
  by (simp add: handler_defs session_destroy_def terminated_def)

end
