(* ===== verification/Service_Skeleton.thy ===== *)
theory Service_Skeleton
  imports Criteria Std_Containers
begin

text \<open>
  The D-Bus skeleton of the service (\<open>service/skeleton.h\<close>, \<open>service/skeleton.cpp\<close>): credentials of
  a caller, object paths of sessions, the session store, the list of client applications and the
  handler of \<open>CreateSessionForCriteria\<close>; and the permission managers
  (\<open>trust_store_permission_manager.cpp\<close>, \<open>default_permission_manager.cpp\<close>).

  What the bus daemon, AppArmor and the trust agent answer are arguments. The session object the
  handler creates comes from \<open>create\<close>, an argument too: \<open>'s\<close> is the session, \<open>'w\<close> the state of the
  provider side; \<open>discard\<close> is what the death of a session does to it.
\<close>

section \<open>Credentials and permissions\<close>

record credentials =
  cred_pid :: int
  cred_uid :: int
  profile :: string

datatype permission = granted | rejected

text \<open>\<open>aa_gettaskcon\<close> returns a code and, on success, a context.\<close>

definition libapparmor_profile_resolver :: "(int \<Rightarrow> int \<times> string option) \<Rightarrow> int \<Rightarrow> string result" where
  "libapparmor_profile_resolver aa_gettaskcon pid =
     (case aa_gettaskcon pid of
        (rc, con) \<Rightarrow> if rc = - 1 then Inl (runtime_error ''system_error'')
                    else Inr (case con of None \<Rightarrow> '''' | Some s \<Rightarrow> s))"

definition resolve_credentials_for_incoming_message ::
    "int result \<Rightarrow> int result \<Rightarrow> (int \<Rightarrow> string result) \<Rightarrow> credentials result" where
  "resolve_credentials_for_incoming_message unix_process_id unix_user app_armor_profile_resolver =
     (case unix_process_id of
        Inl e \<Rightarrow> Inl e
      | Inr pid \<Rightarrow>
          (let prof = (case app_armor_profile_resolver pid of Inl _ \<Rightarrow> '''' | Inr s \<Rightarrow> s)
           in case unix_user of
                Inl e \<Rightarrow> Inl e
              | Inr uid \<Rightarrow> Inr \<lparr>cred_pid = pid, cred_uid = uid, profile = prof\<rparr>))"

text \<open>The trust agent answers \<open>granted\<close> or \<open>denied\<close>, or throws.\<close>

datatype trust_answer = answer_granted | answer_denied

definition trust_store_check :: "bool \<Rightarrow> (credentials \<Rightarrow> trust_answer result) \<Rightarrow> criteria \<Rightarrow> credentials \<Rightarrow> permission" where
  "trust_store_check is_running_under_testing authenticate criteria credentials =
     (if is_running_under_testing then granted
      else if profile credentials = '''' then rejected
      else (case authenticate credentials of
              Inr answer_granted \<Rightarrow> granted
            | Inr answer_denied \<Rightarrow> rejected
            | Inl _ \<Rightarrow> rejected))"

definition default_check :: "int \<Rightarrow> int \<Rightarrow> criteria \<Rightarrow> credentials \<Rightarrow> permission" where
  "default_check pid uid criteria credentials =
     (if cred_pid credentials \<noteq> pid \<or> cred_uid credentials \<noteq> uid then granted else granted)"

section \<open>Object paths\<close>

text \<open>The decimal text of an unsigned number, as a stream prints it.\<close>

definition digit :: "nat \<Rightarrow> char" where
  "digit d = char_of (48 + d)"

fun decimal :: "nat \<Rightarrow> string" where
  "decimal n = (if n < 10 then [digit n] else decimal (n div 10) @ [digit (n mod 10)])"

declare decimal.simps [simp del]

definition object_path_for_caller_credentials :: "credentials \<Rightarrow> 32 word \<Rightarrow> string \<times> 32 word" where
  "object_path_for_caller_credentials credentials index =
     (''/sessions/'' @ decimal (unat index), index + 1)"

section \<open>Sessions and client applications\<close>

record 's element =
  watched_sender :: string
  element_session :: 's
  remote_app_id :: string

record 's skeleton_state =
  session_store :: "(string \<times> 's element) list"
  client_applications :: "string list"
  path_index :: "32 word"

definition add_to_session_store_for_path ::
    "string \<Rightarrow> 's element \<Rightarrow> 's skeleton_state \<Rightarrow> bool \<times> 's skeleton_state" where
  "add_to_session_store_for_path path el sk =
     (map_find string_lt path (session_store sk) = None,
      sk\<lparr>session_store := map_insert string_lt path el (session_store sk)\<rparr>)"

definition add_client_application :: "string \<Rightarrow> 's skeleton_state \<Rightarrow> 's skeleton_state" where
  "add_client_application app_id sk = sk\<lparr>client_applications := client_applications sk @ [app_id]\<rparr>"

definition remove_client_application :: "string \<Rightarrow> 's skeleton_state \<Rightarrow> 's skeleton_state" where
  "remove_client_application app_id sk = sk\<lparr>client_applications := erase_remove app_id (client_applications sk)\<rparr>"

definition remove_from_session_store_for_path :: "string \<Rightarrow> 's skeleton_state \<Rightarrow> 's skeleton_state" where
  "remove_from_session_store_for_path path sk =
     (case map_find string_lt path (session_store sk) of
        None \<Rightarrow> sk
      | Some el \<Rightarrow>
          (let sk' = remove_client_application (remote_app_id el) sk
           in sk'\<lparr>session_store := map_erase string_lt path (session_store sk')\<rparr>))"

section \<open>Creating a session\<close>

datatype create_reply = Session_path string | Create_error string string

definition creating_session :: string where
  "creating_session = ''com.lomiri.location.Service.Error.CreatingSession''"

definition error_creating_session :: create_reply where
  "error_creating_session = Create_error creating_session ''Error creating session''"

definition handle_create_session_for_criteria ::
    "string \<Rightarrow> criteria result \<Rightarrow> credentials result \<Rightarrow> (criteria \<Rightarrow> credentials \<Rightarrow> permission) \<Rightarrow>
     (criteria \<Rightarrow> 'w \<Rightarrow> ('s \<times> 'w) result) \<Rightarrow> ('s \<Rightarrow> 'w \<Rightarrow> 'w) \<Rightarrow> 's skeleton_state \<Rightarrow> 'w \<Rightarrow>
     create_reply \<times> 's skeleton_state \<times> 'w" where
  "handle_create_session_for_criteria sender read_criteria resolved check create discard sk w =
     (case read_criteria of
        Inl _ \<Rightarrow> (error_creating_session, sk, w)
      | Inr criteria \<Rightarrow>
      case resolved of
        Inl _ \<Rightarrow> (error_creating_session, sk, w)
      | Inr credentials \<Rightarrow>
      if check criteria credentials = rejected then (error_creating_session, sk, w)
      else
        (case object_path_for_caller_credentials credentials (path_index sk) of
           (path, index) \<Rightarrow>
             (let sk1 = sk\<lparr>path_index := index\<rparr>
              in case create criteria w of
                   Inl _ \<Rightarrow> (error_creating_session, sk1, w)
                 | Inr (s, w1) \<Rightarrow>
                     (case add_to_session_store_for_path path
                             \<lparr>watched_sender = sender, element_session = s, remote_app_id = profile credentials\<rparr> sk1 of
                        (inserted, sk2) \<Rightarrow>
                          if \<not> inserted
                          then (Create_error creating_session ''Refused to create second session for same process'',
                                sk2, discard s w1)
                          else (Session_path path, add_client_application (profile credentials) sk2, w1)))))"

section \<open>Object paths are unique\<close>

definition undecimal :: "string \<Rightarrow> nat" where
  "undecimal s = foldl (\<lambda>n c. n * 10 + (of_char c - 48)) 0 s"

lemma of_char_digit: "d < 10 \<Longrightarrow> (of_char (digit d) :: nat) = 48 + d"
  by (simp add: digit_def)

lemma undecimal_decimal: "undecimal (decimal n) = n"
proof (induction n rule: decimal.induct)
  case (1 n)
  show ?case
  proof (cases "n < 10")
    case True
    then show ?thesis by (simp add: decimal.simps [of n] undecimal_def of_char_digit)
  next
    case False
    then show ?thesis
      using 1 by (simp add: decimal.simps [of n] undecimal_def of_char_digit)
  qed
qed

lemma decimal_inj: "decimal m = decimal n \<longleftrightarrow> m = n"
  by (metis undecimal_decimal)

definition session_path :: "nat \<Rightarrow> string" where
  "session_path i = ''/sessions/'' @ decimal i"

lemma object_path: "object_path_for_caller_credentials cr i = (session_path (unat i), i + 1)"
  by (simp add: object_path_for_caller_credentials_def session_path_def)

lemma not_rejected: "p \<noteq> rejected \<longleftrightarrow> p = granted"
  by (cases p) auto

definition skeleton_ok :: "'s skeleton_state \<Rightarrow> bool" where
  "skeleton_ok sk \<longleftrightarrow> map_sorted string_lt (session_store sk) \<and>
     (\<forall>path \<in> fst ` set (session_store sk). \<exists>i < unat (path_index sk). path = session_path i)"

lemma next_path_fresh:
  "skeleton_ok sk \<Longrightarrow> map_find string_lt (session_path (unat (path_index sk))) (session_store sk) = None"
  unfolding string_order.map_find_map_of map_of_eq_None_iff skeleton_ok_def session_path_def
  using decimal_inj by fastforce

lemma map_insert_find:
  assumes "map_sorted string_lt m" "map_find string_lt k m = None"
  shows "map_find string_lt j (map_insert string_lt k v m) = (if j = k then Some v else map_find string_lt j m)"
    and "fst ` set (map_insert string_lt k v m) = insert k (fst ` set m)"
proof -
  show "map_find string_lt j (map_insert string_lt k v m) = (if j = k then Some v else map_find string_lt j m)"
    using assms by (simp add: string_order.map_find_map_of string_order.map_insert_map_of)
  show "fst ` set (map_insert string_lt k v m) = insert k (fst ` set m)"
    using arg_cong [OF string_order.map_insert_keys [of k v m], of set] string_order.set_insert_set [of k "map fst m"]
    by simp
qed


definition empty_skeleton :: "'s skeleton_state" where
  "empty_skeleton = \<lparr>session_store = [], client_applications = [], path_index = 0\<rparr>"

lemma empty_skeleton_ok [simp]: "skeleton_ok empty_skeleton" "unat (path_index empty_skeleton) + 1 < 2 ^ 32"
  by (simp_all add: empty_skeleton_def skeleton_ok_def map_sorted_def)

text \<open>A caller with profile \<open>app\<close> whose session is the number \<open>n\<close>.\<close>

definition demo_create :: "string \<Rightarrow> nat \<Rightarrow> nat skeleton_state \<Rightarrow> create_reply \<times> nat skeleton_state \<times> unit" where
  "demo_create app n sk =
     handle_create_session_for_criteria '':1.7'' (Inr criteria_default)
       (Inr \<lparr>cred_pid = 42, cred_uid = 1000, profile = app\<rparr>)
       (trust_store_check False (\<lambda>_. Inr answer_granted)) (\<lambda>_ w. Inr (n, w)) (\<lambda>_ w. w) sk ()"


text \<open>
  C19. With the trust store as permission manager and outside testing, a caller gets a session
  only if AppArmor knows a non-empty profile for it and the trust agent granted the request; in
  particular a caller whose profile cannot be resolved is rejected.
\<close>

theorem trust_store_session_needs_grant:
  assumes "handle_create_session_for_criteria sender read_criteria
      (resolve_credentials_for_incoming_message pid uid resolver)
      (trust_store_check False authenticate) create discard sk w = (Session_path path, sk', w')"
  shows "\<exists>p u prof. pid = Inr p \<and> uid = Inr u \<and> resolver p = Inr prof \<and> prof \<noteq> '''' \<and>
    authenticate \<lparr>cred_pid = p, cred_uid = u, profile = prof\<rparr> = Inr answer_granted"
  using assms
  by (auto simp: handle_create_session_for_criteria_def resolve_credentials_for_incoming_message_def
      trust_store_check_def error_creating_session_def Let_def
      split: sum.splits if_splits prod.splits trust_answer.splits)

theorem trust_store_session_needs_grant_witness:
  "\<exists>p u prof. (Inr 42 :: int result) = Inr p \<and> (Inr 1000 :: int result) = Inr u \<and>
     (\<lambda>_. Inr ''app'') p = (Inr prof :: string result) \<and> prof \<noteq> '''' \<and>
     (\<lambda>_. Inr answer_granted :: trust_answer result) \<lparr>cred_pid = p, cred_uid = u, profile = prof\<rparr> = Inr answer_granted"
proof -
  have "\<exists>path sk' w'. handle_create_session_for_criteria '':1.7'' (Inr criteria_default)
      (resolve_credentials_for_incoming_message (Inr 42) (Inr 1000) (\<lambda>_. Inr ''app''))
      (trust_store_check False (\<lambda>_. Inr answer_granted)) (\<lambda>_ w. Inr (1::nat, w)) (\<lambda>_ w. w) empty_skeleton ()
      = (Session_path path, sk', w')"
    by (simp add: handle_create_session_for_criteria_def resolve_credentials_for_incoming_message_def
        trust_store_check_def object_path add_to_session_store_for_path_def empty_skeleton_def Let_def)
  then show ?thesis using trust_store_session_needs_grant by blast
qed

section \<open>Removing a session\<close>

text \<open>
  When the owner of a session leaves the bus its session is gone and every other session
  stays; every entry of its application is gone from the client applications, those of other
  applications stay as often as they were. A path that is not in the store changes nothing.
\<close>

theorem session_removed:
  assumes "skeleton_ok sk"
  shows "skeleton_ok (remove_from_session_store_for_path path sk) \<and>
    (case map_find string_lt path (session_store sk) of
       None \<Rightarrow> remove_from_session_store_for_path path sk = sk
     | Some el \<Rightarrow>
         (\<forall>q. map_find string_lt q (session_store (remove_from_session_store_for_path path sk)) =
            (if q = path then None else map_find string_lt q (session_store sk))) \<and>
         (\<forall>app. count_list (client_applications (remove_from_session_store_for_path path sk)) app =
            (if app = remote_app_id el then 0 else count_list (client_applications sk) app)))"
proof (cases "map_find string_lt path (session_store sk)")
  case None
  with assms show ?thesis by (simp add: remove_from_session_store_for_path_def)
next
  case (Some el)
  have "set (map_erase string_lt path (session_store sk)) \<subseteq> set (session_store sk)"
    by (auto simp: map_erase_def)
  with Some assms show ?thesis
    using string_order.map_erase_sorted [of "session_store sk" path]
    by (auto simp: remove_from_session_store_for_path_def remove_client_application_def Let_def skeleton_ok_def
        string_order.map_find_map_of string_order.map_erase_map_of erase_remove_other erase_remove_all)
qed

theorem session_removed_witness:
  "let sk = \<lparr>session_store = [(session_path 0, \<lparr>watched_sender = '':1.7'', element_session = 1 :: nat, remote_app_id = ''app''\<rparr>)],
      client_applications = [''other'', ''app''], path_index = 1\<rparr>
   in map_find string_lt (session_path 0) (session_store (remove_from_session_store_for_path (session_path 0) sk)) = None \<and>
     count_list (client_applications (remove_from_session_store_for_path (session_path 0) sk)) ''app'' = 0"
proof -
  let ?sk = "\<lparr>session_store = [(session_path 0, \<lparr>watched_sender = '':1.7'', element_session = 1 :: nat, remote_app_id = ''app''\<rparr>)],
      client_applications = [''other'', ''app''], path_index = 1\<rparr>"
  have "skeleton_ok ?sk" by (simp add: skeleton_ok_def map_sorted_def)
  from session_removed [OF this, of "session_path 0"] show ?thesis by (simp add: string_lt_irrefl)
qed

text \<open>
  Two sessions of one application: after one of them is removed the other is still in the
  store, but its application is no longer among the client applications.
\<close>

theorem client_application_lost:
  "let sk1 = fst (snd (demo_create ''app'' 1 empty_skeleton));
       sk2 = fst (snd (demo_create ''app'' 2 sk1));
       sk3 = remove_from_session_store_for_path (session_path 0) sk2
   in client_applications sk2 = [''app'', ''app''] \<and>
      map_option remote_app_id (map_find string_lt (session_path 1) (session_store sk3)) = Some ''app'' \<and>
      client_applications sk3 = []"
proof -
  have ne: "session_path 0 \<noteq> session_path 1" using decimal_inj [of 0 1] by (simp add: session_path_def)
  have "string_lt (session_path 0) (session_path 1)"
    by (simp add: session_path_def decimal.simps digit_def)
  with ne show ?thesis
    by (simp add: demo_create_def handle_create_session_for_criteria_def trust_store_check_def object_path
        add_to_session_store_for_path_def add_client_application_def remove_from_session_store_for_path_def
        remove_client_application_def empty_skeleton_def Let_def string_order.map_find_map_of map_erase_def
        erase_remove_def string_lt_irrefl)
qed

end
