(* ===== verification/Bounded_Integer.thy ===== *)
theory Bounded_Integer
  imports Data_Model
begin

text \<open>
  \<open>BoundedInteger\<close> (\<open>connectivity/bounded_integer.h\<close>). The template arguments \<open>min\<close>, \<open>max\<close> and
  \<open>inv\<close> are the record \<open>bounds\<close>; an instance is its raw \<open>int\<close>. \<open>from_percent\<close> computes in single
  precision; \<open>rnd\<close> is the rounding of a real to it.
\<close>

record bounds =
  b_min :: int
  b_max :: int
  b_inv :: int

definition bi_invalid :: "bounds \<Rightarrow> int" where "bi_invalid b = b_inv b"
definition bi_minimum :: "bounds \<Rightarrow> int" where "bi_minimum b = b_min b"
definition bi_maximum :: "bounds \<Rightarrow> int" where "bi_maximum b = b_max b"
definition bi_range :: "bounds \<Rightarrow> int" where "bi_range b = b_max b - b_min b"

definition bi_default :: "bounds \<Rightarrow> int" where "bi_default b = b_min b - 1"

text \<open>The text of the exception names the value and the bounds.\<close>

definition not_in_range :: exn where
  "not_in_range = runtime_error ''is not in [min, max]''"

definition bi_make :: "bounds \<Rightarrow> int \<Rightarrow> int result" where
  "bi_make b v = (if v < b_min b \<or> v > b_max b then Inl not_in_range else Inr v)"

definition bi_is_valid :: "bounds \<Rightarrow> int \<Rightarrow> bool" where
  "bi_is_valid b v \<longleftrightarrow> b_min b \<le> v \<and> v \<le> b_max b"

definition bi_get :: "bounds \<Rightarrow> int \<Rightarrow> int" where
  "bi_get b v = v"

definition bi_set :: "bounds \<Rightarrow> int \<Rightarrow> int \<Rightarrow> int result" where
  "bi_set b v new_value =
     (if new_value < b_min b \<or> new_value > b_max b then Inl not_in_range else Inr new_value)"

definition bi_reset :: "bounds \<Rightarrow> int \<Rightarrow> int" where
  "bi_reset b v = bi_invalid b"

text \<open>\<open>std::min<float>(1., std::max<float>(0., percent))\<close>; a NaN becomes 0.\<close>

definition cap_percent :: "double \<Rightarrow> double" where
  "cap_percent percent =
     (let x = (if dbl_lt (Fin 0) percent then percent else Fin 0)
      in if dbl_lt x (Fin 1) then x else Fin 1)"

definition bi_from_percent :: "(real \<Rightarrow> real) \<Rightarrow> bounds \<Rightarrow> double \<Rightarrow> int result" where
  "bi_from_percent rnd b percent =
     (case cap_percent percent of
        Fin p \<Rightarrow>
          (let v = rnd (rnd (of_int (bi_minimum b)) + rnd (p * rnd (of_int (bi_range b))))
           in bi_make b (if v \<ge> 0 then \<lfloor>v\<rfloor> else \<lceil>v\<rceil>))
      | _ \<Rightarrow> Inl not_in_range)"

text \<open>Rounding keeps order and is exact on integers of at most 24 bits.\<close>

definition rounds_float :: "(real \<Rightarrow> real) \<Rightarrow> bool" where
  "rounds_float rnd \<longleftrightarrow> mono rnd \<and> (\<forall>n::int. \<bar>n\<bar> \<le> 2 ^ 24 \<longrightarrow> rnd (of_int n) = of_int n)"

section \<open>Lemmas\<close>

lemma bi_make_valid: "bi_make b v = Inr w \<longleftrightarrow> w = v \<and> bi_is_valid b v"
  by (auto simp: bi_make_def bi_is_valid_def)

lemma bi_set_valid: "bi_set b v n = Inr w \<longleftrightarrow> w = n \<and> bi_is_valid b n"
  by (auto simp: bi_set_def bi_is_valid_def)

lemma bi_default_invalid: "\<not> bi_is_valid b (bi_default b)"
  by (simp add: bi_is_valid_def bi_default_def)

lemma cap_percent_range: "\<exists>p. cap_percent x = Fin p \<and> 0 \<le> p \<and> p \<le> 1"
  by (cases x) (auto simp: cap_percent_def Let_def)

lemma rounds_float_int: "rounds_float rnd \<Longrightarrow> \<bar>n\<bar> \<le> 2 ^ 24 \<Longrightarrow> rnd (of_int n) = of_int n"
  by (simp add: rounds_float_def)

lemma bi_from_percent_valid:
  assumes rnd: "rounds_float rnd" and b: "b_min b < b_max b" "\<bar>b_min b\<bar> \<le> 2 ^ 22" "\<bar>b_max b\<bar> \<le> 2 ^ 22"
  shows "\<exists>v. bi_from_percent rnd b percent = Inr v \<and> bi_is_valid b v"
proof -
  obtain p where p: "cap_percent percent = Fin p" "0 \<le> p" "p \<le> 1"
    using cap_percent_range by blast
  have mono: "x \<le> y \<Longrightarrow> rnd x \<le> rnd y" for x y
    using rnd by (simp add: rounds_float_def mono_def)
  have r: "\<bar>bi_range b\<bar> \<le> 2 ^ 24" using b by (simp add: bi_range_def)
  have ints: "rnd (of_int (bi_range b)) = of_int (bi_range b)" "rnd (of_int (b_min b)) = of_int (b_min b)"
    "rnd (of_int (b_max b)) = of_int (b_max b)" "rnd 0 = 0"
    using rounds_float_int [OF rnd r] rounds_float_int [OF rnd, of "b_min b"]
      rounds_float_int [OF rnd, of "b_max b"] rounds_float_int [OF rnd, of 0] b(2,3) by simp_all
  have "0 \<le> p * of_int (bi_range b)" "p * of_int (bi_range b) \<le> of_int (bi_range b)"
    using p b(1) by (auto simp: bi_range_def mult_left_le_one_le)
  then have "0 \<le> rnd (p * of_int (bi_range b))" "rnd (p * of_int (bi_range b)) \<le> of_int (bi_range b)"
    using mono ints by metis+
  then have "rnd (of_int (b_min b)) \<le> rnd (of_int (b_min b) + rnd (p * of_int (bi_range b)))"
    "rnd (of_int (b_min b) + rnd (p * of_int (bi_range b))) \<le> rnd (of_int (b_max b))"
    by (auto intro!: mono simp: bi_range_def)
  with ints have v: "of_int (b_min b) \<le> rnd (of_int (b_min b) + rnd (p * of_int (bi_range b)))"
    "rnd (of_int (b_min b) + rnd (p * of_int (bi_range b))) \<le> of_int (b_max b)"
    by simp_all
  let ?v = "rnd (of_int (b_min b) + rnd (p * of_int (bi_range b)))"
  have "bi_is_valid b (if ?v \<ge> 0 then \<lfloor>?v\<rfloor> else \<lceil>?v\<rceil>)"
    using v by (auto simp: bi_is_valid_def le_floor_iff floor_le_iff ceiling_le_iff le_ceiling_iff)
  then show ?thesis
    using p ints by (auto simp: bi_from_percent_def bi_minimum_def Let_def bi_make_valid)
qed

text \<open>
  Converting a percentage never throws: for every float, also one outside of the unit interval
  or not a number, the result is a valid value of the range.
\<close>

theorem from_percent_in_range:
  assumes "rounds_float rnd" "b_min b < b_max b" "\<bar>b_min b\<bar> \<le> 2 ^ 22" "\<bar>b_max b\<bar> \<le> 2 ^ 22"
  shows "\<exists>v. bi_from_percent rnd b percent = Inr v \<and> bi_is_valid b v"
  using assms by (rule bi_from_percent_valid)

theorem from_percent_in_range_witness:
  "\<exists>v. bi_from_percent (\<lambda>x. x) \<lparr>b_min = 0, b_max = 31, b_inv = 99\<rparr> NaN = Inr v \<and>
     bi_is_valid \<lparr>b_min = 0, b_max = 31, b_inv = 99\<rparr> v"
  by (rule from_percent_in_range) (simp_all add: rounds_float_def mono_def)

end
