(* ===== verification/Radio_Cell.thy ===== *)
theory Radio_Cell
  imports Bounded_Integer Enum_Streams
begin

text \<open>
  Radio cells: the details of a cell (\<open>connectivity/radio_cell.h\<close>, \<open>radio_cell.cpp\<close>) and the
  cached cell of a modem (\<open>connectivity/cached_radio_cell.cpp\<close>).

  \<open>CachedRadioCell::Detail\<close> is a union of the three kinds of details. Its storage is the record
  \<open>detail\<close> of six \<open>int\<close>s; \<open>gsm_of\<close>, \<open>umts_of\<close> and \<open>lte_of\<close> read it as one of the members and
  \<open>put_gsm\<close>, \<open>put_umts\<close> and \<open>put_lte\<close> write it. The constructor initialises only the empty member,
  so the initial storage is an argument of \<open>new_radio_cell\<close>.

  The properties of the network registration come from oFono. \<open>properties\<close> is a successful answer
  to \<open>GetProperties\<close> with the D-Bus types of \<open>ofono.h\<close>; each query of the constructor makes its own
  call, and \<open>answers k\<close> is the answer to the \<open>k\<close>-th of them. The timer of the heuristics is the
  flag \<open>timer_armed\<close>; its expiry is the operation \<open>timer_expired\<close>. \<open>changes\<close> counts the emissions
  of \<open>changed()\<close>.
\<close>

section \<open>Details of a cell\<close>

datatype radio_type = type_unknown | type_gsm | type_umts | type_lte

definition int_max :: int where "int_max = 2 ^ 31 - 1"

definition country_code_bounds :: bounds where
  "country_code_bounds = \<lparr>b_min = 0, b_max = 999, b_inv = int_max\<rparr>"

definition network_code_bounds :: bounds where
  "network_code_bounds = \<lparr>b_min = 0, b_max = 999, b_inv = int_max\<rparr>"

definition area_code_bounds :: bounds where
  "area_code_bounds = \<lparr>b_min = 0, b_max = 65535, b_inv = int_max\<rparr>"

definition gsm_id_bounds :: bounds where
  "gsm_id_bounds = \<lparr>b_min = 0, b_max = 65535, b_inv = int_max\<rparr>"

definition wide_id_bounds :: bounds where
  "wide_id_bounds = \<lparr>b_min = 0, b_max = 268435455, b_inv = int_max\<rparr>"

definition physical_id_bounds :: bounds where
  "physical_id_bounds = \<lparr>b_min = 0, b_max = 503, b_inv = int_max\<rparr>"

definition signal_bounds :: bounds where
  "signal_bounds = \<lparr>b_min = 0, b_max = 31, b_inv = 99\<rparr>"

record gsm =
  gsm_mcc :: int
  gsm_mnc :: int
  gsm_lac :: int
  gsm_id :: int
  gsm_strength :: int

record umts =
  umts_mcc :: int
  umts_mnc :: int
  umts_lac :: int
  umts_id :: int
  umts_strength :: int

record lte =
  lte_mcc :: int
  lte_mnc :: int
  lte_tac :: int
  lte_id :: int
  lte_physical_id :: int
  lte_strength :: int

definition gsm_eq :: "gsm \<Rightarrow> gsm \<Rightarrow> bool" where
  "gsm_eq lhs rhs \<longleftrightarrow> gsm_mcc lhs = gsm_mcc rhs \<and> gsm_mnc lhs = gsm_mnc rhs \<and> gsm_lac lhs = gsm_lac rhs \<and>
     gsm_id lhs = gsm_id rhs \<and> gsm_strength lhs = gsm_strength rhs"

definition umts_eq :: "umts \<Rightarrow> umts \<Rightarrow> bool" where
  "umts_eq lhs rhs \<longleftrightarrow> umts_mcc lhs = umts_mcc rhs \<and> umts_mnc lhs = umts_mnc rhs \<and> umts_lac lhs = umts_lac rhs \<and>
     umts_id lhs = umts_id rhs \<and> umts_strength lhs = umts_strength rhs"

definition lte_eq :: "lte \<Rightarrow> lte \<Rightarrow> bool" where
  "lte_eq lhs rhs \<longleftrightarrow> lte_mcc lhs = lte_mcc rhs \<and> lte_mnc lhs = lte_mnc rhs \<and> lte_tac lhs = lte_tac rhs \<and>
     lte_id lhs = lte_id rhs \<and> lte_physical_id lhs = lte_physical_id rhs \<and> lte_strength lhs = lte_strength rhs"

section \<open>The union\<close>

record detail =
  d0 :: int
  d1 :: int
  d2 :: int
  d3 :: int
  d4 :: int
  d5 :: int

definition gsm_of :: "detail \<Rightarrow> gsm" where
  "gsm_of d = \<lparr>gsm_mcc = d0 d, gsm_mnc = d1 d, gsm_lac = d2 d, gsm_id = d3 d, gsm_strength = d4 d\<rparr>"

definition umts_of :: "detail \<Rightarrow> umts" where
  "umts_of d = \<lparr>umts_mcc = d0 d, umts_mnc = d1 d, umts_lac = d2 d, umts_id = d3 d, umts_strength = d4 d\<rparr>"

definition lte_of :: "detail \<Rightarrow> lte" where
  "lte_of d = \<lparr>lte_mcc = d0 d, lte_mnc = d1 d, lte_tac = d2 d, lte_id = d3 d, lte_physical_id = d4 d, lte_strength = d5 d\<rparr>"

definition put_gsm :: "gsm \<Rightarrow> detail \<Rightarrow> detail" where
  "put_gsm g d = d\<lparr>d0 := gsm_mcc g, d1 := gsm_mnc g, d2 := gsm_lac g, d3 := gsm_id g, d4 := gsm_strength g\<rparr>"

definition put_umts :: "umts \<Rightarrow> detail \<Rightarrow> detail" where
  "put_umts u d = d\<lparr>d0 := umts_mcc u, d1 := umts_mnc u, d2 := umts_lac u, d3 := umts_id u, d4 := umts_strength u\<rparr>"

definition put_lte :: "lte \<Rightarrow> detail \<Rightarrow> detail" where
  "put_lte l d = d\<lparr>d0 := lte_mcc l, d1 := lte_mnc l, d2 := lte_tac l, d3 := lte_id l, d4 := lte_physical_id l,
     d5 := lte_strength l\<rparr>"

section \<open>The cached cell\<close>

record radio_cell =
  radio_type :: radio_type
  detail_of :: detail
  roaming :: bool
  cell_valid :: bool
  heuristics_needed :: bool
  timer_armed :: bool
  changes :: nat

fun starts_with :: "string \<Rightarrow> string \<Rightarrow> bool" where
  "starts_with [] s = True"
| "starts_with (p # ps) [] = False"
| "starts_with (p # ps) (c # s) = (p = c \<and> starts_with ps s)"

fun contains_substring :: "string \<Rightarrow> string \<Rightarrow> bool" where
  "contains_substring sub [] = (sub = [])"
| "contains_substring sub (c # s) = (starts_with sub (c # s) \<or> contains_substring sub s)"

definition is_running_on_problematic_modem_firmware :: "string \<Rightarrow> bool" where
  "is_running_on_problematic_modem_firmware path = contains_substring ''ril'' path"

definition type_lut :: "string \<Rightarrow> radio_type option" where
  "type_lut technology =
     (if technology = ''gsm'' then Some type_gsm
      else if technology = ''lte'' then Some type_lte
      else if technology = ''umts'' then Some type_umts
      else if technology = ''edge'' then Some type_gsm
      else if technology = ''hspa'' then Some type_umts
      else if technology = [] then Some type_unknown
      else None)"

definition bad_access :: exn where
  "bad_access = runtime_error ''Bad access to unset network type.''"

definition cell_gsm :: "radio_cell \<Rightarrow> gsm result" where
  "cell_gsm c = (if radio_type c \<noteq> type_gsm then Inl bad_access else Inr (gsm_of (detail_of c)))"

definition cell_umts :: "radio_cell \<Rightarrow> umts result" where
  "cell_umts c = (if radio_type c \<noteq> type_umts then Inl bad_access else Inr (umts_of (detail_of c)))"

definition cell_lte :: "radio_cell \<Rightarrow> lte result" where
  "cell_lte c = (if radio_type c \<noteq> type_lte then Inl bad_access else Inr (lte_of (detail_of c)))"

definition cell_eq :: "radio_cell \<Rightarrow> radio_cell \<Rightarrow> bool result" where
  "cell_eq lhs rhs =
     (if radio_type lhs \<noteq> radio_type rhs then Inr False
      else case radio_type lhs of
        type_gsm \<Rightarrow> result_bind (cell_gsm lhs) (\<lambda>l. result_bind (cell_gsm rhs) (\<lambda>r. Inr (gsm_eq l r)))
      | type_umts \<Rightarrow> result_bind (cell_umts lhs) (\<lambda>l. result_bind (cell_umts rhs) (\<lambda>r. Inr (umts_eq l r)))
      | type_lte \<Rightarrow> result_bind (cell_lte lhs) (\<lambda>l. result_bind (cell_lte rhs) (\<lambda>r. Inr (lte_eq l r)))
      | type_unknown \<Rightarrow> Inr True)"

definition is_gsm_valid :: "gsm \<Rightarrow> bool" where
  "is_gsm_valid g \<longleftrightarrow> bi_is_valid country_code_bounds (gsm_mcc g) \<and> bi_is_valid network_code_bounds (gsm_mnc g) \<and>
     bi_is_valid area_code_bounds (gsm_lac g) \<and> bi_is_valid gsm_id_bounds (gsm_id g) \<and>
     bi_is_valid signal_bounds (gsm_strength g)"

definition is_umts_valid :: "umts \<Rightarrow> bool" where
  "is_umts_valid u \<longleftrightarrow> bi_is_valid country_code_bounds (umts_mcc u) \<and> bi_is_valid network_code_bounds (umts_mnc u) \<and>
     bi_is_valid area_code_bounds (umts_lac u) \<and> bi_is_valid wide_id_bounds (umts_id u) \<and>
     bi_is_valid signal_bounds (umts_strength u)"

definition is_lte_valid :: "lte \<Rightarrow> bool" where
  "is_lte_valid l \<longleftrightarrow> bi_is_valid country_code_bounds (lte_mcc l) \<and> bi_is_valid network_code_bounds (lte_mnc l) \<and>
     bi_is_valid area_code_bounds (lte_tac l) \<and> bi_is_valid wide_id_bounds (lte_id l) \<and>
     bi_is_valid physical_id_bounds (lte_physical_id l) \<and> bi_is_valid signal_bounds (lte_strength l)"

definition is_cell_details_valid :: "radio_cell \<Rightarrow> bool" where
  "is_cell_details_valid c =
     (case radio_type c of
        type_unknown \<Rightarrow> False
      | type_gsm \<Rightarrow> is_gsm_valid (gsm_of (detail_of c))
      | type_umts \<Rightarrow> is_umts_valid (umts_of (detail_of c))
      | type_lte \<Rightarrow> is_lte_valid (lte_of (detail_of c)))"

text \<open>\<open>for_gsm_too\<close> is the debugging switch read from the environment.\<close>

definition execute_cell_change_heuristics_if_appropriate :: "bool \<Rightarrow> radio_cell \<Rightarrow> radio_cell" where
  "execute_cell_change_heuristics_if_appropriate for_gsm_too c =
     (if heuristics_needed c \<and> (radio_type c = type_umts \<or> for_gsm_too)
      then c\<lparr>timer_armed := True, cell_valid := is_cell_details_valid c\<rparr>
      else c)"

definition timer_expired :: "radio_cell \<Rightarrow> radio_cell" where
  "timer_expired c = (if timer_armed c then c\<lparr>timer_armed := False, cell_valid := False\<rparr> else c)"


section \<open>Reading integers from a stream\<close>

text \<open>
  \<open>int value{d}; ss >> value\<close> on a stream holding the string: an exhausted stream leaves the value
  alone, text that is no number stores 0, and a number out of range stores the nearest \<open>int\<close>.
\<close>

definition is_digit :: "char \<Rightarrow> bool" where
  "is_digit c \<longleftrightarrow> 48 \<le> (of_char c :: nat) \<and> (of_char c :: nat) \<le> 57"

definition digits_value :: "string \<Rightarrow> int" where
  "digits_value s = foldl (\<lambda>a c. 10 * a + (of_char c - 48)) 0 s"

definition extract_int :: "int \<Rightarrow> string \<Rightarrow> int" where
  "extract_int d s =
     (case dropWhile is_space s of
        [] \<Rightarrow> d
      | c # cs \<Rightarrow>
          (let digits = takeWhile is_digit (if c = CHR ''-'' \<or> c = CHR ''+'' then cs else c # cs);
               v = (if c = CHR ''-'' then - digits_value digits else digits_value digits)
           in max (- (2 ^ 31)) (min int_max v)))"

section \<open>Changes of the network registration\<close>

datatype registration_property =
    Technology string
  | CellId "32 word"
  | LocationAreaCode "16 word"
  | MobileCountryCode string
  | MobileNetworkCode string
  | Strength "8 word"
  | Status string
  | Other_property

definition switch_technology :: "radio_type \<Rightarrow> radio_type \<Rightarrow> detail \<Rightarrow> detail" where
  "switch_technology old new d =
     (case old of
        type_gsm \<Rightarrow>
          (case new of
             type_umts \<Rightarrow>
               (let d = put_umts (umts_of d\<lparr>umts_lac := gsm_lac (gsm_of d)\<rparr>) d;
                    d = put_umts (umts_of d\<lparr>umts_mnc := gsm_mnc (gsm_of d)\<rparr>) d;
                    d = put_umts (umts_of d\<lparr>umts_mcc := gsm_mcc (gsm_of d)\<rparr>) d;
                    d = put_umts (umts_of d\<lparr>umts_strength := bi_reset signal_bounds (umts_strength (umts_of d))\<rparr>) d
                in put_umts (umts_of d\<lparr>umts_id := bi_reset wide_id_bounds (umts_id (umts_of d))\<rparr>) d)
           | type_lte \<Rightarrow>
               (let d = put_lte (lte_of d\<lparr>lte_tac := gsm_lac (gsm_of d)\<rparr>) d;
                    d = put_lte (lte_of d\<lparr>lte_mnc := gsm_mnc (gsm_of d)\<rparr>) d;
                    d = put_lte (lte_of d\<lparr>lte_mcc := gsm_mcc (gsm_of d)\<rparr>) d;
                    d = put_lte (lte_of d\<lparr>lte_strength := bi_reset signal_bounds (lte_strength (lte_of d))\<rparr>) d
                in put_lte (lte_of d\<lparr>lte_id := bi_reset wide_id_bounds (lte_id (lte_of d))\<rparr>) d)
           | _ \<Rightarrow> d)
      | type_umts \<Rightarrow>
          (case new of
             type_gsm \<Rightarrow>
               (let d = put_gsm (gsm_of d\<lparr>gsm_lac := umts_lac (umts_of d)\<rparr>) d;
                    d = put_gsm (gsm_of d\<lparr>gsm_mnc := umts_mnc (umts_of d)\<rparr>) d;
                    d = put_gsm (gsm_of d\<lparr>gsm_mcc := umts_mcc (umts_of d)\<rparr>) d;
                    d = put_gsm (gsm_of d\<lparr>gsm_strength := bi_reset signal_bounds (gsm_strength (gsm_of d))\<rparr>) d
                in put_gsm (gsm_of d\<lparr>gsm_id := bi_reset gsm_id_bounds (gsm_id (gsm_of d))\<rparr>) d)
           | type_lte \<Rightarrow>
               (let d = put_lte (lte_of d\<lparr>lte_tac := umts_lac (umts_of d)\<rparr>) d;
                    d = put_lte (lte_of d\<lparr>lte_mnc := umts_mnc (umts_of d)\<rparr>) d;
                    d = put_lte (lte_of d\<lparr>lte_mcc := umts_mcc (umts_of d)\<rparr>) d;
                    d = put_lte (lte_of d\<lparr>lte_strength := bi_reset signal_bounds (lte_strength (lte_of d))\<rparr>) d
                in put_lte (lte_of d\<lparr>lte_id := bi_reset wide_id_bounds (lte_id (lte_of d))\<rparr>) d)
           | _ \<Rightarrow> d)
      | type_lte \<Rightarrow>
          (case new of
             type_gsm \<Rightarrow>
               (let d = put_gsm (gsm_of d\<lparr>gsm_lac := lte_tac (lte_of d)\<rparr>) d;
                    d = put_gsm (gsm_of d\<lparr>gsm_mnc := lte_mnc (lte_of d)\<rparr>) d;
                    d = put_gsm (gsm_of d\<lparr>gsm_mcc := lte_mcc (lte_of d)\<rparr>) d;
                    d = put_gsm (gsm_of d\<lparr>gsm_strength := bi_reset signal_bounds (gsm_strength (gsm_of d))\<rparr>) d
                in put_gsm (gsm_of d\<lparr>gsm_id := bi_reset gsm_id_bounds (gsm_id (gsm_of d))\<rparr>) d)
           | type_umts \<Rightarrow>
               (let d = put_umts (umts_of d\<lparr>umts_lac := lte_tac (lte_of d)\<rparr>) d;
                    d = put_umts (umts_of d\<lparr>umts_mnc := lte_mnc (lte_of d)\<rparr>) d;
                    d = put_umts (umts_of d\<lparr>umts_mcc := lte_mcc (lte_of d)\<rparr>) d;
                    d = put_umts (umts_of d\<lparr>umts_strength := bi_reset signal_bounds (umts_strength (umts_of d))\<rparr>) d
                in put_umts (umts_of d\<lparr>umts_id := bi_reset wide_id_bounds (umts_id (umts_of d))\<rparr>) d)
           | _ \<Rightarrow> d)
      | type_unknown \<Rightarrow> d)"

definition set_cell_id :: "radio_type \<Rightarrow> int \<Rightarrow> detail \<Rightarrow> detail result" where
  "set_cell_id t v d =
     (case t of
        type_gsm \<Rightarrow> result_bind (bi_set gsm_id_bounds (gsm_id (gsm_of d)) v) (\<lambda>x. Inr (put_gsm (gsm_of d\<lparr>gsm_id := x\<rparr>) d))
      | type_umts \<Rightarrow> result_bind (bi_set wide_id_bounds (umts_id (umts_of d)) v) (\<lambda>x. Inr (put_umts (umts_of d\<lparr>umts_id := x\<rparr>) d))
      | type_lte \<Rightarrow> result_bind (bi_set wide_id_bounds (lte_id (lte_of d)) v) (\<lambda>x. Inr (put_lte (lte_of d\<lparr>lte_id := x\<rparr>) d))
      | type_unknown \<Rightarrow> Inr d)"

definition set_area_code :: "radio_type \<Rightarrow> int \<Rightarrow> detail \<Rightarrow> detail result" where
  "set_area_code t v d =
     (case t of
        type_gsm \<Rightarrow> result_bind (bi_set area_code_bounds (gsm_lac (gsm_of d)) v) (\<lambda>x. Inr (put_gsm (gsm_of d\<lparr>gsm_lac := x\<rparr>) d))
      | type_umts \<Rightarrow> result_bind (bi_set area_code_bounds (umts_lac (umts_of d)) v) (\<lambda>x. Inr (put_umts (umts_of d\<lparr>umts_lac := x\<rparr>) d))
      | type_lte \<Rightarrow> result_bind (bi_set area_code_bounds (lte_tac (lte_of d)) v) (\<lambda>x. Inr (put_lte (lte_of d\<lparr>lte_tac := x\<rparr>) d))
      | type_unknown \<Rightarrow> Inr d)"

definition set_country_code :: "radio_type \<Rightarrow> int \<Rightarrow> detail \<Rightarrow> detail result" where
  "set_country_code t v d =
     (case t of
        type_gsm \<Rightarrow> result_bind (bi_set country_code_bounds (gsm_mcc (gsm_of d)) v) (\<lambda>x. Inr (put_gsm (gsm_of d\<lparr>gsm_mcc := x\<rparr>) d))
      | type_umts \<Rightarrow> result_bind (bi_set country_code_bounds (umts_mcc (umts_of d)) v) (\<lambda>x. Inr (put_umts (umts_of d\<lparr>umts_mcc := x\<rparr>) d))
      | type_lte \<Rightarrow> result_bind (bi_set country_code_bounds (lte_mcc (lte_of d)) v) (\<lambda>x. Inr (put_lte (lte_of d\<lparr>lte_mcc := x\<rparr>) d))
      | type_unknown \<Rightarrow> Inr d)"

definition set_network_code :: "radio_type \<Rightarrow> int \<Rightarrow> detail \<Rightarrow> detail result" where
  "set_network_code t v d =
     (case t of
        type_gsm \<Rightarrow> result_bind (bi_set network_code_bounds (gsm_mnc (gsm_of d)) v) (\<lambda>x. Inr (put_gsm (gsm_of d\<lparr>gsm_mnc := x\<rparr>) d))
      | type_umts \<Rightarrow> result_bind (bi_set network_code_bounds (umts_mnc (umts_of d)) v) (\<lambda>x. Inr (put_umts (umts_of d\<lparr>umts_mnc := x\<rparr>) d))
      | type_lte \<Rightarrow> result_bind (bi_set network_code_bounds (lte_mnc (lte_of d)) v) (\<lambda>x. Inr (put_lte (lte_of d\<lparr>lte_mnc := x\<rparr>) d))
      | type_unknown \<Rightarrow> Inr d)"

definition percent :: "(real \<Rightarrow> real) \<Rightarrow> 8 word \<Rightarrow> double" where
  "percent rnd value = Fin (rnd (of_int (sint value) / 100))"

definition set_strength :: "(real \<Rightarrow> real) \<Rightarrow> radio_type \<Rightarrow> 8 word \<Rightarrow> detail \<Rightarrow> detail result" where
  "set_strength rnd t value d =
     (case t of
        type_gsm \<Rightarrow> result_bind (bi_from_percent rnd signal_bounds (percent rnd value)) (\<lambda>x. Inr (put_gsm (gsm_of d\<lparr>gsm_strength := x\<rparr>) d))
      | type_umts \<Rightarrow> result_bind (bi_from_percent rnd signal_bounds (percent rnd value)) (\<lambda>x. Inr (put_umts (umts_of d\<lparr>umts_strength := x\<rparr>) d))
      | type_lte \<Rightarrow> result_bind (bi_from_percent rnd signal_bounds (percent rnd value)) (\<lambda>x. Inr (put_lte (lte_of d\<lparr>lte_strength := x\<rparr>) d))
      | type_unknown \<Rightarrow> Inr d)"

definition emit_changed_if_valid :: "radio_cell \<Rightarrow> radio_cell" where
  "emit_changed_if_valid c = (if cell_valid c then c\<lparr>changes := Suc (changes c)\<rparr> else c)"

text \<open>The branches for the values of the cell: store, notify, run the heuristics if asked to.\<close>

definition store_detail :: "(radio_cell \<Rightarrow> radio_cell) \<Rightarrow> detail result \<Rightarrow> radio_cell \<Rightarrow> exn option \<times> radio_cell" where
  "store_detail finish r c =
     (case r of
        Inl e \<Rightarrow> (Some e, c)
      | Inr d \<Rightarrow> (None, finish (emit_changed_if_valid (c\<lparr>detail_of := d\<rparr>))))"

definition on_network_registration_property_changed ::
  "(real \<Rightarrow> real) \<Rightarrow> bool \<Rightarrow> registration_property \<Rightarrow> radio_cell \<Rightarrow> exn option \<times> radio_cell" where
  "on_network_registration_property_changed rnd for_gsm_too p c =
     (let t = radio_type c; d = detail_of c; heuristics = execute_cell_change_heuristics_if_appropriate for_gsm_too
      in case p of
        Technology value \<Rightarrow>
          (case type_lut value of
             None \<Rightarrow> (None, c)
           | Some new \<Rightarrow>
               if new = type_unknown then (None, c)
               else if t = new then (None, c)
               else (None, heuristics (emit_changed_if_valid (c\<lparr>detail_of := switch_technology t new d, radio_type := new\<rparr>))))
      | CellId value \<Rightarrow> store_detail heuristics (set_cell_id t (int32 (uint value)) d) c
      | LocationAreaCode value \<Rightarrow> store_detail heuristics (set_area_code t (uint value) d) c
      | MobileCountryCode s \<Rightarrow> store_detail heuristics (set_country_code t (extract_int (-1) s) d) c
      | MobileNetworkCode s \<Rightarrow> store_detail heuristics (set_network_code t (extract_int (-1) s) d) c
      | Strength value \<Rightarrow> store_detail (\<lambda>c. c) (set_strength rnd t value d) c
      | Status s \<Rightarrow> (None, c\<lparr>roaming := (s = ''roaming'')\<rparr>)
      | Other_property \<Rightarrow> (None, c))"

section \<open>Construction\<close>

record properties =
  status_property :: "string option"
  technology_property :: "string option"
  lac_property :: "16 word option"
  cell_id_property :: "32 word option"
  mcc_property :: "string option"
  mnc_property :: "string option"
  strength_property :: "8 word option"

definition get_property :: "(properties \<Rightarrow> 'a option) \<Rightarrow> 'a \<Rightarrow> properties option \<Rightarrow> 'a" where
  "get_property field dflt answer =
     (case answer of
        None \<Rightarrow> dflt
      | Some ps \<Rightarrow> (case field ps of None \<Rightarrow> dflt | Some v \<Rightarrow> v))"

datatype registration_status = unregistered | registered | searching | denied | unknown_status | roaming_status

definition query_status :: "properties option \<Rightarrow> registration_status" where
  "query_status answer =
     (let status = get_property status_property [] answer
      in if status = ''unregistered'' then unregistered
         else if status = ''registered'' then registered
         else if status = ''searching'' then searching
         else if status = ''denied'' then denied
         else if status = ''unknown'' then unknown_status
         else if status = ''unregistered'' then unregistered
         else if status = ''roaming'' then roaming_status
         else unknown_status)"

definition query_technology :: "properties option \<Rightarrow> radio_type" where
  "query_technology answer =
     (case type_lut (get_property technology_property [] answer) of None \<Rightarrow> type_unknown | Some t \<Rightarrow> t)"

definition query_cid :: "properties option \<Rightarrow> int" where
  "query_cid answer = int32 (uint (get_property cell_id_property 0 answer))"

definition query_lac :: "properties option \<Rightarrow> 16 word" where
  "query_lac answer = get_property lac_property 0 answer"

definition query_mnc :: "properties option \<Rightarrow> int" where
  "query_mnc answer = extract_int 0 (get_property mnc_property [] answer)"

definition query_mcc :: "properties option \<Rightarrow> int" where
  "query_mcc answer = extract_int 0 (get_property mcc_property [] answer)"

definition query_strength :: "properties option \<Rightarrow> 8 word" where
  "query_strength answer = get_property strength_property 0 answer"

definition is_registered_or_roaming :: "registration_status \<Rightarrow> bool" where
  "is_registered_or_roaming s \<longleftrightarrow> s = registered \<or> s = roaming_status"

definition initial_detail :: "(real \<Rightarrow> real) \<Rightarrow> radio_type \<Rightarrow> int \<Rightarrow> int \<Rightarrow> int \<Rightarrow> int \<Rightarrow> 8 word \<Rightarrow> detail \<Rightarrow> detail result" where
  "initial_detail rnd t mcc mnc lac cell_id strength d =
     (case t of
        type_gsm \<Rightarrow>
          result_bind (bi_make country_code_bounds mcc) (\<lambda>mcc. result_bind (bi_make network_code_bounds mnc) (\<lambda>mnc.
          result_bind (bi_make area_code_bounds lac) (\<lambda>lac. result_bind (bi_make gsm_id_bounds cell_id) (\<lambda>i.
          result_bind (bi_from_percent rnd signal_bounds (percent rnd strength)) (\<lambda>s.
            Inr (put_gsm \<lparr>gsm_mcc = mcc, gsm_mnc = mnc, gsm_lac = lac, gsm_id = i, gsm_strength = s\<rparr> d))))))
      | type_lte \<Rightarrow>
          result_bind (bi_make country_code_bounds mcc) (\<lambda>mcc. result_bind (bi_make network_code_bounds mnc) (\<lambda>mnc.
          result_bind (bi_make area_code_bounds lac) (\<lambda>lac. result_bind (bi_make wide_id_bounds cell_id) (\<lambda>i.
          result_bind (bi_from_percent rnd signal_bounds (percent rnd strength)) (\<lambda>s.
            Inr (put_lte \<lparr>lte_mcc = mcc, lte_mnc = mnc, lte_tac = lac, lte_id = i,
              lte_physical_id = bi_default physical_id_bounds, lte_strength = s\<rparr> d))))))
      | type_umts \<Rightarrow>
          result_bind (bi_make country_code_bounds mcc) (\<lambda>mcc. result_bind (bi_make network_code_bounds mnc) (\<lambda>mnc.
          result_bind (bi_make area_code_bounds lac) (\<lambda>lac. result_bind (bi_make wide_id_bounds cell_id) (\<lambda>i.
          result_bind (bi_from_percent rnd signal_bounds (percent rnd strength)) (\<lambda>s.
            Inr (put_umts \<lparr>umts_mcc = mcc, umts_mnc = mnc, umts_lac = lac, umts_id = i, umts_strength = s\<rparr> d))))))
      | type_unknown \<Rightarrow> Inr d)"

text \<open>
  The slot on the signal of the registration is connected before anything can throw and a
  constructor that throws does not run the destructor, so it stays connected in every case.
\<close>

definition new_radio_cell ::
  "(real \<Rightarrow> real) \<Rightarrow> bool \<Rightarrow> string \<Rightarrow> (nat \<Rightarrow> properties option) \<Rightarrow> detail \<Rightarrow> radio_cell result" where
  "new_radio_cell rnd for_gsm_too path answers memory =
     (let status = query_status (answers 0);
          c = \<lparr>radio_type = query_technology (answers 1), detail_of = memory, roaming = False, cell_valid = True,
                heuristics_needed = is_running_on_problematic_modem_firmware path, timer_armed = False, changes = 0\<rparr>
      in if \<not> is_registered_or_roaming status then Inr c
         else if radio_type c = type_unknown then Inr c
         else result_bind
           (initial_detail rnd (radio_type c) (query_mcc (answers 3)) (query_mnc (answers 4)) (uint (query_lac (answers 2)))
              (query_cid (answers 5)) (query_strength (answers 6)) memory)
           (\<lambda>d. Inr (execute_cell_change_heuristics_if_appropriate for_gsm_too
              (c\<lparr>detail_of := d, roaming := (status = roaming_status)\<rparr>))))"


section \<open>Values stay in range\<close>

lemmas union_defs = gsm_of_def umts_of_def lte_of_def put_gsm_def put_umts_def put_lte_def

lemmas cell_bounds = country_code_bounds_def network_code_bounds_def area_code_bounds_def gsm_id_bounds_def
  wide_id_bounds_def physical_id_bounds_def signal_bounds_def

lemmas detail_setters = set_cell_id_def set_area_code_def set_country_code_def set_network_code_def set_strength_def

text \<open>A value of the range or the one an invalidated field holds.\<close>

definition valid_or_reset :: "bounds \<Rightarrow> int \<Rightarrow> bool" where
  "valid_or_reset b v \<longleftrightarrow> bi_is_valid b v \<or> v = bi_invalid b"

definition detail_in_range :: "radio_type \<Rightarrow> detail \<Rightarrow> bool" where
  "detail_in_range t d \<longleftrightarrow> bi_is_valid country_code_bounds (d0 d) \<and> bi_is_valid network_code_bounds (d1 d) \<and>
     bi_is_valid area_code_bounds (d2 d) \<and>
     (case t of
        type_gsm \<Rightarrow> valid_or_reset gsm_id_bounds (d3 d) \<and> valid_or_reset signal_bounds (d4 d)
      | type_umts \<Rightarrow> valid_or_reset wide_id_bounds (d3 d) \<and> valid_or_reset signal_bounds (d4 d)
      | type_lte \<Rightarrow> valid_or_reset wide_id_bounds (d3 d) \<and> valid_or_reset signal_bounds (d5 d) \<and>
          (bi_is_valid physical_id_bounds (d4 d) \<or> d4 d = bi_default physical_id_bounds)
      | type_unknown \<Rightarrow> False)"

lemma signal_percent_valid:
  "rounds_float rnd \<Longrightarrow> \<exists>v. bi_from_percent rnd signal_bounds p = Inr v \<and> bi_is_valid signal_bounds v"
  by (rule bi_from_percent_valid) (simp_all add: signal_bounds_def)

lemma switch_technology_detail:
  assumes "old \<noteq> type_unknown" "new \<noteq> type_unknown" "old \<noteq> new"
  shows "switch_technology old new d =
    (if new = type_lte then d\<lparr>d3 := int_max, d5 := 99\<rparr> else d\<lparr>d3 := int_max, d4 := 99\<rparr>)"
  using assms by (cases old; cases new)
    (simp_all add: switch_technology_def union_defs bi_reset_def bi_invalid_def cell_bounds Let_def)

lemma switch_technology_in_range:
  assumes "detail_in_range old d" "new \<noteq> type_unknown" "old \<noteq> new"
  shows "detail_in_range new (switch_technology old new d)"
proof -
  have "old \<noteq> type_unknown" using assms(1) by (auto simp: detail_in_range_def)
  with assms show ?thesis
    by (cases old; cases new)
      (auto simp: switch_technology_detail detail_in_range_def valid_or_reset_def bi_invalid_def bi_is_valid_def cell_bounds int_max_def)
qed

lemma setters_in_range:
  assumes "detail_in_range t d"
  shows "set_cell_id t v d = Inr d' \<Longrightarrow> detail_in_range t d'"
    "set_area_code t v d = Inr d' \<Longrightarrow> detail_in_range t d'"
    "set_country_code t v d = Inr d' \<Longrightarrow> detail_in_range t d'"
    "set_network_code t v d = Inr d' \<Longrightarrow> detail_in_range t d'"
  using assms by (cases t; auto simp: detail_setters detail_in_range_def result_bind_Inr bi_set_valid union_defs valid_or_reset_def)+

lemma set_strength_in_range:
  assumes "rounds_float rnd" "detail_in_range t d" "set_strength rnd t s d = Inr d'"
  shows "detail_in_range t d'"
  using assms signal_percent_valid [OF assms(1), of "percent rnd s"]
  by (cases t) (auto simp: set_strength_def detail_in_range_def valid_or_reset_def union_defs)

lemma heuristics_fields [simp]:
  "radio_type (execute_cell_change_heuristics_if_appropriate g c) = radio_type c"
  "detail_of (execute_cell_change_heuristics_if_appropriate g c) = detail_of c"
  "changes (execute_cell_change_heuristics_if_appropriate g c) = changes c"
  "heuristics_needed (execute_cell_change_heuristics_if_appropriate g c) = heuristics_needed c"
  by (simp_all add: execute_cell_change_heuristics_if_appropriate_def)

lemma emit_fields [simp]:
  "radio_type (emit_changed_if_valid c) = radio_type c" "detail_of (emit_changed_if_valid c) = detail_of c"
  "cell_valid (emit_changed_if_valid c) = cell_valid c" "heuristics_needed (emit_changed_if_valid c) = heuristics_needed c"
  "timer_armed (emit_changed_if_valid c) = timer_armed c"
  by (simp_all add: emit_changed_if_valid_def)

datatype cell_event = Property_changed registration_property | Timer_expired

fun cell_step :: "(real \<Rightarrow> real) \<Rightarrow> bool \<Rightarrow> cell_event \<Rightarrow> radio_cell \<Rightarrow> radio_cell" where
  "cell_step rnd g (Property_changed p) c = snd (on_network_registration_property_changed rnd g p c)"
| "cell_step rnd g Timer_expired c = timer_expired c"

definition cell_run :: "(real \<Rightarrow> real) \<Rightarrow> bool \<Rightarrow> cell_event list \<Rightarrow> radio_cell \<Rightarrow> radio_cell" where
  "cell_run rnd g es c = fold (cell_step rnd g) es c"

definition cell_in_range :: "radio_cell \<Rightarrow> bool" where
  "cell_in_range c \<longleftrightarrow> detail_in_range (radio_type c) (detail_of c)"

lemma store_detail_in_range:
  assumes "cell_in_range c" "\<And>d'. r = Inr d' \<Longrightarrow> detail_in_range (radio_type c) d'"
    "\<And>c. radio_type (finish c) = radio_type c" "\<And>c. detail_of (finish c) = detail_of c"
  shows "cell_in_range (snd (store_detail finish r c))"
  using assms by (cases r) (simp_all add: store_detail_def cell_in_range_def)

lemma cell_step_in_range:
  assumes rnd: "rounds_float rnd" and ok: "cell_in_range c"
  shows "cell_in_range (cell_step rnd g e c)"
proof -
  have d: "detail_in_range (radio_type c) (detail_of c)" using ok by (simp add: cell_in_range_def)
  show ?thesis
  proof (cases e)
    case Timer_expired
    with ok show ?thesis by (simp add: cell_in_range_def timer_expired_def)
  next
    case (Property_changed p)
    show ?thesis
    proof (cases p)
      case (Technology t)
      with Property_changed ok d show ?thesis
        by (auto simp: on_network_registration_property_changed_def Let_def cell_in_range_def
            intro: switch_technology_in_range split: option.split)
    next
      case (Status s)
      with Property_changed ok show ?thesis
        by (simp add: on_network_registration_property_changed_def Let_def cell_in_range_def)
    next
      case Other_property
      with Property_changed ok show ?thesis
        by (simp add: on_network_registration_property_changed_def Let_def)
    qed (auto simp: Property_changed on_network_registration_property_changed_def Let_def
        intro!: store_detail_in_range ok intro: setters_in_range [OF d] set_strength_in_range [OF rnd d])
  qed
qed

lemma initial_detail_in_range:
  assumes "rounds_float rnd" "t \<noteq> type_unknown" "initial_detail rnd t mcc mnc lac i s d = Inr d'"
  shows "detail_in_range t d'"
  using assms signal_percent_valid [OF assms(1), of "percent rnd s"]
  by (cases t) (auto simp: initial_detail_def detail_in_range_def valid_or_reset_def result_bind_Inr bi_make_valid union_defs)

lemma new_radio_cell_registered:
  assumes "new_radio_cell rnd g path answers memory = Inr c" "is_registered_or_roaming (query_status (answers 0))"
    "radio_type c \<noteq> type_unknown"
  shows "\<exists>d. initial_detail rnd (radio_type c) (query_mcc (answers 3)) (query_mnc (answers 4))
      (uint (query_lac (answers 2))) (query_cid (answers 5)) (query_strength (answers 6)) memory = Inr d \<and>
    detail_of c = d \<and> radio_type c = query_technology (answers 1)"
  using assms by (auto simp: new_radio_cell_def Let_def result_bind_Inr split: if_splits)

text \<open>
  The cell of a registered modem never holds a value outside of its range: whatever changes the
  modem reports and whenever the timer expires, the country, network and area code are valid and the
  cell id, the signal strength and the physical id are valid or marked as missing.
\<close>

theorem registered_cell_stays_in_range:
  assumes "rounds_float rnd" "new_radio_cell rnd g path answers memory = Inr c"
    "is_registered_or_roaming (query_status (answers 0))" "radio_type c \<noteq> type_unknown"
  shows "cell_in_range (cell_run rnd g es c)"
proof -
  have "cell_in_range c"
    using new_radio_cell_registered [OF assms(2-4)] initial_detail_in_range [OF assms(1,4)]
    by (auto simp: cell_in_range_def)
  then show ?thesis
    unfolding cell_run_def by (induction es arbitrary: c) (simp_all add: cell_step_in_range [OF assms(1)])
qed


definition demo_properties :: "string \<Rightarrow> properties" where
  "demo_properties technology = \<lparr>status_property = Some ''registered'', technology_property = Some technology,
     lac_property = Some 21, cell_id_property = Some 42, mcc_property = Some ''262'', mnc_property = Some ''07'',
     strength_property = Some 100\<rparr>"

lemmas query_defs = query_status_def query_technology_def query_cid_def query_lac_def query_mcc_def query_mnc_def
  query_strength_def get_property_def

lemma extract_demo [simp]: "extract_int d ''262'' = 262" "extract_int d ''07'' = 7"
  by (simp_all add: extract_int_def is_space_def is_digit_def digits_value_def int_max_def Let_def)

lemma rounds_float_id [simp]: "rounds_float (\<lambda>x. x)"
  by (simp add: rounds_float_def mono_def)

lemma full_strength [simp]: "bi_from_percent (\<lambda>x. x) signal_bounds (percent (\<lambda>x. x) 100) = Inr 31"
  by (simp add: bi_from_percent_def percent_def cap_percent_def Let_def bi_minimum_def bi_range_def signal_bounds_def bi_make_def)

lemma full_strength_range: "b_min signal_bounds = 0" "b_max signal_bounds = 31"
  by (simp_all add: signal_bounds_def)

lemma demo_cell:
  "new_radio_cell (\<lambda>x. x) False ''/ril_0'' (\<lambda>k. Some (demo_properties ''umts'')) memory =
     Inr \<lparr>radio_type = type_umts, detail_of = memory\<lparr>d0 := 262, d1 := 7, d2 := 21, d3 := 42, d4 := 31\<rparr>, roaming = False,
       cell_valid = True, heuristics_needed = True, timer_armed = True, changes = 0\<rparr>"
  by (simp add: new_radio_cell_def demo_properties_def query_defs type_lut_def is_registered_or_roaming_def
      is_running_on_problematic_modem_firmware_def initial_detail_def bi_make_def country_code_bounds_def
      network_code_bounds_def area_code_bounds_def wide_id_bounds_def Let_def union_defs
      execute_cell_change_heuristics_if_appropriate_def is_cell_details_valid_def is_umts_valid_def bi_is_valid_def
      full_strength_range int32_id)

theorem registered_cell_stays_in_range_witness:
  "case new_radio_cell (\<lambda>x. x) False ''/ril_0'' (\<lambda>k. Some (demo_properties ''umts'')) \<lparr>d0 = 9, d1 = 9, d2 = 9, d3 = 9, d4 = 9, d5 = 9\<rparr> of
     Inr c \<Rightarrow> cell_in_range (cell_run (\<lambda>x. x) False
       [Property_changed (Technology ''lte''), Property_changed (CellId (- 1)), Timer_expired] c)
   | Inl e \<Rightarrow> False"
  unfolding demo_cell sum.case
  by (rule registered_cell_stays_in_range [OF _ demo_cell]) (simp_all add: query_defs demo_properties_def is_registered_or_roaming_def)

section \<open>Reports of the modem\<close>

fun report :: "(real \<Rightarrow> real) \<Rightarrow> bool \<Rightarrow> registration_property list \<Rightarrow> radio_cell \<Rightarrow> exn option \<times> radio_cell" where
  "report rnd g [] c = (None, c)"
| "report rnd g (p # ps) c =
     (case on_network_registration_property_changed rnd g p c of
        (Some e, c') \<Rightarrow> (Some e, c')
      | (None, c') \<Rightarrow> report rnd g ps c')"

definition id_bounds :: "radio_type \<Rightarrow> bounds" where
  "id_bounds t = (if t = type_gsm then gsm_id_bounds else wide_id_bounds)"

lemma setters_store:
  assumes "t \<noteq> type_unknown"
  shows "bi_is_valid country_code_bounds v \<Longrightarrow> set_country_code t v d = Inr (d\<lparr>d0 := v\<rparr>)"
    "bi_is_valid network_code_bounds v \<Longrightarrow> set_network_code t v d = Inr (d\<lparr>d1 := v\<rparr>)"
    "bi_is_valid area_code_bounds v \<Longrightarrow> set_area_code t v d = Inr (d\<lparr>d2 := v\<rparr>)"
    "bi_is_valid (id_bounds t) v \<Longrightarrow> set_cell_id t v d = Inr (d\<lparr>d3 := v\<rparr>)"
    "bi_from_percent rnd signal_bounds (percent rnd s) = Inr v \<Longrightarrow>
       set_strength rnd t s d = Inr (if t = type_lte then d\<lparr>d5 := v\<rparr> else d\<lparr>d4 := v\<rparr>)"
  using assms by (cases t; simp add: detail_setters bi_set_def bi_is_valid_def id_bounds_def union_defs)+

lemma store_detail_ok [simp]:
  "store_detail finish (Inr d) c = (None, finish (emit_changed_if_valid (c\<lparr>detail_of := d\<rparr>)))"
  by (simp add: store_detail_def)

lemma uint_area_code: "bi_is_valid area_code_bounds (uint (lac :: 16 word))"
  using uint_bounded [of lac] by (simp add: bi_is_valid_def area_code_bounds_def)

text \<open>
  A complete report of values in their ranges is stored exactly: whatever the cell held before,
  also uninitialised storage, its details are the reported ones afterwards. A GSM or UMTS cell is
  then valid; an LTE cell is valid exactly if the physical id it already had is.
\<close>

theorem complete_report_is_stored:
  assumes "rounds_float rnd" "radio_type c \<noteq> type_unknown"
    "bi_is_valid country_code_bounds (extract_int (-1) mcc)" "bi_is_valid network_code_bounds (extract_int (-1) mnc)"
    "bi_is_valid (id_bounds (radio_type c)) (int32 (uint cid))"
  shows "\<exists>c' v. report rnd g [MobileCountryCode mcc, MobileNetworkCode mnc, LocationAreaCode lac, CellId cid, Strength s] c =
      (None, c') \<and> bi_from_percent rnd signal_bounds (percent rnd s) = Inr v \<and>
    radio_type c' = radio_type c \<and>
    gsm_of (detail_of c')\<lparr>gsm_strength := v\<rparr> =
      \<lparr>gsm_mcc = extract_int (-1) mcc, gsm_mnc = extract_int (-1) mnc, gsm_lac = uint lac, gsm_id = int32 (uint cid),
       gsm_strength = v\<rparr> \<and>
    (if radio_type c = type_lte
     then lte_strength (lte_of (detail_of c')) = v \<and> lte_physical_id (lte_of (detail_of c')) = d4 (detail_of c) \<and>
       is_cell_details_valid c' = bi_is_valid physical_id_bounds (d4 (detail_of c))
     else gsm_strength (gsm_of (detail_of c')) = v \<and> is_cell_details_valid c')"
proof -
  obtain v where v: "bi_from_percent rnd signal_bounds (percent rnd s) = Inr v" "bi_is_valid signal_bounds v"
    using signal_percent_valid [OF assms(1)] by blast
  show ?thesis
    using assms(2-5) v uint_area_code [of lac]
    by (cases "radio_type c")
      (simp_all add: on_network_registration_property_changed_def Let_def setters_store union_defs id_bounds_def
        is_cell_details_valid_def is_gsm_valid_def is_umts_valid_def is_lte_valid_def)
qed

theorem complete_report_is_stored_witness:
  "\<exists>c'. report (\<lambda>x. x) False [MobileCountryCode ''262'', MobileNetworkCode ''07'', LocationAreaCode 21, CellId 42, Strength 100]
      \<lparr>radio_type = type_gsm, detail_of = \<lparr>d0 = -5, d1 = 9, d2 = 9, d3 = 9, d4 = 9, d5 = 9\<rparr>, roaming = False,
       cell_valid = True, heuristics_needed = True, timer_armed = True, changes = 0\<rparr> = (None, c') \<and>
    is_cell_details_valid c'"
  using complete_report_is_stored [of "\<lambda>x. x" "\<lparr>radio_type = type_gsm, detail_of = \<lparr>d0 = -5, d1 = 9, d2 = 9, d3 = 9, d4 = 9, d5 = 9\<rparr>, roaming = False,
       cell_valid = True, heuristics_needed = True, timer_armed = True, changes = 0\<rparr>" "''262''" "''07''" 42 False 21 100]
  by (auto simp: bi_is_valid_def country_code_bounds_def network_code_bounds_def id_bounds_def gsm_id_bounds_def)


section \<open>The physical id of an LTE cell\<close>

fun changes_technology :: "cell_event \<Rightarrow> bool" where
  "changes_technology (Property_changed (Technology t)) = True"
| "changes_technology e = False"

lemma setters_keep_physical_id:
  "set_cell_id type_lte v d = Inr d' \<Longrightarrow> d4 d' = d4 d"
  "set_area_code type_lte v d = Inr d' \<Longrightarrow> d4 d' = d4 d"
  "set_country_code type_lte v d = Inr d' \<Longrightarrow> d4 d' = d4 d"
  "set_network_code type_lte v d = Inr d' \<Longrightarrow> d4 d' = d4 d"
  "set_strength rnd type_lte s d = Inr d' \<Longrightarrow> d4 d' = d4 d"
  by (auto simp: detail_setters result_bind_Inr union_defs)

lemma lte_step_keeps_physical_id:
  assumes "radio_type c = type_lte" "\<not> changes_technology e"
  shows "radio_type (cell_step rnd g e c) = type_lte \<and> d4 (detail_of (cell_step rnd g e c)) = d4 (detail_of c)"
proof (cases e)
  case (Property_changed p)
  then show ?thesis
    using assms by (cases p) (auto simp: on_network_registration_property_changed_def Let_def store_detail_def
        dest: setters_keep_physical_id split: sum.split)
qed (use assms in \<open>simp add: timer_expired_def\<close>)

text \<open>
  The physical id of an LTE cell is never the one of the cell. A cell that starts as LTE keeps
  the default, which is invalid, so its details are not valid before the technology changes; a cell
  that changes from GSM to LTE reports its old signal strength as physical id.
\<close>

theorem lte_physical_id_is_never_set:
  assumes "new_radio_cell rnd g path answers memory = Inr c" "is_registered_or_roaming (query_status (answers 0))"
    "radio_type c = type_lte" "list_all (\<lambda>e. \<not> changes_technology e) es"
  shows "\<not> is_cell_details_valid (cell_run rnd g es c) \<and>
    lte_physical_id (lte_of (detail_of (snd (on_network_registration_property_changed rnd g (Technology ''lte'')
      (c2\<lparr>radio_type := type_gsm\<rparr>))))) = gsm_strength (gsm_of (detail_of c2))"
proof
  have "d4 (detail_of c) = bi_default physical_id_bounds"
    using new_radio_cell_registered [OF assms(1,2)] assms(3)
    by (auto simp: initial_detail_def result_bind_Inr union_defs dest!: arg_cong [where f = d4])
  moreover have "radio_type (cell_run rnd g es c) = type_lte \<and> d4 (detail_of (cell_run rnd g es c)) = d4 (detail_of c)"
    using assms(3,4) unfolding cell_run_def
    by (induction es arbitrary: c) (simp_all add: lte_step_keeps_physical_id)
  ultimately show "\<not> is_cell_details_valid (cell_run rnd g es c)"
    by (simp add: is_cell_details_valid_def is_lte_valid_def lte_of_def bi_default_invalid)
  show "lte_physical_id (lte_of (detail_of (snd (on_network_registration_property_changed rnd g (Technology ''lte'')
      (c2\<lparr>radio_type := type_gsm\<rparr>))))) = gsm_strength (gsm_of (detail_of c2))"
    by (simp add: on_network_registration_property_changed_def Let_def type_lut_def switch_technology_detail union_defs)
qed

lemma demo_lte_cell:
  "new_radio_cell (\<lambda>x. x) False ''/modem_0'' (\<lambda>k. Some (demo_properties ''lte'')) memory =
     Inr \<lparr>radio_type = type_lte, detail_of = memory\<lparr>d0 := 262, d1 := 7, d2 := 21, d3 := 42, d4 := -1, d5 := 31\<rparr>,
       roaming = False, cell_valid = True, heuristics_needed = False, timer_armed = False, changes = 0\<rparr>"
  by (simp add: new_radio_cell_def demo_properties_def query_defs type_lut_def is_registered_or_roaming_def
      is_running_on_problematic_modem_firmware_def initial_detail_def bi_make_def country_code_bounds_def
      network_code_bounds_def area_code_bounds_def wide_id_bounds_def Let_def union_defs
      execute_cell_change_heuristics_if_appropriate_def physical_id_bounds_def bi_default_def int32_id)

theorem lte_physical_id_is_never_set_witness:
  "\<not> is_cell_details_valid (cell_run (\<lambda>x. x) False [Property_changed (CellId 77)]
     \<lparr>radio_type = type_lte, detail_of = \<lparr>d0 = 262, d1 = 7, d2 = 21, d3 = 42, d4 = -1, d5 = 31\<rparr>,
       roaming = False, cell_valid = True, heuristics_needed = False, timer_armed = False, changes = 0\<rparr>)"
  using lte_physical_id_is_never_set [OF demo_lte_cell [of "\<lparr>d0 = 0, d1 = 0, d2 = 0, d3 = 0, d4 = 0, d5 = 0\<rparr>"],
      of "[Property_changed (CellId 77)]"]
  by (simp add: query_defs demo_properties_def is_registered_or_roaming_def)

section \<open>Uninitialised details\<close>

text \<open>
  A modem that is not registered but reports a technology yields a cell that claims to be valid
  and whose details are the uninitialised storage.
\<close>

theorem unregistered_cell_exposes_storage:
  assumes "\<not> is_registered_or_roaming (query_status (answers 0))" "query_technology (answers 1) = type_gsm"
  shows "\<exists>c. new_radio_cell rnd g path answers memory = Inr c \<and> cell_valid c \<and> cell_gsm c = Inr (gsm_of memory)"
  using assms by (simp add: new_radio_cell_def Let_def cell_gsm_def)

theorem unregistered_cell_exposes_storage_witness:
  "\<exists>c. new_radio_cell (\<lambda>x. x) False ''/ril_0'' (\<lambda>k. Some ((demo_properties ''edge'')\<lparr>status_property := Some ''searching''\<rparr>))
      \<lparr>d0 = -7, d1 = 0, d2 = 0, d3 = 0, d4 = 0, d5 = 0\<rparr> = Inr c \<and> cell_valid c \<and>
    cell_gsm c = Inr (gsm_of \<lparr>d0 = -7, d1 = 0, d2 = 0, d3 = 0, d4 = 0, d5 = 0\<rparr>)"
  by (rule unregistered_cell_exposes_storage)
    (simp_all add: query_defs demo_properties_def is_registered_or_roaming_def type_lut_def)

section \<open>Invalidation of cells\<close>

fun changes_identity :: "cell_event \<Rightarrow> bool" where
  "changes_identity (Property_changed (Strength s)) = False"
| "changes_identity (Property_changed (Status s)) = False"
| "changes_identity (Property_changed Other_property) = False"
| "changes_identity (Property_changed p) = True"
| "changes_identity Timer_expired = False"

definition invalidated :: "radio_cell \<Rightarrow> radio_cell \<Rightarrow> bool" where
  "invalidated c c' \<longleftrightarrow> heuristics_needed c' \<and> radio_type c' = type_umts \<and> \<not> cell_valid c' \<and> changes c' = changes c"

lemma invalidated_step:
  assumes "invalidated c c'" "\<not> changes_identity e"
  shows "invalidated c (cell_step rnd g e c')"
proof (cases e)
  case (Property_changed p)
  then show ?thesis
    using assms by (cases p) (auto simp: on_network_registration_property_changed_def Let_def store_detail_def
        invalidated_def emit_changed_if_valid_def split: sum.split)
qed (use assms in \<open>simp add: timer_expired_def invalidated_def\<close>)

lemma invalidated_run:
  "invalidated c c' \<Longrightarrow> list_all (\<lambda>e. \<not> changes_identity e) es \<Longrightarrow> invalidated c (cell_run rnd g es c')"
  unfolding cell_run_def by (induction es arbitrary: c') (simp_all add: invalidated_step)

text \<open>
  On problematic firmware a UMTS cell whose timer expires becomes invalid and stays so, without
  any \<open>changed()\<close>, over all events that do not change its identity. The next report of a cell id
  restores the validity of its details and rearms the timer, but still emits no \<open>changed()\<close>.
\<close>

theorem invalidated_cell_recovers_silently:
  assumes "heuristics_needed c" "radio_type c = type_umts" "timer_armed c"
    "list_all (\<lambda>e. \<not> changes_identity e) es" "bi_is_valid wide_id_bounds (int32 (uint cid))"
  shows "let c1 = cell_run rnd g (Timer_expired # es) c; c2 = cell_step rnd g (Property_changed (CellId cid)) c1
    in \<not> cell_valid c1 \<and> changes c1 = changes c \<and>
       cell_valid c2 = is_cell_details_valid c2 \<and> umts_id (umts_of (detail_of c2)) = int32 (uint cid) \<and>
       timer_armed c2 \<and> changes c2 = changes c"
proof -
  have "invalidated c (timer_expired c)"
    using assms(1-3) by (simp add: invalidated_def timer_expired_def)
  then have c1: "invalidated c (cell_run rnd g (Timer_expired # es) c)"
    using invalidated_run [OF _ assms(4), of c "timer_expired c" rnd g] by (simp add: cell_run_def)
  define c1 where "c1 = cell_run rnd g (Timer_expired # es) c"
  show ?thesis
    using c1 assms(5) unfolding c1_def [symmetric]
    by (simp add: invalidated_def on_network_registration_property_changed_def Let_def setters_store id_bounds_def
        emit_changed_if_valid_def execute_cell_change_heuristics_if_appropriate_def is_cell_details_valid_def umts_of_def)
qed

theorem invalidated_cell_recovers_silently_witness:
  "let c = \<lparr>radio_type = type_umts, detail_of = \<lparr>d0 = 262, d1 = 7, d2 = 21, d3 = 42, d4 = 31, d5 = 0\<rparr>, roaming = False,
       cell_valid = True, heuristics_needed = True, timer_armed = True, changes = 3\<rparr>;
     c1 = cell_run (\<lambda>x. x) False [Timer_expired, Property_changed (Strength 100)] c;
     c2 = cell_step (\<lambda>x. x) False (Property_changed (CellId 43)) c1
   in \<not> cell_valid c1 \<and> timer_armed c2 \<and> changes c2 = 3"
  using invalidated_cell_recovers_silently [of "\<lparr>radio_type = type_umts, detail_of = \<lparr>d0 = 262, d1 = 7, d2 = 21, d3 = 42, d4 = 31, d5 = 0\<rparr>, roaming = False,
       cell_valid = True, heuristics_needed = True, timer_armed = True, changes = 3\<rparr>" "[Property_changed (Strength 100)]" 43 "\<lambda>x. x" False]
  by (simp add: bi_is_valid_def wide_id_bounds_def Let_def)

end
