(* ===== verification/Reporting.thy ===== *)
theory Reporting
  imports Radio_Cell
begin

text \<open>
  Crowd-sourced reports: the harvester (\<open>service/harvester.cpp\<close>), the reporter that forwards to
  several others (\<open>service/demultiplexing_reporter.cpp\<close>) and the reporter for ichnaea
  (\<open>service/ichnaea_reporter.cpp\<close>).

  json-c is the parameter \<open>ops\<close> of the reporter; \<open>json_laws\<close> is what it documents of adding to
  objects and arrays and reading them back. An object of the program is only extended while nobody
  else refers to it, so adding returns the extended object. A network is the record \<open>wifi\<close> of the
  values its properties have at the time of the report, a cell is the \<open>radio_cell\<close> of \<open>Radio_Cell\<close>.
  Posting the submission is the result of \<open>ichnaea_report\<close>.
\<close>

section \<open>Wireless networks\<close>

record wifi =
  bssid :: string
  ssid :: string
  frequency :: int

definition frequency_bounds :: bounds where
  "frequency_bounds = \<lparr>b_min = 2412, b_max = 5825, b_inv = 2412 - 1\<rparr>"

section \<open>JSON objects\<close>

record 'j json_ops =
  json_object_new_object :: 'j
  json_object_new_array :: 'j
  json_object_new_string :: "string \<Rightarrow> 'j"
  json_object_new_double :: "double \<Rightarrow> 'j"
  json_object_new_int :: "int \<Rightarrow> 'j"
  json_object_object_add :: "'j \<Rightarrow> string \<Rightarrow> 'j \<Rightarrow> 'j"
  json_object_array_add :: "'j \<Rightarrow> 'j \<Rightarrow> 'j"
  json_object_is_object :: "'j \<Rightarrow> bool"
  json_object_is_array :: "'j \<Rightarrow> bool"
  json_object_object_get_ex :: "'j \<Rightarrow> string \<rightharpoonup> 'j"
  json_object_array :: "'j \<Rightarrow> 'j list"
  json_object_to_json_string :: "'j \<Rightarrow> string"

definition json_laws :: "'j json_ops \<Rightarrow> bool" where
  "json_laws ops \<longleftrightarrow>
     json_object_is_object ops (json_object_new_object ops) \<and>
     (\<forall>k. json_object_object_get_ex ops (json_object_new_object ops) k = None) \<and>
     (\<forall>j k v. json_object_is_object ops j \<longrightarrow> json_object_is_object ops (json_object_object_add ops j k v) \<and>
        json_object_object_get_ex ops (json_object_object_add ops j k v) = (json_object_object_get_ex ops j)(k \<mapsto> v)) \<and>
     json_object_is_array ops (json_object_new_array ops) \<and> json_object_array ops (json_object_new_array ops) = [] \<and>
     (\<forall>j v. json_object_is_array ops j \<longrightarrow> json_object_is_array ops (json_object_array_add ops j v) \<and>
        json_object_array ops (json_object_array_add ops j v) = json_object_array ops j @ [v])"

definition put_string :: "'j json_ops \<Rightarrow> string \<Rightarrow> string \<Rightarrow> 'j \<Rightarrow> 'j" where
  "put_string ops name value j = json_object_object_add ops j name (json_object_new_string ops value)"

definition put_double :: "'j json_ops \<Rightarrow> string \<Rightarrow> double \<Rightarrow> 'j \<Rightarrow> 'j" where
  "put_double ops name value j = json_object_object_add ops j name (json_object_new_double ops value)"

definition put_int32 :: "'j json_ops \<Rightarrow> string \<Rightarrow> int \<Rightarrow> 'j \<Rightarrow> 'j" where
  "put_int32 ops name value j = json_object_object_add ops j name (json_object_new_int ops value)"

definition put_array :: "'j json_ops \<Rightarrow> string \<Rightarrow> 'j \<Rightarrow> 'j \<Rightarrow> 'j" where
  "put_array ops name arr j = json_object_object_add ops j name arr"

definition json_get :: "'j json_ops \<Rightarrow> string \<Rightarrow> 'j \<Rightarrow> 'j result" where
  "json_get ops name j =
     (case json_object_object_get_ex ops j name of None \<Rightarrow> Inl (out_of_range name) | Some v \<Rightarrow> Inr v)"

definition array_size :: "'j json_ops \<Rightarrow> 'j \<Rightarrow> nat result" where
  "array_size ops j =
     (if \<not> json_object_is_array ops j then Inl (logic_error ''Type mismatch.'') else Inr (length (json_object_array ops j)))"

definition json_append :: "'j json_ops \<Rightarrow> 'j \<Rightarrow> 'j \<Rightarrow> 'j result" where
  "json_append ops other j =
     (if \<not> json_object_is_array ops j then Inl (logic_error ''Type mismatch.'') else Inr (json_object_array_add ops j other))"

section \<open>The reporter for ichnaea\<close>

fun convert_wifis_to_json :: "'j json_ops \<Rightarrow> wifi list \<Rightarrow> 'j \<Rightarrow> 'j result" where
  "convert_wifis_to_json ops [] destination = Inr destination"
| "convert_wifis_to_json ops (w # wifis) destination =
     (if contains_substring ''_nomap'' (ssid w) then convert_wifis_to_json ops wifis destination
      else let j = put_string ops ''key'' (bssid w) (json_object_new_object ops);
               j = (if bi_is_valid frequency_bounds (frequency w)
                    then put_int32 ops ''frequency'' (bi_get frequency_bounds (frequency w)) j else j)
           in result_bind (json_append ops j destination) (convert_wifis_to_json ops wifis))"

definition put_if_valid :: "'j json_ops \<Rightarrow> bounds \<Rightarrow> string \<Rightarrow> int \<Rightarrow> 'j \<Rightarrow> 'j" where
  "put_if_valid ops b name v j = (if bi_is_valid b v then put_int32 ops name (bi_get b v) j else j)"

definition convert_cell_to_json :: "'j json_ops \<Rightarrow> radio_cell \<Rightarrow> 'j result" where
  "convert_cell_to_json ops c =
     (let j = json_object_new_object ops
      in case radio_type c of
        type_gsm \<Rightarrow>
          (let j = put_string ops ''radio'' ''gsm'' j
           in result_bind (cell_gsm c) (\<lambda>g.
             let j = put_if_valid ops country_code_bounds ''mcc'' (gsm_mcc g) j;
                 j = put_if_valid ops network_code_bounds ''mnc'' (gsm_mnc g) j;
                 j = put_if_valid ops area_code_bounds ''lac'' (gsm_lac g) j;
                 j = put_if_valid ops gsm_id_bounds ''cid'' (gsm_id g) j
             in Inr (put_if_valid ops signal_bounds ''asu'' (gsm_strength g) j)))
      | type_umts \<Rightarrow>
          (let j = put_string ops ''radio'' ''umts'' j
           in result_bind (cell_umts c) (\<lambda>u.
             let j = put_if_valid ops country_code_bounds ''mcc'' (umts_mcc u) j;
                 j = put_if_valid ops network_code_bounds ''mnc'' (umts_mnc u) j;
                 j = put_if_valid ops area_code_bounds ''lac'' (umts_lac u) j;
                 j = put_if_valid ops wide_id_bounds ''cid'' (umts_id u) j
             in Inr (put_if_valid ops signal_bounds ''asu'' (umts_strength u) j)))
      | type_lte \<Rightarrow>
          (let j = put_string ops ''radio'' ''lte'' j
           in result_bind (cell_lte c) (\<lambda>l.
             let j = put_if_valid ops country_code_bounds ''mcc'' (lte_mcc l) j;
                 j = put_if_valid ops network_code_bounds ''mnc'' (lte_mnc l) j;
                 j = put_if_valid ops area_code_bounds ''lac'' (lte_tac l) j;
                 j = put_if_valid ops wide_id_bounds ''cid'' (lte_id l) j;
                 j = put_if_valid ops physical_id_bounds ''psc'' (lte_physical_id l) j
             in Inr (put_if_valid ops signal_bounds ''asu'' (lte_strength l) j)))
      | type_unknown \<Rightarrow> Inr j)"

fun convert_cells_to_json :: "'j json_ops \<Rightarrow> radio_cell list \<Rightarrow> 'j \<Rightarrow> 'j result" where
  "convert_cells_to_json ops [] destination = Inr destination"
| "convert_cells_to_json ops (c # cells) destination =
     result_bind (convert_cell_to_json ops c) (\<lambda>j.
     result_bind (json_append ops j destination) (convert_cells_to_json ops cells))"

definition put_optional :: "'j json_ops \<Rightarrow> string \<Rightarrow> double option \<Rightarrow> 'j \<Rightarrow> 'j" where
  "put_optional ops name v j = (case v of None \<Rightarrow> j | Some x \<Rightarrow> put_double ops name x j)"

definition ichnaea_report :: "'j json_ops \<Rightarrow> position update \<Rightarrow> wifi list \<Rightarrow> radio_cell list \<Rightarrow> string result" where
  "ichnaea_report ops u wifis cells =
     (let item = put_string ops ''radio'' ''gsm'' (json_object_new_object ops);
          item = put_double ops ''lat'' (latitude (update_value u)) item;
          item = put_double ops ''lon'' (longitude (update_value u)) item;
          item = put_optional ops ''accuracy'' (horizontal (update_value u)) item;
          item = put_optional ops ''altitude'' (altitude (update_value u)) item;
          item = put_optional ops ''altitude_accuracy'' (vertical (update_value u)) item
      in result_bind
        (if wifis \<noteq> [] then result_bind (convert_wifis_to_json ops wifis (json_object_new_array ops))
           (\<lambda>w. Inr (put_array ops ''wifi'' w item)) else Inr item)
        (\<lambda>item. result_bind
          (if cells \<noteq> [] then result_bind (convert_cells_to_json ops cells (json_object_new_array ops))
             (\<lambda>c. Inr (put_array ops ''cell'' c item)) else Inr item)
          (\<lambda>item. result_bind (json_append ops item (json_object_new_array ops))
            (\<lambda>items. Inr (json_object_to_json_string ops (put_array ops ''items'' items (json_object_new_object ops)))))))"

section \<open>The harvester and the demultiplexing reporter\<close>

datatype reporter_call = Reporter_start | Reporter_stop | Reporter_report "position update" "wifi list" "radio_cell list"

record harvester =
  is_running :: bool

text \<open>A reporter is what its three functions do to a state \<open>'s\<close>; they may throw.\<close>

type_synonym 's reporter = "reporter_call \<Rightarrow> 's \<Rightarrow> exn option \<times> 's"

definition new_harvester :: harvester where
  "new_harvester = \<lparr>is_running = False\<rparr>"

definition report_position_update ::
  "'s reporter \<Rightarrow> wifi list \<Rightarrow> radio_cell list \<Rightarrow> position update \<Rightarrow> harvester \<times> 's \<Rightarrow> exn option \<times> harvester \<times> 's" where
  "report_position_update rep visible_wifis connected_cells u = (\<lambda>(h, s).
     if \<not> is_running h then (None, h, s)
     else case rep (Reporter_report u visible_wifis connected_cells) s of (e, s') \<Rightarrow> (e, h, s'))"

definition harvester_start :: "'s reporter \<Rightarrow> harvester \<times> 's \<Rightarrow> exn option \<times> harvester \<times> 's" where
  "harvester_start rep = (\<lambda>(h, s).
     if is_running h then (None, h, s)
     else case rep Reporter_start s of (e, s') \<Rightarrow> (e, h\<lparr>is_running := True\<rparr>, s'))"

definition harvester_stop :: "'s reporter \<Rightarrow> harvester \<times> 's \<Rightarrow> exn option \<times> harvester \<times> 's" where
  "harvester_stop rep = (\<lambda>(h, s).
     if \<not> is_running h then (None, h, s)
     else case rep Reporter_stop s of (e, s') \<Rightarrow> (e, h\<lparr>is_running := False\<rparr>, s'))"

fun demultiplex :: "'s reporter list \<Rightarrow> 's reporter" where
  "demultiplex [] c s = (None, s)"
| "demultiplex (r # reporters) c s =
     (case r c s of (Some e, s') \<Rightarrow> (Some e, s') | (None, s') \<Rightarrow> demultiplex reporters c s')"


section \<open>What a submission contains\<close>

lemmas put_defs = put_string_def put_double_def put_int32_def put_array_def put_optional_def put_if_valid_def

text \<open>\<open>j\<close> is an object with exactly the fields of the map.\<close>

definition has_fields :: "'j json_ops \<Rightarrow> 'j \<Rightarrow> (string \<rightharpoonup> 'j) \<Rightarrow> bool" where
  "has_fields ops j f \<longleftrightarrow> json_object_is_object ops j \<and> json_object_object_get_ex ops j = f"

definition has_elements :: "'j json_ops \<Rightarrow> 'j \<Rightarrow> 'j list \<Rightarrow> bool" where
  "has_elements ops j xs \<longleftrightarrow> json_object_is_array ops j \<and> json_object_array ops j = xs"

lemma has_fields_new: "json_laws ops \<Longrightarrow> has_fields ops (json_object_new_object ops) Map.empty"
  by (auto simp: json_laws_def has_fields_def)

lemma has_elements_new: "json_laws ops \<Longrightarrow> has_elements ops (json_object_new_array ops) []"
  by (auto simp: json_laws_def has_elements_def)

lemma has_fields_add:
  "json_laws ops \<Longrightarrow> has_fields ops j f \<Longrightarrow> has_fields ops (json_object_object_add ops j k v) (f(k \<mapsto> v))"
  by (auto simp: json_laws_def has_fields_def)

lemma has_fields_put:
  assumes "json_laws ops" "has_fields ops j f"
  shows "has_fields ops (put_string ops k s j) (f(k \<mapsto> json_object_new_string ops s))"
    "has_fields ops (put_double ops k x j) (f(k \<mapsto> json_object_new_double ops x))"
    "has_fields ops (put_int32 ops k i j) (f(k \<mapsto> json_object_new_int ops i))"
    "has_fields ops (put_array ops k a j) (f(k \<mapsto> a))"
    "has_fields ops (put_optional ops k v j) (case v of None \<Rightarrow> f | Some x \<Rightarrow> f(k \<mapsto> json_object_new_double ops x))"
    "has_fields ops (put_if_valid ops b k i j) (if bi_is_valid b i then f(k \<mapsto> json_object_new_int ops i) else f)"
  using assms has_fields_add [OF assms] by (auto simp: put_defs bi_get_def split: option.split)

lemma has_elements_append:
  "json_laws ops \<Longrightarrow> has_elements ops j xs \<Longrightarrow> \<exists>j'. json_append ops v j = Inr j' \<and> has_elements ops j' (xs @ [v])"
  by (auto simp: json_laws_def has_elements_def json_append_def)

definition wifi_fields :: "'j json_ops \<Rightarrow> wifi \<Rightarrow> (string \<rightharpoonup> 'j)" where
  "wifi_fields ops w =
     (if bi_is_valid frequency_bounds (frequency w) then [''frequency'' \<mapsto> json_object_new_int ops (frequency w)] else Map.empty)
       (''key'' \<mapsto> json_object_new_string ops (bssid w))"

definition mappable :: "wifi \<Rightarrow> bool" where
  "mappable w \<longleftrightarrow> \<not> contains_substring ''_nomap'' (ssid w)"

lemma convert_wifis:
  assumes L: "json_laws ops" and d: "has_elements ops d xs"
  shows "\<exists>d' js. convert_wifis_to_json ops ws d = Inr d' \<and> has_elements ops d' (xs @ js) \<and>
    list_all2 (\<lambda>w j. has_fields ops j (wifi_fields ops w)) (filter mappable ws) js"
  using d
proof (induction ws arbitrary: d xs)
  case (Cons w ws)
  show ?case
  proof (cases "mappable w")
    case False
    with Cons show ?thesis by (simp add: mappable_def)
  next
    case True
    let ?j = "put_string ops ''key'' (bssid w) (json_object_new_object ops)"
    let ?j' = "if bi_is_valid frequency_bounds (frequency w)
      then put_int32 ops ''frequency'' (bi_get frequency_bounds (frequency w)) ?j else ?j"
    have j: "has_fields ops ?j' (wifi_fields ops w)"
      using has_fields_put(1) [OF L has_fields_new [OF L], of "''key''" "bssid w"]
      by (auto simp: wifi_fields_def bi_get_def fun_upd_twist dest: has_fields_put(3) [OF L])
    obtain d1 where d1: "json_append ops ?j' d = Inr d1" "has_elements ops d1 (xs @ [?j'])"
      using has_elements_append [OF L Cons.prems] by blast
    from Cons.IH [OF d1(2)] obtain d' js where "convert_wifis_to_json ops ws d1 = Inr d'"
      "has_elements ops d' (xs @ ?j' # js)"
      "list_all2 (\<lambda>w j. has_fields ops j (wifi_fields ops w)) (filter mappable ws) js" by auto
    with True j d1(1) show ?thesis
      by (intro exI [of _ d'] exI [of _ "?j' # js"]) (simp add: mappable_def [of w] Let_def)
  qed
qed simp

text \<open>The values a cell publishes, by name: the fields of its details that are valid.\<close>

definition cell_values :: "radio_cell \<Rightarrow> (string \<times> bounds \<times> int) list" where
  "cell_values c = (let d = detail_of c in
     [(''mcc'', country_code_bounds, d0 d), (''mnc'', network_code_bounds, d1 d), (''lac'', area_code_bounds, d2 d)] @
     (case radio_type c of
        type_gsm \<Rightarrow> [(''cid'', gsm_id_bounds, d3 d), (''asu'', signal_bounds, d4 d)]
      | type_umts \<Rightarrow> [(''cid'', wide_id_bounds, d3 d), (''asu'', signal_bounds, d4 d)]
      | type_lte \<Rightarrow> [(''cid'', wide_id_bounds, d3 d), (''psc'', physical_id_bounds, d4 d), (''asu'', signal_bounds, d5 d)]
      | type_unknown \<Rightarrow> []))"

definition add_valid :: "'j json_ops \<Rightarrow> string \<times> bounds \<times> int \<Rightarrow> (string \<rightharpoonup> 'j) \<Rightarrow> (string \<rightharpoonup> 'j)" where
  "add_valid ops = (\<lambda>(k, b, v) f. if bi_is_valid b v then f(k \<mapsto> json_object_new_int ops v) else f)"

definition radio_name :: "radio_type \<Rightarrow> string" where
  "radio_name t = (case t of type_gsm \<Rightarrow> ''gsm'' | type_umts \<Rightarrow> ''umts'' | type_lte \<Rightarrow> ''lte'' | type_unknown \<Rightarrow> [])"

definition cell_fields :: "'j json_ops \<Rightarrow> radio_cell \<Rightarrow> (string \<rightharpoonup> 'j)" where
  "cell_fields ops c =
     (if radio_type c = type_unknown then Map.empty
      else fold (add_valid ops) (cell_values c) [''radio'' \<mapsto> json_object_new_string ops (radio_name (radio_type c))])"

lemma put_all:
  assumes L: "json_laws ops" and j: "has_fields ops j f"
  shows "has_fields ops (fold (\<lambda>(k, b, v). put_if_valid ops b k v) vs j) (fold (add_valid ops) vs f)"
  using j by (induction vs arbitrary: j f) (auto simp: add_valid_def dest: has_fields_put(6) [OF L] split: if_splits)

lemma convert_cell:
  assumes L: "json_laws ops"
  shows "\<exists>j. convert_cell_to_json ops c = Inr j \<and> has_fields ops j (cell_fields ops c)"
proof (cases "radio_type c = type_unknown")
  case True
  then show ?thesis by (simp add: convert_cell_to_json_def cell_fields_def has_fields_new [OF L])
next
  case False
  then have "convert_cell_to_json ops c = Inr (fold (\<lambda>(k, b, v). put_if_valid ops b k v) (cell_values c)
      (put_string ops ''radio'' (radio_name (radio_type c)) (json_object_new_object ops)))"
    by (cases "radio_type c") (simp_all add: convert_cell_to_json_def cell_values_def radio_name_def Let_def
        cell_gsm_def gsm_of_def cell_umts_def umts_of_def cell_lte_def lte_of_def)
  then show ?thesis
    using False put_all [OF L has_fields_put(1) [OF L has_fields_new [OF L]]] by (simp add: cell_fields_def)
qed

lemma convert_cells:
  assumes L: "json_laws ops" and d: "has_elements ops d xs"
  shows "\<exists>d' js. convert_cells_to_json ops cs d = Inr d' \<and> has_elements ops d' (xs @ js) \<and>
    list_all2 (\<lambda>c j. has_fields ops j (cell_fields ops c)) cs js"
  using d
proof (induction cs arbitrary: d xs)
  case (Cons c cs)
  obtain j where j: "convert_cell_to_json ops c = Inr j" "has_fields ops j (cell_fields ops c)"
    using convert_cell [OF L] by blast
  obtain d1 where d1: "json_append ops j d = Inr d1" "has_elements ops d1 (xs @ [j])"
    using has_elements_append [OF L Cons.prems] by blast
  from Cons.IH [OF d1(2)] obtain d' js where "convert_cells_to_json ops cs d1 = Inr d'"
    "has_elements ops d' (xs @ j # js)" "list_all2 (\<lambda>c j. has_fields ops j (cell_fields ops c)) cs js" by auto
  with j d1(1) show ?case by (intro exI [of _ d'] exI [of _ "j # js"]) simp
qed simp


lemma has_fields_weak:
  "list_all2 (\<lambda>x j. has_fields ops j (g x)) xs js \<Longrightarrow> list_all2 (\<lambda>x j. json_object_object_get_ex ops j = g x) xs js"
  by (erule list_all2_mono) (simp add: has_fields_def)

lemma report_item:
  assumes L: "json_laws ops"
  shows "\<exists>item. put_optional ops ''altitude_accuracy'' (vertical p)
      (put_optional ops ''altitude'' (altitude p) (put_optional ops ''accuracy'' (horizontal p)
      (put_double ops ''lon'' (longitude p) (put_double ops ''lat'' (latitude p)
      (put_string ops ''radio'' ''gsm'' (json_object_new_object ops)))))) = item \<and>
    json_object_is_object ops item \<and>
    json_object_object_get_ex ops item ''lat'' = Some (json_object_new_double ops (latitude p)) \<and>
    json_object_object_get_ex ops item ''lon'' = Some (json_object_new_double ops (longitude p)) \<and>
    json_object_object_get_ex ops item ''accuracy'' = map_option (json_object_new_double ops) (horizontal p) \<and>
    json_object_object_get_ex ops item ''altitude'' = map_option (json_object_new_double ops) (altitude p) \<and>
    json_object_object_get_ex ops item ''wifi'' = None \<and> json_object_object_get_ex ops item ''cell'' = None"
  using has_fields_put(5) [OF L has_fields_put(5) [OF L has_fields_put(5) [OF L has_fields_put(2) [OF L
      has_fields_put(2) [OF L has_fields_put(1) [OF L has_fields_new [OF L]]]]]], of "''altitude_accuracy''" "vertical p"
      "''altitude''" "altitude p" "''accuracy''" "horizontal p" "''lon''" "longitude p" "''lat''" "latitude p" "''radio''" "''gsm''"]
  by (auto simp: has_fields_def split: option.splits)

text \<open>
  A submission holds one item with the position of the update. Its networks are exactly the
  visible ones that are not marked with \<open>_nomap\<close>, in order, each with its BSSID and, when valid, its
  frequency; its cells are the connected ones, each with exactly its valid values. Without visible
  networks or cells the respective entry is missing.
\<close>

theorem submission_content:
  assumes L: "json_laws ops"
  shows "\<exists>submit items item. ichnaea_report ops u wifis cells = Inr (json_object_to_json_string ops submit) \<and>
    json_get ops ''items'' submit = Inr items \<and> json_object_array ops items = [item] \<and>
    json_get ops ''lat'' item = Inr (json_object_new_double ops (latitude (update_value u))) \<and>
    json_get ops ''lon'' item = Inr (json_object_new_double ops (longitude (update_value u))) \<and>
    json_object_object_get_ex ops item ''accuracy'' = map_option (json_object_new_double ops) (horizontal (update_value u)) \<and>
    json_object_object_get_ex ops item ''altitude'' = map_option (json_object_new_double ops) (altitude (update_value u)) \<and>
    (case json_object_object_get_ex ops item ''wifi'' of
       None \<Rightarrow> wifis = []
     | Some w \<Rightarrow> wifis \<noteq> [] \<and>
         list_all2 (\<lambda>w j. json_object_object_get_ex ops j = wifi_fields ops w) (filter mappable wifis) (json_object_array ops w)) \<and>
    (case json_object_object_get_ex ops item ''cell'' of
       None \<Rightarrow> cells = []
     | Some c \<Rightarrow> cells \<noteq> [] \<and>
         list_all2 (\<lambda>c j. json_object_object_get_ex ops j = cell_fields ops c) cells (json_object_array ops c))"
proof -
  let ?p = "update_value u"
  obtain item where item: "put_optional ops ''altitude_accuracy'' (vertical ?p)
      (put_optional ops ''altitude'' (altitude ?p) (put_optional ops ''accuracy'' (horizontal ?p)
      (put_double ops ''lon'' (longitude ?p) (put_double ops ''lat'' (latitude ?p)
      (put_string ops ''radio'' ''gsm'' (json_object_new_object ops)))))) = item"
    and f: "json_object_is_object ops item"
    "json_object_object_get_ex ops item ''lat'' = Some (json_object_new_double ops (latitude ?p))"
    "json_object_object_get_ex ops item ''lon'' = Some (json_object_new_double ops (longitude ?p))"
    "json_object_object_get_ex ops item ''accuracy'' = map_option (json_object_new_double ops) (horizontal ?p)"
    "json_object_object_get_ex ops item ''altitude'' = map_option (json_object_new_double ops) (altitude ?p)"
    "json_object_object_get_ex ops item ''wifi'' = None" "json_object_object_get_ex ops item ''cell'' = None"
    using report_item [OF L, of ?p] by auto
  have add: "json_object_is_object ops (put_array ops k a j) \<and>
      json_object_object_get_ex ops (put_array ops k a j) = (json_object_object_get_ex ops j)(k \<mapsto> a)"
    if "json_object_is_object ops j" for k a j
    using has_fields_put(4) [OF L, of j "json_object_object_get_ex ops j" k a] that by (simp add: has_fields_def)
  obtain w wjs where w: "convert_wifis_to_json ops wifis (json_object_new_array ops) = Inr w" "has_elements ops w wjs"
    "list_all2 (\<lambda>w j. json_object_object_get_ex ops j = wifi_fields ops w) (filter mappable wifis) wjs"
    using convert_wifis [OF L has_elements_new [OF L], of wifis] has_fields_weak [of ops "wifi_fields ops"] by (metis append_Nil)
  obtain c cjs where c: "convert_cells_to_json ops cells (json_object_new_array ops) = Inr c" "has_elements ops c cjs"
    "list_all2 (\<lambda>c j. json_object_object_get_ex ops j = cell_fields ops c) cells cjs"
    using convert_cells [OF L has_elements_new [OF L], of cells] has_fields_weak [of ops "cell_fields ops"] by (metis append_Nil)
  define item1 where "item1 = (if wifis \<noteq> [] then put_array ops ''wifi'' w item else item)"
  define item2 where "item2 = (if cells \<noteq> [] then put_array ops ''cell'' c item1 else item1)"
  have item1: "json_object_is_object ops item1" using f(1) add by (simp add: item1_def)
  obtain items where items: "json_append ops item2 (json_object_new_array ops) = Inr items" "has_elements ops items [item2]"
    using has_elements_append [OF L has_elements_new [OF L], of item2] by auto
  let ?submit = "put_array ops ''items'' items (json_object_new_object ops)"
  have "ichnaea_report ops u wifis cells = Inr (json_object_to_json_string ops ?submit)"
    using item w(1) c(1) items(1)
    by (cases "wifis = []"; cases "cells = []") (simp_all add: ichnaea_report_def Let_def item1_def item2_def)
  moreover have "json_get ops ''items'' ?submit = Inr items"
    using has_fields_put(4) [OF L has_fields_new [OF L], of "''items''" items] by (simp add: json_get_def has_fields_def)
  moreover have "json_object_array ops items = [item2]" using items(2) by (simp add: has_elements_def)
  moreover have "json_object_object_get_ex ops item2 = (json_object_object_get_ex ops item)
      (''wifi'' := (if wifis \<noteq> [] then Some w else None), ''cell'' := (if cells \<noteq> [] then Some c else None))"
    using f(1,6,7) item1 add by (auto simp: item1_def item2_def fun_upd_idem)
  ultimately show ?thesis
    using f(2-5) w(2,3) c(2,3)
    by (intro exI [of _ ?submit] exI [of _ items] exI [of _ item2]) (simp add: json_get_def has_elements_def)
qed


text \<open>A library that satisfies the laws.\<close>

datatype json = J_object "(string \<times> json) list" | J_array "json list" | J_string string | J_double double | J_int int | J_boolean bool

fun json_members :: "json \<Rightarrow> (string \<times> json) list" where
  "json_members (J_object ms) = ms"
| "json_members j = []"

fun json_items :: "json \<Rightarrow> json list" where
  "json_items (J_array js) = js"
| "json_items j = []"

definition simple_json :: "json json_ops" where
  "simple_json = \<lparr>json_object_new_object = J_object [], json_object_new_array = J_array [],
     json_object_new_string = J_string, json_object_new_double = J_double, json_object_new_int = J_int,
     json_object_object_add = (\<lambda>j k v. J_object ((k, v) # json_members j)),
     json_object_array_add = (\<lambda>j v. J_array (json_items j @ [v])),
     json_object_is_object = (\<lambda>j. case j of J_object _ \<Rightarrow> True | _ \<Rightarrow> False),
     json_object_is_array = (\<lambda>j. case j of J_array _ \<Rightarrow> True | _ \<Rightarrow> False),
     json_object_object_get_ex = (\<lambda>j. map_of (json_members j)), json_object_array = json_items,
     json_object_to_json_string = (\<lambda>j. ''{...}'')\<rparr>"

lemma simple_json_laws: "json_laws simple_json"
  by (auto simp: json_laws_def simple_json_def split: json.splits)

theorem submission_content_witness:
  "\<exists>submit items item w. ichnaea_report simple_json \<lparr>update_value = position_lat_lon (Fin 51) (Fin 7), update_when = 0\<rparr>
       [\<lparr>bssid = ''00:11'', ssid = ''cafe'', frequency = 2412\<rparr>, \<lparr>bssid = ''00:22'', ssid = ''home_nomap'', frequency = 2412\<rparr>] [] =
       Inr (json_object_to_json_string simple_json submit) \<and>
     json_get simple_json ''items'' submit = Inr items \<and> json_object_array simple_json items = [item] \<and>
     json_object_object_get_ex simple_json item ''wifi'' = Some w \<and> length (json_object_array simple_json w) = 1"
  using submission_content [OF simple_json_laws, of "\<lparr>update_value = position_lat_lon (Fin 51) (Fin 7), update_when = 0\<rparr>"
      "[\<lparr>bssid = ''00:11'', ssid = ''cafe'', frequency = 2412\<rparr>, \<lparr>bssid = ''00:22'', ssid = ''home_nomap'', frequency = 2412\<rparr>]" "[]"]
  by (auto simp: mappable_def list_all2_Cons1 split: option.splits)

section \<open>The harvester\<close>

text \<open>What a reporter may be asked to do: start, reports, stop, start again.\<close>

fun reporter_protocol :: "bool \<Rightarrow> reporter_call list \<Rightarrow> bool option" where
  "reporter_protocol running [] = Some running"
| "reporter_protocol running (Reporter_start # cs) = (if running then None else reporter_protocol True cs)"
| "reporter_protocol running (Reporter_stop # cs) = (if running then reporter_protocol False cs else None)"
| "reporter_protocol running (Reporter_report u ws rs # cs) = (if running then reporter_protocol True cs else None)"

definition record_call :: "reporter_call list reporter" where
  "record_call c tr = (None, tr @ [c])"

lemma reporter_protocol_append:
  "reporter_protocol r (cs @ ds) = (case reporter_protocol r cs of None \<Rightarrow> None | Some r' \<Rightarrow> reporter_protocol r' ds)"
  by (induction r cs rule: reporter_protocol.induct) auto

definition harvester_inv :: "harvester \<times> reporter_call list \<Rightarrow> bool" where
  "harvester_inv = (\<lambda>(h, tr). reporter_protocol False tr = Some (is_running h))"

lemma harvester_inv_step:
  assumes "harvester_inv (h, tr)"
  shows "harvester_inv (snd (harvester_start record_call (h, tr)))"
    "harvester_inv (snd (harvester_stop record_call (h, tr)))"
    "harvester_inv (snd (report_position_update record_call ws rs u (h, tr)))"
  using assms by (simp_all add: harvester_inv_def harvester_start_def harvester_stop_def report_position_update_def
      record_call_def reporter_protocol_append)

end
