(* ===== verification/Service_Properties.thy ===== *)
theory Service_Properties
  imports Engine_Props Reporting
begin

text \<open>
  The service object (\<open>service/implementation.cpp\<close>): its properties \<open>is_online\<close>,
  \<open>does_report_cell_and_wifi_ids\<close>, \<open>does_satellite_based_positioning\<close> and \<open>state\<close>, the slots that
  couple them to the configuration of the engine in both directions, and its harvester.

  \<open>sp\<close> holds what is outside: the platform of the engine, whether the assignment of a boolean
  property emits its changed signal (\<open>bool_notified\<close> is the documented behaviour) and the reporter.
  A property assigned from inside its own emission with a value that would emit again is the fault
  \<open>Reentrant\<close>, as for the engine. The slot of the service on the engine state runs after the two of
  the engine, still inside the emission.

  A request of a session may change the engine state several times. The slot then leaves what its
  last run assigned, and before that \<open>is_online\<close> is already true, so \<open>after_engine_change\<close> runs it
  once with the final state.
\<close>

record ('t, 's) service_platform =
  engine_platform :: "'t platform"
  bool_emits :: "bool \<Rightarrow> bool \<Rightarrow> bool"
  service_reporter :: "'s reporter"

definition bool_notified :: "('t, 's) service_platform \<Rightarrow> bool" where
  "bool_notified sp \<longleftrightarrow> (\<forall>a b. bool_emits sp a b \<longleftrightarrow> a \<noteq> b)"

record ('t, 's) service =
  engine :: "'t world"
  is_online :: bool
  online_emitting :: bool
  does_report_cell_and_wifi_ids :: bool
  does_satellite_based_positioning :: bool
  service_state_of :: service_state
  harvester_of :: harvester
  reporter_state :: 's

type_synonym ('t, 's) service_outcome = "fault + ('t, 's) service"

definition bind_outcome :: "fault + 'a \<Rightarrow> ('a \<Rightarrow> fault + 'b) \<Rightarrow> fault + 'b" where
  "bind_outcome m k = (case m of Inl e \<Rightarrow> Inl e | Inr x \<Rightarrow> k x)"

section \<open>The engine state and \<open>is_online\<close>\<close>

definition assign_is_online_in_slot ::
  "('t, 's) service_platform \<Rightarrow> nat \<Rightarrow> bool \<Rightarrow> ('t, 's) service \<Rightarrow> ('t, 's) service_outcome" where
  "assign_is_online_in_slot sp fuel v sv =
     (let sv1 = sv\<lparr>is_online := v\<rparr>
      in if \<not> bool_emits sp (is_online sv) v then Inr sv1
         else if online_emitting sv then Inl Reentrant
         else bind_outcome (set_engine_state (engine_platform sp) fuel (if v then engine_on else engine_off) (engine sv1))
           (\<lambda>w. Inr (sv1\<lparr>engine := w\<rparr>)))"

definition on_service_engine_state ::
  "('t, 's) service_platform \<Rightarrow> nat \<Rightarrow> engine_status \<Rightarrow> ('t, 's) service \<Rightarrow> ('t, 's) service_outcome" where
  "on_service_engine_state sp fuel status sv =
     (case status of
        engine_off \<Rightarrow> bind_outcome (assign_is_online_in_slot sp fuel False sv) (\<lambda>sv. Inr (sv\<lparr>service_state_of := service_disabled\<rparr>))
      | engine_on \<Rightarrow> bind_outcome (assign_is_online_in_slot sp fuel True sv) (\<lambda>sv. Inr (sv\<lparr>service_state_of := service_enabled\<rparr>))
      | engine_active \<Rightarrow> bind_outcome (assign_is_online_in_slot sp fuel True sv) (\<lambda>sv. Inr (sv\<lparr>service_state_of := service_active\<rparr>)))"

definition after_engine_change ::
  "('t, 's) service_platform \<Rightarrow> nat \<Rightarrow> engine_status \<Rightarrow> ('t, 's) service \<Rightarrow> ('t, 's) service_outcome" where
  "after_engine_change sp fuel old sv =
     (if \<not> status_emits (engine_platform sp) old (engine_state (engine sv)) then Inr sv
      else bind_outcome
        (on_service_engine_state sp fuel (engine_state (engine sv)) (sv\<lparr>engine := (engine sv)\<lparr>emitting := True\<rparr>\<rparr>))
        (\<lambda>sv. Inr (sv\<lparr>engine := (engine sv)\<lparr>emitting := False\<rparr>\<rparr>)))"

definition assign_service_engine_state ::
  "('t, 's) service_platform \<Rightarrow> nat \<Rightarrow> engine_status \<Rightarrow> ('t, 's) service \<Rightarrow> ('t, 's) service_outcome" where
  "assign_service_engine_state sp fuel st sv =
     bind_outcome (set_engine_state (engine_platform sp) fuel st (engine sv))
       (\<lambda>w. after_engine_change sp fuel (engine_state (engine sv)) (sv\<lparr>engine := w\<rparr>))"

text \<open>Assignment to \<open>is_online()\<close>, by a client or by the constructor.\<close>

definition set_is_online ::
  "('t, 's) service_platform \<Rightarrow> nat \<Rightarrow> bool \<Rightarrow> ('t, 's) service \<Rightarrow> ('t, 's) service_outcome" where
  "set_is_online sp fuel v sv =
     (let sv1 = sv\<lparr>is_online := v\<rparr>
      in if \<not> bool_emits sp (is_online sv) v then Inr sv1
         else bind_outcome
           (assign_service_engine_state sp fuel (if v then engine_on else engine_off) (sv1\<lparr>online_emitting := True\<rparr>))
           (\<lambda>sv. Inr (sv\<lparr>online_emitting := False\<rparr>)))"

text \<open>A request that reaches the provider at \<open>p\<close>.\<close>

definition service_request ::
  "('t, 's) service_platform \<Rightarrow> nat \<Rightarrow> call \<Rightarrow> nat \<Rightarrow> ('t, 's) service \<Rightarrow> ('t, 's) service_outcome" where
  "service_request sp fuel k p sv =
     bind_outcome (ctl_call (engine_platform sp) fuel k p (engine sv))
       (\<lambda>w. after_engine_change sp fuel (engine_state (engine sv)) (sv\<lparr>engine := w\<rparr>))"

section \<open>Satellites\<close>

definition set_does_satellite_based_positioning ::
  "('t, 's) service_platform \<Rightarrow> nat \<Rightarrow> bool \<Rightarrow> ('t, 's) service \<Rightarrow> ('t, 's) service_outcome" where
  "set_does_satellite_based_positioning sp fuel v sv =
     (let sv1 = sv\<lparr>does_satellite_based_positioning := v\<rparr>; st = (if v then sat_on else sat_off)
      in if \<not> bool_emits sp (does_satellite_based_positioning sv) v then Inr sv1
         else bind_outcome (set_satellite_state (engine_platform sp) fuel st (engine sv1))
           (\<lambda>w. bind_outcome (after_engine_change sp fuel (engine_state (engine sv)) (sv1\<lparr>engine := w\<rparr>))
             (\<lambda>sv2. Inr (if sat_emits (engine_platform sp) (satellite_based_positioning_state (engine sv)) st
                then sv2\<lparr>does_satellite_based_positioning := (st = sat_on)\<rparr> else sv2))))"

section \<open>Reporting\<close>

definition run_harvester ::
  "(harvester \<times> 's \<Rightarrow> exn option \<times> harvester \<times> 's) \<Rightarrow> ('t, 's) service \<Rightarrow> ('t, 's) service_outcome" where
  "run_harvester f sv =
     (case f (harvester_of sv, reporter_state sv) of
        (Some e, h, s) \<Rightarrow> Inl (Threw e)
      | (None, h, s) \<Rightarrow> Inr (sv\<lparr>harvester_of := h, reporter_state := s\<rparr>))"

definition set_does_report_cell_and_wifi_ids ::
  "('t, 's) service_platform \<Rightarrow> bool \<Rightarrow> ('t, 's) service \<Rightarrow> ('t, 's) service_outcome" where
  "set_does_report_cell_and_wifi_ids sp v sv =
     (let sv1 = sv\<lparr>does_report_cell_and_wifi_ids := v\<rparr>
      in if \<not> bool_emits sp (does_report_cell_and_wifi_ids sv) v then Inr sv1
         else let sv2 = sv1\<lparr>engine := set_wifi_state (engine_platform sp) (if v then wifi_on else wifi_off) (engine sv1)\<rparr>
              in run_harvester (if v then harvester_start (service_reporter sp) else harvester_stop (service_reporter sp)) sv2)"

text \<open>The slot on the last known location of the engine.\<close>

definition on_last_known_location ::
  "('t, 's) service_platform \<Rightarrow> wifi list \<Rightarrow> radio_cell list \<Rightarrow> position update option \<Rightarrow> ('t, 's) service \<Rightarrow> ('t, 's) service_outcome" where
  "on_last_known_location sp wifis cells u sv =
     (case u of
        None \<Rightarrow> Inr sv
      | Some u \<Rightarrow> run_harvester (report_position_update (service_reporter sp) wifis cells u) sv)"

section \<open>Construction\<close>

text \<open>
  For non-null buses and a non-null engine: the member initialisers already use them. The
  properties start out with the values \<open>online0\<close>, \<open>report0\<close>, \<open>sat0\<close> and \<open>state0\<close> of the skeleton.
\<close>

definition service_new ::
  "('t, 's) service_platform \<Rightarrow> nat \<Rightarrow> bool \<Rightarrow> bool \<Rightarrow> bool \<Rightarrow> service_state \<Rightarrow> bool \<Rightarrow> 't world \<Rightarrow> 's \<Rightarrow> ('t, 's) service_outcome" where
  "service_new sp fuel online0 report0 sat0 state0 has_permission_manager w s =
     (if \<not> has_permission_manager then Inl (Threw (runtime_error ''Cannot create service for null permission manager.''))
      else
        let sv = \<lparr>engine = w, is_online = online0, online_emitting = False, does_report_cell_and_wifi_ids = report0,
              does_satellite_based_positioning = sat0, service_state_of = state0, harvester_of = new_harvester,
              reporter_state = s\<rparr>
        in bind_outcome
          (case engine_state w of
             engine_off \<Rightarrow> bind_outcome (set_is_online sp fuel False sv) (\<lambda>sv. Inr (sv\<lparr>service_state_of := service_disabled\<rparr>))
           | engine_on \<Rightarrow> bind_outcome (set_is_online sp fuel True sv) (\<lambda>sv. Inr (sv\<lparr>service_state_of := service_enabled\<rparr>))
           | engine_active \<Rightarrow> bind_outcome (set_is_online sp fuel True sv) (\<lambda>sv. Inr (sv\<lparr>service_state_of := service_active\<rparr>)))
          (\<lambda>sv. bind_outcome
            (set_does_report_cell_and_wifi_ids sp (wifi_and_cell_id_reporting_state (engine sv) = wifi_on) sv)
            (\<lambda>sv. set_does_satellite_based_positioning sp fuel
              (satellite_based_positioning_state (engine sv) = sat_on) sv)))"


section \<open>The service mirrors the engine\<close>

lemma bind_outcome_simps [simp]: "bind_outcome (Inl e) k = Inl e" "bind_outcome (Inr x) k = k x"
  by (simp_all add: bind_outcome_def)

definition state_for :: "engine_status \<Rightarrow> service_state" where
  "state_for st = (case st of engine_off \<Rightarrow> service_disabled | engine_on \<Rightarrow> service_enabled | engine_active \<Rightarrow> service_active)"

definition service_inv :: "('t, 's) service \<Rightarrow> bool" where
  "service_inv sv \<longleftrightarrow> wf_world (engine sv) \<and> engine_inv (engine sv) \<and> \<not> emitting (engine sv) \<and> \<not> online_emitting sv \<and>
     (is_online sv \<longleftrightarrow> engine_state (engine sv) \<noteq> engine_off) \<and>
     service_state_of sv = state_for (engine_state (engine sv))"

lemma slot_silent:
  assumes "bool_notified sp" "is_online sv \<longleftrightarrow> st \<noteq> engine_off"
  shows "on_service_engine_state sp fuel st sv = Inr (sv\<lparr>service_state_of := state_for st\<rparr>)"
  using assms by (cases st; cases sv)
    (simp_all add: on_service_engine_state_def assign_is_online_in_slot_def bool_notified_def state_for_def)

lemma not_emitting: "\<not> emitting w \<Longrightarrow> w\<lparr>emitting := False\<rparr> = w"
  by (cases w) simp

lemma after_engine_change_silent:
  assumes "bool_notified sp" "is_online sv \<longleftrightarrow> engine_state (engine sv) \<noteq> engine_off" "\<not> emitting (engine sv)"
  shows "after_engine_change sp fuel old sv =
    Inr (if status_emits (engine_platform sp) old (engine_state (engine sv))
         then sv\<lparr>service_state_of := state_for (engine_state (engine sv))\<rparr> else sv)"
  using assms slot_silent [of sp "sv\<lparr>engine := engine sv\<lparr>emitting := True\<rparr>\<rparr>" "engine_state (engine sv)" fuel]
  by (cases sv) (simp add: after_engine_change_def not_emitting)

text \<open>
  C10. A request that reaches a provider through a session returns and keeps the service in line
  with the engine: the state is \<open>disabled\<close>, \<open>enabled\<close> or \<open>active\<close> as the engine is off, on or active,
  it is online exactly when the engine is not off, and requests never switch it on or off.
\<close>

theorem service_mirrors_engine:
  assumes "change_notified (engine_platform sp)" "bool_notified sp" "service_inv sv"
    and "objs (engine sv) p \<noteq> None" "p < fuel"
  shows "\<exists>sv'. service_request sp fuel k p sv = Inr sv' \<and> service_inv sv' \<and> is_online sv' = is_online sv \<and>
    (service_state_of sv' = service_active \<longleftrightarrow> is_any_active (engine sv') \<and> is_online sv')"
proof -
  obtain w where w: "ctl_call (engine_platform sp) fuel k p (engine sv) = Inr w" "good (engine sv) w"
    using ctl_call_keeps [OF assms(1), of "engine sv" "engine sv" p fuel k] assms(3-5)
    by (auto simp: service_inv_def good_def kinds_None)
  let ?sv = "sv\<lparr>engine := w\<rparr>"
  have "is_online ?sv \<longleftrightarrow> engine_state (engine ?sv) \<noteq> engine_off" "\<not> emitting (engine ?sv)"
    using w(2) assms(3) by (simp_all add: good_def service_inv_def)
  from after_engine_change_silent [OF assms(2) this, of fuel "engine_state (engine sv)"]
  have run: "service_request sp fuel k p sv = Inr (?sv\<lparr>service_state_of := state_for (engine_state w)\<rparr>)"
    using w(1) assms(1,3) by (cases sv) (simp add: service_request_def change_notified_def service_inv_def)
  moreover have "service_inv (?sv\<lparr>service_state_of := state_for (engine_state w)\<rparr>)"
    using w(2) assms(3) by (simp add: service_inv_def good_def)
  moreover have "state_for (engine_state w) = service_active \<longleftrightarrow> is_any_active w \<and> is_online sv"
    using w(2) assms(3) by (cases "engine_state w") (simp_all add: service_inv_def good_def engine_inv_def state_for_def)
  ultimately show ?thesis by simp
qed

lemma off_to_on:
  assumes "wf_world w" "engine_inv w" "\<not> emitting w" "engine_state w = engine_off"
  shows "\<exists>w'. set_engine_state pf fuel engine_on w = Inr w' \<and> wf_world w' \<and> engine_inv w' \<and> \<not> emitting w' \<and>
    engine_state w' = engine_on"
proof -
  obtain w' where "set_engine_state pf fuel engine_on w = Inr w'" "kinds w' = kinds w" "providers w' = providers w"
    "shape w' = shape w" "engine_state w' = engine_on"
    using assign_engine_state_running [of engine_on w pf "ctl_disable pf fuel"] assms(3) by (auto simp: set_engine_state_def)
  then show ?thesis
    using assms kinds_cong [of w' w] by (auto simp: engine_inv_def shape_def)
qed

text \<open>
  A client switches the service on, and off while no provider runs: both assignments return, the
  engine follows, and the service stays in line with it.
\<close>

theorem client_switches_service:
  assumes cn: "change_notified (engine_platform sp)" and bn: "bool_notified sp" and inv: "service_inv sv"
    and idle: "list_all (idle_at (engine sv)) (providers (engine sv))" "\<not> is_any_active (engine sv)"
  shows "\<exists>sv'. set_is_online sp fuel v sv = Inr sv' \<and> service_inv sv' \<and> is_online sv' = v \<and>
    engine_state (engine sv') = (if v then engine_on else engine_off)"
proof (cases "is_online sv = v")
  case True
  then have "set_is_online sp fuel v sv = Inr sv"
    using bn by (cases sv) (simp add: set_is_online_def bool_notified_def)
  moreover have "engine_state (engine sv) = (if v then engine_on else engine_off)"
    using inv idle(2) True by (cases "engine_state (engine sv)") (simp_all add: service_inv_def engine_inv_def)
  ultimately show ?thesis using inv True by simp
next
  case False
  have "\<exists>w'. set_engine_state (engine_platform sp) fuel (if v then engine_on else engine_off) (engine sv) = Inr w' \<and>
      wf_world w' \<and> engine_inv w' \<and> \<not> emitting w' \<and> engine_state w' = (if v then engine_on else engine_off)"
  proof (cases v)
    case True
    with False inv show ?thesis using off_to_on [of "engine sv"] by (auto simp: service_inv_def)
  next
    case f: False
    with False inv have "engine_state (engine sv) \<noteq> engine_off" "\<not> emitting (engine sv)" "wf_world (engine sv)"
      by (auto simp: service_inv_def)
    moreover from set_engine_off_idle [OF cn this(2,1) idle, of fuel] obtain w2 where
      "set_engine_state (engine_platform sp) fuel engine_off (engine sv) =
        Inr ((persist_engine_state (engine_platform sp) engine_off w2)\<lparr>emitting := False\<rparr>)"
      "kinds w2 = kinds (engine sv)" "providers w2 = providers (engine sv)" "engine_state w2 = engine_off"
      "engine_inv (w2\<lparr>emitting := False\<rparr>)" by blast
    ultimately show ?thesis
      using f kinds_cong(2) [of w2 "engine sv"] by (simp add: persist_same)
  qed
  then obtain w' where w': "set_engine_state (engine_platform sp) fuel (if v then engine_on else engine_off) (engine sv) = Inr w'"
    "wf_world w'" "engine_inv w'" "\<not> emitting w'" "engine_state w' = (if v then engine_on else engine_off)" by blast
  let ?sv = "sv\<lparr>is_online := v, online_emitting := True, engine := w'\<rparr>"
  have "after_engine_change sp fuel (engine_state (engine sv)) ?sv =
      Inr (?sv\<lparr>service_state_of := state_for (engine_state w')\<rparr>)"
    using after_engine_change_silent [OF bn, of ?sv fuel "engine_state (engine sv)"] w'(4,5) False inv cn
    by (auto simp: change_notified_def service_inv_def)
  then show ?thesis
    using False bn w' by (auto simp: set_is_online_def assign_service_engine_state_def bool_notified_def service_inv_def)
qed


text \<open>A service on the engine of the demonstration world, with a reporter that keeps its calls.\<close>

definition demo_service_platform :: "(string \<rightharpoonup> string, reporter_call list) service_platform" where
  "demo_service_platform = \<lparr>engine_platform = demo_platform, bool_emits = (\<noteq>), service_reporter = record_call\<rparr>"

definition demo_service :: "(string \<rightharpoonup> string, reporter_call list) service" where
  "demo_service = \<lparr>engine = demo_world, is_online = True, online_emitting = False, does_report_cell_and_wifi_ids = False,
     does_satellite_based_positioning = True, service_state_of = service_enabled, harvester_of = new_harvester,
     reporter_state = []\<rparr>"

lemma demo_service_facts [simp]:
  "engine_platform demo_service_platform = demo_platform" "bool_notified demo_service_platform"
  "service_reporter demo_service_platform = record_call"
  "engine demo_service = demo_world" "service_inv demo_service" "is_online demo_service"
  by (simp_all add: demo_service_platform_def demo_service_def bool_notified_def service_inv_def state_for_def)

theorem service_mirrors_engine_witness:
  "\<exists>sv'. service_request demo_service_platform 2 (Start ch_position) 1 demo_service = Inr sv' \<and> service_inv sv' \<and> is_online sv'"
  using service_mirrors_engine [of demo_service_platform demo_service 1 2 "Start ch_position"] by auto

theorem client_switches_service_witness:
  "\<exists>sv'. set_is_online demo_service_platform 2 False demo_service = Inr sv' \<and> service_inv sv' \<and> \<not> is_online sv' \<and>
     engine_state (engine sv') = engine_off"
  using client_switches_service [of demo_service_platform demo_service 2 False] by auto

section \<open>Reports leave only while the client allows it\<close>

datatype report_step = Report_setting bool | Location_update "wifi list" "radio_cell list" "position update option"

fun reporting_step ::
  "('t, 's) service_platform \<Rightarrow> report_step \<Rightarrow> ('t, 's) service \<Rightarrow> ('t, 's) service_outcome" where
  "reporting_step sp (Report_setting v) sv = set_does_report_cell_and_wifi_ids sp v sv"
| "reporting_step sp (Location_update wifis cells u) sv = on_last_known_location sp wifis cells u sv"

fun reporting_run ::
  "('t, 's) service_platform \<Rightarrow> report_step list \<Rightarrow> ('t, 's) service \<Rightarrow> ('t, 's) service_outcome" where
  "reporting_run sp [] sv = Inr sv"
| "reporting_run sp (s # ss) sv = bind_outcome (reporting_step sp s sv) (reporting_run sp ss)"

definition report_inv :: "('t, reporter_call list) service \<Rightarrow> bool" where
  "report_inv sv \<longleftrightarrow> reporter_protocol False (reporter_state sv) = Some (does_report_cell_and_wifi_ids sv) \<and>
     is_running (harvester_of sv) = does_report_cell_and_wifi_ids sv \<and>
     (wifi_and_cell_id_reporting_state (engine sv) = wifi_on) = does_report_cell_and_wifi_ids sv"

lemma reporting_step_keeps:
  assumes "bool_notified sp" "service_reporter sp = record_call" "report_inv sv"
  shows "\<exists>sv'. reporting_step sp s sv = Inr sv' \<and> report_inv sv' \<and>
    (\<not> does_report_cell_and_wifi_ids sv \<and> s \<noteq> Report_setting True \<longrightarrow>
       reporter_state sv' = reporter_state sv \<and> \<not> does_report_cell_and_wifi_ids sv')"
proof (cases s)
  case (Report_setting v)
  have wifi: "(wifi_and_cell_id_reporting_state (set_wifi_state pf st w) = wifi_on) = (st = wifi_on)" for pf st and w :: "'t world"
    by (simp add: set_wifi_state_def persist_wifi_state_def Let_def)
  from Report_setting assms show ?thesis
    by (cases v) (auto simp: set_does_report_cell_and_wifi_ids_def bool_notified_def report_inv_def Let_def run_harvester_def
        harvester_start_def harvester_stop_def record_call_def reporter_protocol_append wifi)
next
  case (Location_update wifis cells u)
  with assms show ?thesis
    by (cases u) (auto simp: on_last_known_location_def report_inv_def run_harvester_def report_position_update_def
        record_call_def reporter_protocol_append)
qed

text \<open>
  C11. Over every sequence of position updates and changes of the reporting setting, the reporter is
  started, asked to report and stopped in that order, its running state and the state of the engine
  follow the setting, and while the setting is off nothing is reported: until a client switches it on
  the reporter is not called at all.
\<close>

theorem reports_only_while_allowed:
  assumes "bool_notified sp" "service_reporter sp = record_call" "report_inv sv"
  shows "\<exists>sv'. reporting_run sp steps sv = Inr sv' \<and> report_inv sv' \<and>
    (\<not> does_report_cell_and_wifi_ids sv \<and> Report_setting True \<notin> set steps \<longrightarrow> reporter_state sv' = reporter_state sv)"
  using assms(3)
proof (induction steps arbitrary: sv)
  case (Cons s steps)
  obtain sv1 where sv1: "reporting_step sp s sv = Inr sv1" "report_inv sv1"
    "\<not> does_report_cell_and_wifi_ids sv \<and> s \<noteq> Report_setting True \<longrightarrow>
       reporter_state sv1 = reporter_state sv \<and> \<not> does_report_cell_and_wifi_ids sv1"
    using reporting_step_keeps [OF assms(1,2) Cons.prems] by blast
  with Cons.IH [OF sv1(2)] show ?case by auto
qed simp

theorem reports_only_while_allowed_witness:
  "\<exists>sv'. reporting_run demo_service_platform [Location_update [] [] (Some \<lparr>update_value = position_default, update_when = 0\<rparr>)]
     demo_service = Inr sv' \<and> reporter_state sv' = []"
  using reports_only_while_allowed [of demo_service_platform demo_service
      "[Location_update [] [] (Some \<lparr>update_value = position_default, update_when = 0\<rparr>)]"]
  by (auto simp: report_inv_def demo_service_def new_harvester_def demo_world_def)

section \<open>A service on a restored engine\<close>

lemma set_is_online_fresh:
  assumes "change_notified (engine_platform sp)" "bool_notified sp" "\<not> is_online sv" "\<not> online_emitting sv"
    "\<not> emitting (engine sv)" "engine_state (engine sv) \<noteq> engine_off"
  shows "\<exists>w. set_is_online sp fuel True sv = Inr (sv\<lparr>is_online := True, engine := w,
      service_state_of := (if engine_state (engine sv) = engine_on then service_state_of sv else service_enabled)\<rparr>) \<and>
    kinds w = kinds (engine sv) \<and> providers w = providers (engine sv) \<and> \<not> emitting w \<and> engine_state w = engine_on"
proof -
  obtain w where w: "set_engine_state (engine_platform sp) fuel engine_on (engine sv) = Inr w" "kinds w = kinds (engine sv)"
    "providers w = providers (engine sv)" "shape w = shape (engine sv)" "engine_state w = engine_on"
    using assign_engine_state_running [of engine_on "engine sv" "engine_platform sp" "ctl_disable (engine_platform sp) fuel"] assms(5)
    by (auto simp: set_engine_state_def)
  then have e: "\<not> emitting w" using assms(5) by (simp add: shape_def)
  have "after_engine_change sp fuel (engine_state (engine sv)) (sv\<lparr>is_online := True, online_emitting := True, engine := w\<rparr>) =
      Inr (if engine_state (engine sv) = engine_on then sv\<lparr>is_online := True, online_emitting := True, engine := w\<rparr>
           else sv\<lparr>is_online := True, online_emitting := True, engine := w, service_state_of := service_enabled\<rparr>)"
    using after_engine_change_silent [OF assms(2), of "sv\<lparr>is_online := True, online_emitting := True, engine := w\<rparr>" fuel] w(5) e assms(1)
    by (simp add: change_notified_def state_for_def)
  then show ?thesis
    using assms(2-4) w e by (cases sv)
      (auto simp: set_is_online_def assign_service_engine_state_def bool_notified_def)
qed


lemma set_does_satellite_unchanged:
  assumes "change_notified (engine_platform sp)" "bool_notified sp"
  shows "\<exists>b. set_does_satellite_based_positioning sp fuel (satellite_based_positioning_state (engine sv) = sat_on) sv =
    Inr (sv\<lparr>does_satellite_based_positioning := b\<rparr>)"
proof -
  have "set_satellite_state (engine_platform sp) fuel (satellite_based_positioning_state (engine sv)) (engine sv) = Inr (engine sv)"
    using assms(1) by (cases "engine sv") (simp add: set_satellite_state_def change_notified_def)
  then show ?thesis
    using assms by (cases "satellite_based_positioning_state (engine sv)"; cases sv)
      (auto simp: set_does_satellite_based_positioning_def Let_def after_engine_change_def change_notified_def)
qed

lemma set_does_report_fresh:
  assumes "bool_notified sp" "service_reporter sp = record_call" "\<not> does_report_cell_and_wifi_ids sv" "harvester_of sv = new_harvester"
  shows "\<exists>sv'. set_does_report_cell_and_wifi_ids sp v sv = Inr sv' \<and> does_report_cell_and_wifi_ids sv' = v \<and>
    is_running (harvester_of sv') = v \<and> is_online sv' = is_online sv \<and> service_state_of sv' = service_state_of sv \<and>
    engine_state (engine sv') = engine_state (engine sv)"
  using assms
  by (cases v) (auto simp: set_does_report_cell_and_wifi_ids_def bool_notified_def Let_def run_harvester_def harvester_start_def
      new_harvester_def record_call_def set_wifi_state_def persist_wifi_state_def)

text \<open>
  A service constructed on an engine restored from the settings takes over whether it is online,
  and whether it reports. When the stored engine state is \<open>active\<close>, going online resets the
  engine to \<open>on\<close>, but the service still announces \<open>active\<close> although no provider runs.
\<close>

theorem restored_service_state:
  assumes "change_notified (engine_platform sp)" "bool_notified sp" "service_reporter sp = record_call" "\<not> emitting w"
  shows "\<exists>sv. service_new sp fuel False False False state0 True w tr = Inr sv \<and>
    is_online sv = (engine_state w \<noteq> engine_off) \<and>
    does_report_cell_and_wifi_ids sv = is_running (harvester_of sv) \<and>
    engine_state (engine sv) = (if engine_state w = engine_active then engine_on else engine_state w) \<and>
    service_state_of sv = (case engine_state w of engine_off \<Rightarrow> service_disabled | engine_on \<Rightarrow> service_enabled
      | engine_active \<Rightarrow> service_active)"
proof -
  define sv0 :: "('a, reporter_call list) service" where "sv0 = \<lparr>engine = w, is_online = False, online_emitting = False, does_report_cell_and_wifi_ids = False,
      does_satellite_based_positioning = False, service_state_of = state0, harvester_of = new_harvester, reporter_state = tr\<rparr>"
  define first where "first = (case engine_state w of
       engine_off \<Rightarrow> bind_outcome (set_is_online sp fuel False sv0) (\<lambda>sv. Inr (sv\<lparr>service_state_of := service_disabled\<rparr>))
     | engine_on \<Rightarrow> bind_outcome (set_is_online sp fuel True sv0) (\<lambda>sv. Inr (sv\<lparr>service_state_of := service_enabled\<rparr>))
     | engine_active \<Rightarrow> bind_outcome (set_is_online sp fuel True sv0) (\<lambda>sv. Inr (sv\<lparr>service_state_of := service_active\<rparr>)))"
  have "\<exists>sv1. first = Inr sv1 \<and> is_online sv1 = (engine_state w \<noteq> engine_off) \<and> \<not> does_report_cell_and_wifi_ids sv1 \<and>
      harvester_of sv1 = new_harvester \<and> engine_state (engine sv1) = (if engine_state w = engine_active then engine_on else engine_state w) \<and>
      service_state_of sv1 = state_for (engine_state w)"
  proof (cases "engine_state w = engine_off")
    case True
    then show ?thesis
      using assms(2) by (simp add: first_def set_is_online_def bool_notified_def state_for_def sv0_def)
  next
    case False
    have "\<not> is_online sv0" "\<not> online_emitting sv0" "\<not> emitting (engine sv0)" "engine_state (engine sv0) \<noteq> engine_off"
      using False assms(4) by (simp_all add: sv0_def)
    from set_is_online_fresh [OF assms(1,2) this, of fuel] False show ?thesis
      by (cases "engine_state w") (auto simp: first_def state_for_def sv0_def)
  qed
  then obtain sv1 where sv1: "first = Inr sv1" "is_online sv1 = (engine_state w \<noteq> engine_off)"
    "\<not> does_report_cell_and_wifi_ids sv1" "harvester_of sv1 = new_harvester"
    "engine_state (engine sv1) = (if engine_state w = engine_active then engine_on else engine_state w)"
    "service_state_of sv1 = state_for (engine_state w)" by blast
  obtain sv2 where sv2: "set_does_report_cell_and_wifi_ids sp (wifi_and_cell_id_reporting_state (engine sv1) = wifi_on) sv1 = Inr sv2"
    "does_report_cell_and_wifi_ids sv2 = is_running (harvester_of sv2)" "is_online sv2 = is_online sv1"
    "service_state_of sv2 = service_state_of sv1" "engine_state (engine sv2) = engine_state (engine sv1)"
    using set_does_report_fresh [OF assms(2,3) sv1(3,4)] by blast
  from set_does_satellite_unchanged [OF assms(1,2), of fuel sv2] sv1 sv2 show ?thesis
    by (auto simp: service_new_def Let_def first_def [unfolded sv0_def, symmetric] state_for_def)
qed

theorem restored_service_state_witness:
  "\<exists>sv. service_new demo_service_platform 2 False False False service_disabled True (demo_world\<lparr>engine_state := engine_active\<rparr>) [] = Inr sv \<and>
     engine_state (engine sv) = engine_on \<and> service_state_of sv = service_active"
  using restored_service_state [of demo_service_platform "demo_world\<lparr>engine_state := engine_active\<rparr>" 2 service_disabled "[]"]
  by auto

end
