(* ===== verification/Gps_Hal.thy ===== *)
theory Gps_Hal
  imports Space_Vehicles
begin

text \<open>
  The Android GPS hardware layer (\<open>providers/gps/android_hardware_abstraction_layer.cpp\<close>).

  The first part is the life cycle of the driver handle: \<open>start_positioning\<close>, \<open>stop_positioning\<close>,
  \<open>register_callbacks\<close> and the watchdog. Three threads take part: the one that dispatches the
  requests of clients (\<open>client\<close>), the recovery thread a request may spawn (\<open>recovery\<close>) and the
  watchdog (\<open>watchdog\<close>). Each has a program counter; a function of this theory is what a thread does
  between two points at which another one can interfere: a section under \<open>callback_mutex\<close>, an
  operation on an atomic variable, or a call of the driver. \<open>hal_step\<close> is one such step of some
  thread, a callback of the driver or the passing of time, and \<open>hal_reachable\<close> the states that
  interleavings of them lead to.

  The driver is outside. \<open>driver\<close> is the log of the calls made to it; \<open>live\<close> are the handles it
  returned that have not been deleted. The write lock is held in \<open>Phase1\<close> and \<open>Phase3\<close>, where
  \<open>try_to_lock\<close> fails.

  The second part are the callbacks that turn reports of the driver into updates. The flags of
  the driver's interface are the parameter \<open>gc\<close>.
\<close>

section \<open>The life cycle of the handle\<close>

datatype driver_call =
    Gps_new "nat option"
  | Gps_delete nat
  | Gps_start nat
  | Gps_stop nat
  | Gps_set_position_mode nat

text \<open>Where a thread that reclaims the callbacks stands.\<close>

datatype reclaim =
    Phase1
  | Phase2
  | Phase3 "nat option"
  | Phase4
  | Read_handle
  | Start_with "nat option"
  | Finish

datatype client_pc = Client_idle | Client_fast nat | Client_slow

datatype watchdog_pc = Asleep | Stale | Handle_valid | Reclaiming reclaim

record hal =
  gps_handle :: "nat option"
  last_gps_ms :: nat
  positioning_active :: bool
  clock :: nat
  client :: client_pc
  recovery :: "reclaim option"
  watchdog :: watchdog_pc
  live :: "nat set"
  next_handle :: nat
  driver :: "driver_call list"

definition call_driver :: "driver_call \<Rightarrow> hal \<Rightarrow> hal" where
  "call_driver c h = h\<lparr>driver := driver h @ [c]\<rparr>"

definition dispatch_updated_modes_to_driver :: "hal \<Rightarrow> hal" where
  "dispatch_updated_modes_to_driver h =
     (case gps_handle h of None \<Rightarrow> h | Some g \<Rightarrow> call_driver (Gps_set_position_mode g) h)"

text \<open>Whether some thread holds the write lock of \<open>callback_mutex\<close>.\<close>

fun locks :: "reclaim \<Rightarrow> bool" where
  "locks Phase1 = True"
| "locks (Phase3 n) = True"
| "locks r = False"

definition write_locked :: "hal \<Rightarrow> bool" where
  "write_locked h \<longleftrightarrow> (case recovery h of None \<Rightarrow> False | Some r \<Rightarrow> locks r) \<or>
     (case watchdog h of Reclaiming r \<Rightarrow> locks r | _ \<Rightarrow> False)"

text \<open>\<open>start_positioning\<close> up to the point where the shared lock is released.\<close>

definition start_positioning :: "hal \<Rightarrow> hal" where
  "start_positioning h =
     (if write_locked h then h
      else case gps_handle h of
        Some g \<Rightarrow> (dispatch_updated_modes_to_driver h)\<lparr>client := Client_fast g\<rparr>
      | None \<Rightarrow> h\<lparr>client := Client_slow\<rparr>)"

text \<open>The rest of the fast path.\<close>

definition start_fast :: "nat \<Rightarrow> hal \<Rightarrow> hal" where
  "start_fast g h = (call_driver (Gps_start g) (h\<lparr>last_gps_ms := clock h\<rparr>))\<lparr>client := Client_idle\<rparr>"

text \<open>The slow path: spawn the recovery thread unless one is active.\<close>

definition start_slow :: "hal \<Rightarrow> hal" where
  "start_slow h =
     (if positioning_active h then h\<lparr>client := Client_idle\<rparr>
      else h\<lparr>positioning_active := True, recovery := Some Phase1, client := Client_idle\<rparr>)"

definition stop_positioning :: "hal \<Rightarrow> hal" where
  "stop_positioning h =
     (let h1 = h\<lparr>last_gps_ms := 0\<rparr>
      in if write_locked h1 then h1
         else case gps_handle h1 of
           Some g \<Rightarrow> call_driver (Gps_stop g) h1
         | None \<Rightarrow> h1)"

text \<open>
  \<open>register_callbacks\<close>, phase by phase, followed by the start of the new handle. \<open>created\<close> says
  whether the driver returns a handle; \<open>again\<close> is the second dispatch of the modes the watchdog does.
\<close>

definition reclaim_step :: "bool \<Rightarrow> bool \<Rightarrow> reclaim \<Rightarrow> hal \<Rightarrow> reclaim option \<times> hal" where
  "reclaim_step again created r h =
     (case r of
        Phase1 \<Rightarrow>
          (Some Phase2,
           (case gps_handle h of
              None \<Rightarrow> h
            | Some g \<Rightarrow> call_driver (Gps_delete g) (h\<lparr>live := live h - {g}\<rparr>))\<lparr>gps_handle := None\<rparr>)
      | Phase2 \<Rightarrow>
          (if created
           then (Some (Phase3 (Some (next_handle h))),
                 call_driver (Gps_new (Some (next_handle h)))
                   (h\<lparr>live := insert (next_handle h) (live h), next_handle := Suc (next_handle h)\<rparr>))
           else (Some (Phase3 None), call_driver (Gps_new None) h))
      | Phase3 n \<Rightarrow> (Some Phase4, h\<lparr>gps_handle := n\<rparr>)
      | Phase4 \<Rightarrow> (Some Read_handle, dispatch_updated_modes_to_driver h)
      | Read_handle \<Rightarrow> (Some (Start_with (gps_handle h)), h)
      | Start_with None \<Rightarrow> (Some Finish, h)
      | Start_with (Some g) \<Rightarrow>
          (Some Finish,
           call_driver (Gps_start g)
             ((if again then dispatch_updated_modes_to_driver h else h)\<lparr>last_gps_ms := clock h\<rparr>))
      | Finish \<Rightarrow> (None, h\<lparr>positioning_active := False\<rparr>))"

definition recovery_step :: "bool \<Rightarrow> reclaim \<Rightarrow> hal \<Rightarrow> hal" where
  "recovery_step created r h = (case reclaim_step False created r h of (r', h') \<Rightarrow> h'\<lparr>recovery := r'\<rparr>)"

text \<open>The loop of the watchdog; a \<open>continue\<close> goes back to sleep.\<close>

definition watchdog_check :: "hal \<Rightarrow> hal" where
  "watchdog_check h =
     (if last_gps_ms h = 0 then h
      else if clock h - last_gps_ms h \<le> 10000 then h
      else h\<lparr>watchdog := Stale\<rparr>)"

definition watchdog_handle :: "hal \<Rightarrow> hal" where
  "watchdog_handle h =
     (if gps_handle h = None then h\<lparr>watchdog := Asleep\<rparr> else h\<lparr>watchdog := Handle_valid\<rparr>)"

definition watchdog_claim :: "hal \<Rightarrow> hal" where
  "watchdog_claim h =
     (if positioning_active h then h\<lparr>watchdog := Asleep\<rparr>
      else h\<lparr>positioning_active := True, watchdog := Reclaiming Phase1\<rparr>)"

definition watchdog_reclaim :: "bool \<Rightarrow> reclaim \<Rightarrow> hal \<Rightarrow> hal" where
  "watchdog_reclaim created r h =
     (case reclaim_step True created r h of
        (r', h') \<Rightarrow> h'\<lparr>watchdog := (case r' of None \<Rightarrow> Asleep | Some r' \<Rightarrow> Reclaiming r')\<rparr>)"

text \<open>The data callbacks note the time; they need the shared lock.\<close>

definition on_driver_callback :: "hal \<Rightarrow> hal" where
  "on_driver_callback h = h\<lparr>last_gps_ms := clock h\<rparr>"

inductive hal_step :: "hal \<Rightarrow> hal \<Rightarrow> bool" where
  client_start: "client h = Client_idle \<Longrightarrow> hal_step h (start_positioning h)"
| client_fast: "client h = Client_fast g \<Longrightarrow> hal_step h (start_fast g h)"
| client_slow: "client h = Client_slow \<Longrightarrow> hal_step h (start_slow h)"
| client_stop: "client h = Client_idle \<Longrightarrow> hal_step h (stop_positioning h)"
| recovery: "recovery h = Some r \<Longrightarrow> hal_step h (recovery_step created r h)"
| watchdog_wakes: "watchdog h = Asleep \<Longrightarrow> hal_step h (watchdog_check h)"
| watchdog_reads: "watchdog h = Stale \<Longrightarrow> \<not> write_locked h \<Longrightarrow> hal_step h (watchdog_handle h)"
| watchdog_claims: "watchdog h = Handle_valid \<Longrightarrow> hal_step h (watchdog_claim h)"
| watchdog_reclaims: "watchdog h = Reclaiming r \<Longrightarrow> hal_step h (watchdog_reclaim created r h)"
| callback: "live h \<noteq> {} \<Longrightarrow> \<not> write_locked h \<Longrightarrow> hal_step h (on_driver_callback h)"
| time: "hal_step h (h\<lparr>clock := clock h + n\<rparr>)"

text \<open>The constructor registers the callbacks before the watchdog exists.\<close>

definition hal_new :: "bool \<Rightarrow> nat \<Rightarrow> hal" where
  "hal_new created now =
     (let h = \<lparr>gps_handle = None, last_gps_ms = 0, positioning_active = False, clock = now, client = Client_idle,
            recovery = None, watchdog = Asleep, live = {}, next_handle = 0, driver = []\<rparr>;
          h = snd (reclaim_step False created Phase1 h);
          (r, h) = reclaim_step False created Phase2 h;
          h = snd (reclaim_step False created (the r) h)
      in snd (reclaim_step False created Phase4 h))"

inductive hal_reachable :: "hal \<Rightarrow> bool" where
  start: "hal_reachable (hal_new created now)"
| step: "hal_reachable h \<Longrightarrow> hal_step h h' \<Longrightarrow> hal_reachable h'"


section \<open>At most one handle, one thread reclaims\<close>

inductive_cases hal_stepE: "hal_step h h'"

definition reclaiming :: "hal \<Rightarrow> reclaim option" where
  "reclaiming h = (case watchdog h of Reclaiming r \<Rightarrow> Some r | _ \<Rightarrow> None)"

text \<open>The handle a reclaiming thread got from the driver but has not installed yet.\<close>

fun in_flight :: "reclaim option \<Rightarrow> nat option" where
  "in_flight (Some (Phase3 n)) = n"
| "in_flight r = None"

text \<open>What holds of the handles while a thread stands at \<open>r\<close>, or no thread reclaims.\<close>

fun handle_at :: "reclaim option \<Rightarrow> nat option \<Rightarrow> bool" where
  "handle_at (Some Phase2) g = (g = None)"
| "handle_at (Some (Phase3 n)) g = (g = None)"
| "handle_at (Some (Start_with n)) g = (g = n)"
| "handle_at r g = True"

definition handles_ok :: "reclaim option \<Rightarrow> hal \<Rightarrow> bool" where
  "handles_ok r h \<longleftrightarrow>
     live h = set_option (gps_handle h) \<union> set_option (in_flight r) \<and>
     handle_at r (gps_handle h)"

definition hal_inv :: "hal \<Rightarrow> bool" where
  "hal_inv h \<longleftrightarrow> (recovery h = None \<or> reclaiming h = None) \<and>
     (positioning_active h \<longleftrightarrow> recovery h \<noteq> None \<or> reclaiming h \<noteq> None) \<and>
     handles_ok (if recovery h = None then reclaiming h else recovery h) h"

lemma driver_frame [simp]:
  "gps_handle (call_driver c h) = gps_handle h" "live (call_driver c h) = live h"
  "recovery (call_driver c h) = recovery h" "watchdog (call_driver c h) = watchdog h"
  "positioning_active (call_driver c h) = positioning_active h" "last_gps_ms (call_driver c h) = last_gps_ms h"
  "gps_handle (dispatch_updated_modes_to_driver h) = gps_handle h" "live (dispatch_updated_modes_to_driver h) = live h"
  "recovery (dispatch_updated_modes_to_driver h) = recovery h" "watchdog (dispatch_updated_modes_to_driver h) = watchdog h"
  "positioning_active (dispatch_updated_modes_to_driver h) = positioning_active h"
  by (simp_all add: call_driver_def dispatch_updated_modes_to_driver_def split: option.split)

lemma reclaim_step_ok:
  assumes "handles_ok (Some r) h" "reclaim_step again created r h = (r', h')"
  shows "handles_ok r' h' \<and> recovery h' = recovery h \<and> watchdog h' = watchdog h \<and>
    (positioning_active h' \<longleftrightarrow> positioning_active h \<and> r' \<noteq> None)"
proof (cases r)
  case Phase1
  with assms show ?thesis by (cases "gps_handle h") (auto simp: reclaim_step_def handles_ok_def)
next
  case Phase2
  with assms show ?thesis by (cases created) (auto simp: reclaim_step_def handles_ok_def)
next
  case (Start_with n)
  with assms show ?thesis by (cases n; cases again) (auto simp: reclaim_step_def handles_ok_def)
next
  case (Phase3 n)
  with assms show ?thesis by (auto simp: reclaim_step_def handles_ok_def)
next
  case Phase4
  with assms show ?thesis by (auto simp: reclaim_step_def handles_ok_def)
next
  case Read_handle
  with assms(2) have "r' = Some (Start_with (gps_handle h))" "h' = h" by (auto simp: reclaim_step_def)
  with assms(1) Read_handle show ?thesis by (simp add: handles_ok_def)
next
  case Finish
  with assms show ?thesis by (auto simp: reclaim_step_def handles_ok_def)
qed

lemma handles_ok_cong:
  "gps_handle h' = gps_handle h \<Longrightarrow> live h' = live h \<Longrightarrow> handles_ok r h' = handles_ok r h"
  by (simp add: handles_ok_def)

lemma hal_inv_cong:
  assumes "gps_handle h' = gps_handle h" "live h' = live h" "recovery h' = recovery h"
    "reclaiming h' = reclaiming h" "positioning_active h' = positioning_active h" "hal_inv h"
  shows "hal_inv h'"
  using assms handles_ok_cong [OF assms(1,2)] unfolding hal_inv_def by metis

lemmas client_ops = start_positioning_def start_fast_def stop_positioning_def on_driver_callback_def Let_def

lemma hal_step_inv:
  assumes "hal_inv h" "hal_step h h'"
  shows "hal_inv h'"
  using assms(2)
proof (cases rule: hal_step.cases)
  case client_start
  then show ?thesis by (intro hal_inv_cong [OF _ _ _ _ _ assms(1)]) (auto simp: client_ops reclaiming_def split: option.split)
next
  case (client_fast g)
  then show ?thesis by (intro hal_inv_cong [OF _ _ _ _ _ assms(1)]) (auto simp: client_ops reclaiming_def)
next
  case client_slow
  then show ?thesis
    using assms(1) by (auto simp: start_slow_def hal_inv_def reclaiming_def handles_ok_def)
next
  case client_stop
  then show ?thesis by (intro hal_inv_cong [OF _ _ _ _ _ assms(1)]) (auto simp: client_ops reclaiming_def split: option.split)
next
  case (recovery r created)
  obtain r' h1 where s: "reclaim_step False created r h = (r', h1)" by force
  have "handles_ok (Some r) h" using assms(1) recovery by (simp add: hal_inv_def)
  from reclaim_step_ok [OF this s] show ?thesis
    using assms(1) recovery s
    by (auto simp: recovery_step_def hal_inv_def reclaiming_def handles_ok_def)
next
  case (watchdog_reclaims r created)
  obtain r' h1 where s: "reclaim_step True created r h = (r', h1)" by force
  have "handles_ok (Some r) h" using assms(1) watchdog_reclaims by (auto simp: hal_inv_def reclaiming_def)
  from reclaim_step_ok [OF this s] show ?thesis
    using assms(1) watchdog_reclaims s
    by (auto simp: watchdog_reclaim_def hal_inv_def reclaiming_def handles_ok_def split: option.splits)
next
  case watchdog_wakes
  then show ?thesis by (intro hal_inv_cong [OF _ _ _ _ _ assms(1)]) (auto simp: watchdog_check_def reclaiming_def)
next
  case watchdog_reads
  then show ?thesis by (intro hal_inv_cong [OF _ _ _ _ _ assms(1)]) (auto simp: watchdog_handle_def reclaiming_def)
next
  case watchdog_claims
  then show ?thesis
    using assms(1) by (auto simp: watchdog_claim_def hal_inv_def reclaiming_def handles_ok_def)
next
  case callback
  then show ?thesis by (intro hal_inv_cong [OF _ _ _ _ _ assms(1)]) (auto simp: client_ops reclaiming_def)
next
  case (time n)
  then show ?thesis by (intro hal_inv_cong [OF _ _ _ _ _ assms(1)]) (auto simp: reclaiming_def)
qed

lemma hal_new_inv: "hal_inv (hal_new created now)"
  by (simp add: hal_new_def hal_inv_def reclaim_step_def reclaiming_def handles_ok_def Let_def call_driver_def
      dispatch_updated_modes_to_driver_def)

lemma hal_reachable_inv: "hal_reachable h \<Longrightarrow> hal_inv h"
  by (induction rule: hal_reachable.induct) (auto intro: hal_new_inv hal_step_inv)

lemma card_set_option: "card (set_option x) \<le> Suc 0" "finite (set_option x)"
  by (cases x; simp)+

text \<open>
  C28. Under every interleaving of requests, recovery, watchdog and callbacks, the driver has at most
  one handle: no handle is orphaned. The recovery thread and the watchdog never reclaim at the same
  time, and a handle that one of them is about to start is the installed one and not deleted.
\<close>

theorem gps_handle_never_orphaned:
  assumes "hal_reachable h"
  shows "card (live h) \<le> 1 \<and> finite (live h) \<and>
    (\<not> positioning_active h \<longrightarrow> live h = set_option (gps_handle h)) \<and>
    \<not> (recovery h \<noteq> None \<and> reclaiming h \<noteq> None) \<and>
    (\<forall>g. recovery h = Some (Start_with (Some g)) \<or> watchdog h = Reclaiming (Start_with (Some g)) \<longrightarrow>
       gps_handle h = Some g \<and> g \<in> live h)"
proof -
  have inv: "hal_inv h" using assms by (rule hal_reachable_inv)
  obtain r where ok: "handles_ok r h" using inv by (auto simp: hal_inv_def)
  have "live h = set_option (gps_handle h) \<or> live h = set_option (in_flight r)"
    using ok by (cases r rule: in_flight.cases) (simp_all add: handles_ok_def)
  then have "card (live h) \<le> 1" "finite (live h)"
    by (metis card_set_option(1) One_nat_def, metis card_set_option(2))
  moreover have "\<not> positioning_active h \<Longrightarrow> live h = set_option (gps_handle h)"
    using inv by (auto simp: hal_inv_def handles_ok_def)
  moreover have "gps_handle h = Some g \<and> g \<in> live h"
    if "recovery h = Some (Start_with (Some g)) \<or> watchdog h = Reclaiming (Start_with (Some g))" for g
  proof -
    have "recovery h = Some (Start_with (Some g)) \<or> recovery h = None \<and> reclaiming h = Some (Start_with (Some g))"
      using that inv by (auto simp: hal_inv_def reclaiming_def)
    then have "handles_ok (Some (Start_with (Some g))) h"
      using inv unfolding hal_inv_def by (metis option.distinct(1))
    then show ?thesis by (simp add: handles_ok_def)
  qed
  moreover have "\<not> (recovery h \<noteq> None \<and> reclaiming h \<noteq> None)" using inv by (auto simp: hal_inv_def)
  ultimately show ?thesis by blast
qed


theorem gps_handle_never_orphaned_witness:
  "card (live (start_positioning (hal_new True 1000))) \<le> 1 \<and> gps_handle (hal_new True 1000) = Some 0"
proof
  have "hal_step (hal_new True 1000) (start_positioning (hal_new True 1000))"
    by (rule client_start) (simp add: hal_new_def reclaim_step_def call_driver_def dispatch_updated_modes_to_driver_def Let_def)
  then have "hal_reachable (start_positioning (hal_new True 1000))"
    using hal_reachable.start hal_reachable.step by blast
  from gps_handle_never_orphaned [OF this] show "card (live (start_positioning (hal_new True 1000))) \<le> 1" by simp
qed (simp add: hal_new_def reclaim_step_def call_driver_def dispatch_updated_modes_to_driver_def Let_def)

section \<open>Two races\<close>

lemmas hal_eval = hal_new_def reclaim_step_def call_driver_def dispatch_updated_modes_to_driver_def Let_def
  start_positioning_def start_fast_def watchdog_check_def watchdog_handle_def watchdog_claim_def watchdog_reclaim_def
  stop_positioning_def write_locked_def

text \<open>
  The positioning has been started, no callback arrived for twenty seconds, and the watchdog is
  about to reclaim.
\<close>

definition stale_hal :: hal where
  "stale_hal =
     (let h = hal_new True 1000;
          h = start_fast 0 (start_positioning h);
          h = h\<lparr>clock := clock h + 20000\<rparr>
      in watchdog_handle (watchdog_check h))"

lemma hal_reachable_step: "hal_reachable h \<Longrightarrow> hal_step h h' \<Longrightarrow> hal_reachable h'"
  by (rule hal_reachable.step)

lemma stale_hal_reachable: "hal_reachable stale_hal"
proof -
  let ?h1 = "start_positioning (hal_new True 1000)"
  let ?h2 = "start_fast 0 ?h1"
  let ?h3 = "?h2\<lparr>clock := clock ?h2 + 20000\<rparr>"
  have "hal_reachable ?h1"
    by (rule hal_reachable_step [OF hal_reachable.start client_start]) (simp add: hal_eval)
  then have "hal_reachable ?h2" by (rule hal_reachable_step [OF _ client_fast]) (simp add: hal_eval)
  then have "hal_reachable ?h3" by (rule hal_reachable_step [OF _ hal_step.time])
  then have "hal_reachable (watchdog_check ?h3)" by (rule hal_reachable_step [OF _ watchdog_wakes]) (simp add: hal_eval)
  then have "hal_reachable (watchdog_handle (watchdog_check ?h3))"
    by (rule hal_reachable_step [OF _ watchdog_reads]) (simp_all add: hal_eval)
  then show ?thesis by (simp add: stale_hal_def Let_def)
qed

lemma stale_hal_value:
  "stale_hal = \<lparr>gps_handle = Some 0, last_gps_ms = 1000, positioning_active = False, clock = 21000, client = Client_idle,
     recovery = None, watchdog = Handle_valid, live = {0}, next_handle = 1,
     driver = [Gps_new (Some 0), Gps_set_position_mode 0, Gps_set_position_mode 0, Gps_start 0]\<rparr>"
  by (simp add: stale_hal_def hal_eval)

text \<open>
  A request on the fast path may start a deleted handle: it reads the handle under the lock,
  releases the lock, and the watchdog deletes the handle before the request starts it.
\<close>

theorem start_may_use_deleted_handle:
  "\<exists>h g. hal_reachable h \<and> client h = Client_fast g \<and> Gps_delete g \<in> set (driver h) \<and> g \<notin> live h \<and>
     hal_step h (start_fast g h) \<and> driver (start_fast g h) = driver h @ [Gps_start g]"
proof -
  let ?h1 = "start_positioning stale_hal"
  let ?h2 = "watchdog_claim ?h1"
  let ?h3 = "watchdog_reclaim True Phase1 ?h2"
  have "hal_reachable ?h1"
    by (rule hal_reachable_step [OF stale_hal_reachable client_start]) (simp add: stale_hal_value)
  then have "hal_reachable ?h2" by (rule hal_reachable_step [OF _ watchdog_claims]) (simp add: stale_hal_value hal_eval)
  then have "hal_reachable ?h3" by (rule hal_reachable_step [OF _ watchdog_reclaims]) (simp add: stale_hal_value hal_eval)
  moreover have "client ?h3 = Client_fast 0" by (simp add: stale_hal_value hal_eval)
  moreover from this have "hal_step ?h3 (start_fast 0 ?h3)" by (rule client_fast)
  moreover have "Gps_delete 0 \<in> set (driver ?h3) \<and> 0 \<notin> live ?h3"
    "driver (start_fast 0 ?h3) = driver ?h3 @ [Gps_start 0]"
    by (simp_all add: stale_hal_value hal_eval)
  ultimately show ?thesis by blast
qed

text \<open>
  A stop during a reclaim is lost: the request finds no handle and returns, and the watchdog
  then installs and starts a new handle and arms itself again, although no client wants positions.
\<close>

theorem stop_during_reclaim_is_lost:
  "\<exists>h. hal_reachable h \<and> client h = Client_idle \<and> watchdog h = Reclaiming Phase2 \<and>
     hal_step h (stop_positioning h) \<and> driver (stop_positioning h) = driver h \<and>
     (let h' = fold (watchdog_reclaim True) [Phase2, Phase3 (Some 1), Phase4, Read_handle, Start_with (Some 1), Finish]
            (stop_positioning h)
      in watchdog h' = Asleep \<and> gps_handle h' = Some 1 \<and> last (driver h') = Gps_start 1 \<and> last_gps_ms h' \<noteq> 0)"
proof -
  let ?h1 = "watchdog_claim stale_hal"
  let ?h2 = "watchdog_reclaim True Phase1 ?h1"
  have "hal_reachable ?h1"
    by (rule hal_reachable_step [OF stale_hal_reachable watchdog_claims]) (simp add: stale_hal_value)
  then have "hal_reachable ?h2" by (rule hal_reachable_step [OF _ watchdog_reclaims]) (simp add: stale_hal_value hal_eval)
  moreover have "client ?h2 = Client_idle" "watchdog ?h2 = Reclaiming Phase2" by (simp_all add: stale_hal_value hal_eval)
  moreover from this(1) have "hal_step ?h2 (stop_positioning ?h2)" by (rule client_stop)
  ultimately show ?thesis
    by (intro exI [of _ ?h2]) (simp add: stale_hal_value hal_eval)
qed


section \<open>Reports of the driver\<close>

text \<open>A report of a location; the five flags are those the callback tests.\<close>

record gps_location =
  has_lat_long :: bool
  has_altitude :: bool
  has_speed :: bool
  has_bearing :: bool
  has_accuracy :: bool
  loc_latitude :: double
  loc_longitude :: double
  loc_altitude :: double
  loc_speed :: double
  loc_bearing :: double
  loc_accuracy :: double

datatype gps_update = Gps_position position | Gps_velocity double | Gps_heading double

definition location_position :: "gps_location \<Rightarrow> position result" where
  "location_position l =
     result_bind (make_coordinate check_latitude (loc_latitude l)) (\<lambda>lat.
     result_bind (make_coordinate check_longitude (loc_longitude l)) (\<lambda>lon.
       let pos = position_lat_lon lat lon;
           pos = (if has_accuracy l then pos\<lparr>horizontal := Some (loc_accuracy l)\<rparr> else pos)
       in if has_altitude l
          then result_bind (make_coordinate check_altitude (loc_altitude l)) (\<lambda>alt. Inr (pos\<lparr>altitude := Some alt\<rparr>))
          else Inr pos))"

text \<open>The updates that were emitted, and the exception that left the callback, if any.\<close>

definition on_location_update :: "gps_location \<Rightarrow> exn option \<times> gps_update list" where
  "on_location_update l =
     (let rest = (if has_speed l then [Gps_velocity (loc_speed l)] else []) @
                 (if has_bearing l then [Gps_heading (loc_bearing l)] else [])
      in if has_lat_long l
         then (case location_position l of
                 Inl e \<Rightarrow> (Some e, [])
               | Inr pos \<Rightarrow> (None, Gps_position pos # rest))
         else (None, rest))"

record sv_info =
  prn :: int
  sv_snr :: double
  sv_elevation :: double
  sv_azimuth :: double

record sv_status =
  sv_list :: "sv_info list"
  almanac_mask :: "32 word"
  ephemeris_mask :: "32 word"
  used_in_fix_mask :: "32 word"

text \<open>\<open>1 << prn\<close>, undefined for a shift of 32 or more.\<close>

definition prn_bit :: "(int \<Rightarrow> 32 word) \<Rightarrow> int \<Rightarrow> 32 word" where
  "prn_bit undef n = (if n < 32 then push_bit (nat n) 1 else undef n)"

fun sv_status_vehicles :: "(int \<Rightarrow> 32 word) \<Rightarrow> sv_status \<Rightarrow> sv_info list \<Rightarrow> space_vehicle list \<Rightarrow> space_vehicle list" where
  "sv_status_vehicles undef s [] svs = svs"
| "sv_status_vehicles undef s (i # is) svs =
     (let n = prn i - 1
      in if n < 0 then sv_status_vehicles undef s is svs
         else let shift = prn_bit undef n;
                  sv = space_vehicle_default
                    \<lparr>sv_key := \<lparr>key_type = sv_gps, key_id = word_of_int (prn i)\<rparr>,
                     snr := sv_snr i,
                     has_almanac_data := (and (almanac_mask s) shift \<noteq> 0),
                     has_ephimeris_data := (and (ephemeris_mask s) shift \<noteq> 0),
                     used_in_fix := (and (used_in_fix_mask s) shift \<noteq> 0),
                     azimuth := sv_elevation i,
                     elevation := sv_azimuth i\<rparr>
              in sv_status_vehicles undef s is (set_insert space_vehicle_lt sv svs))"

definition on_sv_status_update :: "(int \<Rightarrow> 32 word) \<Rightarrow> sv_status \<Rightarrow> space_vehicle list" where
  "on_sv_status_update undef s = sv_status_vehicles undef s (sv_list s) []"

section \<open>Modes and capabilities\<close>

datatype assistance_mode = standalone | mobile_station_based | mobile_station_assisted
datatype position_mode = periodic | single_shot

text \<open>The capability bits of the driver's interface.\<close>

record capability_bits =
  capability_scheduling :: "32 word"
  capability_msb :: "32 word"
  capability_msa :: "32 word"
  capability_single_shot :: "32 word"
  capability_on_demand_time :: "32 word"

record hal_modes =
  capabilities :: "32 word"
  assistance_mode :: assistance_mode
  position_mode :: position_mode

definition is_capable_of_assistance :: "capability_bits \<Rightarrow> assistance_mode \<Rightarrow> hal_modes \<Rightarrow> bool" where
  "is_capable_of_assistance gc mode m =
     (case mode of
        standalone \<Rightarrow> True
      | mobile_station_assisted \<Rightarrow> and (capabilities m) (capability_msa gc) \<noteq> 0
      | mobile_station_based \<Rightarrow> and (capabilities m) (capability_msb gc) \<noteq> 0)"

definition is_capable_of_position :: "capability_bits \<Rightarrow> position_mode \<Rightarrow> hal_modes \<Rightarrow> bool" where
  "is_capable_of_position gc mode m =
     (case mode of
        single_shot \<Rightarrow> and (capabilities m) (capability_single_shot gc) \<noteq> 0
      | periodic \<Rightarrow> and (capabilities m) (capability_scheduling gc) \<noteq> 0)"

definition is_capable_of_time_injection :: "capability_bits \<Rightarrow> hal_modes \<Rightarrow> bool" where
  "is_capable_of_time_injection gc m \<longleftrightarrow> and (capabilities m) (capability_on_demand_time gc) \<noteq> 0"

text \<open>\<open>dispatch\<close> is the answer of the driver to the new modes.\<close>

definition set_assistance_mode ::
  "capability_bits \<Rightarrow> (hal_modes \<Rightarrow> bool) \<Rightarrow> assistance_mode \<Rightarrow> hal_modes \<Rightarrow> bool \<times> hal_modes" where
  "set_assistance_mode gc dispatch mode m =
     (if \<not> is_capable_of_assistance gc mode m then (False, m)
      else let m1 = m\<lparr>assistance_mode := mode\<rparr> in (dispatch m1, m1))"

definition set_position_mode ::
  "capability_bits \<Rightarrow> (hal_modes \<Rightarrow> bool) \<Rightarrow> position_mode \<Rightarrow> hal_modes \<Rightarrow> bool \<times> hal_modes" where
  "set_position_mode gc dispatch mode m =
     (case mode of
        single_shot \<Rightarrow>
          if and (capabilities m) (capability_single_shot gc) = 0 then (False, m)
          else let m1 = m\<lparr>position_mode := mode\<rparr> in (dispatch m1, m1)
      | periodic \<Rightarrow>
          if and (capabilities m) (capability_scheduling gc) = 0 then (False, m)
          else let m1 = m\<lparr>position_mode := mode\<rparr> in (dispatch m1, m1))"

text \<open>A time is injected with \<open>(since_epoch, since_boot, uncertainty)\<close>.\<close>

definition inject_reference_time :: "capability_bits \<Rightarrow> int \<times> int \<times> int \<Rightarrow> hal_modes \<Rightarrow> bool \<times> (int \<times> int \<times> int) option" where
  "inject_reference_time gc sample m =
     (if \<not> is_capable_of_time_injection gc m then (False, None) else (True, Some sample))"

definition inject_reference_position :: "(double \<Rightarrow> double) \<Rightarrow> gps_location \<Rightarrow> position \<Rightarrow> gps_location" where
  "inject_reference_position to_float loc p =
     (let loc = loc\<lparr>has_lat_long := True, has_altitude := False, has_speed := False, has_bearing := False, has_accuracy := False,
            loc_latitude := latitude p, loc_longitude := longitude p\<rparr>
      in case horizontal p of
           None \<Rightarrow> loc
         | Some x \<Rightarrow> loc\<lparr>has_accuracy := True, loc_accuracy := to_float x\<rparr>)"

section \<open>What the callbacks emit\<close>

definition valid_coordinates :: "gps_location \<Rightarrow> bool" where
  "valid_coordinates l \<longleftrightarrow> check_latitude (loc_latitude l) = Inr () \<and> check_longitude (loc_longitude l) = Inr ()"

text \<open>
  A report of the driver becomes the updates its flags announce, the position with the accuracy
  and altitude the flags announce, and nothing else. Coordinates outside of their range make the
  callback throw, and then also the speed and the bearing of the report are lost.
\<close>

theorem location_report_becomes_updates:
  "(fst (on_location_update l) \<noteq> None \<longleftrightarrow> has_lat_long l \<and> \<not> valid_coordinates l) \<and>
   snd (on_location_update l) =
    (if has_lat_long l \<and> \<not> valid_coordinates l then []
     else (if has_lat_long l then [Gps_position \<lparr>latitude = loc_latitude l, longitude = loc_longitude l,
          altitude = (if has_altitude l then Some (loc_altitude l) else None),
          horizontal = (if has_accuracy l then Some (loc_accuracy l) else None), vertical = None\<rparr>] else []) @
       (if has_speed l then [Gps_velocity (loc_speed l)] else []) @
       (if has_bearing l then [Gps_heading (loc_bearing l)] else []))"
  by (cases "check_latitude (loc_latitude l)"; cases "check_longitude (loc_longitude l)")
    (simp_all add: on_location_update_def location_position_def make_coordinate_def valid_coordinates_def
      position_lat_lon_def position_default_def check_altitude_def Let_def)


lemma set_insert_comparable:
  "(\<And>y. y \<in> set ys \<Longrightarrow> lt y x \<or> lt x y) \<Longrightarrow> set (set_insert lt x ys) = insert x (set ys)"
  by (induction ys) auto

lemma prn_key_inj:
  assumes "1 \<le> a" "a \<le> 32" "1 \<le> b" "b \<le> (32 :: int)" "(word_of_int a :: 32 word) = word_of_int b"
  shows "a = b"
proof -
  have "uint (word_of_int a :: 32 word) = a" "uint (word_of_int b :: 32 word) = b"
    using assms(1-4) by (simp_all only: uint_word_of_int) simp_all
  with assms(5) show ?thesis by metis
qed

definition reported_vehicle :: "sv_status \<Rightarrow> sv_info \<Rightarrow> space_vehicle" where
  "reported_vehicle s i = \<lparr>sv_key = \<lparr>key_type = sv_gps, key_id = word_of_int (prn i)\<rparr>, snr = sv_snr i,
     has_almanac_data = bit (almanac_mask s) (nat (prn i - 1)), has_ephimeris_data = bit (ephemeris_mask s) (nat (prn i - 1)),
     used_in_fix = bit (used_in_fix_mask s) (nat (prn i - 1)), azimuth = sv_elevation i, elevation = sv_azimuth i\<rparr>"

lemma sv_status_vehicles_set:
  assumes "distinct (map prn is)" "list_all (\<lambda>i. 1 \<le> prn i \<and> prn i \<le> 32) is"
    "set svs = reported_vehicle s ` set js" "list_all (\<lambda>i. 1 \<le> prn i \<and> prn i \<le> 32) js" "prn ` set js \<inter> prn ` set is = {}"
  shows "set (sv_status_vehicles undef s is svs) = reported_vehicle s ` (set js \<union> set is)"
  using assms
proof (induction "is" arbitrary: svs js)
  case (Cons i "is")
  let ?sv = "reported_vehicle s i"
  have sv: "sv_status_vehicles undef s (i # is) svs = sv_status_vehicles undef s is (set_insert space_vehicle_lt ?sv svs)"
    using Cons.prems(2) by (simp add: Let_def prn_bit_def reported_vehicle_def space_vehicle_default_def
        bit_iff_and_push_bit_not_eq_0)
  have "space_vehicle_lt y ?sv \<or> space_vehicle_lt ?sv y" if y: "y \<in> set svs" for y
  proof -
    obtain j where j: "j \<in> set js" "y = reported_vehicle s j" using y unfolding Cons.prems(3) by blast
    have "prn i \<notin> prn ` set js" using Cons.prems(5) by auto
    with j(1) have "prn j \<noteq> prn i" by (metis image_eqI)
    then have "sv_key y \<noteq> sv_key ?sv"
      using j Cons.prems(2,4) prn_key_inj [of "prn j" "prn i"] by (auto simp: reported_vehicle_def list_all_iff)
    then show ?thesis using key_order.less_total by (simp add: space_vehicle_lt_def)
  qed
  then have "set (set_insert space_vehicle_lt ?sv svs) = insert ?sv (set svs)" by (rule set_insert_comparable)
  then have "set (set_insert space_vehicle_lt ?sv svs) = reported_vehicle s ` set (i # js)"
    using Cons.prems(3) by simp
  from Cons.IH [OF _ _ this] Cons.prems show ?case
    unfolding sv by (auto simp: list_all_iff)
qed simp

text \<open>
  The vehicles of a report with distinct identifiers from 1 to 32 are all emitted, each with the
  bits of its identifier in the three masks; azimuth and elevation are exchanged.
\<close>

theorem sv_report_is_complete_but_swapped:
  assumes "distinct (map prn (sv_list s))" "list_all (\<lambda>i. 1 \<le> prn i \<and> prn i \<le> 32) (sv_list s)"
  shows "set (on_sv_status_update undef s) = reported_vehicle s ` set (sv_list s)"
  using sv_status_vehicles_set [OF assms, of "[]" s "[]" undef] by (simp add: on_sv_status_update_def)

theorem sv_report_is_complete_but_swapped_witness:
  "let s = \<lparr>sv_list = [\<lparr>prn = 3, sv_snr = Fin 20, sv_elevation = Fin 45, sv_azimuth = Fin 180\<rparr>],
       almanac_mask = 4, ephemeris_mask = 0, used_in_fix_mask = 4\<rparr>
   in \<exists>sv \<in> set (on_sv_status_update (\<lambda>_. 0) s). used_in_fix sv \<and> azimuth sv = Fin 45 \<and> elevation sv = Fin 180"
  using sv_report_is_complete_but_swapped [of "\<lparr>sv_list = [\<lparr>prn = 3, sv_snr = Fin 20, sv_elevation = Fin 45, sv_azimuth = Fin 180\<rparr>],
       almanac_mask = 4, ephemeris_mask = 0, used_in_fix_mask = 4\<rparr>" "\<lambda>_. 0"]
  by (simp add: reported_vehicle_def bit_numeral_rec numeral_2_eq_2)

end
