(* ===== verification/Endian.thy ===== *)
theory Endian
  imports Prelude "HOL-Library.Word"
begin

text \<open>
  The byte order library the SNTP client is built on (\<open>3rd-party/boost/endian/conversion.hpp\<close>):
  the reversals of 16, 32 and 64 bit values by shifts and masks and the conversions between byte
  orders. The loops and buffers over them are in the theory of the buffers.

  A value of the C++ type \<open>T\<close> is an \<open>'a word\<close>; whether \<open>T\<close> is signed is the argument \<open>sign\<close> of the
  operations that depend on it. The byte
  order of the machine, a macro in the code, is the argument \<open>native\<close>. The overloads of
  \<open>endian_reverse\<close> for signed types have the bodies of those for unsigned types between two casts.
  The model has the portable bodies; those under \<open>BOOST_ENDIAN_NO_INTRINSICS\<close>.
\<close>

datatype order = Big | Little

section \<open>Reversing bytes\<close>

definition endian_reverse8 :: "8 word \<Rightarrow> 8 word" where
  "endian_reverse8 x = x"

definition endian_reverse16 :: "16 word \<Rightarrow> 16 word" where
  "endian_reverse16 x = or (push_bit 8 x) (drop_bit 8 x)"

definition endian_reverse32 :: "32 word \<Rightarrow> 32 word" where
  "endian_reverse32 x =
     (let step16 = or (push_bit 16 x) (drop_bit 16 x)
      in or (and (push_bit 8 step16) 0xff00ff00) (and (drop_bit 8 step16) 0x00ff00ff))"

definition endian_reverse64 :: "64 word \<Rightarrow> 64 word" where
  "endian_reverse64 x =
     (let step32 = or (push_bit 32 x) (drop_bit 32 x);
          step16 = or (push_bit 16 (and step32 0x0000FFFF0000FFFF)) (drop_bit 16 (and step32 0xFFFF0000FFFF0000))
      in or (push_bit 8 (and step16 0x00FF00FF00FF00FF)) (drop_bit 8 (and step16 0xFF00FF00FF00FF00)))"

text \<open>The bytes of a value from the lowest to the highest, and the value of such bytes.\<close>

definition bytes_of :: "nat \<Rightarrow> 'a::len word \<Rightarrow> 8 word list" where
  "bytes_of n x = map (\<lambda>i. ucast (drop_bit (8 * i) x)) [0..<n]"

primrec of_bytes :: "8 word list \<Rightarrow> 'a::len word" where
  "of_bytes [] = 0"
| "of_bytes (b # bs) = or (ucast b) (push_bit 8 (of_bytes bs))"

text \<open>The object representation of a value on a machine, and its inverse.\<close>

definition size_of :: "'a::len itself \<Rightarrow> nat" where
  "size_of T = LENGTH('a) div 8"

definition object_bytes :: "order \<Rightarrow> 'a::len word \<Rightarrow> 8 word list" where
  "object_bytes native x =
     (if native = Little then bytes_of (size_of TYPE('a)) x else rev (bytes_of (size_of TYPE('a)) x))"

definition of_object_bytes :: "order \<Rightarrow> 8 word list \<Rightarrow> 'a::len word" where
  "of_object_bytes native bs = (if native = Little then of_bytes bs else of_bytes (rev bs))"

definition std_endian_reverse :: "order \<Rightarrow> 'a::len word \<Rightarrow> 'a word" where
  "std_endian_reverse native x = of_object_bytes native (rev (object_bytes native x))"

section \<open>Conversions between byte orders\<close>

definition big_to_native :: "order \<Rightarrow> ('a \<Rightarrow> 'a) \<Rightarrow> 'a \<Rightarrow> 'a" where
  "big_to_native native endian_reverse x = (if native = Big then x else endian_reverse x)"

definition native_to_big :: "order \<Rightarrow> ('a \<Rightarrow> 'a) \<Rightarrow> 'a \<Rightarrow> 'a" where
  "native_to_big native endian_reverse x = (if native = Big then x else endian_reverse x)"

definition little_to_native :: "order \<Rightarrow> ('a \<Rightarrow> 'a) \<Rightarrow> 'a \<Rightarrow> 'a" where
  "little_to_native native endian_reverse x = (if native = Little then x else endian_reverse x)"

definition native_to_little :: "order \<Rightarrow> ('a \<Rightarrow> 'a) \<Rightarrow> 'a \<Rightarrow> 'a" where
  "native_to_little native endian_reverse x = (if native = Little then x else endian_reverse x)"

fun value_converter :: "order \<Rightarrow> order \<Rightarrow> ('a \<Rightarrow> 'a) \<Rightarrow> 'a \<Rightarrow> 'a" where
  "value_converter Big Big endian_reverse x = x"
| "value_converter Little Little endian_reverse x = x"
| "value_converter Big Little endian_reverse x = endian_reverse x"
| "value_converter Little Big endian_reverse x = endian_reverse x"

definition conditional_reverse :: "('a \<Rightarrow> 'a) \<Rightarrow> 'a \<Rightarrow> order \<Rightarrow> order \<Rightarrow> 'a" where
  "conditional_reverse endian_reverse from from_order to_order = (if from_order = to_order then from else endian_reverse from)"

section \<open>Bits of bytes\<close>

lemma length_bytes_of [simp]: "length (bytes_of n x) = n"
  by (simp add: bytes_of_def)

lemma bytes_of_0 [simp]: "bytes_of 0 x = []"
  by (simp add: bytes_of_def)

lemma bit_bytes_of: "j < n \<Longrightarrow> bit (bytes_of n x ! j) k \<longleftrightarrow> k < 8 \<and> bit x (8 * j + k)"
  by (simp add: bytes_of_def bit_simps)

lemma bytes_of_Suc: "bytes_of (Suc n) x = ucast x # bytes_of n (drop_bit 8 x)"
  by (rule nth_equalityI) (auto simp: bytes_of_def nth_Cons less_Suc_eq_0_disj add.commute simp del: upt_Suc split: nat.split)

lemma bit_of_bytes:
  "bit (of_bytes bs :: 'a::len word) i \<longleftrightarrow>
     i < LENGTH('a) \<and> i < 8 * length bs \<and> bit (bs ! (i div 8)) (i mod 8)"
proof (induction bs arbitrary: i)
  case (Cons b bs)
  show ?case
  proof (cases "i < 8")
    case True
    then show ?thesis by (simp add: bit_simps)
  next
    case False
    then have "i div 8 = Suc ((i - 8) div 8)" "i mod 8 = (i - 8) mod 8"
      by (simp_all add: le_div_geq le_mod_geq)
    moreover have "\<not> bit b i" using False bit_imp_le_length [of b i] by auto
    ultimately show ?thesis using False Cons.IH [of "i - 8"] by (auto simp: bit_simps not_less)
  qed
qed simp

lemma of_bytes_of:
  "of_bytes (bytes_of n x) = take_bit (8 * n) (x :: 'a::len word)"
  by (rule bit_word_eqI) (auto simp: bit_of_bytes bit_simps bit_bytes_of less_mult_imp_div_less)

lemma bytes_of_of_bytes:
  assumes "8 * length bs \<le> LENGTH('a)"
  shows "bytes_of (length bs) (of_bytes bs :: 'a::len word) = bs"
proof (rule nth_equalityI)
  fix j assume j: "j < length (bytes_of (length bs) (of_bytes bs :: 'a word))"
  show "bytes_of (length bs) (of_bytes bs :: 'a word) ! j = bs ! j"
    by (rule bit_word_eqI) (use j assms in \<open>auto simp: bit_bytes_of bit_of_bytes\<close>)
qed simp

lemma bytes_of_rev_of_bytes:
  "8 * n = LENGTH('a) \<Longrightarrow> bytes_of n (of_bytes (rev (bytes_of n x)) :: 'a::len word) = rev (bytes_of n x)"
  using bytes_of_of_bytes [where 'a='a, of "rev (bytes_of n x)"] by simp

lemma size_of_simps [simp]:
  "size_of TYPE(8) = 1" "size_of TYPE(16) = 2" "size_of TYPE(32) = 4" "size_of TYPE(64) = 8"
  by (simp_all add: size_of_def)

section \<open>The reversals agree with the reversal of the bytes\<close>

lemma std_endian_reverse_bytes:
  "std_endian_reverse native x = of_bytes (rev (bytes_of (size_of TYPE('a)) (x :: 'a::len word)))"
  by (cases native) (simp_all add: std_endian_reverse_def of_object_bytes_def object_bytes_def)

lemma bit_std_endian_reverse:
  "bit (std_endian_reverse native (x :: 'a::len word)) i \<longleftrightarrow>
     i < LENGTH('a) \<and> i < 8 * size_of TYPE('a) \<and> bit x (8 * (size_of TYPE('a) - Suc (i div 8)) + i mod 8)"
  by (auto simp: std_endian_reverse_bytes bit_of_bytes rev_nth less_mult_imp_div_less bit_bytes_of)

lemma upt_16: "[0..<16] = [0, 1, 2, 3, 4, 5, 6, 7, 8, 9, 10, 11, 12, 13, 14, 15]"
  by code_simp

lemma upt_32: "[0..<32] = [0, 1, 2, 3, 4, 5, 6, 7, 8, 9, 10, 11, 12, 13, 14, 15, 16, 17, 18, 19, 20, 21, 22, 23, 24, 25,
     26, 27, 28, 29, 30, 31]"
  by code_simp

lemma upt_64: "[0..<64] = [0, 1, 2, 3, 4, 5, 6, 7, 8, 9, 10, 11, 12, 13, 14, 15, 16, 17, 18, 19, 20, 21, 22, 23, 24, 25,
     26, 27, 28, 29, 30, 31, 32, 33, 34, 35, 36, 37, 38, 39, 40, 41, 42, 43, 44, 45, 46, 47, 48, 49,
     50, 51, 52, 53, 54, 55, 56, 57, 58, 59, 60, 61, 62, 63]"
  by code_simp

lemma bit_beyond: "LENGTH('a) \<le> n \<Longrightarrow> \<not> bit (x :: 'a::len word) n"
  using bit_imp_le_length by fastforce

lemma bits_16: "list_all (\<lambda>n. bit x n = bit y n) [0..<16] \<Longrightarrow> x = y" for x y :: "16 word"
  by (rule bit_word_eqI) (simp add: list_all_iff del: upt_rec_numeral)

lemma bits_32: "list_all (\<lambda>n. bit x n = bit y n) [0..<32] \<Longrightarrow> x = y" for x y :: "32 word"
  by (rule bit_word_eqI) (simp add: list_all_iff del: upt_rec_numeral)

lemma bits_64: "list_all (\<lambda>n. bit x n = bit y n) [0..<64] \<Longrightarrow> x = y" for x y :: "64 word"
  by (rule bit_word_eqI) (simp add: list_all_iff del: upt_rec_numeral)

lemma endian_reverse16_std: "endian_reverse16 x = std_endian_reverse native x"
  by (rule bits_16, unfold upt_16 list.pred_inject)
    (simp add: endian_reverse16_def bit_std_endian_reverse bit_simps bit_beyond numeral_2_eq_2 [symmetric])

lemma endian_reverse32_std: "endian_reverse32 x = std_endian_reverse native x"
  by (rule bits_32, unfold upt_32 list.pred_inject)
    (simp add: endian_reverse32_def bit_std_endian_reverse bit_simps bit_beyond numeral_2_eq_2 [symmetric] bit_numeral_rec Let_def)

lemma endian_reverse64_std: "endian_reverse64 x = std_endian_reverse native x"
  by (rule bits_64, unfold upt_64 list.pred_inject)
    (simp add: endian_reverse64_def bit_std_endian_reverse bit_simps bit_beyond numeral_2_eq_2 [symmetric] bit_numeral_rec Let_def)

text \<open>The reversal of the bytes, on a type that consists of whole bytes.\<close>

lemma std_endian_reverse_reverse:
  assumes "8 * size_of TYPE('a) = LENGTH('a)"
  shows "std_endian_reverse native (std_endian_reverse native x) = (x :: 'a::len word)"
  using assms by (simp add: std_endian_reverse_bytes bytes_of_rev_of_bytes of_bytes_of)

lemma bytes_of_std_endian_reverse:
  assumes "8 * size_of TYPE('a) = LENGTH('a)"
  shows "bytes_of (size_of TYPE('a)) (std_endian_reverse native x) = rev (bytes_of (size_of TYPE('a)) (x :: 'a::len word))"
  using assms by (simp add: std_endian_reverse_bytes bytes_of_rev_of_bytes)

section \<open>The contract of a reversible type\<close>

text \<open>
  What the conversions and the aligned buffers need of an overload of \<open>endian_reverse\<close>: the type
  consists of whole bytes and the overload reverses them.
\<close>

locale endian_reversible =
  fixes endian_reverse :: "'a::len word \<Rightarrow> 'a word"
  assumes whole_bytes: "8 * size_of TYPE('a) = LENGTH('a)"
    and reverses: "endian_reverse x = std_endian_reverse native x"
begin

lemma reverse_reverse: "endian_reverse (endian_reverse x) = x"
  using std_endian_reverse_reverse [OF whole_bytes] by (simp add: reverses [of _ Big])

lemma bytes_reverse: "bytes_of (size_of TYPE('a)) (endian_reverse x) = rev (bytes_of (size_of TYPE('a)) x)"
  using bytes_of_std_endian_reverse [OF whole_bytes] by (simp add: reverses [of _ Big])

lemma native_roundtrip:
  "big_to_native native endian_reverse (native_to_big native endian_reverse x) = x"
  "little_to_native native endian_reverse (native_to_little native endian_reverse x) = x"
  by (simp_all add: big_to_native_def native_to_big_def little_to_native_def native_to_little_def reverse_reverse)

lemma converter_roundtrip:
  "value_converter b a endian_reverse (value_converter a b endian_reverse x) = x"
  by (cases a; cases b) (simp_all add: reverse_reverse)

lemma converter_conditional: "value_converter a b endian_reverse x = conditional_reverse endian_reverse x a b"
  by (cases a; cases b) (simp_all add: conditional_reverse_def)

lemma converter_chain:
  "value_converter b c endian_reverse (value_converter a b endian_reverse x) = value_converter a c endian_reverse x"
  by (cases a; cases b; cases c) (simp_all add: reverse_reverse)

lemma native_is_converter:
  "big_to_native native endian_reverse x = value_converter Big native endian_reverse x"
  "native_to_big native endian_reverse x = value_converter native Big endian_reverse x"
  "little_to_native native endian_reverse x = value_converter Little native endian_reverse x"
  "native_to_little native endian_reverse x = value_converter native Little endian_reverse x"
  by (cases native;
      simp add: big_to_native_def native_to_big_def little_to_native_def native_to_little_def)+

text \<open>Whatever the machine, the bytes of the converted object come in the order asked for.\<close>

lemma object_bytes_big:
  "object_bytes native (native_to_big native endian_reverse x) = rev (bytes_of (size_of TYPE('a)) x)"
  by (cases native) (simp_all add: object_bytes_def native_to_big_def bytes_reverse)

lemma object_bytes_little:
  "object_bytes native (native_to_little native endian_reverse x) = bytes_of (size_of TYPE('a)) x"
  by (cases native) (simp_all add: object_bytes_def native_to_little_def bytes_reverse)

end

lemma endian_reverse8_std: "endian_reverse8 x = std_endian_reverse native x"
proof -
  have "bytes_of 1 x = [x]" using bytes_of_Suc [of 0 x] by simp
  then show ?thesis by (simp add: endian_reverse8_def std_endian_reverse_bytes)
qed

interpretation er8: endian_reversible endian_reverse8
  by unfold_locales (simp_all add: endian_reverse8_std)

interpretation er16: endian_reversible endian_reverse16
  by unfold_locales (simp_all add: endian_reverse16_std)

interpretation er32: endian_reversible endian_reverse32
  by unfold_locales (simp_all add: endian_reverse32_std)

interpretation er64: endian_reversible endian_reverse64
  by unfold_locales (simp_all add: endian_reverse64_std)

end
