(* ===== verification/Endian_Buffers.thy ===== *)
theory Endian_Buffers
  imports Endian
begin

text \<open>
  Copies, unrolled loops and buffers (\<open>3rd-party/boost/endian/conversion.hpp\<close> and \<open>buffers.hpp\<close>).
  A pointer is an index into a list of bytes. The loops are shown to write and read a window of the
  list, from which the round trips of the buffers and the bytes they put on the wire follow.
\<close>

section \<open>Copying with a reversal\<close>

text \<open>Each copy writes the bytes of the value at the address of its target.\<close>

definition write_bytes :: "8 word list \<Rightarrow> nat \<Rightarrow> 8 word list \<Rightarrow> 8 word list" where
  "write_bytes m p bs = take p m @ bs @ drop (p + length bs) m"

definition big_reverse_copy_to :: "order \<Rightarrow> 'a::len word \<Rightarrow> 8 word list \<Rightarrow> nat \<Rightarrow> 8 word list" where
  "big_reverse_copy_to native from m dest =
     (if native = Big then write_bytes m dest (object_bytes native from)
      else write_bytes m dest (rev (object_bytes native from)))"

definition big_reverse_copy_from :: "order \<Rightarrow> 8 word list \<Rightarrow> nat \<Rightarrow> 'a::len word" where
  "big_reverse_copy_from native m from =
     (if native = Big then of_object_bytes native (take (size_of TYPE('a)) (drop from m))
      else of_object_bytes native (rev (take (size_of TYPE('a)) (drop from m))))"

definition little_reverse_copy_to :: "order \<Rightarrow> 'a::len word \<Rightarrow> 8 word list \<Rightarrow> nat \<Rightarrow> 8 word list" where
  "little_reverse_copy_to native from m dest =
     (if native = Little then write_bytes m dest (object_bytes native from)
      else write_bytes m dest (rev (object_bytes native from)))"

definition little_reverse_copy_from :: "order \<Rightarrow> 8 word list \<Rightarrow> nat \<Rightarrow> 'a::len word" where
  "little_reverse_copy_from native m from =
     (if native = Little then of_object_bytes native (take (size_of TYPE('a)) (drop from m))
      else of_object_bytes native (rev (take (size_of TYPE('a)) (drop from m))))"

section \<open>The unrolled loops\<close>

text \<open>
  The template recursion ends at one byte; there is no instance for none. A shift to the right of a
  signed value keeps its sign.
\<close>

definition load_byte :: "bool \<Rightarrow> 8 word \<Rightarrow> 'a::len word" where
  "load_byte sign b = (if sign then scast b else ucast b)"

definition shift_right8 :: "bool \<Rightarrow> 'a::len word \<Rightarrow> 'a word" where
  "shift_right8 sign v = (if sign then signed_drop_bit 8 v else drop_bit 8 v)"

fun load_big :: "bool \<Rightarrow> nat \<Rightarrow> 8 word list \<Rightarrow> nat \<Rightarrow> 'a::len word" where
  "load_big sign 0 m p = 0"
| "load_big sign (Suc 0) m p = load_byte sign (m ! (p - 1))"
| "load_big sign (Suc (Suc n)) m p = or (ucast (m ! (p - 1))) (push_bit 8 (load_big sign (Suc n) m (p - 1)))"

fun load_little :: "bool \<Rightarrow> nat \<Rightarrow> 8 word list \<Rightarrow> nat \<Rightarrow> 'a::len word" where
  "load_little sign 0 m p = 0"
| "load_little sign (Suc 0) m p = load_byte sign (m ! p)"
| "load_little sign (Suc (Suc n)) m p = or (ucast (m ! p)) (push_bit 8 (load_little sign (Suc n) m (p + 1)))"

fun store_big :: "bool \<Rightarrow> nat \<Rightarrow> 8 word list \<Rightarrow> nat \<Rightarrow> 'a::len word \<Rightarrow> 8 word list" where
  "store_big sign 0 m p v = m"
| "store_big sign (Suc 0) m p v = m[p - 1 := ucast v]"
| "store_big sign (Suc (Suc n)) m p v = store_big sign (Suc n) (m[p - 1 := ucast v]) (p - 1) (shift_right8 sign v)"

fun store_little :: "bool \<Rightarrow> nat \<Rightarrow> 8 word list \<Rightarrow> nat \<Rightarrow> 'a::len word \<Rightarrow> 8 word list" where
  "store_little sign 0 m p v = m"
| "store_little sign (Suc 0) m p v = m[p := ucast v]"
| "store_little sign (Suc (Suc n)) m p v = store_little sign (Suc n) (m[p := ucast v]) (p + 1) (shift_right8 sign v)"

definition load_big_endian :: "bool \<Rightarrow> nat \<Rightarrow> 8 word list \<Rightarrow> nat \<Rightarrow> 'a::len word" where
  "load_big_endian sign n m p = load_big sign n m (p + n)"

definition store_big_endian :: "bool \<Rightarrow> nat \<Rightarrow> 8 word list \<Rightarrow> nat \<Rightarrow> 'a::len word \<Rightarrow> 8 word list" where
  "store_big_endian sign n m p v = store_big sign n m (p + n) v"

text \<open>On x86 (\<open>intel\<close>) a value as wide as its bytes is accessed as a whole; the machine is little endian there.\<close>

definition load_little_endian :: "bool \<Rightarrow> bool \<Rightarrow> nat \<Rightarrow> 8 word list \<Rightarrow> nat \<Rightarrow> 'a::len word" where
  "load_little_endian intel sign n m p =
     (if intel \<and> size_of TYPE('a) = n then of_object_bytes Little (take (size_of TYPE('a)) (drop p m)) else load_little sign n m p)"

definition store_little_endian :: "bool \<Rightarrow> bool \<Rightarrow> nat \<Rightarrow> 8 word list \<Rightarrow> nat \<Rightarrow> 'a::len word \<Rightarrow> 8 word list" where
  "store_little_endian intel sign n m p v =
     (if intel \<and> size_of TYPE('a) = n then write_bytes m p (object_bytes Little v) else store_little sign n m p v)"

section \<open>The loops write and read a window of bytes\<close>

lemma length_write_bytes [simp]: "p + length bs \<le> length m \<Longrightarrow> length (write_bytes m p bs) = length m"
  by (simp add: write_bytes_def)

lemma take_drop_write_bytes [simp]:
  "p + length bs \<le> length m \<Longrightarrow> take (length bs) (drop p (write_bytes m p bs)) = bs"
  by (simp add: write_bytes_def)

lemma nth_write_bytes:
  "p + length bs \<le> length m \<Longrightarrow> i < length m \<Longrightarrow>
     write_bytes m p bs ! i = (if p \<le> i \<and> i < p + length bs then bs ! (i - p) else m ! i)"
  by (auto simp: write_bytes_def nth_append)

lemma write_bytes_snoc:
  "Suc (p + length bs) \<le> length m \<Longrightarrow>
     write_bytes (m[p + length bs := b]) p bs = write_bytes m p (bs @ [b])"
  by (simp add: write_bytes_def drop_update_swap Cons_nth_drop_Suc [symmetric])

lemma write_bytes_Cons:
  "Suc (p + length bs) \<le> length m \<Longrightarrow> write_bytes (m[p := b]) (Suc p) bs = write_bytes m p (b # bs)"
  by (simp add: write_bytes_def take_Suc_conv_app_nth take_update_cancel)

lemma bytes_of_shift:
  assumes "8 * Suc n \<le> LENGTH('a)"
  shows "bytes_of n (shift_right8 sign v) = bytes_of n (drop_bit 8 (v :: 'a::len word))"
  by (rule nth_equalityI, simp, rule bit_word_eqI)
    (use assms in \<open>auto simp: bit_bytes_of shift_right8_def bit_simps\<close>)

lemma store_big_window:
  assumes "0 < n" "n \<le> p" "p \<le> length m" "8 * n \<le> LENGTH('a)"
  shows "store_big sign n m p v = write_bytes m (p - n) (rev (bytes_of n (v :: 'a::len word)))"
  using assms
proof (induction sign n m p v rule: store_big.induct)
  case (2 sign m p v)
  then show ?case by (simp add: bytes_of_Suc write_bytes_def upd_conv_take_nth_drop)
next
  case (3 sign n m p v)
  obtain k where p: "p = Suc (Suc (k + n))"
    using 3(3) by (metis add.commute add_Suc le_Suc_ex)
  have "store_big sign (Suc (Suc n)) m p v =
      write_bytes (m[p - 1 := ucast v]) (p - Suc (Suc n)) (rev (bytes_of (Suc n) (shift_right8 sign v)))"
    using 3 by simp
  then show ?case
    using 3(2-5) write_bytes_snoc [of k "rev (bytes_of (Suc n) (drop_bit 8 v))" m "ucast v"]
    by (simp add: p bytes_of_shift bytes_of_Suc [of "Suc n"])
qed simp

lemma store_little_window:
  assumes "0 < n" "p + n \<le> length m" "8 * n \<le> LENGTH('a)"
  shows "store_little sign n m p v = write_bytes m p (bytes_of n (v :: 'a::len word))"
  using assms
proof (induction sign n m p v rule: store_little.induct)
  case (2 sign m p v)
  then show ?case by (simp add: bytes_of_Suc write_bytes_def upd_conv_take_nth_drop)
next
  case (3 sign n m p v)
  have "store_little sign (Suc (Suc n)) m p v =
      write_bytes (m[p := ucast v]) (Suc p) (bytes_of (Suc n) (shift_right8 sign v))"
    using 3 by simp
  then show ?case
    using 3(2-4) write_bytes_Cons [of p "bytes_of (Suc n) (drop_bit 8 v)" m "ucast v"]
    by (simp add: bytes_of_shift bytes_of_Suc [of "Suc n"])
qed simp

text \<open>What a load gives: the bytes of the window, with the sign of the highest for a signed type.\<close>

definition widen :: "bool \<Rightarrow> nat \<Rightarrow> 'a::len word \<Rightarrow> 'a word" where
  "widen sign n w = (if sign then signed_take_bit (8 * n - 1) w else take_bit (8 * n) w)"

lemma widen_step:
  "widen sign (Suc (Suc n)) (or (ucast b) (push_bit 8 w)) =
     or (ucast (b :: 8 word)) (push_bit 8 (widen sign (Suc n) (w :: 'a::len word)))"
  by (rule bit_word_eqI) (auto simp: widen_def bit_simps min_def bit_beyond)

lemma widen_byte: "widen sign (Suc 0) (ucast b) = load_byte sign b"
  by (rule bit_word_eqI) (auto simp: widen_def load_byte_def bit_simps min_def bit_beyond dest: bit_imp_le_length)

lemma load_big_window:
  assumes "0 < n" "n \<le> p" "p \<le> length m"
  shows "(load_big sign n m p :: 'a::len word) = widen sign n (of_bytes (rev (take n (drop (p - n) m))))"
  using assms
proof (induction sign n m p rule: load_big.induct)
  case (2 sign m p)
  then have "take 1 (drop (p - 1) m) = [m ! (p - 1)]" by (simp add: take_Suc hd_drop_conv_nth)
  then show ?case by (simp add: widen_byte)
next
  case (3 sign n m p)
  obtain k where p: "p = Suc (Suc (k + n))"
    using 3(3) by (metis add.commute add_Suc le_Suc_ex)
  have "take (Suc (Suc n)) (drop (p - Suc (Suc n)) m) = take (Suc n) (drop (p - 1 - Suc n) m) @ [m ! (p - 1)]"
    using 3(2-4) by (simp add: p take_Suc_conv_app_nth)
  then show ?case using 3 by (simp add: widen_step)
qed simp

lemma load_little_window:
  assumes "0 < n" "p + n \<le> length m"
  shows "(load_little sign n m p :: 'a::len word) = widen sign n (of_bytes (take n (drop p m)))"
  using assms
proof (induction sign n m p rule: load_little.induct)
  case (2 sign m p)
  then have "take 1 (drop p m) = [m ! p]" by (simp add: take_Suc hd_drop_conv_nth)
  then show ?case by (simp add: widen_byte)
next
  case (3 sign n m p)
  have "drop p m = m ! p # drop (Suc p) m" using 3(2,3) by (simp add: Cons_nth_drop_Suc)
  then show ?case using 3 by (simp add: widen_step)
qed simp

section \<open>Round trips of the loops\<close>

lemma widen_take_bit: "0 < n \<Longrightarrow> widen sign n (take_bit (8 * n) w) = widen sign n w"
  by (rule bit_word_eqI) (auto simp: widen_def bit_simps min_def)

lemma widen_full: "8 * n = LENGTH('a) \<Longrightarrow> widen sign n (w :: 'a::len word) = w"
proof (rule bit_word_eqI)
  fix i assume "8 * n = LENGTH('a)" "i < LENGTH('a)"
  then show "bit (widen sign n w) i = bit w i"
    by (cases "i = 8 * n - 1") (auto simp: widen_def bit_simps min_def)
qed

text \<open>The values a buffer of \<open>n_bits\<close> bits can hold.\<close>

definition representable :: "bool \<Rightarrow> nat \<Rightarrow> 'a::len word \<Rightarrow> bool" where
  "representable sign n_bits v \<longleftrightarrow>
     (if sign then - (2 ^ (n_bits - 1)) \<le> sint v \<and> sint v < 2 ^ (n_bits - 1) else uint v < 2 ^ n_bits)"

lemma widen_representable:
  assumes "representable sign (8 * n) v" "0 < n" "8 * n \<le> LENGTH('a)"
  shows "widen sign n (v :: 'a::len word) = v"
proof (cases sign)
  case True
  then have s: "signed_take_bit (8 * n - 1) (sint v) = sint v"
    using assms(1) by (simp add: representable_def signed_take_bit_int_eq_self_iff)
  have m: "bit (sint v) i = bit (sint v) (min i (8 * n - 1))" for i
    using arg_cong [OF s, of "\<lambda>k. bit k i"] by (simp add: bit_signed_take_bit_iff min.commute)
  have w: "bit (sint v) i = bit v i" if "i < LENGTH('a)" for i
    using that by (simp add: bit_sint_iff)
  have k: "bit v (min i (8 * n - 1)) = bit v i" if "i < LENGTH('a)" for i
    using w [OF that] w [of "min i (8 * n - 1)"] m [of i] that by (metis min.strict_coboundedI1)
  show ?thesis
    by (rule bit_word_eqI) (simp add: widen_def True bit_simps k min.commute [of "8 * n - 1"] del: One_nat_def)
next
  case False
  then have "uint (take_bit (8 * n) v) = uint v"
    using assms by (simp add: representable_def unsigned_take_bit_eq take_bit_int_eq_self)
  then show ?thesis using False by (intro unsigned_word_eqI) (simp add: widen_def)
qed

section \<open>Buffers\<close>

text \<open>
  The unaligned buffers keep an array of bytes. A constructor writes over memory that was not
  initialised, so it is the assignment on any contents. The aligned buffers keep an object of the
  type itself.
\<close>

record byte_buffer =
  m_value :: "8 word list"

definition big_assign :: "bool \<Rightarrow> nat \<Rightarrow> byte_buffer \<Rightarrow> 'a::len word \<Rightarrow> byte_buffer" where
  "big_assign sign n_bits b val = b\<lparr>m_value := store_big_endian sign (n_bits div 8) (m_value b) 0 val\<rparr>"

definition big_value :: "bool \<Rightarrow> nat \<Rightarrow> byte_buffer \<Rightarrow> 'a::len word" where
  "big_value sign n_bits b = load_big_endian sign (n_bits div 8) (m_value b) 0"

definition little_assign :: "bool \<Rightarrow> bool \<Rightarrow> nat \<Rightarrow> byte_buffer \<Rightarrow> 'a::len word \<Rightarrow> byte_buffer" where
  "little_assign intel sign n_bits b val = b\<lparr>m_value := store_little_endian intel sign (n_bits div 8) (m_value b) 0 val\<rparr>"

definition little_value :: "bool \<Rightarrow> bool \<Rightarrow> nat \<Rightarrow> byte_buffer \<Rightarrow> 'a::len word" where
  "little_value intel sign n_bits b = load_little_endian intel sign (n_bits div 8) (m_value b) 0"

definition aligned_big_assign :: "order \<Rightarrow> ('a::len word \<Rightarrow> 'a word) \<Rightarrow> 'a word \<Rightarrow> 'a word" where
  "aligned_big_assign native endian_reverse val = native_to_big native endian_reverse val"

definition aligned_big_value :: "order \<Rightarrow> ('a::len word \<Rightarrow> 'a word) \<Rightarrow> 'a word \<Rightarrow> 'a word" where
  "aligned_big_value native endian_reverse value = big_to_native native endian_reverse value"

definition aligned_little_assign :: "order \<Rightarrow> ('a::len word \<Rightarrow> 'a word) \<Rightarrow> 'a word \<Rightarrow> 'a word" where
  "aligned_little_assign native endian_reverse val = native_to_little native endian_reverse val"

definition aligned_little_value :: "order \<Rightarrow> ('a::len word \<Rightarrow> 'a word) \<Rightarrow> 'a word \<Rightarrow> 'a word" where
  "aligned_little_value native endian_reverse value = little_to_native native endian_reverse value"

definition aligned_data :: "order \<Rightarrow> 'a::len word \<Rightarrow> 8 word list" where
  "aligned_data native value = object_bytes native value"

text \<open>The static assertions on the parameters of a buffer, and its storage.\<close>

definition buffer_type :: "'a::len itself \<Rightarrow> nat \<Rightarrow> bool" where
  "buffer_type T n_bits \<longleftrightarrow> (n_bits div 8) * 8 = n_bits \<and> 0 < n_bits \<and> n_bits \<le> LENGTH('a)"

definition buffer_of :: "nat \<Rightarrow> byte_buffer \<Rightarrow> bool" where
  "buffer_of n_bits b \<longleftrightarrow> length (m_value b) = n_bits div 8"

lemma write_all [simp]: "length bs = length m \<Longrightarrow> write_bytes m 0 bs = bs"
  by (simp add: write_bytes_def)

lemma store_big_all:
  assumes "buffer_type TYPE('a) n_bits" "buffer_of n_bits b"
  shows "m_value (big_assign sign n_bits b (v :: 'a::len word)) = rev (bytes_of (n_bits div 8) v)"
proof -
  have "0 < n_bits div 8" "8 * (n_bits div 8) \<le> LENGTH('a)" using assms by (auto simp: buffer_type_def)
  then show ?thesis using assms by (simp add: big_assign_def store_big_endian_def store_big_window buffer_of_def)
qed

lemma load_big_all:
  assumes "buffer_type TYPE('a) n_bits" "buffer_of n_bits b"
  shows "(big_value sign n_bits b :: 'a::len word) = widen sign (n_bits div 8) (of_bytes (rev (m_value b)))"
proof -
  have "0 < n_bits div 8" using assms by (auto simp: buffer_type_def)
  then show ?thesis using assms by (simp add: big_value_def load_big_endian_def load_big_window buffer_of_def)
qed

lemma store_little_all:
  assumes "buffer_type TYPE('a) n_bits" "buffer_of n_bits b"
  shows "m_value (little_assign intel sign n_bits b (v :: 'a::len word)) = bytes_of (n_bits div 8) v"
proof -
  have "0 < n_bits div 8" "8 * (n_bits div 8) \<le> LENGTH('a)" using assms by (auto simp: buffer_type_def)
  then show ?thesis using assms
    by (simp add: little_assign_def store_little_endian_def store_little_window buffer_of_def object_bytes_def)
qed

lemma load_little_all:
  assumes "buffer_type TYPE('a) n_bits" "buffer_of n_bits b" "8 * size_of TYPE('a) = LENGTH('a)"
  shows "(little_value intel sign n_bits b :: 'a::len word) = widen sign (n_bits div 8) (of_bytes (m_value b))"
proof -
  have "0 < n_bits div 8" using assms by (auto simp: buffer_type_def)
  then show ?thesis using assms
    by (simp add: little_value_def load_little_endian_def load_little_window buffer_of_def of_object_bytes_def widen_full)
qed

lemma big_roundtrip:
  assumes "buffer_type TYPE('a) n_bits" "buffer_of n_bits b" "representable sign n_bits (v :: 'a::len word)"
  shows "big_value sign n_bits (big_assign sign n_bits b v) = v"
proof -
  have n: "0 < n_bits div 8" "8 * (n_bits div 8) = n_bits" "n_bits \<le> LENGTH('a)"
    using assms by (auto simp: buffer_type_def mult.commute)
  have "buffer_of n_bits (big_assign sign n_bits b v)"
    using assms by (simp add: buffer_of_def store_big_all)
  then have "(big_value sign n_bits (big_assign sign n_bits b v) :: 'a word) = widen sign (n_bits div 8) v"
    using assms n widen_take_bit [OF n(1), of sign v] by (simp add: load_big_all store_big_all of_bytes_of)
  then show ?thesis using widen_representable [of sign "n_bits div 8" v] n assms(3) by simp
qed

lemma little_roundtrip:
  assumes "buffer_type TYPE('a) n_bits" "buffer_of n_bits b" "representable sign n_bits (v :: 'a::len word)"
    "8 * size_of TYPE('a) = LENGTH('a)"
  shows "little_value intel sign n_bits (little_assign intel' sign n_bits b v) = v"
proof -
  have n: "0 < n_bits div 8" "8 * (n_bits div 8) = n_bits" "n_bits \<le> LENGTH('a)"
    using assms by (auto simp: buffer_type_def mult.commute)
  have "buffer_of n_bits (little_assign intel' sign n_bits b v)"
    using assms by (simp add: buffer_of_def store_little_all)
  then have "(little_value intel sign n_bits (little_assign intel' sign n_bits b v) :: 'a word) = widen sign (n_bits div 8) v"
    using assms n widen_take_bit [OF n(1), of sign v] by (simp add: load_little_all store_little_all of_bytes_of)
  then show ?thesis using widen_representable [of sign "n_bits div 8" v] n assms(3) by simp
qed

section \<open>What the buffers guarantee\<close>

lemma assign_buffer_of:
  assumes "buffer_type TYPE('a) n_bits" "buffer_of n_bits b"
  shows "buffer_of n_bits (big_assign sign n_bits b (v :: 'a::len word))"
    "buffer_of n_bits (little_assign intel sign n_bits b v)"
  using assms by (simp_all add: buffer_of_def store_big_all store_little_all)

text \<open>The copies are the stores and loads of the whole type.\<close>

lemma big_reverse_copy_window:
  "big_reverse_copy_to native from m p = write_bytes m p (rev (bytes_of (size_of TYPE('a)) (from :: 'a::len word)))"
  by (cases native) (simp_all add: big_reverse_copy_to_def object_bytes_def)

lemma little_reverse_copy_window:
  "little_reverse_copy_to native from m p = write_bytes m p (bytes_of (size_of TYPE('a)) (from :: 'a::len word))"
  by (cases native) (simp_all add: little_reverse_copy_to_def object_bytes_def)

lemma reverse_copy_from:
  "(big_reverse_copy_from native m p :: 'a::len word) = of_bytes (rev (take (size_of TYPE('a)) (drop p m)))"
  "(little_reverse_copy_from native m p :: 'a::len word) = of_bytes (take (size_of TYPE('a)) (drop p m))"
  by (cases native; simp add: big_reverse_copy_from_def little_reverse_copy_from_def of_object_bytes_def)+

text \<open>
  The contract of a buffer: the storage it needs, the bytes an assignment leaves there and the
  value it reads back. Both byte orders meet it, and with it every client of a buffer.
\<close>

locale integer_buffer =
  fixes assign :: "nat \<Rightarrow> byte_buffer \<Rightarrow> 'a::len word \<Rightarrow> byte_buffer"
    and load :: "nat \<Rightarrow> byte_buffer \<Rightarrow> 'a word"
    and sign :: bool
    and wire :: "8 word list \<Rightarrow> 8 word list"
  assumes assign_wire: "buffer_type TYPE('a) n_bits \<Longrightarrow> buffer_of n_bits b \<Longrightarrow>
      m_value (assign n_bits b v) = wire (bytes_of (n_bits div 8) v)"
    and wire_length: "length (wire bs) = length bs"
    and value_assign: "buffer_type TYPE('a) n_bits \<Longrightarrow> buffer_of n_bits b \<Longrightarrow> representable sign n_bits v \<Longrightarrow>
      load n_bits (assign n_bits b v) = v"
begin

lemma assign_keeps: "buffer_type TYPE('a) n_bits \<Longrightarrow> buffer_of n_bits b \<Longrightarrow> buffer_of n_bits (assign n_bits b v)"
  by (simp add: buffer_of_def assign_wire wire_length)

lemma assigns_keep:
  "buffer_type TYPE('a) n_bits \<Longrightarrow> buffer_of n_bits b \<Longrightarrow> buffer_of n_bits (fold (\<lambda>v b. assign n_bits b v) vs b)"
  by (induction vs arbitrary: b) (simp_all add: assign_keeps)

text \<open>Only the last assignment counts: nothing of the memory or of earlier values is left.\<close>

lemma last_assign:
  assumes "buffer_type TYPE('a) n_bits" "buffer_of n_bits b" "buffer_of n_bits b'"
  shows "m_value (assign n_bits (fold (\<lambda>v b. assign n_bits b v) vs b) v) = m_value (assign n_bits b' v)"
  using assms by (simp add: assign_wire assigns_keep)

lemma value_last_assign:
  assumes "buffer_type TYPE('a) n_bits" "buffer_of n_bits b" "representable sign n_bits v"
  shows "load n_bits (fold (\<lambda>v b. assign n_bits b v) (vs @ [v]) b) = v"
  using assms by (simp add: value_assign assigns_keep)

end

interpretation bigu8: integer_buffer "big_assign False" "big_value False :: nat \<Rightarrow> byte_buffer \<Rightarrow> 8 word" False rev
  by unfold_locales (simp_all add: store_big_all big_roundtrip)

interpretation bigs8: integer_buffer "big_assign True" "big_value True :: nat \<Rightarrow> byte_buffer \<Rightarrow> 8 word" True rev
  by unfold_locales (simp_all add: store_big_all big_roundtrip)

interpretation bigs16: integer_buffer "big_assign True" "big_value True :: nat \<Rightarrow> byte_buffer \<Rightarrow> 16 word" True rev
  by unfold_locales (simp_all add: store_big_all big_roundtrip)

interpretation bigu16: integer_buffer "big_assign False" "big_value False :: nat \<Rightarrow> byte_buffer \<Rightarrow> 16 word" False rev
  by unfold_locales (simp_all add: store_big_all big_roundtrip)

interpretation bigu32: integer_buffer "big_assign False" "big_value False :: nat \<Rightarrow> byte_buffer \<Rightarrow> 32 word" False rev
  by unfold_locales (simp_all add: store_big_all big_roundtrip)

interpretation littleu32: integer_buffer "little_assign intel False" "little_value intel False :: nat \<Rightarrow> byte_buffer \<Rightarrow> 32 word"
  False "\<lambda>bs. bs" for intel
  by unfold_locales (simp_all add: store_little_all little_roundtrip)

text \<open>
  The shifts and masks of \<open>endian_reverse\<close> agree with the independent implementation that
  reverses the bytes of the object, on machines of both byte orders.
\<close>

theorem endian_reverse_equivalent:
  "endian_reverse16 x = std_endian_reverse native x \<and>
   endian_reverse32 y = std_endian_reverse native y \<and>
   endian_reverse64 z = std_endian_reverse native z"
  by (simp add: endian_reverse16_std [where native=native] endian_reverse32_std [where native=native]
      endian_reverse64_std [where native=native])

text \<open>
  C33. A buffer gives back every value its bits can represent, also when it is narrower than the
  type, whatever it held before, signed or not, in either byte order and on every machine.
\<close>

theorem buffer_roundtrip:
  assumes "buffer_type TYPE('a) n_bits" "buffer_of n_bits b" "representable sign n_bits (v :: 'a::len word)"
    "8 * size_of TYPE('a) = LENGTH('a)"
  shows "big_value sign n_bits (big_assign sign n_bits b v) = v \<and>
    little_value intel sign n_bits (little_assign intel' sign n_bits b v) = v"
  using assms by (simp add: big_roundtrip little_roundtrip)

theorem buffer_roundtrip_witness:
  "big_value True 24 (big_assign True 24 \<lparr>m_value = [1, 2, 3]\<rparr> (- 5 :: 32 word)) = (- 5 :: 32 word)"
  using buffer_roundtrip [where 'a=32 and n_bits=24 and b="\<lparr>m_value = [1, 2, 3]\<rparr>" and sign=True and v="- 5" and intel=False and intel'=False]
  by (simp add: buffer_type_def buffer_of_def representable_def)

text \<open>
  An aligned and an unaligned buffer of the same order put the same bytes into memory, on every
  machine: the most significant first for big, the least significant first for little.
\<close>

theorem aligned_unaligned_same_bytes:
  assumes "buffer_of 32 b"
  shows "aligned_data native (aligned_big_assign native endian_reverse32 v) = m_value (big_assign sign 32 b v) \<and>
    aligned_data native (aligned_little_assign native endian_reverse32 v) = m_value (little_assign intel sign 32 b v)"
  using assms
  by (simp add: aligned_data_def aligned_big_assign_def aligned_little_assign_def er32.object_bytes_big
      er32.object_bytes_little store_big_all store_little_all buffer_type_def)

theorem aligned_unaligned_same_bytes_witness:
  "aligned_data Little (aligned_big_assign Little endian_reverse32 0x01020304) =
     m_value (big_assign False 32 \<lparr>m_value = [0, 0, 0, 0]\<rparr> (0x01020304 :: 32 word))"
  using aligned_unaligned_same_bytes [where b="\<lparr>m_value = [0, 0, 0, 0]\<rparr>" and native=Little and v="0x01020304"
      and sign=False and intel=False] by (simp add: buffer_of_def)

end
