(* ===== verification/Sntp.thy ===== *)
theory Sntp
  imports Prelude "HOL-Library.Signed_Division"
begin

text \<open>
  The SNTP client of the GPS provider (\<open>providers/gps/sntp_client.h\<close>, \<open>sntp_client.cpp\<close>): the
  fixed-point timestamps, the first byte of a packet and the computation of the time from a
  transaction. Resolving, connecting, sending and receiving belong to Boost.Asio; what
  \<open>request_time\<close> computes afterwards is a function of the packet and of the two clocks.

  Durations are integers, milliseconds or nanoseconds as in the code; \<open>duration_cast\<close> truncates
  towards zero. Unsigned 32-bit arithmetic is that of \<open>32 word\<close>.
\<close>

section \<open>Timestamps\<close>

definition offset_1900_to_1970 :: int where
  "offset_1900_to_1970 = ((365 * 70) + 17) * 24 * 60 * 60"

record timestamp =
  ts_seconds :: "32 word"
  ts_fraction :: "32 word"

definition from_milliseconds_since_epoch :: "int \<Rightarrow> timestamp" where
  "from_milliseconds_since_epoch ts =
     (let secs = ts sdiv 1000;
          msecs = ts - secs * 1000;
          secs = secs + offset_1900_to_1970
      in \<lparr>ts_seconds = word_of_int secs, ts_fraction = word_of_int (msecs * (2 ^ 32 - 1) + 1 sdiv 1000)\<rparr>)"

definition to_milliseconds_since_epoch :: "timestamp \<Rightarrow> int" where
  "to_milliseconds_since_epoch t =
     (uint (ts_seconds t) - offset_1900_to_1970) * 1000 + uint ((ts_fraction t * 1000) div (- 1))"

section \<open>The first byte of a packet\<close>

definition livm_leap_indicator :: "8 word \<Rightarrow> 8 word" where
  "livm_leap_indicator b = and (drop_bit 6 b) 3"

definition livm_set_leap_indicator :: "8 word \<Rightarrow> 8 word \<Rightarrow> 8 word" where
  "livm_set_leap_indicator li b = or b (push_bit 6 li)"

definition livm_version :: "8 word \<Rightarrow> 8 word" where
  "livm_version b = and (drop_bit 3 b) 7"

definition livm_set_version :: "8 word \<Rightarrow> 8 word \<Rightarrow> 8 word" where
  "livm_set_version v b = or b (push_bit 3 v)"

definition livm_mode :: "8 word \<Rightarrow> 8 word" where
  "livm_mode b = and b 7"

definition livm_set_mode :: "8 word \<Rightarrow> 8 word \<Rightarrow> 8 word" where
  "livm_set_mode m b = or m b"

definition mode_client :: "8 word" where "mode_client = 3"
definition sntp_version :: "8 word" where "sntp_version = 3"

text \<open>The byte a request sends; the packet is not initialised before, so it starts from \<open>memory\<close>.\<close>

definition request_livm :: "8 word \<Rightarrow> 8 word" where
  "request_livm memory = livm_set_version sntp_version (livm_set_mode mode_client memory)"

section \<open>The time of a transaction\<close>

record packet =
  originate :: timestamp
  receive :: timestamp
  transmit :: timestamp

record response =
  ntp_time :: int
  ntp_time_reference :: int
  round_trip_time :: int

definition ms :: int where "ms = 1000000"

definition transaction_time :: "packet \<Rightarrow> int \<Rightarrow> int \<Rightarrow> int \<Rightarrow> response" where
  "transaction_time p before_ticks after_ticks after_time =
     (let originate = to_milliseconds_since_epoch (originate p) * ms;
          receive = to_milliseconds_since_epoch (receive p) * ms;
          transmit = to_milliseconds_since_epoch (transmit p) * ms;
          rtt = after_ticks - before_ticks - (transmit - receive);
          offset = ((receive - originate) + (transmit - after_time)) sdiv 2
      in \<lparr>ntp_time = (after_time + offset) sdiv ms, ntp_time_reference = after_ticks sdiv ms,
          round_trip_time = rtt sdiv ms\<rparr>)"

section \<open>The fraction of a timestamp is lost\<close>

lemma even_div_minus_one:
  fixes x :: "32 word"
  assumes "even x"
  shows "x div (- 1) = 0"
proof -
  have "x \<noteq> - 1" using assms by auto
  then show ?thesis by simp
qed

lemma to_milliseconds_whole_seconds:
  "to_milliseconds_since_epoch t = (uint (ts_seconds t) - offset_1900_to_1970) * 1000"
proof -
  have "(2 :: 32 word) dvd 1000" by (rule dvdI [of _ _ 500]) simp
  then have "even (ts_fraction t * 1000)" by (rule dvd_mult)
  then show ?thesis by (simp only: to_milliseconds_since_epoch_def even_div_minus_one) simp
qed

lemma sdiv_pos: "0 \<le> a \<Longrightarrow> 0 < b \<Longrightarrow> a sdiv b = a div (b :: int)"
  by (auto simp: signed_divide_int_def sgn_if)

text \<open>A server's stamp of the time \<open>t\<close>, in milliseconds since 1970, with any fraction.\<close>

definition stamp_of :: "int \<Rightarrow> 32 word \<Rightarrow> timestamp" where
  "stamp_of t f = \<lparr>ts_seconds = word_of_int (t div 1000 + offset_1900_to_1970), ts_fraction = f\<rparr>"

definition in_era :: "int \<Rightarrow> bool" where
  "in_era t \<longleftrightarrow> 0 \<le> t \<and> t div 1000 + offset_1900_to_1970 < 2 ^ 32"

lemma stamp_to_milliseconds:
  assumes "in_era t"
  shows "to_milliseconds_since_epoch (stamp_of t f) = t - t mod 1000"
proof -
  have "uint (ts_seconds (stamp_of t f)) = t div 1000 + offset_1900_to_1970"
    using assms by (simp only: stamp_of_def timestamp.simps uint_word_of_int) (simp add: in_era_def offset_1900_to_1970_def mod_pos_pos_trivial pos_imp_zdiv_nonneg_iff)
  then show ?thesis
    by (simp only: to_milliseconds_whole_seconds) (simp add: minus_mod_eq_div_mult)
qed

lemma from_milliseconds_stamp: "0 \<le> t \<Longrightarrow> \<exists>f. from_milliseconds_since_epoch t = stamp_of t f"
  by (simp add: from_milliseconds_since_epoch_def stamp_of_def sdiv_pos Let_def)


section \<open>Accuracy of the computed time\<close>

lemma sdiv_two: "\<bar>2 * (x sdiv 2) - x\<bar> \<le> (1 :: int)"
proof (cases "0 \<le> x")
  case True
  then show ?thesis by (simp add: sdiv_pos)
next
  case False
  then have "x sdiv 2 = - ((- x) div 2)" by (simp add: signed_divide_int_def sgn_if)
  then show ?thesis by simp
qed

lemma sdiv_scale: "0 < c \<Longrightarrow> (c * x) sdiv (c * y) = x sdiv (y :: int)"
  by (auto simp: signed_divide_int_def sgn_mult abs_mult)

lemma sdiv_even: "(2 * x) sdiv 2 = (x :: int)"
  by (simp add: signed_divide_int_def abs_mult sgn_mult mult_sgn_abs)

lemma transaction_ntp_time:
  "ntp_time (transaction_time p before_ticks after_ticks (t4 * ms)) =
     (to_milliseconds_since_epoch (receive p) - to_milliseconds_since_epoch (originate p) +
      to_milliseconds_since_epoch (transmit p) + t4) sdiv 2"
proof -
  let ?o = "to_milliseconds_since_epoch (originate p)" and ?r = "to_milliseconds_since_epoch (receive p)"
    and ?t = "to_milliseconds_since_epoch (transmit p)"
  define off where "off = ((?r * ms - ?o * ms) + (?t * ms - t4 * ms)) sdiv 2"
  have "off = 500000 * (?r - ?o + ?t - t4)"
    using sdiv_even [of "500000 * (?r - ?o + ?t - t4)"] by (simp add: off_def ms_def algebra_simps)
  then have "t4 * ms + off = 500000 * (?r - ?o + ?t + t4)" by (simp add: ms_def algebra_simps)
  moreover have "ntp_time (transaction_time p before_ticks after_ticks (t4 * ms)) = (t4 * ms + off) sdiv (500000 * 2)"
    by (simp add: transaction_time_def Let_def off_def ms_def)
  ultimately show ?thesis by (simp only: sdiv_scale)
qed

lemma clock_error:
  fixes t1 t2 t3 t4 :: int
  assumes "\<bar>2 * y - ((t2 - e2) - (t1 - e1) + (t3 - e3) + t4)\<bar> \<le> 1" "0 \<le> e1" "e1 \<le> 999" "0 \<le> e2" "e2 \<le> 999" "0 \<le> e3"
    "e3 \<le> 999" "t2 = t1 + theta + d1" "t4 = t3 - theta + d2"
  shows "2 * \<bar>y - (t4 + theta)\<bar> \<le> 2000 + \<bar>d1 - d2\<bar>"
proof -
  have "2 * (y - (t4 + theta)) \<le> 2000 + (d1 - d2)"
    using abs_le_D1 [OF assms(1)] abs_le_D2 [OF assms(1)] assms(2-9) by (simp add: algebra_simps)
  moreover have "- 2000 + (d1 - d2) \<le> 2 * (y - (t4 + theta))"
    using abs_le_D1 [OF assms(1)] abs_le_D2 [OF assms(1)] assms(2-9) by (simp add: algebra_simps)
  ultimately have "\<bar>2 * (y - (t4 + theta))\<bar> \<le> 2000 + \<bar>d1 - d2\<bar>" by linarith
  then show ?thesis by (simp only: abs_mult abs_numeral)
qed

text \<open>
  In a transaction the client sends at \<open>t1\<close> and receives the answer at \<open>t4\<close> on its own clock;
  the server, whose clock is ahead by \<open>theta\<close>, receives after \<open>d1\<close> and its answer takes \<open>d2\<close>. Whatever
  fractions the timestamps carry, the computed time is off from the server's by at most one second
  plus half of the asymmetry of the delays.
\<close>

theorem sntp_time_error_bound:
  assumes "in_era t1" "in_era t2" "in_era t3" "t2 = t1 + theta + d1" "t4 = t3 - theta + d2"
  shows "2 * \<bar>ntp_time (transaction_time \<lparr>originate = from_milliseconds_since_epoch t1, receive = stamp_of t2 f2,
      transmit = stamp_of t3 f3\<rparr> before_ticks after_ticks (t4 * ms)) - (t4 + theta)\<bar> \<le> 2000 + \<bar>d1 - d2\<bar>"
proof -
  obtain f1 where f1: "from_milliseconds_since_epoch t1 = stamp_of t1 f1"
    using from_milliseconds_stamp assms(1) in_era_def by blast
  let ?x = "(t2 - t2 mod 1000) - (t1 - t1 mod 1000) + (t3 - t3 mod 1000) + t4"
  have m: "0 \<le> t mod 1000 \<and> t mod 1000 \<le> 999" for t :: int
    using pos_mod_bound [of 1000 t] by simp
  have "2 * \<bar>?x sdiv 2 - (t4 + theta)\<bar> \<le> 2000 + \<bar>d1 - d2\<bar>"
    by (rule clock_error [OF sdiv_two]) (use m assms(4,5) in auto)
  then show ?thesis
    by (simp add: transaction_ntp_time f1 stamp_to_milliseconds assms(1-3))
qed

theorem sntp_time_error_bound_witness:
  "2 * \<bar>ntp_time (transaction_time \<lparr>originate = from_milliseconds_since_epoch 1700000000250,
      receive = stamp_of 1700000005300 7, transmit = stamp_of 1700000005301 9\<rparr> 0 1 (1700000000351 * ms)) -
      (1700000000351 + 5000)\<bar> \<le> 2000 + \<bar>50 - 50\<bar>"
  by (rule sntp_time_error_bound) (simp_all add: in_era_def offset_1900_to_1970_def)

text \<open>
  Decoding drops the fraction of every timestamp, and encoding writes one that decoding could not
  use: a time that goes through both comes back rounded down to the whole second.
\<close>

theorem timestamp_roundtrip_loses_fraction:
  assumes "in_era t"
  shows "to_milliseconds_since_epoch (from_milliseconds_since_epoch t) = t - t mod 1000 \<and>
    to_milliseconds_since_epoch (ts\<lparr>ts_fraction := f\<rparr>) = to_milliseconds_since_epoch ts"
  using from_milliseconds_stamp [of t] stamp_to_milliseconds [OF assms] assms
  by (auto simp: to_milliseconds_whole_seconds in_era_def)

theorem timestamp_roundtrip_loses_fraction_witness:
  "to_milliseconds_since_epoch (from_milliseconds_since_epoch 1700000000250) = 1700000000000"
  using timestamp_roundtrip_loses_fraction [of 1700000000250] by (simp add: in_era_def offset_1900_to_1970_def)

section \<open>The header of a request\<close>

lemmas livm_defs = livm_leap_indicator_def livm_set_leap_indicator_def livm_version_def livm_set_version_def
  livm_mode_def livm_set_mode_def mode_client_def sntp_version_def request_livm_def

text \<open>
  The setters of the first byte only add bits. From a zeroed byte a request announces a client of
  version 3; from uninitialised memory the mode and the version are whatever bits were set before,
  added to them.
\<close>

theorem request_header_depends_on_memory:
  "livm_mode (request_livm b) = or (livm_mode b) mode_client \<and>
   livm_version (request_livm b) = or (livm_version b) sntp_version \<and>
   livm_leap_indicator (request_livm b) = livm_leap_indicator b"
proof -
  have n: "n = 0 \<or> n = 1 \<or> n = 2 \<or> n = 3 \<or> n = 4 \<or> n = 5 \<or> n = 6 \<or> n = 7" if "n < 8" for n :: nat
    using that by linarith
  show ?thesis
    by (auto intro!: bit_word_eqI dest!: n simp: livm_defs bit_simps bit_numeral_rec)
qed

end
