(* ===== verification/Sntp_Packet.thy ===== *)
theory Sntp_Packet
  imports Endian_Buffers Sntp
begin

text \<open>
  The packet of the SNTP client as the bytes it is on the wire (\<open>providers/gps/sntp_client.h\<close>,
  \<open>Client::request\<close> in \<open>sntp_client.cpp\<close>). Every member is an array of characters, so the object has
  no padding and its 48 bytes are those of its members in order. The request is written over memory
  that is not initialised; a datagram is received over the bytes that were sent.

  Sending and receiving belong to Boost.Asio: the model has the bytes handed over and the datagram.
\<close>

section \<open>Enumerations\<close>

definition enum_constant :: "8 word \<Rightarrow> 8 word \<Rightarrow> 8 word \<Rightarrow> 8 word \<Rightarrow> 32 word" where
  "enum_constant a b c d =
     or (or (or (push_bit 24 (ucast a)) (push_bit 16 (ucast b))) (push_bit 8 (ucast c))) (ucast d)"

datatype leap_indicator = No_warning | Last_minute_has_61_seconds | Last_minute_has_59_seconds | Alarm

fun leap_indicator_value :: "leap_indicator \<Rightarrow> 8 word" where
  "leap_indicator_value No_warning = 0"
| "leap_indicator_value Last_minute_has_61_seconds = 1"
| "leap_indicator_value Last_minute_has_59_seconds = 2"
| "leap_indicator_value Alarm = 3"

datatype sntp_mode = Reserved | Symmetric_active | Symmetric_passive | Client | Server | Broadcast
  | Reserved_for_control | Reserved_for_private_use

fun sntp_mode_value :: "sntp_mode \<Rightarrow> 8 word" where
  "sntp_mode_value Reserved = 0"
| "sntp_mode_value Symmetric_active = 1"
| "sntp_mode_value Symmetric_passive = 2"
| "sntp_mode_value Client = 3"
| "sntp_mode_value Server = 4"
| "sntp_mode_value Broadcast = 5"
| "sntp_mode_value Reserved_for_control = 6"
| "sntp_mode_value Reserved_for_private_use = 7"

datatype known_reference = Locl | Cesm | Rbdm | Pps | Irig | Acts | Usno | Ptb | Tdf | Dcf | Msf | Wwv
  | Wwvb | Wwvh | Chu | Lorc | Omeg | Gps

definition enum_string :: "string \<Rightarrow> 32 word" where
  "enum_string s = (case map of_char s of
      [a, b, c, d] \<Rightarrow> enum_constant a b c d
    | [a, b, c] \<Rightarrow> enum_constant a b c 0
    | _ \<Rightarrow> 0)"

fun known_reference_value :: "known_reference \<Rightarrow> 32 word" where
  "known_reference_value Locl = enum_string ''LOCL''"
| "known_reference_value Cesm = enum_string ''CESM''"
| "known_reference_value Rbdm = enum_string ''RBDM''"
| "known_reference_value Pps = enum_string ''PPS''"
| "known_reference_value Irig = enum_string ''IRIG''"
| "known_reference_value Acts = enum_string ''ACTS''"
| "known_reference_value Usno = enum_string ''USNO''"
| "known_reference_value Ptb = enum_string ''PTB''"
| "known_reference_value Tdf = enum_string ''TDF''"
| "known_reference_value Dcf = enum_string ''DCF''"
| "known_reference_value Msf = enum_string ''MSF''"
| "known_reference_value Wwv = enum_string ''WWV''"
| "known_reference_value Wwvb = enum_string ''WWVB''"
| "known_reference_value Wwvh = enum_string ''WWVH''"
| "known_reference_value Chu = enum_string ''CHU''"
| "known_reference_value Lorc = enum_string ''LORC''"
| "known_reference_value Omeg = enum_string ''OMEG''"
| "known_reference_value Gps = enum_string ''GPS''"

section \<open>The packet\<close>

record wire_timestamp =
  w_seconds :: byte_buffer
  w_fractional_seconds :: byte_buffer

record wire_packet =
  w_livm :: byte_buffer
  w_stratum :: byte_buffer
  w_poll_interval :: byte_buffer
  w_precision :: byte_buffer
  w_root_delay :: wire_timestamp
  w_root_dispersion :: wire_timestamp
  w_reference_identifier :: byte_buffer
  w_reference :: wire_timestamp
  w_originate :: wire_timestamp
  w_receive :: wire_timestamp
  w_transmit :: wire_timestamp

text \<open>The object at the start of memory, and the bytes of the object.\<close>

definition slice :: "nat \<Rightarrow> nat \<Rightarrow> 8 word list \<Rightarrow> byte_buffer" where
  "slice p n m = \<lparr>m_value = take n (drop p m)\<rparr>"

definition timestamp_at :: "nat \<Rightarrow> nat \<Rightarrow> 8 word list \<Rightarrow> wire_timestamp" where
  "timestamp_at p n m = \<lparr>w_seconds = slice p n m, w_fractional_seconds = slice (p + n) n m\<rparr>"

definition packet_at :: "8 word list \<Rightarrow> wire_packet" where
  "packet_at m = \<lparr>w_livm = slice 0 1 m, w_stratum = slice 1 1 m, w_poll_interval = slice 2 1 m, w_precision = slice 3 1 m,
     w_root_delay = timestamp_at 4 2 m, w_root_dispersion = timestamp_at 8 2 m, w_reference_identifier = slice 12 4 m,
     w_reference = timestamp_at 16 4 m, w_originate = timestamp_at 24 4 m, w_receive = timestamp_at 32 4 m,
     w_transmit = timestamp_at 40 4 m\<rparr>"

definition timestamp_bytes :: "wire_timestamp \<Rightarrow> 8 word list" where
  "timestamp_bytes t = m_value (w_seconds t) @ m_value (w_fractional_seconds t)"

definition packet_bytes :: "wire_packet \<Rightarrow> 8 word list" where
  "packet_bytes p = m_value (w_livm p) @ m_value (w_stratum p) @ m_value (w_poll_interval p) @ m_value (w_precision p) @
     timestamp_bytes (w_root_delay p) @ timestamp_bytes (w_root_dispersion p) @ m_value (w_reference_identifier p) @
     timestamp_bytes (w_reference p) @ timestamp_bytes (w_originate p) @ timestamp_bytes (w_receive p) @
     timestamp_bytes (w_transmit p)"

section \<open>Operations on the members\<close>

definition wire_from_milliseconds :: "int \<Rightarrow> wire_timestamp \<Rightarrow> wire_timestamp" where
  "wire_from_milliseconds ts w =
     (let t = from_milliseconds_since_epoch ts
      in w\<lparr>w_seconds := big_assign False 32 (w_seconds w) (ts_seconds t),
           w_fractional_seconds := big_assign False 32 (w_fractional_seconds w) (ts_fraction t)\<rparr>)"

definition wire_value :: "wire_timestamp \<Rightarrow> timestamp" where
  "wire_value w = \<lparr>ts_seconds = big_value False 32 (w_seconds w), ts_fraction = big_value False 32 (w_fractional_seconds w)\<rparr>"

definition packet_value :: "wire_packet \<Rightarrow> packet" where
  "packet_value p = \<lparr>originate = wire_value (w_originate p), receive = wire_value (w_receive p),
     transmit = wire_value (w_transmit p)\<rparr>"

definition wire_livm :: "wire_packet \<Rightarrow> 8 word" where
  "wire_livm p = big_value False 8 (w_livm p)"

definition set_wire_livm :: "8 word \<Rightarrow> wire_packet \<Rightarrow> wire_packet" where
  "set_wire_livm v p = p\<lparr>w_livm := big_assign False 8 (w_livm p) v\<rparr>"

text \<open>\<open>Client::request\<close>: the packet before it is sent, and after the answer arrived.\<close>

definition request_packet :: "int \<Rightarrow> 8 word list \<Rightarrow> wire_packet" where
  "request_packet now memory =
     (let p = packet_at memory;
          p = p\<lparr>w_transmit := wire_from_milliseconds now (w_transmit p)\<rparr>;
          p = set_wire_livm (livm_set_mode mode_client (wire_livm p)) p
      in set_wire_livm (livm_set_version sntp_version (wire_livm p)) p)"

definition receive_over :: "wire_packet \<Rightarrow> 8 word list \<Rightarrow> wire_packet" where
  "receive_over p datagram = packet_at (take 48 datagram @ drop (length datagram) (packet_bytes p))"

section \<open>Layout\<close>

definition wire_timestamp_of :: "nat \<Rightarrow> wire_timestamp \<Rightarrow> bool" where
  "wire_timestamp_of n_bits t \<longleftrightarrow> buffer_of n_bits (w_seconds t) \<and> buffer_of n_bits (w_fractional_seconds t)"

text \<open>The sizes the types of the members prescribe.\<close>

definition wire_packet_ok :: "wire_packet \<Rightarrow> bool" where
  "wire_packet_ok p \<longleftrightarrow> buffer_of 8 (w_livm p) \<and> buffer_of 8 (w_stratum p) \<and> buffer_of 8 (w_poll_interval p) \<and>
     buffer_of 8 (w_precision p) \<and> wire_timestamp_of 16 (w_root_delay p) \<and> wire_timestamp_of 16 (w_root_dispersion p) \<and>
     buffer_of 32 (w_reference_identifier p) \<and> wire_timestamp_of 32 (w_reference p) \<and> wire_timestamp_of 32 (w_originate p) \<and>
     wire_timestamp_of 32 (w_receive p) \<and> wire_timestamp_of 32 (w_transmit p)"

lemmas layout_defs = packet_at_def timestamp_at_def slice_def packet_bytes_def timestamp_bytes_def
  wire_packet_ok_def wire_timestamp_of_def buffer_of_def

lemma packet_at_ok: "length m = 48 \<Longrightarrow> wire_packet_ok (packet_at m)"
  by (simp add: layout_defs)

lemma packet_bytes_length: "wire_packet_ok p \<Longrightarrow> length (packet_bytes p) = 48"
  by (simp add: layout_defs)

lemma packet_at_bytes: "wire_packet_ok p \<Longrightarrow> packet_at (packet_bytes p) = p"
  by (simp add: layout_defs)

lemma packet_bytes_at:
  assumes "length m = 48"
  shows "packet_bytes (packet_at m) = m"
proof -
  have cut: "take n (drop p m) @ drop (p + n) m = drop p m" for n p
    by (metis append_take_drop_id drop_drop add.commute)
  note cuts = cut [of 4 40] cut [of 4 36] cut [of 4 32] cut [of 4 28] cut [of 4 24] cut [of 4 20] cut [of 4 16]
      cut [of 4 12] cut [of 2 10] cut [of 2 8] cut [of 2 6] cut [of 2 4] cut [of 1 3] cut [of 1 2] cut [of 1 1]
      cut [of 1 0]
  have "take (Suc 0) (drop (Suc 0) m) @ drop 2 m = drop (Suc 0) m"
    using cut [of 1 1] by (simp add: numeral_2_eq_2)
  then have "packet_bytes (packet_at m) = drop 0 m"
    using assms by (simp add: layout_defs cuts [simplified])
  then show ?thesis by simp
qed

section \<open>Values of the members\<close>

lemma buffer_types [simp]:
  "buffer_type TYPE(8) 8" "buffer_type TYPE(16) 16" "buffer_type TYPE(32) 32"
  by (simp_all add: buffer_type_def)

lemma all_representable [simp]:
  "representable False 8 (v :: 8 word)" "representable False 16 (w :: 16 word)" "representable False 32 (x :: 32 word)"
  "representable True 8 (v :: 8 word)" "representable True 16 (w :: 16 word)"
  using uint_lt2p [of v] uint_lt2p [of w] uint_lt2p [of x] sint_ge [of v] sint_lt [of v] sint_ge [of w] sint_lt [of w]
  by (simp_all add: representable_def)

lemma wire_value_from_milliseconds:
  "wire_timestamp_of 32 w \<Longrightarrow> wire_value (wire_from_milliseconds t w) = from_milliseconds_since_epoch t"
  by (simp add: wire_timestamp_of_def wire_value_def wire_from_milliseconds_def Let_def bigu32.value_assign)

lemma wire_livm_set: "wire_packet_ok p \<Longrightarrow> wire_livm (set_wire_livm v p) = v"
  by (simp add: wire_packet_ok_def wire_livm_def set_wire_livm_def bigu8.value_assign)

lemma set_wire_livm_ok: "wire_packet_ok p \<Longrightarrow> wire_packet_ok (set_wire_livm v p)"
  by (simp add: wire_packet_ok_def set_wire_livm_def bigu8.assign_keeps)

lemma set_transmit_ok:
  "wire_packet_ok p \<Longrightarrow> wire_packet_ok (p\<lparr>w_transmit := wire_from_milliseconds t (w_transmit p)\<rparr>)"
  by (simp add: wire_packet_ok_def wire_timestamp_of_def wire_from_milliseconds_def Let_def bigu32.assign_keeps)

lemma set_wire_livm_other [simp]: "w_transmit (set_wire_livm v p) = w_transmit p"
  by (simp add: set_wire_livm_def)

lemma request_packet_ok: "length memory = 48 \<Longrightarrow> wire_packet_ok (request_packet now memory)"
  by (simp add: request_packet_def Let_def set_wire_livm_ok set_transmit_ok packet_at_ok)

lemma receive_over_ok: "wire_packet_ok p \<Longrightarrow> wire_packet_ok (receive_over p datagram)"
  by (simp add: receive_over_def packet_at_ok packet_bytes_length)

section \<open>The bytes of a request and the values of an answer\<close>

text \<open>A timestamp in the format of the protocol: seconds and fraction, the highest byte first.\<close>

definition timestamp_wire :: "timestamp \<Rightarrow> 8 word list" where
  "timestamp_wire t = rev (bytes_of 4 (ts_seconds t)) @ rev (bytes_of 4 (ts_fraction t))"

lemma timestamp_wire_length [simp]: "length (timestamp_wire t) = 8"
  by (simp add: timestamp_wire_def)

lemma big_value_bytes: "big_value False 32 \<lparr>m_value = rev (bytes_of 4 v)\<rparr> = (v :: 32 word)"
  by (simp add: load_big_all buffer_of_def of_bytes_of widen_full take_bit_word_eq_self)

lemma wire_value_timestamp_wire:
  assumes "take 8 (drop p m) = timestamp_wire t"
  shows "wire_value (timestamp_at p 4 m) = t"
proof -
  have "take 4 (drop p m) = take 4 (timestamp_wire t)" "take 4 (drop (p + 4) m) = drop 4 (timestamp_wire t)"
    by (simp_all add: assms [symmetric] drop_take min_def add.commute)
  then show ?thesis
    by (simp add: wire_value_def timestamp_at_def slice_def timestamp_wire_def big_value_bytes)
qed

lemma timestamp_bytes_from_milliseconds:
  "wire_timestamp_of 32 w \<Longrightarrow> timestamp_bytes (wire_from_milliseconds t w) = timestamp_wire (from_milliseconds_since_epoch t)"
  by (simp add: wire_timestamp_of_def timestamp_bytes_def wire_from_milliseconds_def timestamp_wire_def Let_def bigu32.assign_wire)

lemma wire_livm_at: "m \<noteq> [] \<Longrightarrow> wire_livm (packet_at m) = m ! 0"
  by (cases m) (simp_all add: wire_livm_def packet_at_def slice_def big_value_def load_big_endian_def load_byte_def)

lemma set_wire_livm_bytes:
  assumes "wire_packet_ok p"
  shows "packet_bytes (set_wire_livm v p) = v # tl (packet_bytes p)"
proof -
  obtain b where "m_value (w_livm p) = [b]"
    using assms by (auto simp: wire_packet_ok_def buffer_of_def length_Suc_conv)
  moreover have "bytes_of 1 v = [v]" using bytes_of_Suc [of 0 v] by simp
  ultimately show ?thesis
    using assms by (simp add: packet_bytes_def set_wire_livm_def wire_packet_ok_def bigu8.assign_wire)
qed

lemma set_transmit_bytes:
  assumes "wire_packet_ok p"
  shows "packet_bytes (p\<lparr>w_transmit := wire_from_milliseconds t (w_transmit p)\<rparr>) =
     take 40 (packet_bytes p) @ timestamp_wire (from_milliseconds_since_epoch t)"
  using assms by (simp add: packet_bytes_def wire_packet_ok_def timestamp_bytes_from_milliseconds)
    (simp add: timestamp_bytes_def wire_timestamp_of_def buffer_of_def)

lemma request_bytes:
  assumes "length memory = 48"
  shows "packet_bytes (request_packet now memory) =
     request_livm (memory ! 0) # take 39 (tl memory) @ timestamp_wire (from_milliseconds_since_epoch now)"
proof -
  let ?p = "(packet_at memory)\<lparr>w_transmit := wire_from_milliseconds now (w_transmit (packet_at memory))\<rparr>"
  have ok: "wire_packet_ok ?p" using assms by (intro set_transmit_ok packet_at_ok)
  have b: "packet_bytes ?p = take 40 memory @ timestamp_wire (from_milliseconds_since_epoch now)"
    by (simp only: set_transmit_bytes [OF packet_at_ok [OF assms]] packet_bytes_at [OF assms])
  have l: "wire_livm ?p = memory ! 0"
    using assms wire_livm_at [of memory] by (simp add: wire_livm_def length_0_conv [symmetric] del: length_0_conv)
  have t: "tl (take 40 memory) = take 39 (tl memory)" by (simp add: tl_take)
  have "take 40 memory \<noteq> []" using assms by auto
  then show ?thesis
    by (simp add: request_packet_def Let_def wire_livm_set ok set_wire_livm_ok set_wire_livm_bytes b l t request_livm_def)
qed

lemma request_memory:
  assumes "length memory = 48" "1 \<le> i" "i < 40"
  shows "packet_bytes (request_packet now memory) ! i = memory ! i"
proof -
  obtain j where j: "i = Suc j" using assms(2) by (cases i) auto
  have "take 39 (tl memory) ! j = memory ! i" "j < length (take 39 (tl memory))"
    using assms j by (simp_all add: nth_tl)
  then show ?thesis by (simp add: request_bytes [OF assms(1)] j nth_append)
qed

text \<open>
  Of the 48 bytes of a request the client determines those of its own time and some bits of the first;
  the other 39 are sent to the server as they were found in memory.
\<close>

theorem request_leaks_memory:
  assumes "length memory = 48" "1 \<le> i" "i < 40"
  shows "packet_bytes (request_packet now memory) ! i = memory ! i"
  using assms by (rule request_memory)

theorem request_leaks_memory_witness:
  "packet_bytes (request_packet 1700000000250 (replicate 48 0x2a)) ! 17 = 0x2a"
  using request_leaks_memory [of "replicate 48 0x2a" 17 1700000000250] by simp

section \<open>A transaction over the wire\<close>

text \<open>
  The answer the protocol prescribes (RFC 4330): a header, the transmit timestamp of the request as
  the originate timestamp, and the times at which the server received and answered. The rest of a
  longer datagram is authentication data.
\<close>

definition ntp_answer :: "8 word list \<Rightarrow> 8 word list \<Rightarrow> timestamp \<Rightarrow> timestamp \<Rightarrow> 8 word list \<Rightarrow> 8 word list" where
  "ntp_answer header request received answered rest =
     header @ take 8 (drop 40 request) @ timestamp_wire received @ timestamp_wire answered @ rest"

lemma packet_value_at:
  "packet_value (packet_at m) = \<lparr>originate = wire_value (timestamp_at 24 4 m), receive = wire_value (timestamp_at 32 4 m),
     transmit = wire_value (timestamp_at 40 4 m)\<rparr>"
  by (simp add: packet_value_def packet_at_def)

lemma received_answer:
  assumes "length memory = 48" "length header = 24"
  shows "packet_value (receive_over (request_packet t1 memory)
      (ntp_answer header (packet_bytes (request_packet t1 memory)) received answered rest)) =
    \<lparr>originate = from_milliseconds_since_epoch t1, receive = received, transmit = answered\<rparr>"
proof -
  let ?r = "packet_bytes (request_packet t1 memory)"
  let ?t = "timestamp_wire (from_milliseconds_since_epoch t1)"
  have "take 8 (drop 40 ?r) = ?t" using assms by (simp add: request_bytes)
  then have "take 48 (ntp_answer header ?r received answered rest) @ drop (length (ntp_answer header ?r received answered rest)) ?r =
      header @ ?t @ timestamp_wire received @ timestamp_wire answered"
    using assms by (simp add: ntp_answer_def packet_bytes_length request_packet_ok)
  then show ?thesis
    using assms by (simp add: receive_over_def packet_value_at wire_value_timestamp_wire)
qed

text \<open>
  C30. Whatever the memory of the packet held, whatever else the server wrote into its answer: the time
  computed from an answer of the protocol is off from the server's by at most one second plus half of
  the asymmetry of the delays. The request leaves at \<open>t1\<close> and the answer arrives at \<open>t4\<close> on the client's clock;
  the server, whose clock is ahead by \<open>theta\<close>, receives after \<open>d1\<close> and its answer takes \<open>d2\<close>.
\<close>

theorem sntp_exchange_error_bound:
  assumes "length memory = 48" "length header = 24" "in_era t1" "in_era t2" "in_era t3"
    "t2 = t1 + theta + d1" "t4 = t3 - theta + d2"
  shows "2 * \<bar>ntp_time (transaction_time (packet_value (receive_over (request_packet t1 memory)
      (ntp_answer header (packet_bytes (request_packet t1 memory)) (stamp_of t2 f2) (stamp_of t3 f3) rest)))
      before_ticks after_ticks (t4 * ms)) - (t4 + theta)\<bar> \<le> 2000 + \<bar>d1 - d2\<bar>"
  using sntp_time_error_bound [OF assms(3-7)] by (simp add: received_answer assms(1,2))

theorem sntp_exchange_error_bound_witness:
  "2 * \<bar>ntp_time (transaction_time (packet_value (receive_over (request_packet 1700000000250 (replicate 48 0x2a))
      (ntp_answer (replicate 24 1) (packet_bytes (request_packet 1700000000250 (replicate 48 0x2a)))
        (stamp_of 1700000005300 7) (stamp_of 1700000005301 9) [])))
      0 1 (1700000000351 * ms)) - (1700000000351 + 5000)\<bar> \<le> 2000 + \<bar>50 - 50\<bar>"
  by (rule sntp_exchange_error_bound) (simp_all add: in_era_def offset_1900_to_1970_def)

text \<open>
  C32. The length of a datagram is not looked at. One of at most 24 bytes, an empty one too, is an answer:
  the server's times are then memory that was never initialised and the client's own transmit time.
\<close>

theorem short_datagram_accepted:
  assumes "length memory = 48" "length datagram \<le> 24"
  shows "packet_value (receive_over (request_packet now memory) datagram) =
    \<lparr>originate = wire_value (timestamp_at 24 4 memory), receive = wire_value (timestamp_at 32 4 memory),
      transmit = from_milliseconds_since_epoch now\<rparr>"
proof -
  let ?r = "packet_bytes (request_packet now memory)"
  let ?m = "take 48 datagram @ drop (length datagram) ?r"
  have len: "length ?r = 48" using assms by (simp add: packet_bytes_length request_packet_ok)
  have s: "take 4 (drop p ?m) = take 4 (drop p memory)" if "24 \<le> p" "p \<le> 36" for p
    by (rule nth_equalityI) (use assms len that in \<open>simp_all add: nth_append request_memory\<close>)
  have "take 8 (drop 40 ?m) = take 8 (drop 40 ?r)" using assms(2) len by simp
  then have "take 8 (drop 40 ?m) = timestamp_wire (from_milliseconds_since_epoch now)"
    using assms by (simp add: request_bytes)
  then have "wire_value (timestamp_at 40 4 ?m) = from_milliseconds_since_epoch now" by (rule wire_value_timestamp_wire)
  moreover have "timestamp_at 24 4 ?m = timestamp_at 24 4 memory" "timestamp_at 32 4 ?m = timestamp_at 32 4 memory"
    using s [of 24] s [of 28] s [of 32] s [of 36] by (simp_all add: timestamp_at_def slice_def)
  ultimately show ?thesis by (simp only: receive_over_def packet_value_at)
qed

theorem short_datagram_accepted_witness:
  "transmit (packet_value (receive_over (request_packet 1700000000250 (replicate 48 0x2a)) [])) =
     from_milliseconds_since_epoch 1700000000250"
  using short_datagram_accepted [of "replicate 48 0x2a" "[]" 1700000000250] by simp

section \<open>Types\<close>

definition leap_indicators :: "leap_indicator list" where
  "leap_indicators = [No_warning, Last_minute_has_61_seconds, Last_minute_has_59_seconds, Alarm]"

definition sntp_modes :: "sntp_mode list" where
  "sntp_modes = [Reserved, Symmetric_active, Symmetric_passive, Client, Server, Broadcast, Reserved_for_control,
     Reserved_for_private_use]"

definition known_references :: "known_reference list" where
  "known_references = [Locl, Cesm, Rbdm, Pps, Irig, Acts, Usno, Ptb, Tdf, Dcf, Msf, Wwv, Wwvb, Wwvh, Chu, Lorc, Omeg, Gps]"

lemma known_references_all: "r \<in> set known_references"
  by (cases r) (simp_all add: known_references_def)

lemma known_references_distinct: "distinct (map known_reference_value known_references)"
  by code_simp

lemma known_reference_value_inj: "known_reference_value r = known_reference_value s \<longleftrightarrow> r = s"
  using known_references_distinct known_references_all [of r] known_references_all [of s]
  by (auto simp: distinct_map dest: inj_onD)

lemma two_bits: "and b 3 \<in> leap_indicator_value ` set leap_indicators" for b :: "8 word"
proof -
  have "uint (and b 3) < 4" using and_mask_lt_2p [of b 2] by (simp add: mask_eq_exp_minus_1)
  moreover have "0 \<le> uint (and b 3)" by simp
  ultimately have "uint (and b 3) = 0 \<or> uint (and b 3) = 1 \<or> uint (and b 3) = 2 \<or> uint (and b 3) = 3"
    by linarith
  then have "and b 3 \<in> {0, 1, 2, 3}" by (simp add: word_uint_eq_iff)
  then show ?thesis by (auto simp: leap_indicators_def)
qed

lemma three_bits: "and b 7 \<in> sntp_mode_value ` set sntp_modes" for b :: "8 word"
proof -
  have "uint (and b 7) < 8" using and_mask_lt_2p [of b 3] by (simp add: mask_eq_exp_minus_1)
  moreover have "0 \<le> uint (and b 7)" by simp
  ultimately have "uint (and b 7) = 0 \<or> uint (and b 7) = 1 \<or> uint (and b 7) = 2 \<or> uint (and b 7) = 3 \<or> uint (and b 7) = 4 \<or> uint (and b 7) = 5 \<or> uint (and b 7) = 6 \<or> uint (and b 7) = 7"
    by linarith
  then have "and b 7 \<in> {0, 1, 2, 3, 4, 5, 6, 7}" by (simp add: word_uint_eq_iff)
  then show ?thesis by (auto simp: sntp_modes_def)
qed



end
