(* ===== verification/Wireless_Network.thy ===== *)
theory Wireless_Network
  imports Reporting
begin

text \<open>
  The cached wireless network (\<open>connectivity/cached_wireless_network.cpp\<close>): what an access point of
  NetworkManager becomes, and how its properties follow the changes that NetworkManager reports.

  A value that the bus carries is a \<open>dbus_variant\<close>; reading it at another type throws. The
  remote properties that the constructor reads are the record \<open>access_point\<close>, each with the
  exception it may throw. \<open>/proc/stat\<close> is the list of its lines. Times are seconds since the epoch.
\<close>

section \<open>Data\<close>

datatype wifi_mode = mode_unknown | mode_adhoc | mode_infrastructure

definition strength_bounds :: bounds where
  "strength_bounds = \<lparr>b_min = 0, b_max = 100, b_inv = 0 - 1\<rparr>"

record cached_network = wifi +
  ap_path :: string
  last_seen :: int
  wifi_mode :: wifi_mode
  signal_strength :: int

datatype dbus_variant =
    V_string string
  | V_bytes "8 word list"
  | V_int8 "8 word"
  | V_int32 "32 word"
  | V_uint32 "32 word"
  | V_other

definition bad_variant :: exn where
  "bad_variant = runtime_error ''type mismatch''"

record access_point =
  ap_last_seen :: "32 word result"
  ap_hw_address :: "string result"
  ap_ssid :: "8 word list result"
  ap_mode :: "32 word result"
  ap_frequency :: "32 word result"
  ap_strength :: "8 word result"

section \<open>Translation of values\<close>

definition utf8_ssid_to_string :: "8 word list \<Rightarrow> string" where
  "utf8_ssid_to_string bs = map (\<lambda>b. char_of (unat b)) bs"

definition wifi_mode_from_ap_mode :: "32 word \<Rightarrow> wifi_mode" where
  "wifi_mode_from_ap_mode value =
     (if value = 0 then mode_unknown
      else if value = 1 then mode_adhoc
      else if value = 2 then mode_infrastructure
      else mode_unknown)"

text \<open>
  The boot time. A line that starts with another word is skipped. An extraction that finds no digits gives
  zero; a number that does not fit gives the largest one; if the line ends with the name, the number stays what memory held.
\<close>

definition extract_uint64 :: "64 word \<Rightarrow> string \<Rightarrow> 64 word" where
  "extract_uint64 memory s =
     (if s = [] then memory
      else let v = digits_value (takeWhile is_digit (dropWhile is_space s))
           in if v < 2 ^ 64 then word_of_int v else - 1)"

fun boot_time :: "64 word \<Rightarrow> int \<Rightarrow> string list \<Rightarrow> int" where
  "boot_time memory now [] = now"
| "boot_time memory now (line # ls) =
     (if line = [] then boot_time memory now ls
      else case read_token line of
        (name, rest) \<Rightarrow> if name \<noteq> ''btime'' then boot_time memory now ls else sint (extract_uint64 memory rest))"

text \<open>The 32-bit value is extended to 64 bits with its sign and read back as a signed duration.\<close>

definition translate_time_stamp :: "int \<Rightarrow> 32 word \<Rightarrow> int" where
  "translate_time_stamp booted ts = booted + sint ts"

section \<open>Construction\<close>

definition new_cached_network :: "int \<Rightarrow> string \<Rightarrow> access_point \<Rightarrow> cached_network result" where
  "new_cached_network booted path ap =
     result_bind (ap_last_seen ap) (\<lambda>seen.
     result_bind (ap_hw_address ap) (\<lambda>address.
     result_bind (ap_ssid ap) (\<lambda>name.
     result_bind (ap_mode ap) (\<lambda>m.
     result_bind (ap_frequency ap) (\<lambda>freq.
     result_bind (bi_make frequency_bounds (int32 (uint freq))) (\<lambda>freq.
     result_bind (ap_strength ap) (\<lambda>strength.
     result_bind (bi_make strength_bounds (sint strength)) (\<lambda>strength.
       Inr \<lparr>bssid = address, ssid = utf8_ssid_to_string name, frequency = freq, ap_path = path,
            last_seen = translate_time_stamp booted seen, wifi_mode = wifi_mode_from_ap_mode m,
            signal_strength = strength\<rparr>))))))))"

section \<open>Changes of properties\<close>

text \<open>The entry of the table for a property, applied to the value; \<open>None\<close> for a property it does not have.\<close>

definition property_setter :: "int \<Rightarrow> string \<Rightarrow> (dbus_variant \<Rightarrow> cached_network \<Rightarrow> cached_network result) option" where
  "property_setter booted name =
     (if name = ''HwAddress'' then Some (\<lambda>v n. case v of V_string s \<Rightarrow> Inr (n\<lparr>bssid := s\<rparr>) | _ \<Rightarrow> Inl bad_variant)
      else if name = ''Ssid'' then
        Some (\<lambda>v n. case v of V_bytes bs \<Rightarrow> Inr (n\<lparr>ssid := utf8_ssid_to_string bs\<rparr>) | _ \<Rightarrow> Inl bad_variant)
      else if name = ''Strength'' then
        Some (\<lambda>v n. case v of
            V_int8 w \<Rightarrow> result_bind (bi_make strength_bounds (sint w)) (\<lambda>s. Inr (n\<lparr>signal_strength := s\<rparr>))
          | _ \<Rightarrow> Inl bad_variant)
      else if name = ''Frequency'' then
        Some (\<lambda>v n. case v of
            V_uint32 w \<Rightarrow> result_bind (bi_make frequency_bounds (int32 (uint w))) (\<lambda>f. Inr (n\<lparr>frequency := f\<rparr>))
          | _ \<Rightarrow> Inl bad_variant)
      else if name = ''Mode'' then
        Some (\<lambda>v n. case v of V_uint32 w \<Rightarrow> Inr (n\<lparr>wifi_mode := wifi_mode_from_ap_mode w\<rparr>) | _ \<Rightarrow> Inl bad_variant)
      else if name = ''LastSeen'' then
        Some (\<lambda>v n. case v of V_int32 w \<Rightarrow> Inr (n\<lparr>last_seen := translate_time_stamp booted w\<rparr>) | _ \<Rightarrow> Inl bad_variant)
      else None)"

definition set_network_property :: "int \<Rightarrow> string \<times> dbus_variant \<Rightarrow> cached_network \<Rightarrow> cached_network" where
  "set_network_property booted entry n =
     (case property_setter booted (fst entry) of
        None \<Rightarrow> n
      | Some setter \<Rightarrow> (case setter (snd entry) n of Inl e \<Rightarrow> n | Inr n' \<Rightarrow> n'))"

definition on_access_point_properties_changed ::
  "int \<Rightarrow> (string \<times> dbus_variant) list \<Rightarrow> cached_network \<Rightarrow> cached_network" where
  "on_access_point_properties_changed booted dict n = fold (set_network_property booted) dict n"

section \<open>What the properties hold\<close>

definition network_in_range :: "cached_network \<Rightarrow> bool" where
  "network_in_range n \<longleftrightarrow> bi_is_valid frequency_bounds (frequency n) \<and> bi_is_valid strength_bounds (signal_strength n)"

lemma bi_make_Inr: "bi_make b v = Inr x \<longleftrightarrow> x = v \<and> bi_is_valid b v"
  by (auto simp: bi_make_def bi_is_valid_def)

lemma new_cached_network_in_range: "new_cached_network booted path ap = Inr n \<Longrightarrow> network_in_range n \<and> ap_path n = path"
  by (auto simp: new_cached_network_def result_bind_Inr bi_make_Inr network_in_range_def)

lemmas property_setter_unfold = set_network_property_def property_setter_def

lemma set_network_property_path [simp]: "ap_path (set_network_property booted entry n) = ap_path n"
  by (cases "snd entry") (auto simp: property_setter_unfold bi_make_def)

lemma set_network_property_in_range: "network_in_range n \<Longrightarrow> network_in_range (set_network_property booted entry n)"
  by (cases "snd entry") (auto simp: property_setter_unfold bi_make_def network_in_range_def bi_is_valid_def)

lemma properties_changed_in_range:
  "network_in_range n \<Longrightarrow> network_in_range (on_access_point_properties_changed booted dict n) \<and>
     ap_path (on_access_point_properties_changed booted dict n) = ap_path n"
  unfolding on_access_point_properties_changed_def
  by (induction dict arbitrary: n) (simp_all add: set_network_property_in_range)

text \<open>What each property of the network is after a change, by the entries of the change alone.\<close>

definition entry_or :: "(string \<times> dbus_variant) list \<Rightarrow> string \<Rightarrow> (dbus_variant \<Rightarrow> 'a option) \<Rightarrow> 'a \<Rightarrow> 'a" where
  "entry_or dict key read old =
     (case map_of dict key of None \<Rightarrow> old | Some v \<Rightarrow> (case read v of None \<Rightarrow> old | Some x \<Rightarrow> x))"

definition read_bounded :: "bounds \<Rightarrow> int \<Rightarrow> int option" where
  "read_bounded b v = (if bi_is_valid b v then Some v else None)"

definition changed_network :: "int \<Rightarrow> (string \<times> dbus_variant) list \<Rightarrow> cached_network \<Rightarrow> cached_network" where
  "changed_network booted dict n =
     n\<lparr>bssid := entry_or dict ''HwAddress'' (\<lambda>v. case v of V_string s \<Rightarrow> Some s | _ \<Rightarrow> None) (bssid n),
       ssid := entry_or dict ''Ssid'' (\<lambda>v. case v of V_bytes bs \<Rightarrow> Some (utf8_ssid_to_string bs) | _ \<Rightarrow> None) (ssid n),
       signal_strength := entry_or dict ''Strength''
         (\<lambda>v. case v of V_int8 w \<Rightarrow> read_bounded strength_bounds (sint w) | _ \<Rightarrow> None) (signal_strength n),
       frequency := entry_or dict ''Frequency''
         (\<lambda>v. case v of V_uint32 w \<Rightarrow> read_bounded frequency_bounds (int32 (uint w)) | _ \<Rightarrow> None) (frequency n),
       wifi_mode := entry_or dict ''Mode'' (\<lambda>v. case v of V_uint32 w \<Rightarrow> Some (wifi_mode_from_ap_mode w) | _ \<Rightarrow> None) (wifi_mode n),
       last_seen := entry_or dict ''LastSeen'' (\<lambda>v. case v of V_int32 w \<Rightarrow> Some (translate_time_stamp booted w) | _ \<Rightarrow> None) (last_seen n)\<rparr>"

lemma entry_or_Cons:
  "entry_or ((k, v) # dict) key read old =
     (if k = key then (case read v of None \<Rightarrow> old | Some x \<Rightarrow> x) else entry_or dict key read old)"
  by (simp add: entry_or_def)

lemma entry_or_absent: "map_of dict k = None \<Longrightarrow> entry_or dict k read old = old"
  by (simp add: entry_or_def)

lemma set_network_property_keys:
  "set_network_property booted (''HwAddress'', v) n =
     n\<lparr>bssid := (case (case v of V_string s \<Rightarrow> Some s | _ \<Rightarrow> None) of None \<Rightarrow> bssid n | Some x \<Rightarrow> x)\<rparr>"
  "set_network_property booted (''Ssid'', v) n =
     n\<lparr>ssid := (case (case v of V_bytes bs \<Rightarrow> Some (utf8_ssid_to_string bs) | _ \<Rightarrow> None) of None \<Rightarrow> ssid n | Some x \<Rightarrow> x)\<rparr>"
  "set_network_property booted (''Strength'', v) n =
     n\<lparr>signal_strength := (case (case v of V_int8 w \<Rightarrow> read_bounded strength_bounds (sint w) | _ \<Rightarrow> None) of
          None \<Rightarrow> signal_strength n | Some x \<Rightarrow> x)\<rparr>"
  "set_network_property booted (''Frequency'', v) n =
     n\<lparr>frequency := (case (case v of V_uint32 w \<Rightarrow> read_bounded frequency_bounds (int32 (uint w)) | _ \<Rightarrow> None) of
          None \<Rightarrow> frequency n | Some x \<Rightarrow> x)\<rparr>"
  "set_network_property booted (''Mode'', v) n =
     n\<lparr>wifi_mode := (case (case v of V_uint32 w \<Rightarrow> Some (wifi_mode_from_ap_mode w) | _ \<Rightarrow> None) of None \<Rightarrow> wifi_mode n | Some x \<Rightarrow> x)\<rparr>"
  "set_network_property booted (''LastSeen'', v) n =
     n\<lparr>last_seen := (case (case v of V_int32 w \<Rightarrow> Some (translate_time_stamp booted w) | _ \<Rightarrow> None) of
          None \<Rightarrow> last_seen n | Some x \<Rightarrow> x)\<rparr>"
  by (cases v; simp add: property_setter_unfold bi_make_def read_bounded_def bi_is_valid_def)+

lemma set_then_changed:
  assumes "k \<notin> fst ` set dict"
  shows "changed_network booted dict (set_network_property booted (k, v) n) = changed_network booted ((k, v) # dict) n"
proof (cases "k \<in> {''HwAddress'', ''Ssid'', ''Strength'', ''Frequency'', ''Mode'', ''LastSeen''}")
  case True
  then have "k = ''HwAddress'' \<or> k = ''Ssid'' \<or> k = ''Strength'' \<or> k = ''Frequency'' \<or> k = ''Mode'' \<or> k = ''LastSeen''"
    by simp
  then consider "k = ''HwAddress''" | "k = ''Ssid''" | "k = ''Strength''" | "k = ''Frequency''" | "k = ''Mode''" | "k = ''LastSeen''"
    by argo
  moreover have "map_of dict k = None" using assms by (simp add: map_of_eq_None_iff)
  ultimately show ?thesis
    by cases (simp_all add: changed_network_def set_network_property_keys entry_or_Cons entry_or_absent)
next
  case False
  then have "set_network_property booted (k, v) n = n" by (simp add: property_setter_unfold)
  moreover have "changed_network booted ((k, v) # dict) n = changed_network booted dict n"
    using False by (simp add: changed_network_def entry_or_Cons)
  ultimately show ?thesis by simp
qed

text \<open>
  A change of several properties of an access point sets each property that the change names with a value of the
  right type and range and keeps every other one: an entry that cannot be used does not stop the others. The
  table that routes by name and the fold over the entries agree with this reading of the change entry by entry.
\<close>

theorem properties_changed_entrywise:
  assumes "distinct (map fst dict)"
  shows "on_access_point_properties_changed booted dict n = changed_network booted dict n"
  using assms
proof (induction dict arbitrary: n)
  case Nil
  then show ?case by (simp add: on_access_point_properties_changed_def changed_network_def entry_or_def)
next
  case (Cons e dict)
  then show ?case
    using set_then_changed [of "fst e" dict booted "snd e" n] by (simp add: on_access_point_properties_changed_def)
qed

theorem properties_changed_entrywise_witness:
  "let n = \<lparr>bssid = ''00:11'', ssid = ''net'', frequency = 2412, ap_path = ''/ap'', last_seen = 0, wifi_mode = mode_unknown,
        signal_strength = 40\<rparr>;
       n' = on_access_point_properties_changed 100 [(''Frequency'', V_uint32 7000), (''Strength'', V_int8 60)] n
   in frequency n' = 2412 \<and> signal_strength n' = 60"
  using properties_changed_entrywise [of "[(''Frequency'', V_uint32 7000), (''Strength'', V_int8 60)]" 100
      "\<lparr>bssid = ''00:11'', ssid = ''net'', frequency = 2412, ap_path = ''/ap'', last_seen = 0, wifi_mode = mode_unknown,
        signal_strength = 40\<rparr>"]
  by (simp add: changed_network_def entry_or_def read_bounded_def bi_is_valid_def frequency_bounds_def strength_bounds_def Let_def)

end
