(* ===== verification/Connectivity_Manager.thy ===== *)
theory Connectivity_Manager
  imports Wireless_Network Std_Containers
begin

text \<open>
  The connectivity manager over ofono and NetworkManager
  (\<open>connectivity/ofono_nm_connectivity_manager.cpp\<close>): caches of modems, radio cells, devices and wireless
  networks that follow the signals of the two services, and the signals a listener of the manager sees.

  \<open>manager\<close> is \<open>Private\<close>. Cells and networks are shared objects: a cache holds their address and
  \<open>cell_objects\<close>, \<open>network_objects\<close> what is stored there. Nobody but the caches keeps a cell alive, so the weak pointer of the
  slot on its validity is alive while the cell is cached. \<open>signals\<close> is the log of what was announced, \<open>tasks\<close> the
  queue of the dispatcher.

  Two threads handle events: the one of the bus and the one of the dispatcher. A handler changes the
  caches in one critical section, under \<open>cached.guard\<close>, and announces the change afterwards, without the lock. So
  the result of a handler is the changed state and the list of \<open>micro\<close> steps that follow: announcements
  and, for a new wireless device, one critical section per access point. \<open>complete\<close> runs them at once;
  in \<open>conn_step\<close> the other thread may interfere between any two.

  What the services answer to a query is the parameter \<open>b\<close>.
\<close>

section \<open>Data\<close>

type_synonym path = string

datatype conn_signal =
    Scan_finished
  | Cell_added nat
  | Cell_removed nat
  | Network_added nat
  | Network_removed nat

datatype enabled_flag = Wifi | Wifi_hardware | Wwan | Wwan_hardware

datatype task =
    Interfaces_changed path "string list"
  | Create_cell path
  | Add_device path
  | Remove_device path
  | Update_characteristics path
  | Setup_radio
  | Setup_network

datatype micro =
    Emit conn_signal
  | Add_access_point path path

datatype nm_property = NM_state "32 word" | NM_primary_connection path | NM_other

record manager =
  cells :: "(path \<times> nat) list"
  modems :: "(path \<times> (string \<times> dbus_variant) list) list"
  wifis :: "(path \<times> nat) list"
  nm_devices :: "path list"
  cell_objects :: "nat \<Rightarrow> radio_cell"
  network_objects :: "nat \<Rightarrow> cached_network"
  next_object :: nat
  conn_state :: "32 word"
  characteristics :: "32 word"
  is_enabled :: "enabled_flag \<Rightarrow> bool"
  radio_watched :: bool
  network_watched :: bool
  signals :: "conn_signal list"
  tasks :: "task list"
  bus_pending :: "micro list"
  dispatcher_pending :: "micro list"

text \<open>The answers of ofono and NetworkManager, and the platform.\<close>

record bus =
  modems_of :: "path list result"
  registration_of :: "path \<Rightarrow> nat \<Rightarrow> properties option"
  devices_of :: "path list result"
  device_type_of :: "path \<Rightarrow> 32 word result"
  access_points_of :: "path \<Rightarrow> path list result"
  access_point_of :: "path \<Rightarrow> access_point"
  connection_devices_of :: "path \<Rightarrow> path list result"
  state_of :: "32 word result"
  primary_connection_of :: "path result"
  flag_of :: "enabled_flag \<Rightarrow> bool result"
  float_rounding :: "real \<Rightarrow> real"
  heuristics_for_gsm :: bool
  cell_memory :: detail
  booted :: int

definition device_wifi :: "32 word" where "device_wifi = 2"
definition device_modem :: "32 word" where "device_modem = 8"

definition network_registration :: string where "network_registration = ''org.ofono.NetworkRegistration''"

definition from_nm_property :: "32 word \<Rightarrow> 32 word" where
  "from_nm_property value = value"

definition post :: "task \<Rightarrow> manager \<Rightarrow> manager" where
  "post t m = m\<lparr>tasks := tasks m @ [t]\<rparr>"

definition emit :: "conn_signal \<Rightarrow> manager \<Rightarrow> manager" where
  "emit s m = m\<lparr>signals := signals m @ [s]\<rparr>"

section \<open>Modems and cells\<close>

definition make_cell :: "bus \<Rightarrow> path \<Rightarrow> radio_cell result" where
  "make_cell b p = new_radio_cell (float_rounding b) (heuristics_for_gsm b) p (registration_of b p) (cell_memory b)"

definition store_cell :: "path \<Rightarrow> radio_cell \<Rightarrow> manager \<Rightarrow> manager" where
  "store_cell p c m =
     m\<lparr>cells := map_insert string_lt p (next_object m) (cells m), cell_objects := (cell_objects m)(next_object m := c),
       next_object := Suc (next_object m)\<rparr>"

text \<open>An exception of the constructor of the cell leaves the modem cached; the callers log it.\<close>

definition on_modem_added :: "bus \<Rightarrow> path \<Rightarrow> manager \<Rightarrow> manager \<times> micro list" where
  "on_modem_added b p m =
     (if map_find string_lt p (modems m) \<noteq> None then (m, [])
      else let m1 = m\<lparr>modems := map_insert string_lt p [] (modems m)\<rparr>
           in case make_cell b p of
                Inl e \<Rightarrow> (m1, [])
              | Inr c \<Rightarrow>
                  if map_find string_lt p (cells m1) \<noteq> None then (m1, [])
                  else (store_cell p c m1, [Emit (Cell_added (next_object m1))]))"

definition on_modem_removed :: "path \<Rightarrow> manager \<Rightarrow> manager \<times> micro list" where
  "on_modem_removed p m =
     (m\<lparr>cells := map_erase string_lt p (cells m), modems := map_erase string_lt p (modems m)\<rparr>,
      case map_find string_lt p (cells m) of None \<Rightarrow> [] | Some c \<Rightarrow> [Emit (Cell_removed c)])"

definition on_modem_interfaces_changed :: "path \<Rightarrow> string list \<Rightarrow> manager \<Rightarrow> manager \<times> micro list" where
  "on_modem_interfaces_changed p interfaces m =
     (if map_find string_lt p (modems m) = None then (m, [])
      else let modem_has_network_registration = (network_registration \<in> set interfaces)
           in case map_find string_lt p (cells m) of
                Some c \<Rightarrow>
                  if \<not> modem_has_network_registration
                  then (m\<lparr>cells := map_erase string_lt p (cells m)\<rparr>, [Emit (Cell_removed c)])
                  else (m, [])
              | None \<Rightarrow> if modem_has_network_registration then (post (Create_cell p) m, []) else (m, []))"

text \<open>The handler that \<open>on_modem_interfaces_changed\<close> posts.\<close>

definition create_cell :: "bus \<Rightarrow> path \<Rightarrow> manager \<Rightarrow> manager \<times> micro list" where
  "create_cell b p m =
     (if map_find string_lt p (modems m) = None then (m, [])
      else case make_cell b p of
        Inl e \<Rightarrow> (m, [])
      | Inr c \<Rightarrow> (store_cell p c m, [Emit (Cell_added (next_object m))]))"

text \<open>An event of a cached cell and the slot on its validity.\<close>

definition on_cell_event :: "bus \<Rightarrow> nat \<Rightarrow> cell_event \<Rightarrow> manager \<Rightarrow> manager \<times> micro list" where
  "on_cell_event b i e m =
     (let c = cell_objects m i;
          c' = cell_step (float_rounding b) (heuristics_for_gsm b) e c
      in (m\<lparr>cell_objects := (cell_objects m)(i := c')\<rparr>,
          if cell_valid c' = cell_valid c then []
          else if cell_valid c' then [Emit (Cell_added i)]
          else [Emit (Cell_removed i)]))"

section \<open>Devices and access points\<close>

definition on_access_point_added :: "bus \<Rightarrow> path \<Rightarrow> path \<Rightarrow> manager \<Rightarrow> manager \<times> micro list" where
  "on_access_point_added b ap d m =
     (if d \<notin> set (nm_devices m) then (m, [])
      else case device_type_of b d of
        Inl e \<Rightarrow> (m, [])
      | Inr t \<Rightarrow>
          if t \<noteq> device_wifi then (m, [])
          else case new_cached_network (booted b) ap (access_point_of b ap) of
            Inl e \<Rightarrow> (m, [])
          | Inr w \<Rightarrow>
              (m\<lparr>wifis := map_put string_lt ap (next_object m) (wifis m),
                 network_objects := (network_objects m)(next_object m := w), next_object := Suc (next_object m)\<rparr>,
               [Emit (Network_added (next_object m))]))"

definition on_access_point_removed :: "path \<Rightarrow> manager \<Rightarrow> manager \<times> micro list" where
  "on_access_point_removed ap m =
     (case map_find string_lt ap (wifis m) of
        None \<Rightarrow> (m, [])
      | Some w \<Rightarrow> (m\<lparr>wifis := map_erase string_lt ap (wifis m)\<rparr>, [Emit (Network_removed w)]))"

text \<open>An exception leaves the handler: the device may be cached already.\<close>

definition on_device_added :: "bus \<Rightarrow> path \<Rightarrow> manager \<Rightarrow> exn option \<times> manager \<times> micro list" where
  "on_device_added b d m =
     (if d \<in> set (nm_devices m) then (None, m, [])
      else case device_type_of b d of
        Inl e \<Rightarrow> (Some e, m, [])
      | Inr t \<Rightarrow>
          let m1 = (if t = device_modem \<or> t = device_wifi then m\<lparr>nm_devices := set_insert string_lt d (nm_devices m)\<rparr> else m)
          in if t = device_wifi
             then (case access_points_of b d of
                     Inl e \<Rightarrow> (Some e, m1, [])
                   | Inr aps \<Rightarrow> (None, m1, map (\<lambda>ap. Add_access_point ap d) aps))
             else (None, m1, []))"

definition on_device_removed :: "path \<Rightarrow> manager \<Rightarrow> manager" where
  "on_device_removed d m = m\<lparr>nm_devices := erase_remove d (nm_devices m)\<rparr>"

text \<open>The devices that are asked to scan, and the exception that ends the loop, if any.\<close>

fun request_scan :: "bus \<Rightarrow> path list \<Rightarrow> exn option \<times> path list" where
  "request_scan b [] = (None, [])"
| "request_scan b (d # ds) =
     (case device_type_of b d of
        Inl e \<Rightarrow> (Some e, [])
      | Inr t \<Rightarrow> (case request_scan b ds of (e, asked) \<Rightarrow> (e, if t = device_wifi then d # asked else asked)))"

definition request_scan_for_wireless_networks :: "bus \<Rightarrow> manager \<Rightarrow> exn option \<times> path list" where
  "request_scan_for_wireless_networks b m = request_scan b (nm_devices m)"

definition enumerate_visible_wireless_networks :: "manager \<Rightarrow> cached_network list" where
  "enumerate_visible_wireless_networks m = map (\<lambda>(p, i). network_objects m i) (wifis m)"

definition enumerate_connected_radio_cells :: "manager \<Rightarrow> radio_cell list" where
  "enumerate_connected_radio_cells m = filter cell_valid (map (\<lambda>(p, i). cell_objects m i) (cells m))"

section \<open>Characteristics of the connection\<close>

definition connection_goes_via_wifi :: "32 word" where "connection_goes_via_wifi = 1"
definition connection_goes_via_wwan :: "32 word" where "connection_goes_via_wwan = 2"
definition connection_is_roaming :: "32 word" where "connection_is_roaming = 4"
definition connection_has_monetary_costs :: "32 word" where "connection_has_monetary_costs = 8"
definition connection_is_volume_limited :: "32 word" where "connection_is_volume_limited = 16"
definition connection_is_bandwith_limited :: "32 word" where "connection_is_bandwith_limited = 32"

definition all_characteristics :: "32 word" where
  "all_characteristics = or (or connection_has_monetary_costs connection_is_bandwith_limited) connection_is_volume_limited"

text \<open>\<open>network_registration.get<Status>(false)\<close>: the properties as they were refreshed last.\<close>

definition cached_status :: "(string \<times> dbus_variant) list \<Rightarrow> string result" where
  "cached_status props =
     (case map_find string_lt ''Status'' props of
        None \<Rightarrow> Inr []
      | Some (V_string s) \<Rightarrow> Inr s
      | Some _ \<Rightarrow> Inl bad_variant)"

fun add_roaming :: "(path \<times> (string \<times> dbus_variant) list) list \<Rightarrow> 32 word \<Rightarrow> 32 word" where
  "add_roaming [] c = c"
| "add_roaming ((p, props) # ms) c =
     (case cached_status props of
        Inl e \<Rightarrow> add_roaming ms (or c connection_is_roaming)
      | Inr s \<Rightarrow> add_roaming ms (if s = ''roaming'' then or c connection_is_roaming else c))"

definition cached_device_type :: "bus \<Rightarrow> manager \<Rightarrow> path \<Rightarrow> 32 word result" where
  "cached_device_type b m d = (if d \<in> set (nm_devices m) then device_type_of b d else Inr 0)"

text \<open>The loop over the devices of the connection; an exception ends it.\<close>

fun add_device_characteristics :: "bus \<Rightarrow> manager \<Rightarrow> path list \<Rightarrow> 32 word \<Rightarrow> 32 word" where
  "add_device_characteristics b m [] c = c"
| "add_device_characteristics b m (d # ds) c =
     (case cached_device_type b m d of
        Inl e \<Rightarrow> c
      | Inr t \<Rightarrow> add_device_characteristics b m ds
          (if t = device_modem then or (add_roaming (modems m) (or c connection_goes_via_wwan)) all_characteristics
           else if t = device_wifi then or c connection_goes_via_wifi
           else c))"

definition characteristics_for_connection :: "bus \<Rightarrow> path \<Rightarrow> manager \<Rightarrow> 32 word" where
  "characteristics_for_connection b p m =
     (case connection_devices_of b p of Inl e \<Rightarrow> 0 | Inr ds \<Rightarrow> add_device_characteristics b m ds 0)"


section \<open>Setup\<close>

fun run_micro :: "bus \<Rightarrow> micro \<Rightarrow> manager \<Rightarrow> manager \<times> micro list" where
  "run_micro b (Emit s) m = (emit s m, [])"
| "run_micro b (Add_access_point ap d) m = on_access_point_added b ap d m"

text \<open>A handler together with everything that follows, without interference; announcements are followed by nothing.\<close>

definition finish_micro :: "bus \<Rightarrow> micro \<Rightarrow> manager \<Rightarrow> manager" where
  "finish_micro b u m = (case run_micro b u m of (m1, us) \<Rightarrow> fold (\<lambda>u m. fst (run_micro b u m)) us m1)"

definition complete :: "bus \<Rightarrow> manager \<times> micro list \<Rightarrow> manager" where
  "complete b r = (case r of (m, us) \<Rightarrow> fold (finish_micro b) us m)"

definition setup_radio_stack_access :: "bus \<Rightarrow> manager \<Rightarrow> exn option \<times> manager" where
  "setup_radio_stack_access b m =
     (case modems_of b of
        Inl e \<Rightarrow> (Some e, m)
      | Inr ps \<Rightarrow> (None, fold (\<lambda>p m. complete b (on_modem_added b p m)) ps m))"

fun add_devices :: "bus \<Rightarrow> path list \<Rightarrow> manager \<Rightarrow> exn option \<times> manager" where
  "add_devices b [] m = (None, m)"
| "add_devices b (d # ds) m =
     (case on_device_added b d m of
        (Some e, m1, us) \<Rightarrow> (Some e, complete b (m1, us))
      | (None, m1, us) \<Rightarrow> add_devices b ds (complete b (m1, us)))"

fun read_flags :: "bus \<Rightarrow> enabled_flag list \<Rightarrow> manager \<Rightarrow> exn option \<times> manager" where
  "read_flags b [] m = (None, m)"
| "read_flags b (f # fs) m =
     (case flag_of b f of
        Inl e \<Rightarrow> (Some e, m)
      | Inr v \<Rightarrow> read_flags b fs (m\<lparr>is_enabled := (is_enabled m)(f := v)\<rparr>))"

definition setup_network_stack_access :: "bus \<Rightarrow> manager \<Rightarrow> exn option \<times> manager" where
  "setup_network_stack_access b m =
     (case devices_of b of
        Inl e \<Rightarrow> (Some e, m)
      | Inr ds \<Rightarrow>
          (case add_devices b ds m of
             (Some e, m1) \<Rightarrow> (Some e, m1)
           | (None, m1) \<Rightarrow>
               (case state_of b of
                  Inl e \<Rightarrow> (Some e, m1)
                | Inr s \<Rightarrow>
                    let m2 = m1\<lparr>conn_state := from_nm_property s\<rparr>
                    in case primary_connection_of b of
                         Inl e \<Rightarrow> (Some e, m2)
                       | Inr p \<Rightarrow> read_flags b [Wifi, Wifi_hardware, Wwan, Wwan_hardware]
                           (m2\<lparr>characteristics := characteristics_for_connection b p m2\<rparr>))))"

definition manager_empty :: manager where
  "manager_empty = \<lparr>cells = [], modems = [], wifis = [], nm_devices = [], cell_objects = (\<lambda>_. undefined),
     network_objects = (\<lambda>_. undefined), next_object = 0, conn_state = 0, characteristics = 0, is_enabled = (\<lambda>_. False),
     radio_watched = False, network_watched = False, signals = [], tasks = [], bus_pending = [], dispatcher_pending = []\<rparr>"

definition manager_new :: "bus \<Rightarrow> manager" where
  "manager_new b =
     (let (e1, m1) = setup_radio_stack_access b manager_empty;
          m1 = m1\<lparr>radio_watched := (e1 \<noteq> None)\<rparr>;
          (e2, m2) = setup_network_stack_access b m1
      in m2\<lparr>network_watched := (e2 \<noteq> None)\<rparr>)"

section \<open>Events\<close>

datatype conn_event =
    Modem_added path
  | Modem_removed path
  | Modem_interfaces path "string list"
  | Device_added path
  | Device_removed path
  | Access_point_added path path
  | Access_point_removed path
  | Scan_done
  | NM_properties_changed "nm_property list"
  | NM_state_changed "32 word"
  | Flag_changed enabled_flag bool
  | Radio_service_registered
  | Network_service_registered
  | Cell_property_changed nat registration_property
  | Cell_timer_expired nat
  | Network_properties_changed nat "(string \<times> dbus_variant) list"
  | Run_task

datatype thread = Bus_thread | Dispatcher_thread

fun thread_of :: "conn_event \<Rightarrow> thread" where
  "thread_of Run_task = Dispatcher_thread"
| "thread_of (Cell_timer_expired i) = Dispatcher_thread"
| "thread_of e = Bus_thread"

text \<open>Only subscribed objects deliver events.\<close>

fun event_enabled :: "conn_event \<Rightarrow> manager \<Rightarrow> bool" where
  "event_enabled (Modem_interfaces p is) m = (p \<in> fst ` set (modems m))"
| "event_enabled Radio_service_registered m = radio_watched m"
| "event_enabled Network_service_registered m = network_watched m"
| "event_enabled (Cell_property_changed i p) m = (i \<in> snd ` set (cells m))"
| "event_enabled (Cell_timer_expired i) m = (i \<in> snd ` set (cells m))"
| "event_enabled (Network_properties_changed i d) m = (i \<in> snd ` set (wifis m))"
| "event_enabled Run_task m = (tasks m \<noteq> [])"
| "event_enabled e m = True"

fun on_nm_properties_changed :: "nm_property list \<Rightarrow> manager \<Rightarrow> manager" where
  "on_nm_properties_changed [] m = m"
| "on_nm_properties_changed (NM_state s # ps) m = on_nm_properties_changed ps (m\<lparr>conn_state := from_nm_property s\<rparr>)"
| "on_nm_properties_changed (NM_primary_connection p # ps) m = on_nm_properties_changed ps (post (Update_characteristics p) m)"
| "on_nm_properties_changed (NM_other # ps) m = on_nm_properties_changed ps m"

text \<open>A task of the dispatcher; an exception that leaves it is logged by the worker, which goes on with the next.\<close>

fun run_task :: "bus \<Rightarrow> task \<Rightarrow> manager \<Rightarrow> manager \<times> micro list" where
  "run_task b (Interfaces_changed p is) m = on_modem_interfaces_changed p is m"
| "run_task b (Create_cell p) m = create_cell b p m"
| "run_task b (Add_device d) m = snd (on_device_added b d m)"
| "run_task b (Remove_device d) m = (on_device_removed d m, [])"
| "run_task b (Update_characteristics p) m = (m\<lparr>characteristics := characteristics_for_connection b p m\<rparr>, [])"
| "run_task b Setup_radio m = (snd (setup_radio_stack_access b m), [])"
| "run_task b Setup_network m = (snd (setup_network_stack_access b m), [])"

fun handle :: "bus \<Rightarrow> conn_event \<Rightarrow> manager \<Rightarrow> manager \<times> micro list" where
  "handle b (Modem_added p) m = on_modem_added b p m"
| "handle b (Modem_removed p) m = on_modem_removed p m"
| "handle b (Modem_interfaces p is) m = (post (Interfaces_changed p is) m, [])"
| "handle b (Device_added d) m = (post (Add_device d) m, [])"
| "handle b (Device_removed d) m = (post (Remove_device d) m, [])"
| "handle b (Access_point_added ap d) m = on_access_point_added b ap d m"
| "handle b (Access_point_removed ap) m = on_access_point_removed ap m"
| "handle b Scan_done m = (m, [Emit Scan_finished])"
| "handle b (NM_properties_changed ps) m = (on_nm_properties_changed ps m, [])"
| "handle b (NM_state_changed s) m = (m\<lparr>conn_state := from_nm_property s\<rparr>, [])"
| "handle b (Flag_changed f v) m = (m\<lparr>is_enabled := (is_enabled m)(f := v)\<rparr>, [])"
| "handle b Radio_service_registered m = (post Setup_radio m, [])"
| "handle b Network_service_registered m = (post Setup_network m, [])"
| "handle b (Cell_property_changed i p) m = on_cell_event b i (Property_changed p) m"
| "handle b (Cell_timer_expired i) m = on_cell_event b i Timer_expired m"
| "handle b (Network_properties_changed i d) m =
     (m\<lparr>network_objects := (network_objects m)(i := on_access_point_properties_changed (booted b) d (network_objects m i))\<rparr>, [])"
| "handle b Run_task m = (case tasks m of [] \<Rightarrow> (m, []) | t # ts \<Rightarrow> run_task b t (m\<lparr>tasks := ts\<rparr>))"

section \<open>Interleavings\<close>

definition pending :: "thread \<Rightarrow> manager \<Rightarrow> micro list" where
  "pending t m = (case t of Bus_thread \<Rightarrow> bus_pending m | Dispatcher_thread \<Rightarrow> dispatcher_pending m)"

definition set_pending :: "thread \<Rightarrow> micro list \<Rightarrow> manager \<Rightarrow> manager" where
  "set_pending t us m =
     (case t of Bus_thread \<Rightarrow> m\<lparr>bus_pending := us\<rparr> | Dispatcher_thread \<Rightarrow> m\<lparr>dispatcher_pending := us\<rparr>)"

definition continue :: "thread \<Rightarrow> micro list \<Rightarrow> manager \<times> micro list \<Rightarrow> manager" where
  "continue t rest r = (case r of (m, us) \<Rightarrow> set_pending t (us @ rest) m)"

inductive conn_step :: "manager \<Rightarrow> manager \<Rightarrow> bool" where
  event: "event_enabled e m \<Longrightarrow> pending (thread_of e) m = [] \<Longrightarrow> conn_step m (continue (thread_of e) [] (handle b e m))"
| micro: "pending t m = u # us \<Longrightarrow> conn_step m (continue t us (run_micro b u m))"

inductive conn_reachable :: "manager \<Rightarrow> bool" where
  start: "conn_reachable (manager_new b)"
| step: "conn_reachable m \<Longrightarrow> conn_step m m' \<Longrightarrow> conn_reachable m'"

text \<open>The same events without interference.\<close>

definition dispatch_event :: "bus \<Rightarrow> conn_event \<Rightarrow> manager \<Rightarrow> manager" where
  "dispatch_event b e m = (if event_enabled e m then complete b (handle b e m) else m)"

end
