(* ===== verification/Connectivity_Props.thy ===== *)
theory Connectivity_Props
  imports Connectivity_Manager
begin

text \<open>
  Properties of the connectivity manager: the invariant of its caches under every interleaving of the two
  threads, what a listener knows from the announcements, the characteristics of the connection, and the
  queue of the dispatcher.
\<close>

section \<open>Caches\<close>

lemma map_insert_values: "snd ` set (map_insert lt k v m) \<subseteq> insert v (snd ` set m)"
proof (induction m)
  case (Cons e m)
  then show ?case by (cases e; cases "lt (fst e) k"; cases "lt k (fst e)") auto
qed simp

lemma map_put_values: "snd ` set (map_put lt k v m) \<subseteq> insert v (snd ` set m)"
proof (induction m)
  case (Cons e m)
  then show ?case by (cases e; cases "lt (fst e) k"; cases "lt k (fst e)") auto
qed simp

lemma map_insert_distinct:
  "v \<notin> snd ` set m \<Longrightarrow> distinct (map snd m) \<Longrightarrow> distinct (map snd (map_insert lt k v m))"
proof (induction m)
  case (Cons e m)
  then show ?case using map_insert_values [of lt k v m] by (cases e) auto
qed simp

lemma map_put_distinct:
  "v \<notin> snd ` set m \<Longrightarrow> distinct (map snd m) \<Longrightarrow> distinct (map snd (map_put lt k v m))"
proof (induction m)
  case (Cons e m)
  then show ?case using map_put_values [of lt k v m] by (cases e) auto
qed simp

lemma map_erase_elems [simp]: "set (map_erase string_lt k m) = {e \<in> set m. fst e \<noteq> k}"
  using string_lt_total string_lt_irrefl by (fastforce simp: map_erase_def)

lemma map_erase_distinct: "distinct (map snd m) \<Longrightarrow> distinct (map snd (map_erase string_lt k m))"
  by (simp add: map_erase_def distinct_map_filter)

lemma find_None [simp]: "map_find string_lt k m = None \<longleftrightarrow> k \<notin> fst ` set m"
  by (simp add: string_order.map_find_map_of map_of_eq_None_iff)

lemma find_Some: "map_find string_lt k m = Some v \<Longrightarrow> (k, v) \<in> set m"
  by (simp add: string_order.map_find_map_of map_of_SomeD)

lemma sorted_distinct: "map_sorted string_lt m \<Longrightarrow> distinct (map fst m)"
  unfolding map_sorted_def by (induction m) (auto simp: string_lt_irrefl)

lemma sorted_find: "map_sorted string_lt m \<Longrightarrow> (k, v) \<in> set m \<Longrightarrow> map_find string_lt k m = Some v"
  by (simp add: string_order.map_find_map_of sorted_distinct)

lemma sorted_put_elems:
  "map_sorted string_lt m \<Longrightarrow> set (map_put string_lt k v m) = insert (k, v) {e \<in> set m. fst e \<noteq> k}"
proof -
  assume s: "map_sorted string_lt m"
  then have "map_sorted string_lt (map_put string_lt k v m)" by (rule string_order.map_put_sorted)
  then have "(j, w) \<in> set (map_put string_lt k v m) \<longleftrightarrow> map_of (map_put string_lt k v m) j = Some w" for j w
    by (simp add: sorted_distinct)
  then show ?thesis using s by (auto simp: string_order.map_put_map_of sorted_distinct split: if_splits)
qed

lemma sorted_insert_elems:
  assumes "map_sorted string_lt m"
  shows "set (map_insert string_lt k v m) = (if k \<in> fst ` set m then set m else insert (k, v) (set m))"
proof -
  have "map_sorted string_lt (map_insert string_lt k v m)" using assms by (rule string_order.map_insert_sorted)
  then have "(j, w) \<in> set (map_insert string_lt k v m) \<longleftrightarrow> map_of (map_insert string_lt k v m) j = Some w" for j w
    by (simp add: sorted_distinct)
  moreover have "(j, w) \<in> set m \<longleftrightarrow> map_of m j = Some w" for j w
    using assms by (simp add: sorted_distinct)
  moreover have "map_of m k = None \<longleftrightarrow> k \<notin> fst ` set m" by (rule map_of_eq_None_iff)
  ultimately show ?thesis
    by (cases "map_of m k") (auto simp: string_order.map_insert_map_of [OF assms] split: if_splits)
qed

definition cache_ok :: "(path \<times> nat) list \<Rightarrow> nat \<Rightarrow> bool" where
  "cache_ok c n \<longleftrightarrow> map_sorted string_lt c \<and> distinct (map snd c) \<and> snd ` set c \<subseteq> {..<n}"

lemma cache_ok_mono: "cache_ok c n \<Longrightarrow> n \<le> n' \<Longrightarrow> cache_ok c n'"
  by (auto simp: cache_ok_def)

lemma cache_ok_insert: "cache_ok c n \<Longrightarrow> cache_ok (map_insert string_lt k n c) (Suc n)"
  using map_insert_values [of string_lt k n c] map_insert_distinct [of n c string_lt k]
  by (auto simp: cache_ok_def string_order.map_insert_sorted lessThan_Suc simp del: set_map)

lemma cache_ok_put: "cache_ok c n \<Longrightarrow> cache_ok (map_put string_lt k n c) (Suc n)"
  using map_put_values [of string_lt k n c] map_put_distinct [of n c string_lt k]
  by (auto simp: cache_ok_def string_order.map_put_sorted lessThan_Suc simp del: set_map)

lemma cache_ok_erase: "cache_ok c n \<Longrightarrow> cache_ok (map_erase string_lt k c) n"
  by (auto simp: cache_ok_def string_order.map_erase_sorted map_erase_distinct)

definition conn_inv :: "manager \<Rightarrow> bool" where
  "conn_inv m \<longleftrightarrow> cache_ok (cells m) (next_object m) \<and> cache_ok (wifis m) (next_object m) \<and> map_sorted string_lt (modems m) \<and>
     fst ` set (cells m) \<subseteq> fst ` set (modems m) \<and> (\<forall>e \<in> set (modems m). snd e = []) \<and>
     (\<forall>(p, i) \<in> set (wifis m). ap_path (network_objects m i) = p \<and> network_in_range (network_objects m i))"

lemma conn_invI:
  assumes "cache_ok (cells m) (next_object m)" "cache_ok (wifis m) (next_object m)" "map_sorted string_lt (modems m)"
    "fst ` set (cells m) \<subseteq> fst ` set (modems m)" "\<And>e. e \<in> set (modems m) \<Longrightarrow> snd e = []"
    "\<And>p i. (p, i) \<in> set (wifis m) \<Longrightarrow> ap_path (network_objects m i) = p \<and> network_in_range (network_objects m i)"
  shows "conn_inv m"
  using assms unfolding conn_inv_def by blast

lemma conn_inv_cong:
  assumes "cells m' = cells m" "modems m' = modems m" "wifis m' = wifis m" "network_objects m' = network_objects m"
    "next_object m' = next_object m"
  shows "conn_inv m' = conn_inv m"
  unfolding conn_inv_def by (simp only: assms)

lemma conn_inv_frame [simp]:
  "conn_inv (emit s m) = conn_inv m" "conn_inv (post t m) = conn_inv m" "conn_inv (set_pending th us m) = conn_inv m"
  "conn_inv (m\<lparr>tasks := ts\<rparr>) = conn_inv m" "conn_inv (m\<lparr>nm_devices := ds\<rparr>) = conn_inv m"
  "conn_inv (m\<lparr>conn_state := s'\<rparr>) = conn_inv m" "conn_inv (m\<lparr>characteristics := c\<rparr>) = conn_inv m"
  "conn_inv (m\<lparr>is_enabled := f\<rparr>) = conn_inv m" "conn_inv (m\<lparr>cell_objects := co\<rparr>) = conn_inv m"
  "conn_inv (m\<lparr>radio_watched := w\<rparr>) = conn_inv m" "conn_inv (m\<lparr>network_watched := w\<rparr>) = conn_inv m"
  by (rule conn_inv_cong; simp add: emit_def post_def set_pending_def split: thread.split)+

lemma store_cell_inv:
  assumes "conn_inv m" "p \<in> fst ` set (modems m)"
  shows "conn_inv (store_cell p c m)"
proof (rule conn_invI)
  show "cache_ok (cells (store_cell p c m)) (next_object (store_cell p c m))"
    using assms(1) by (simp add: store_cell_def conn_inv_def cache_ok_insert)
  show "cache_ok (wifis (store_cell p c m)) (next_object (store_cell p c m))"
    using assms(1) by (auto simp: store_cell_def conn_inv_def intro: cache_ok_mono)
  have "map_sorted string_lt (cells m)" using assms(1) by (simp add: conn_inv_def cache_ok_def)
  then show "fst ` set (cells (store_cell p c m)) \<subseteq> fst ` set (modems (store_cell p c m))"
    using assms by (auto simp: store_cell_def conn_inv_def sorted_insert_elems)
qed (use assms in \<open>auto simp: store_cell_def conn_inv_def\<close>)

lemma new_modem_inv:
  assumes "conn_inv m"
  shows "conn_inv (m\<lparr>modems := map_insert string_lt p [] (modems m)\<rparr>)" (is "conn_inv ?m")
proof (rule conn_invI)
  have s: "map_sorted string_lt (modems m)" using assms by (simp add: conn_inv_def)
  then show "map_sorted string_lt (modems ?m)" by (simp add: string_order.map_insert_sorted)
  show "fst ` set (cells ?m) \<subseteq> fst ` set (modems ?m)" "\<And>e. e \<in> set (modems ?m) \<Longrightarrow> snd e = []"
    using assms by (auto simp: sorted_insert_elems [OF s] conn_inv_def split: if_splits)
qed (use assms in \<open>auto simp: conn_inv_def\<close>)

lemma on_modem_added_inv: "conn_inv m \<Longrightarrow> conn_inv (fst (on_modem_added b p m))"
proof -
  assume inv: "conn_inv m"
  then have "map_sorted string_lt (modems m)" by (simp add: conn_inv_def)
  then have "p \<in> fst ` set (modems (m\<lparr>modems := map_insert string_lt p [] (modems m)\<rparr>))"
    by (simp add: sorted_insert_elems)
  with new_modem_inv [OF inv] store_cell_inv inv show ?thesis
    unfolding on_modem_added_def Let_def by (auto split: sum.split)
qed

lemma erase_inv:
  assumes "conn_inv m"
  shows "conn_inv (m\<lparr>cells := map_erase string_lt p (cells m)\<rparr>)"
    "conn_inv (m\<lparr>cells := map_erase string_lt p (cells m), modems := map_erase string_lt p (modems m)\<rparr>)"
    "conn_inv (m\<lparr>wifis := map_erase string_lt p (wifis m)\<rparr>)"
  by (rule conn_invI; use assms in \<open>auto simp: conn_inv_def cache_ok_erase string_order.map_erase_sorted\<close>)+

lemma on_modem_removed_inv: "conn_inv m \<Longrightarrow> conn_inv (fst (on_modem_removed p m))"
  by (simp add: on_modem_removed_def erase_inv)

lemma on_modem_interfaces_changed_inv: "conn_inv m \<Longrightarrow> conn_inv (fst (on_modem_interfaces_changed p is m))"
  by (auto simp: on_modem_interfaces_changed_def Let_def erase_inv split: option.split)

lemma create_cell_inv: "conn_inv m \<Longrightarrow> conn_inv (fst (create_cell b p m))"
  by (auto simp: create_cell_def store_cell_inv split: sum.split)

lemma on_cell_event_inv: "conn_inv m \<Longrightarrow> conn_inv (fst (on_cell_event b i e m))"
  by (simp add: on_cell_event_def Let_def)

lemma put_network_inv:
  assumes "conn_inv m" "ap_path w = ap" "network_in_range w"
  shows "conn_inv (m\<lparr>wifis := map_put string_lt ap (next_object m) (wifis m),
     network_objects := (network_objects m)(next_object m := w), next_object := Suc (next_object m)\<rparr>)" (is "conn_inv ?m")
proof (rule conn_invI)
  have w: "cache_ok (wifis m) (next_object m)" using assms(1) by (simp add: conn_inv_def)
  then show "cache_ok (wifis ?m) (next_object ?m)" by (simp add: cache_ok_put)
  show "cache_ok (cells ?m) (next_object ?m)" using assms(1) by (auto simp: conn_inv_def intro: cache_ok_mono)
  fix p i
  assume "(p, i) \<in> set (wifis ?m)"
  then have "(p, i) = (ap, next_object m) \<or> (p, i) \<in> set (wifis m)"
    using w by (auto simp: sorted_put_elems cache_ok_def)
  moreover have "i < next_object m" if "(p, i) \<in> set (wifis m)"
    using that w by (force simp: cache_ok_def)
  ultimately show "ap_path (network_objects ?m i) = p \<and> network_in_range (network_objects ?m i)"
    using assms by (auto simp: conn_inv_def)
qed (use assms in \<open>auto simp: conn_inv_def\<close>)

lemma on_access_point_added_inv: "conn_inv m \<Longrightarrow> conn_inv (fst (on_access_point_added b ap d m))"
  by (auto simp: on_access_point_added_def put_network_inv dest: new_cached_network_in_range split: sum.split)

lemma on_access_point_removed_inv: "conn_inv m \<Longrightarrow> conn_inv (fst (on_access_point_removed ap m))"
  by (auto simp: on_access_point_removed_def erase_inv split: option.split)

lemma on_device_added_inv: "conn_inv m \<Longrightarrow> conn_inv (fst (snd (on_device_added b d m)))"
  by (auto simp: on_device_added_def Let_def split: sum.split)

lemma network_properties_inv:
  assumes "conn_inv m"
  shows "conn_inv (m\<lparr>network_objects := (network_objects m)(i := on_access_point_properties_changed t d (network_objects m i))\<rparr>)"
  by (rule conn_invI) (use assms properties_changed_in_range in \<open>auto simp: conn_inv_def\<close>)

lemma run_micro_inv: "conn_inv m \<Longrightarrow> conn_inv (fst (run_micro b u m))"
  by (cases u) (simp_all add: on_access_point_added_inv)

lemma fold_inv: "(\<And>x m. conn_inv m \<Longrightarrow> conn_inv (f x m)) \<Longrightarrow> conn_inv m \<Longrightarrow> conn_inv (fold f xs m)"
  by (induction xs arbitrary: m) simp_all

lemma finish_micro_inv: "conn_inv m \<Longrightarrow> conn_inv (finish_micro b u m)"
proof -
  assume "conn_inv m"
  from run_micro_inv [OF this, of b u] show ?thesis
    by (cases "run_micro b u m") (simp add: finish_micro_def fold_inv run_micro_inv)
qed

lemma complete_inv: "conn_inv (fst r) \<Longrightarrow> conn_inv (complete b r)"
  by (cases r) (simp add: complete_def fold_inv finish_micro_inv)

lemma setup_radio_inv: "conn_inv m \<Longrightarrow> conn_inv (snd (setup_radio_stack_access b m))"
  by (auto simp: setup_radio_stack_access_def intro!: fold_inv complete_inv on_modem_added_inv split: sum.split)

lemma add_devices_inv: "conn_inv m \<Longrightarrow> conn_inv (snd (add_devices b ds m))"
proof (induction ds arbitrary: m)
  case (Cons d ds)
  from on_device_added_inv [OF Cons.prems, of b d] show ?case
    by (cases "on_device_added b d m") (auto intro!: complete_inv Cons.IH split: option.split)
qed simp

lemma read_flags_inv: "conn_inv m \<Longrightarrow> conn_inv (snd (read_flags b fs m))"
  by (induction fs arbitrary: m) (simp_all split: sum.split)

lemma setup_network_inv: "conn_inv m \<Longrightarrow> conn_inv (snd (setup_network_stack_access b m))"
  using add_devices_inv [of m b] unfolding setup_network_stack_access_def Let_def
  by (auto intro!: read_flags_inv simp del: read_flags.simps split: sum.split option.split prod.split)
    (metis snd_conv)+

lemma nm_properties_inv: "conn_inv m \<Longrightarrow> conn_inv (on_nm_properties_changed ps m)"
  by (induction ps m rule: on_nm_properties_changed.induct) simp_all

lemma run_task_inv: "conn_inv m \<Longrightarrow> conn_inv (fst (run_task b t m))"
  by (cases t)
    (simp_all add: on_modem_interfaces_changed_inv create_cell_inv on_device_added_inv on_device_removed_def setup_radio_inv
      setup_network_inv)

lemma handle_inv: "conn_inv m \<Longrightarrow> conn_inv (fst (handle b e m))"
  by (cases e)
    (simp_all add: on_modem_added_inv on_modem_removed_inv on_access_point_added_inv on_access_point_removed_inv nm_properties_inv
      on_cell_event_inv network_properties_inv run_task_inv split: list.split)

lemma continue_inv: "conn_inv (fst r) \<Longrightarrow> conn_inv (continue t us r)"
  by (cases r) (simp add: continue_def)

lemma conn_step_inv: "conn_step m m' \<Longrightarrow> conn_inv m \<Longrightarrow> conn_inv m'"
  by (induction rule: conn_step.induct) (simp_all add: continue_inv handle_inv run_micro_inv)

lemma manager_empty_inv: "conn_inv manager_empty"
  by (simp add: conn_inv_def manager_empty_def cache_ok_def map_sorted_def)

lemma manager_new_inv: "conn_inv (manager_new b)"
proof -
  obtain e1 m1 where r: "setup_radio_stack_access b manager_empty = (e1, m1)" by force
  obtain e2 m2 where n: "setup_network_stack_access b (m1\<lparr>radio_watched := e1 \<noteq> None\<rparr>) = (e2, m2)" by force
  from setup_radio_inv [OF manager_empty_inv, of b] r have "conn_inv m1" by simp
  then have "conn_inv m2" using setup_network_inv [of "m1\<lparr>radio_watched := e1 \<noteq> None\<rparr>" b] n by simp
  then show ?thesis by (simp add: manager_new_def r n del: not_None_eq)
qed

lemma conn_reachable_inv: "conn_reachable m \<Longrightarrow> conn_inv m"
  by (induction rule: conn_reachable.induct) (auto intro: manager_new_inv conn_step_inv)

text \<open>
  C34. Under every interleaving of the threads, a cached cell belongs to a cached modem, no object is cached twice,
  each cached network is the one of the access point it is filed under, and what the manager enumerates has
  frequencies and signal strengths in their ranges.
\<close>

theorem connectivity_caches_consistent:
  assumes "conn_reachable m"
  shows "fst ` set (cells m) \<subseteq> fst ` set (modems m) \<and> distinct (map fst (cells m)) \<and> distinct (map snd (cells m)) \<and>
    distinct (map fst (wifis m)) \<and> distinct (map snd (wifis m)) \<and> map ap_path (enumerate_visible_wireless_networks m) = map fst (wifis m) \<and>
    list_all network_in_range (enumerate_visible_wireless_networks m)"
proof -
  have inv: "conn_inv m" using assms by (rule conn_reachable_inv)
  then have "map ap_path (enumerate_visible_wireless_networks m) = map fst (wifis m)"
    "list_all network_in_range (enumerate_visible_wireless_networks m)"
    by (auto simp: conn_inv_def enumerate_visible_wireless_networks_def list_all_iff)
  with inv show ?thesis by (simp add: conn_inv_def cache_ok_def sorted_distinct)
qed

section \<open>Characteristics of the connection\<close>

text \<open>The devices up to the first whose type cannot be read.\<close>

definition readable_devices :: "bus \<Rightarrow> manager \<Rightarrow> path list \<Rightarrow> path list" where
  "readable_devices b m ds = takeWhile (\<lambda>d. \<not> isl (cached_device_type b m d)) ds"

definition goes_via :: "32 word \<Rightarrow> bus \<Rightarrow> manager \<Rightarrow> path list \<Rightarrow> bool" where
  "goes_via t b m ds \<longleftrightarrow> list_ex (\<lambda>d. cached_device_type b m d = Inr t) (readable_devices b m ds)"

definition some_modem_roams :: "manager \<Rightarrow> bool" where
  "some_modem_roams m \<longleftrightarrow> list_ex (\<lambda>(p, props). isl (cached_status props) \<or> cached_status props = Inr ''roaming'') (modems m)"

definition flag_if :: "bool \<Rightarrow> 32 word \<Rightarrow> 32 word" where
  "flag_if P w = (if P then w else 0)"

definition expected_characteristics :: "bus \<Rightarrow> manager \<Rightarrow> path list \<Rightarrow> 32 word" where
  "expected_characteristics b m ds =
     or (flag_if (goes_via device_wifi b m ds) connection_goes_via_wifi)
       (or (flag_if (goes_via device_modem b m ds) (or connection_goes_via_wwan all_characteristics))
         (flag_if (goes_via device_modem b m ds \<and> some_modem_roams m) connection_is_roaming))"

lemma add_roaming_flag:
  "add_roaming ms c =
     or c (flag_if (list_ex (\<lambda>(p, props). isl (cached_status props) \<or> cached_status props = Inr ''roaming'') ms) connection_is_roaming)"
proof (induction ms arbitrary: c)
  case (Cons e ms)
  obtain p props where e: "e = (p, props)" by force
  show ?case
    by (cases "cached_status props") (auto simp: e Cons.IH flag_if_def or.assoc)
qed (simp add: flag_if_def)

lemma add_device_characteristics_expected:
  "add_device_characteristics b m ds c = or c (expected_characteristics b m ds)"
proof (induction ds arbitrary: c)
  case Nil
  then show ?case by (simp add: expected_characteristics_def goes_via_def readable_devices_def flag_if_def)
next
  case (Cons d ds)
  show ?case
  proof (cases "cached_device_type b m d")
    case (Inl e)
    then show ?thesis by (simp add: expected_characteristics_def goes_via_def readable_devices_def flag_if_def)
  next
    case (Inr t)
    then have "goes_via t' b m (d # ds) \<longleftrightarrow> t = t' \<or> goes_via t' b m ds" for t'
      by (simp add: goes_via_def readable_devices_def)
    moreover have "device_modem \<noteq> device_wifi" by (simp add: device_wifi_def device_modem_def)
    moreover have "add_roaming (modems m) x = or x (flag_if (some_modem_roams m) connection_is_roaming)" for x
      by (simp add: add_roaming_flag some_modem_roams_def)
    ultimately show ?thesis
      using Inr by (simp add: Cons.IH expected_characteristics_def flag_if_def or.assoc or.commute or.left_commute)
  qed
qed

text \<open>
  The loop over the devices of a connection that collects the characteristics bit by bit agrees with a direct reading:
  the connection goes via wifi or via a modem when one of its devices does, is expensive and limited when it
  goes via a modem, and is roaming when in addition some modem is roaming or does not tell. Only the devices up to the first whose type
  cannot be read count; what they contributed is kept when the enumeration fails there.
\<close>

theorem characteristics_equivalence:
  "characteristics_for_connection b p m =
     (case connection_devices_of b p of Inl e \<Rightarrow> 0 | Inr ds \<Rightarrow> expected_characteristics b m ds)"
  by (simp add: characteristics_for_connection_def add_device_characteristics_expected split: sum.split)

text \<open>
  Roaming is never detected: the properties of the cached modems are only ever read without refreshing them, and the cells that do
  refresh work on their own copy of the modem. Whatever the modems report, the characteristics of a connection do not say that it is roaming.
\<close>

theorem roaming_never_detected:
  assumes "conn_reachable m"
  shows "and (characteristics_for_connection b p m) connection_is_roaming = 0"
proof -
  have "\<forall>e \<in> set (modems m). snd e = []" using conn_reachable_inv [OF assms] by (simp add: conn_inv_def)
  then have "\<not> some_modem_roams m" by (auto simp: some_modem_roams_def list_ex_iff cached_status_def)
  then show ?thesis
    by (auto simp: characteristics_for_connection_def add_device_characteristics_expected expected_characteristics_def flag_if_def
        connection_goes_via_wifi_def connection_goes_via_wwan_def connection_is_roaming_def all_characteristics_def
        connection_has_monetary_costs_def connection_is_volume_limited_def connection_is_bandwith_limited_def split: sum.split)
qed

section \<open>The queue of the dispatcher\<close>

definition run_queue :: "bus \<Rightarrow> manager \<Rightarrow> manager" where
  "run_queue b m = dispatch_event b Run_task m"

fun task_weight :: "task \<Rightarrow> nat" where
  "task_weight (Interfaces_changed p is) = 2"
| "task_weight t = 1"

lemma micro_tasks [simp]: "tasks (fst (run_micro b u m)) = tasks m"
  by (cases u) (simp_all add: emit_def on_access_point_added_def split: sum.split)

lemma fold_tasks: "(\<And>x m. tasks (f x m) = tasks m) \<Longrightarrow> tasks (fold f xs m) = tasks m"
  by (induction xs arbitrary: m) simp_all

lemma complete_tasks [simp]: "tasks (complete b r) = tasks (fst r)"
proof -
  have "tasks (finish_micro b u m) = tasks m" for u m
    using micro_tasks [of b u m] by (cases "run_micro b u m") (simp add: finish_micro_def fold_tasks)
  then show ?thesis by (cases r) (simp add: complete_def fold_tasks)
qed

lemma modem_added_tasks [simp]: "tasks (fst (on_modem_added b p m)) = tasks m"
  by (simp add: on_modem_added_def store_cell_def Let_def split: sum.split)

lemma device_added_tasks [simp]: "tasks (fst (snd (on_device_added b d m))) = tasks m"
  by (simp add: on_device_added_def Let_def split: sum.split)

lemma add_devices_tasks [simp]: "tasks (snd (add_devices b ds m)) = tasks m"
proof (induction ds arbitrary: m)
  case (Cons d ds)
  then show ?case using device_added_tasks [of b d m] by (cases "on_device_added b d m") (auto split: option.split)
qed simp

lemma read_flags_tasks [simp]: "tasks (snd (read_flags b fs m)) = tasks m"
  by (induction fs arbitrary: m) (simp_all split: sum.split)

lemma setup_tasks [simp]:
  "tasks (snd (setup_radio_stack_access b m)) = tasks m" "tasks (snd (setup_network_stack_access b m)) = tasks m"
  using add_devices_tasks [of b _ m]
  by (auto simp: setup_radio_stack_access_def setup_network_stack_access_def fold_tasks Let_def simp del: read_flags.simps add_devices_tasks
      split: sum.split prod.split option.split) (metis snd_conv)+

lemma run_task_weight: "sum_list (map task_weight (tasks (fst (run_task b t m)))) < task_weight t + sum_list (map task_weight (tasks m))"
  by (cases t)
    (auto simp: on_modem_interfaces_changed_def create_cell_def store_cell_def on_device_removed_def post_def Let_def
      split: option.split sum.split)

lemma run_queue_weight:
  "tasks m \<noteq> [] \<Longrightarrow> sum_list (map task_weight (tasks (run_queue b m))) < sum_list (map task_weight (tasks m))"
  using run_task_weight [of b "hd (tasks m)" "m\<lparr>tasks := tl (tasks m)\<rparr>"]
  by (cases "tasks m") (simp_all add: run_queue_def dispatch_event_def)

text \<open>
  The dispatcher does not run for ever on what it posts to itself: from every state, without new events, at most
  two tasks per queued one empty the queue.
\<close>

theorem dispatcher_queue_drains: "\<exists>n \<le> 2 * length (tasks m). tasks ((run_queue b ^^ n) m) = []"
proof -
  let ?w = "\<lambda>m. sum_list (map task_weight (tasks m))"
  have "\<exists>n \<le> ?w m. tasks ((run_queue b ^^ n) m) = []"
  proof (induction "?w m" arbitrary: m rule: less_induct)
    case less
    show ?case
    proof (cases "tasks m = []")
      case True
      then show ?thesis by (intro exI [of _ 0]) simp
    next
      case False
      from less [OF run_queue_weight [OF False]] run_queue_weight [OF False, of b]
      obtain n where "n < ?w m" "tasks ((run_queue b ^^ n) (run_queue b m)) = []" by (meson order.strict_trans1)
      then show ?thesis by (intro exI [of _ "Suc n"]) (simp add: funpow_swap1)
    qed
  qed
  moreover have "?w m \<le> 2 * length (tasks m)"
  proof (induction "tasks m" arbitrary: m)
    case (Cons t ts)
    then have "sum_list (map task_weight ts) \<le> 2 * length ts" by (metis manager.select_convs(14) manager.surjective)
    then show ?case by (cases t) (simp_all flip: Cons.hyps(2))
  qed simp
  ultimately show ?thesis by (meson order.trans)
qed

section \<open>What a listener knows\<close>

text \<open>The cells and networks that have been announced and not been announced as removed since.\<close>

fun heard :: "conn_signal \<Rightarrow> nat set \<times> nat set \<Rightarrow> nat set \<times> nat set" where
  "heard (Cell_added i) (cs, ns) = (insert i cs, ns)"
| "heard (Cell_removed i) (cs, ns) = (cs - {i}, ns)"
| "heard (Network_added i) (cs, ns) = (cs, insert i ns)"
| "heard (Network_removed i) (cs, ns) = (cs, ns - {i})"
| "heard Scan_finished v = v"

definition view :: "manager \<Rightarrow> nat set \<times> nat set" where
  "view m = fold heard (signals m) ({}, {})"

abbreviation cell_view :: "manager \<Rightarrow> nat set" where "cell_view m \<equiv> fst (view m)"
abbreviation network_view :: "manager \<Rightarrow> nat set" where "network_view m \<equiv> snd (view m)"

definition ids :: "(path \<times> nat) list \<Rightarrow> nat set" where
  "ids c = snd ` set c"

definition valid_cells :: "manager \<Rightarrow> nat set" where
  "valid_cells m = {i \<in> ids (cells m). cell_valid (cell_objects m i)}"

text \<open>A listener knows every valid cell and every network; with \<open>exact\<close> also no cell that is not cached.\<close>

definition view_ok :: "bool \<Rightarrow> manager \<Rightarrow> bool" where
  "view_ok exact m \<longleftrightarrow> valid_cells m \<subseteq> cell_view m \<and> ids (wifis m) \<subseteq> network_view m \<and>
     (exact \<longrightarrow> cell_view m \<subseteq> ids (cells m))"

lemma view_emit [simp]: "view (emit s m) = heard s (view m)"
  by (simp add: view_def emit_def)

lemma view_cong: "signals m' = signals m \<Longrightarrow> view m' = view m"
  by (simp add: view_def)

lemma heard_parts [simp]:
  "fst (heard s v) = (case s of Cell_added i \<Rightarrow> insert i (fst v) | Cell_removed i \<Rightarrow> fst v - {i} | _ \<Rightarrow> fst v)"
  "snd (heard s v) = (case s of Network_added i \<Rightarrow> insert i (snd v) | Network_removed i \<Rightarrow> snd v - {i} | _ \<Rightarrow> snd v)"
  by (cases v; cases s; simp)+

lemma view_ok_cong:
  assumes "cells m' = cells m" "wifis m' = wifis m" "cell_objects m' = cell_objects m" "signals m' = signals m"
  shows "view_ok x m' = view_ok x m"
  unfolding view_ok_def valid_cells_def view_cong [OF assms(4)] by (simp only: assms)

lemma announce_fields [simp]: "cells (emit s m) = cells m" "wifis (emit s m) = wifis m" "cell_objects (emit s m) = cell_objects m"
  by (simp_all add: emit_def)

lemma view_ok_frame [simp]:
  "view_ok x (post t m) = view_ok x m"
  "view_ok x (m\<lparr>tasks := ts\<rparr>) = view_ok x m" "view_ok x (m\<lparr>nm_devices := ds\<rparr>) = view_ok x m"
  "view_ok x (m\<lparr>conn_state := s'\<rparr>) = view_ok x m" "view_ok x (m\<lparr>characteristics := c\<rparr>) = view_ok x m"
  "view_ok x (m\<lparr>is_enabled := f\<rparr>) = view_ok x m" "view_ok x (m\<lparr>modems := md\<rparr>) = view_ok x m"
  "view_ok x (m\<lparr>network_objects := no\<rparr>) = view_ok x m"
  "view_ok x (m\<lparr>radio_watched := w\<rparr>) = view_ok x m" "view_ok x (m\<lparr>network_watched := w\<rparr>) = view_ok x m"
  by (rule view_ok_cong; simp add: post_def)+

lemma complete_simps [simp]: "complete b (m, []) = m" "complete b (m, [Emit s]) = emit s m"
  by (simp_all add: complete_def finish_micro_def)

lemma ids_insert: "map_sorted string_lt c \<Longrightarrow> ids (map_insert string_lt p n c) = (if p \<in> fst ` set c then ids c else insert n (ids c))"
  by (simp add: ids_def sorted_insert_elems)

lemma ids_put: "ids (map_put string_lt p n c) \<subseteq> insert n (ids c)"
  by (simp add: ids_def map_put_values)

lemma ids_erase:
  assumes "cache_ok c n" "map_find string_lt p c = Some i"
  shows "ids (map_erase string_lt p c) = ids c - {i}"
proof -
  have s: "map_sorted string_lt c" and d: "inj_on snd (set c)"
    using assms(1) by (simp_all add: cache_ok_def distinct_map)
  have pi: "(p, i) \<in> set c" using assms(2) by (rule find_Some)
  have "fst e \<noteq> p \<longleftrightarrow> snd e \<noteq> i" if e: "e \<in> set c" for e
  proof
    show "snd e \<noteq> i" if "fst e \<noteq> p" using that inj_onD [OF d, of e "(p, i)"] pi e by (cases e) auto
    show "fst e \<noteq> p" if "snd e \<noteq> i" using that sorted_find [OF s, of "fst e" "snd e"] assms(2) e by auto
  qed
  then have "set (map_erase string_lt p c) = {e \<in> set c. snd e \<noteq> i}" by auto
  then show ?thesis by (auto simp: ids_def)
qed

lemma store_cell_view:
  assumes "conn_inv m" "view_ok x m" "x \<longrightarrow> p \<notin> fst ` set (cells m)"
  shows "view_ok x (emit (Cell_added (next_object m)) (store_cell p c m))"
proof -
  have s: "map_sorted string_lt (cells m)" and n: "ids (cells m) \<subseteq> {..<next_object m}"
    using assms(1) by (simp_all add: conn_inv_def cache_ok_def ids_def)
  have v: "view (store_cell p c m) = view m" by (rule view_cong) (simp add: store_cell_def)
  have "cell_objects (store_cell p c m) i = cell_objects m i" if "i \<in> ids (cells m)" for i
    using that n by (auto simp: store_cell_def)
  moreover have "wifis (store_cell p c m) = wifis m" by (simp add: store_cell_def)
  moreover have "ids (cells (store_cell p c m)) = (if p \<in> fst ` set (cells m) then ids (cells m) else insert (next_object m) (ids (cells m)))"
    by (simp add: store_cell_def ids_insert [OF s])
  ultimately show ?thesis
    using assms(2,3) by (auto simp: view_ok_def valid_cells_def v split: if_splits)
qed

lemma erase_cell_view:
  assumes "conn_inv m" "view_ok x m" "map_find string_lt p (cells m) = Some i"
  shows "view_ok x (emit (Cell_removed i) (m\<lparr>cells := map_erase string_lt p (cells m)\<rparr>))"
proof -
  have "cache_ok (cells m) (next_object m)" using assms(1) by (simp add: conn_inv_def)
  moreover have "view (m\<lparr>cells := map_erase string_lt p (cells m)\<rparr>) = view m" by (rule view_cong) simp
  ultimately show ?thesis using assms(2) by (auto simp: view_ok_def valid_cells_def ids_erase [OF _ assms(3)])
qed

lemma erase_network_view:
  assumes "conn_inv m" "view_ok x m" "map_find string_lt p (wifis m) = Some i"
  shows "view_ok x (emit (Network_removed i) (m\<lparr>wifis := map_erase string_lt p (wifis m)\<rparr>))"
proof -
  have "cache_ok (wifis m) (next_object m)" using assms(1) by (simp add: conn_inv_def)
  moreover have "view (m\<lparr>wifis := map_erase string_lt p (wifis m)\<rparr>) = view m" by (rule view_cong) simp
  ultimately show ?thesis using assms(2) by (auto simp: view_ok_def valid_cells_def ids_erase [OF _ assms(3)])
qed

lemma put_network_view:
  assumes "view_ok x m"
  shows "view_ok x (emit (Network_added (next_object m)) (m\<lparr>wifis := map_put string_lt ap (next_object m) (wifis m),
     network_objects := no, next_object := Suc (next_object m)\<rparr>))"
proof -
  have "view (m\<lparr>wifis := map_put string_lt ap (next_object m) (wifis m), network_objects := no,
      next_object := Suc (next_object m)\<rparr>) = view m" by (rule view_cong) simp
  then show ?thesis
    using assms ids_put [of ap "next_object m" "wifis m"] by (auto simp: view_ok_def valid_cells_def)
qed

lemma on_modem_added_view:
  assumes "conn_inv m" "view_ok x m"
  shows "view_ok x (complete b (on_modem_added b p m))"
  using assms store_cell_view [of "m\<lparr>modems := map_insert string_lt p [] (modems m)\<rparr>" x p] new_modem_inv [of m p]
  by (auto simp: on_modem_added_def Let_def split: sum.split)

lemma on_modem_removed_view:
  assumes "conn_inv m" "view_ok x m"
  shows "view_ok x (complete b (on_modem_removed p m))"
proof (cases "map_find string_lt p (cells m)")
  case None
  then have "\<forall>e \<in> set (cells m). case e of (j, w) \<Rightarrow> string_lt j p \<or> string_lt p j"
    using string_lt_total by (metis case_prod_conv find_None fst_conv image_eqI old.prod.exhaust)
  then have "map_erase string_lt p (cells m) = cells m"
    unfolding map_erase_def by (intro filter_True) blast
  then have "view_ok x (m\<lparr>cells := map_erase string_lt p (cells m), modems := map_erase string_lt p (modems m)\<rparr>) = view_ok x m"
    by (intro view_ok_cong) simp_all
  with None assms show ?thesis by (simp add: on_modem_removed_def del: find_None)
next
  case (Some i)
  have "view_ok x (emit (Cell_removed i) (m\<lparr>cells := map_erase string_lt p (cells m), modems := map_erase string_lt p (modems m)\<rparr>)) =
     view_ok x (emit (Cell_removed i) (m\<lparr>cells := map_erase string_lt p (cells m)\<rparr>))"
    by (rule view_ok_cong) (simp_all add: emit_def)
  with Some erase_cell_view [OF assms Some] show ?thesis by (simp add: on_modem_removed_def)
qed

lemma on_modem_interfaces_changed_view:
  assumes "conn_inv m" "view_ok x m"
  shows "view_ok x (complete b (on_modem_interfaces_changed p is m))"
  using assms by (auto simp: on_modem_interfaces_changed_def Let_def erase_cell_view split: option.split)

lemma create_cell_view:
  assumes "conn_inv m" "view_ok x m" "x \<longrightarrow> p \<notin> fst ` set (cells m)"
  shows "view_ok x (complete b (create_cell b p m))"
  using assms by (auto simp: create_cell_def store_cell_view split: sum.split)

lemma on_cell_event_view:
  assumes "view_ok x m" "i \<in> ids (cells m)"
  shows "view_ok x (complete b (on_cell_event b i e m))"
proof -
  have "view (m\<lparr>cell_objects := co\<rparr>) = view m" for co by (rule view_cong) simp
  then show ?thesis
    using assms by (auto simp: on_cell_event_def Let_def view_ok_def valid_cells_def)
qed

lemma on_access_point_added_view:
  assumes "view_ok x m"
  shows "view_ok x (complete b (on_access_point_added b ap d m))"
  using assms by (auto simp: on_access_point_added_def put_network_view split: sum.split)

lemma on_access_point_removed_view:
  assumes "conn_inv m" "view_ok x m"
  shows "view_ok x (complete b (on_access_point_removed ap m))"
  using assms by (auto simp: on_access_point_removed_def erase_network_view split: option.split)

text \<open>What follows a handler is a list of announcements and critical sections, each of which is completed.\<close>

lemma micro_rest: "run_micro b u m = (m1, us) \<Longrightarrow> us = [] \<or> (\<exists>s. us = [Emit s])"
  by (cases u) (auto simp: on_access_point_added_def split: sum.splits if_splits)

lemma finish_complete: "finish_micro b u m = complete b (run_micro b u m)"
proof -
  obtain m1 us where r: "run_micro b u m = (m1, us)" by force
  then show ?thesis using micro_rest [OF r] by (auto simp: finish_micro_def)
qed

lemma fold_view:
  assumes "\<And>a m. a \<in> set as \<Longrightarrow> conn_inv m \<Longrightarrow> view_ok x m \<Longrightarrow> conn_inv (f a m) \<and> view_ok x (f a m)" "conn_inv m" "view_ok x m"
  shows "view_ok x (fold f as m)"
  using assms by (induction as arbitrary: m) simp_all

lemma access_points_view:
  assumes "conn_inv m" "view_ok x m"
  shows "view_ok x (complete b (m, map (\<lambda>ap. Add_access_point ap d) aps))"
proof -
  have "conn_inv (finish_micro b u m) \<and> view_ok x (finish_micro b u m)"
    if "u \<in> set (map (\<lambda>ap. Add_access_point ap d) aps)" "conn_inv m" "view_ok x m" for u m
    using that finish_micro_inv on_access_point_added_view by (auto simp: finish_complete)
  then have "view_ok x (fold (finish_micro b) (map (\<lambda>ap. Add_access_point ap d) aps) m)"
    by (intro fold_view [OF _ assms]) blast+
  then show ?thesis by (simp add: complete_def)
qed

lemma on_device_added_view:
  assumes "conn_inv m" "view_ok x m"
  shows "view_ok x (complete b (snd (on_device_added b d m)))"
  using assms by (auto simp: on_device_added_def Let_def access_points_view split: sum.split)

lemma setup_radio_view:
  assumes "conn_inv m" "view_ok x m"
  shows "view_ok x (snd (setup_radio_stack_access b m))"
  unfolding setup_radio_stack_access_def
  using assms by (auto intro!: fold_view complete_inv on_modem_added_inv on_modem_added_view split: sum.split)

lemma add_devices_view:
  assumes "conn_inv m" "view_ok x m"
  shows "view_ok x (snd (add_devices b ds m))"
  using assms
proof (induction ds arbitrary: m)
  case (Cons d ds)
  obtain e m1 us where r: "on_device_added b d m = (e, m1, us)" by (cases "on_device_added b d m") auto
  have "view_ok x (complete b (m1, us))" "conn_inv (complete b (m1, us))"
    using on_device_added_view [OF Cons.prems, of b d] on_device_added_inv [OF Cons.prems(1), of b d] r
    by (simp_all add: complete_inv)
  then show ?case using Cons.IH by (cases e) (simp_all add: r)
qed simp

lemma read_flags_view: "view_ok x m \<Longrightarrow> view_ok x (snd (read_flags b fs m))"
  by (induction fs arbitrary: m) (simp_all split: sum.split)

lemma setup_network_view:
  assumes "conn_inv m" "view_ok x m"
  shows "view_ok x (snd (setup_network_stack_access b m))"
  using add_devices_view [OF assms, of b] unfolding setup_network_stack_access_def Let_def
  by (auto intro!: read_flags_view simp: assms(2) simp del: read_flags.simps split: sum.split option.split prod.split)
    (metis snd_conv)+

text \<open>Whether an event creates a cell only for a modem that has none.\<close>

definition creation_fresh :: "conn_event \<Rightarrow> manager \<Rightarrow> bool" where
  "creation_fresh e m \<longleftrightarrow>
     (case (e, tasks m) of (Run_task, Create_cell p # ts) \<Rightarrow> p \<notin> fst ` set (cells m) | _ \<Rightarrow> True)"

lemma run_task_view:
  assumes "conn_inv m" "view_ok x m" "x \<longrightarrow> (case t of Create_cell p \<Rightarrow> p \<notin> fst ` set (cells m) | _ \<Rightarrow> True)"
  shows "view_ok x (complete b (run_task b t m))"
  using assms
  by (cases t)
    (simp_all add: on_modem_interfaces_changed_view create_cell_view on_device_added_view on_device_removed_def setup_radio_view
      setup_network_view)

lemma nm_properties_view: "view_ok x (on_nm_properties_changed ps m) = view_ok x m"
  by (induction ps m rule: on_nm_properties_changed.induct) simp_all

lemma dispatch_event_view:
  assumes "conn_inv m" "view_ok x m" "x \<longrightarrow> creation_fresh e m"
  shows "view_ok x (dispatch_event b e m)"
proof (cases "event_enabled e m")
  case True
  have "view_ok x (complete b (handle b e m))"
  proof (cases e)
    case Run_task
    with True obtain t ts where t: "tasks m = t # ts" by (cases "tasks m") auto
    have "x \<longrightarrow> (case t of Create_cell p \<Rightarrow> p \<notin> fst ` set (cells (m\<lparr>tasks := ts\<rparr>)) | _ \<Rightarrow> True)"
      using assms(3) Run_task t by (auto simp: creation_fresh_def split: task.splits)
    with assms(1,2) show ?thesis using run_task_view [of "m\<lparr>tasks := ts\<rparr>" x t b] by (simp add: Run_task t)
  next
    case Scan_done
    then show ?thesis using assms(2) by (simp add: view_ok_def valid_cells_def)
  next
    case (Cell_property_changed i p)
    then show ?thesis using assms(2) True by (simp add: on_cell_event_view ids_def)
  next
    case (Cell_timer_expired i)
    then show ?thesis using assms(2) True by (simp add: on_cell_event_view ids_def)
  qed (use assms(1,2) in \<open>simp_all add: on_modem_added_view on_modem_removed_view on_access_point_added_view
      on_access_point_removed_view nm_properties_view\<close>)
  then show ?thesis by (simp add: dispatch_event_def True)
qed (simp add: dispatch_event_def assms)

lemma dispatch_event_inv: "conn_inv m \<Longrightarrow> conn_inv (dispatch_event b e m)"
  by (simp add: dispatch_event_def complete_inv handle_inv)

lemma manager_new_view: "view_ok x (manager_new b)"
proof -
  obtain e1 m1 where r: "setup_radio_stack_access b manager_empty = (e1, m1)" by force
  obtain e2 m2 where n: "setup_network_stack_access b (m1\<lparr>radio_watched := e1 \<noteq> None\<rparr>) = (e2, m2)" by force
  have "view_ok x manager_empty" by (simp add: view_ok_def manager_empty_def valid_cells_def ids_def view_def)
  then have "conn_inv m1" "view_ok x m1"
    using setup_radio_inv [OF manager_empty_inv, of b] setup_radio_view [OF manager_empty_inv, of x b] r by simp_all
  then have "view_ok x m2" using setup_network_view [of "m1\<lparr>radio_watched := e1 \<noteq> None\<rparr>" x b] n by simp
  then show ?thesis by (simp add: manager_new_def r n del: not_None_eq)
qed

text \<open>Whether that holds along a run.\<close>

fun fresh_run :: "(bus \<times> conn_event) list \<Rightarrow> manager \<Rightarrow> bool" where
  "fresh_run [] m = True"
| "fresh_run ((b, e) # es) m = (creation_fresh e m \<and> fresh_run es (dispatch_event b e m))"

definition conn_run :: "(bus \<times> conn_event) list \<Rightarrow> manager \<Rightarrow> manager" where
  "conn_run es m = fold (\<lambda>(b, e). dispatch_event b e) es m"

lemma conn_run_view:
  assumes "conn_inv m" "view_ok x m" "x \<longrightarrow> fresh_run es m"
  shows "view_ok x (conn_run es m)"
  using assms
proof (induction es arbitrary: m)
  case (Cons be es)
  obtain b e where be: "be = (b, e)" by force
  have "conn_inv (dispatch_event b e m)" "view_ok x (dispatch_event b e m)"
    using Cons.prems be dispatch_event_inv dispatch_event_view by auto
  then show ?case using Cons.IH Cons.prems(3) be by (simp add: conn_run_def)
qed (simp add: conn_run_def)


section \<open>Two ways to announce a cell that is not there\<close>

text \<open>One wireless device with one access point, no modem at first; ofono does not answer queries.\<close>

definition demo_bus :: bus where
  "demo_bus = \<lparr>modems_of = Inr [], registration_of = (\<lambda>p n. None), devices_of = Inr [''/wlan0''],
     device_type_of = (\<lambda>d. Inr device_wifi), access_points_of = (\<lambda>d. Inr [''/ap'']),
     access_point_of = (\<lambda>ap. \<lparr>ap_last_seen = Inr 5, ap_hw_address = Inr ''00:11'', ap_ssid = Inr [], ap_mode = Inr 2,
        ap_frequency = Inr 2412, ap_strength = Inr 50\<rparr>),
     connection_devices_of = (\<lambda>p. Inr [''/wlan0'']), state_of = Inr 70, primary_connection_of = Inr ''/c'', flag_of = (\<lambda>f. Inr True),
     float_rounding = (\<lambda>r. r), heuristics_for_gsm = False, cell_memory = \<lparr>d0 = 0, d1 = 0, d2 = 0, d3 = 0, d4 = 0, d5 = 0\<rparr>,
     booted = 100\<rparr>"

lemmas conn_eval = demo_bus_def manager_new_def manager_empty_def setup_radio_stack_access_def setup_network_stack_access_def
  on_device_added_def on_access_point_added_def new_cached_network_def bi_make_def frequency_bounds_def strength_bounds_def
  complete_def finish_micro_def emit_def characteristics_for_connection_def cached_device_type_def from_nm_property_def Let_def
  device_wifi_def device_modem_def connection_goes_via_wifi_def

definition demo_network :: cached_network where
  "demo_network = \<lparr>bssid = ''00:11'', ssid = [], frequency = 2412, ap_path = ''/ap'', last_seen = 105,
     wifi_mode = mode_infrastructure, signal_strength = 50\<rparr>"

lemma demo_manager:
  "manager_new demo_bus = manager_empty\<lparr>wifis := [(''/ap'', 0)], nm_devices := [''/wlan0''],
     network_objects := (network_objects manager_empty)(0 := demo_network), next_object := 1, conn_state := 70, characteristics := 1,
     is_enabled := (\<lambda>_. True), signals := [Network_added 0]\<rparr>"
  by (auto simp: conn_eval demo_network_def utf8_ssid_to_string_def translate_time_stamp_def wifi_mode_from_ap_mode_def fun_eq_iff)
    (metis enabled_flag.exhaust)

lemma demo_make_cell: "\<exists>c. make_cell demo_bus p = Inr c"
  by (simp add: make_cell_def new_radio_cell_def demo_bus_def query_status_def get_property_def is_registered_or_roaming_def Let_def)

text \<open>The modem of the runs below, and the events on it.\<close>

abbreviation ril :: path where "ril \<equiv> ''/ril_0''"

abbreviation loses_registration :: conn_event where "loses_registration \<equiv> Modem_interfaces ril []"
abbreviation gains_registration :: conn_event where "gains_registration \<equiv> Modem_interfaces ril [network_registration]"

lemmas conn_ops = on_modem_added_def on_modem_removed_def on_modem_interfaces_changed_def create_cell_def store_cell_def post_def
  dispatch_event_def continue_def set_pending_def pending_def emit_def map_erase_def manager_empty_def Let_def

text \<open>
  A modem that reports its registration twice in a row gets two cells: the second is announced although it is not stored
  and goes away at once. No announcement of its removal follows.
\<close>

theorem repeated_registration_announces_phantom:
  "let m = conn_run (map (Pair demo_bus) [Modem_added ril, loses_registration, Run_task, gains_registration, gains_registration,
          Run_task, Run_task, Run_task, Run_task]) (manager_new demo_bus)
   in cells m = [(ril, 2)] \<and> tasks m = [] \<and> cell_view m = {2, 3}"
proof -
  obtain c where c: "make_cell demo_bus ril = Inr c" using demo_make_cell by blast
  show ?thesis
    by (simp add: conn_run_def demo_manager conn_ops c view_def insert_commute eval_nat_numeral)
qed

text \<open>A schedule says which event begins or which thread goes on.\<close>

definition schedule_step :: "bus \<Rightarrow> conn_event + thread \<Rightarrow> manager \<Rightarrow> manager" where
  "schedule_step b ch m =
     (case ch of
        Inl e \<Rightarrow> if event_enabled e m \<and> pending (thread_of e) m = [] then continue (thread_of e) [] (handle b e m) else m
      | Inr t \<Rightarrow> (case pending t m of [] \<Rightarrow> m | u # us \<Rightarrow> continue t us (run_micro b u m)))"

lemma schedule_reachable: "conn_reachable m \<Longrightarrow> conn_reachable (fold (schedule_step b) chs m)"
proof (induction chs arbitrary: m)
  case (Cons ch chs)
  have "schedule_step b ch m = m \<or> conn_step m (schedule_step b ch m)"
    by (auto simp: schedule_step_def intro: conn_step.intros split: sum.split list.split)
  then show ?case using Cons conn_reachable.step by auto
qed simp

text \<open>The states of the schedule below: the fields that vary.\<close>

definition demo_state ::
  "(path \<times> nat) list \<Rightarrow> (path \<times> (string \<times> dbus_variant) list) list \<Rightarrow> (nat \<Rightarrow> radio_cell) \<Rightarrow> nat \<Rightarrow> conn_signal list \<Rightarrow> task list \<Rightarrow>
     micro list \<Rightarrow> micro list \<Rightarrow> manager" where
  "demo_state cs ms co n sg ts bp dp = manager_empty\<lparr>wifis := [(''/ap'', 0)], nm_devices := [''/wlan0''],
     network_objects := (network_objects manager_empty)(0 := demo_network), conn_state := 70, characteristics := 1,
     is_enabled := (\<lambda>_. True), cells := cs, modems := ms, cell_objects := co, next_object := n, signals := sg, tasks := ts,
     bus_pending := bp, dispatcher_pending := dp\<rparr>"

lemma demo_start: "manager_new demo_bus = demo_state [] [] (cell_objects manager_empty) 1 [Network_added 0] [] [] []"
  by (simp add: demo_manager demo_state_def manager_empty_def)

lemmas demo_step = demo_state_def schedule_step_def conn_ops

lemma demo_steps:
  assumes "make_cell demo_bus ril = Inr c"
  shows "schedule_step demo_bus (Inl (Modem_added ril)) (demo_state [] [] co n sg ts [] dp) =
      demo_state [(ril, n)] [(ril, [])] (co(n := c)) (Suc n) sg ts [Emit (Cell_added n)] dp"
    "schedule_step demo_bus (Inl (Modem_interfaces ril is)) (demo_state cs [(ril, [])] co n sg ts [] dp) =
      demo_state cs [(ril, [])] co n sg (ts @ [Interfaces_changed ril is]) [] dp"
    "schedule_step demo_bus (Inl Run_task) (demo_state [(ril, i)] [(ril, [])] co n sg (Interfaces_changed ril [] # ts) bp []) =
      demo_state [] [(ril, [])] co n sg ts bp [Emit (Cell_removed i)]"
    "schedule_step demo_bus (Inl Run_task) (demo_state [] [(ril, [])] co n sg (Interfaces_changed ril [network_registration] # ts) bp []) =
      demo_state [] [(ril, [])] co n sg (ts @ [Create_cell ril]) bp []"
    "schedule_step demo_bus (Inl Run_task) (demo_state [] [(ril, [])] co n sg (Create_cell ril # ts) bp []) =
      demo_state [(ril, n)] [(ril, [])] (co(n := c)) (Suc n) sg ts bp [Emit (Cell_added n)]"
    "schedule_step demo_bus (Inl (Modem_removed ril)) (demo_state [(ril, i)] [(ril, [])] co n sg ts [] dp) =
      demo_state [] [] co n sg ts [Emit (Cell_removed i)] dp"
    "schedule_step demo_bus (Inr Bus_thread) (demo_state cs ms co n sg ts [Emit s] dp) = demo_state cs ms co n (sg @ [s]) ts [] dp"
    "schedule_step demo_bus (Inr Dispatcher_thread) (demo_state cs ms co n sg ts bp [Emit s]) = demo_state cs ms co n (sg @ [s]) ts bp []"
  using assms by (simp_all add: demo_step)

text \<open>
  The announcement after the critical section can be overtaken: the dispatcher stores a cell, the bus removes the modem and
  announces the removal of the cell, and only then the dispatcher announces that the cell was added. When both threads are idle
  again no cell is cached, but a listener knows one.
\<close>

theorem overtaken_announcement:
  "\<exists>m. conn_reachable m \<and> cells m = [] \<and> modems m = [] \<and> tasks m = [] \<and> bus_pending m = [] \<and> dispatcher_pending m = [] \<and>
     cell_view m = {2}"
proof -
  obtain c where c: "make_cell demo_bus ril = Inr c" using demo_make_cell by blast
  let ?m = "fold (schedule_step demo_bus) [Inl (Modem_added ril), Inr Bus_thread, Inl loses_registration, Inl Run_task,
      Inr Dispatcher_thread, Inl gains_registration, Inl Run_task, Inl Run_task, Inl (Modem_removed ril), Inr Bus_thread,
      Inr Dispatcher_thread] (manager_new demo_bus)"
  have "conn_reachable ?m" by (rule schedule_reachable) (rule conn_reachable.start)
  moreover obtain co where "?m = demo_state [] [] co 3
      [Network_added 0, Cell_added 1, Cell_removed 1, Cell_removed 2, Cell_added 2] [] [] []"
    by (simp add: demo_start demo_steps [OF c] eval_nat_numeral)
  ultimately show ?thesis
    by (intro exI [of _ ?m] conjI) (simp_all add: demo_state_def view_def)
qed

section \<open>Witnesses\<close>

theorem connectivity_caches_consistent_witness:
  "conn_reachable (manager_new demo_bus) \<and> map ap_path (enumerate_visible_wireless_networks (manager_new demo_bus)) = [''/ap'']"
proof -
  have r: "conn_reachable (manager_new demo_bus)" by (rule conn_reachable.start)
  with connectivity_caches_consistent [OF r] show ?thesis by (simp add: demo_manager)
qed

text \<open>ofono reports that the modem is roaming, and the connection goes via a modem.\<close>

definition roaming_bus :: bus where
  "roaming_bus = demo_bus\<lparr>modems_of := Inr [ril], registration_of := (\<lambda>p n. Some (demo_properties ''umts''\<lparr>status_property := Some ''roaming''\<rparr>)),
     device_type_of := (\<lambda>d. Inr device_modem)\<rparr>"

theorem roaming_never_detected_witness:
  "conn_reachable (manager_new roaming_bus) \<and> and (characteristics_for_connection roaming_bus ''/c'' (manager_new roaming_bus)) 4 = 0"
proof -
  have r: "conn_reachable (manager_new roaming_bus)" by (rule conn_reachable.start)
  with roaming_never_detected [OF r, of roaming_bus "''/c''"] show ?thesis by (simp add: connection_is_roaming_def)
qed


end
