(* ===== verification/Ichnaea.thy ===== *)
theory Ichnaea
  imports Reporting
begin

text \<open>
  The wrapper of json-c and the life of the reporter for ichnaea (\<open>service/ichnaea_reporter.h\<close>,
  \<open>service/ichnaea_reporter.cpp\<close>): the typed readers of \<open>json::Object\<close>, the references its instances
  hold, the configuration of the submissions and the thread of the HTTP client.

  json-c is a parameter. Its reference counting is the documented one: a new object comes with a
  reference, \<open>json_object_get\<close> adds one, \<open>json_object_put\<close> gives one up, adding to a container hands
  one over, and looking up an element lends the object without one. What the program does is the
  list of these calls.
\<close>

section \<open>Typed readers\<close>

datatype json_type = Json_null | Json_boolean | Json_double | Json_int | Json_object | Json_array | Json_string

record 'j json_values =
  json_object_new_boolean :: "bool \<Rightarrow> 'j"
  json_object_new_int64 :: "int \<Rightarrow> 'j"
  json_object_get_type :: "'j \<Rightarrow> json_type"
  json_object_get_boolean :: "'j \<Rightarrow> bool"
  json_object_get_int :: "'j \<Rightarrow> int"
  json_object_get_int64 :: "'j \<Rightarrow> int"
  json_object_get_double :: "'j \<Rightarrow> double"
  json_object_get_string :: "'j \<Rightarrow> string"
  double_of_int :: "int \<Rightarrow> double"

definition throw_if_type_mismatch :: "'j json_values \<Rightarrow> json_type \<Rightarrow> 'j \<Rightarrow> unit result" where
  "throw_if_type_mismatch vs t j =
     (if json_object_get_type vs j \<noteq> t then Inl (logic_error ''Type mismatch.'') else Inr ())"

definition to_bool :: "'j json_values \<Rightarrow> 'j \<Rightarrow> bool result" where
  "to_bool vs j = result_bind (throw_if_type_mismatch vs Json_boolean j) (\<lambda>_. Inr (json_object_get_boolean vs j))"

definition to_int32 :: "'j json_values \<Rightarrow> 'j \<Rightarrow> int result" where
  "to_int32 vs j = result_bind (throw_if_type_mismatch vs Json_int j) (\<lambda>_. Inr (json_object_get_int vs j))"

definition to_int64 :: "'j json_values \<Rightarrow> 'j \<Rightarrow> int result" where
  "to_int64 vs j = result_bind (throw_if_type_mismatch vs Json_int j) (\<lambda>_. Inr (json_object_get_int64 vs j))"

definition to_double :: "'j json_values \<Rightarrow> 'j \<Rightarrow> double result" where
  "to_double vs j =
     (if json_object_get_type vs j = Json_double then Inr (json_object_get_double vs j)
      else if json_object_get_type vs j = Json_int then Inr (double_of_int vs (json_object_get_int vs j))
      else Inl (logic_error ''Type mismatch''))"

definition to_string :: "'j json_values \<Rightarrow> 'j \<Rightarrow> string result" where
  "to_string vs j = result_bind (throw_if_type_mismatch vs Json_string j) (\<lambda>_. Inr (json_object_get_string vs j))"

definition put_boolean :: "'j json_ops \<Rightarrow> 'j json_values \<Rightarrow> string \<Rightarrow> bool \<Rightarrow> 'j \<Rightarrow> 'j" where
  "put_boolean ops vs name v j = json_object_object_add ops j name (json_object_new_boolean vs v)"

definition put_int64 :: "'j json_ops \<Rightarrow> 'j json_values \<Rightarrow> string \<Rightarrow> int \<Rightarrow> 'j \<Rightarrow> 'j" where
  "put_int64 ops vs name v j = json_object_object_add ops j name (json_object_new_int64 vs v)"

definition put_object :: "'j json_ops \<Rightarrow> string \<Rightarrow> 'j \<Rightarrow> 'j \<Rightarrow> 'j" where
  "put_object ops name other j = json_object_object_add ops j name other"

text \<open>An index beyond the array gives the null object; nothing is thrown.\<close>

definition get_object_for_index :: "'j json_ops \<Rightarrow> nat \<Rightarrow> 'j \<Rightarrow> 'j option result" where
  "get_object_for_index ops i j =
     (if \<not> json_object_is_array ops j then Inl (logic_error ''Type mismatch.'')
      else Inr (if i < length (json_object_array ops j) then Some (json_object_array ops j ! i) else None))"

text \<open>
  What json-c documents of the types and values of its objects. The accessor for 32 bits saturates.
\<close>

definition saturate32 :: "int \<Rightarrow> int" where
  "saturate32 i = max (- (2 ^ 31)) (min i (2 ^ 31 - 1))"

definition json_value_laws :: "'j json_ops \<Rightarrow> 'j json_values \<Rightarrow> bool" where
  "json_value_laws ops vs \<longleftrightarrow>
     (\<forall>b. json_object_get_type vs (json_object_new_boolean vs b) = Json_boolean \<and>
       json_object_get_boolean vs (json_object_new_boolean vs b) = b) \<and>
     (\<forall>i. json_object_get_type vs (json_object_new_int ops i) = Json_int \<and>
       json_object_get_int vs (json_object_new_int ops i) = saturate32 i \<and>
       json_object_get_int64 vs (json_object_new_int ops i) = i) \<and>
     (\<forall>i. json_object_get_type vs (json_object_new_int64 vs i) = Json_int \<and>
       json_object_get_int vs (json_object_new_int64 vs i) = saturate32 i \<and>
       json_object_get_int64 vs (json_object_new_int64 vs i) = i) \<and>
     (\<forall>x. json_object_get_type vs (json_object_new_double ops x) = Json_double \<and>
       json_object_get_double vs (json_object_new_double ops x) = x) \<and>
     (\<forall>s. json_object_get_type vs (json_object_new_string ops s) = Json_string \<and>
       json_object_get_string vs (json_object_new_string ops s) = s)"

section \<open>References\<close>

datatype 'j json_call = Json_new 'j | Json_get 'j | Json_put 'j | Json_give 'j

text \<open>The instances of \<open>json::Object\<close> by name, and the calls made so far.\<close>

record 'j objects =
  instances :: "nat \<rightharpoonup> 'j"
  json_calls :: "'j json_call list"

definition new_instance :: "nat \<Rightarrow> 'j \<Rightarrow> 'j json_call list \<Rightarrow> 'j objects \<Rightarrow> 'j objects" where
  "new_instance v j cs p = \<lparr>instances = (instances p)(v \<mapsto> j), json_calls = json_calls p @ cs\<rparr>"

definition object_create :: "nat \<Rightarrow> 'j \<Rightarrow> 'j objects \<Rightarrow> 'j objects" where
  "object_create v j = new_instance v j [Json_new j]"

definition object_copy :: "nat \<Rightarrow> 'j \<Rightarrow> 'j objects \<Rightarrow> 'j objects" where
  "object_copy v j = new_instance v j [Json_get j]"

definition object_destroy :: "nat \<Rightarrow> 'j \<Rightarrow> 'j objects \<Rightarrow> 'j objects" where
  "object_destroy v j p = \<lparr>instances = (instances p)(v := None), json_calls = json_calls p @ [Json_put j]\<rparr>"

definition object_assign :: "nat \<Rightarrow> 'j \<Rightarrow> 'j \<Rightarrow> 'j objects \<Rightarrow> 'j objects" where
  "object_assign v old j = new_instance v j [Json_put old, Json_get j]"

definition object_get :: "nat \<Rightarrow> 'j \<Rightarrow> 'j objects \<Rightarrow> 'j objects" where
  "object_get v j = new_instance v j []"

definition object_get_for_index :: "nat \<Rightarrow> 'j \<Rightarrow> 'j objects \<Rightarrow> 'j objects" where
  "object_get_for_index v j = new_instance v j [Json_get j]"

text \<open>
  The argument of \<open>put_array\<close>, \<open>put_object\<close>, \<open>append\<close> and \<open>put_object_for_index\<close> is a copy: it takes a
  reference, another one goes to the container and the first is released with the copy.
\<close>

definition object_put :: "'j \<Rightarrow> 'j objects \<Rightarrow> 'j objects" where
  "object_put j p = p\<lparr>json_calls := json_calls p @ [Json_get j, Json_get j, Json_give j, Json_put j]\<rparr>"

text \<open>\<open>put_boolean\<close> and its companions create the object they hand over.\<close>

definition object_put_value :: "'j \<Rightarrow> 'j objects \<Rightarrow> 'j objects" where
  "object_put_value j p = p\<lparr>json_calls := json_calls p @ [Json_new j, Json_give j]\<rparr>"

datatype 'j object_op = Op_create nat 'j | Op_copy nat nat | Op_destroy nat | Op_assign nat nat | Op_get nat 'j
  | Op_index nat 'j | Op_put nat | Op_put_value 'j

text \<open>An operation on names: a constructor needs a fresh one, the others an existing instance.\<close>

definition object_step :: "'j object_op \<Rightarrow> 'j objects \<Rightarrow> 'j objects option" where
  "object_step c p = (case c of
       Op_create v j \<Rightarrow> if instances p v = None then Some (object_create v j p) else None
     | Op_copy v w \<Rightarrow> (if instances p v = None then map_option (\<lambda>j. object_copy v j p) (instances p w) else None)
     | Op_destroy v \<Rightarrow> map_option (\<lambda>j. object_destroy v j p) (instances p v)
     | Op_assign v w \<Rightarrow> (case (instances p v, instances p w) of
           (Some old, Some j) \<Rightarrow> Some (object_assign v old j p) | _ \<Rightarrow> None)
     | Op_get v j \<Rightarrow> if instances p v = None then Some (object_get v j p) else None
     | Op_index v j \<Rightarrow> if instances p v = None then Some (object_get_for_index v j p) else None
     | Op_put w \<Rightarrow> map_option (\<lambda>j. object_put j p) (instances p w)
     | Op_put_value j \<Rightarrow> Some (object_put_value j p))"

fun object_run :: "'j object_op list \<Rightarrow> 'j objects \<Rightarrow> 'j objects option" where
  "object_run [] p = Some p"
| "object_run (c # cs) p = Option.bind (object_step c p) (object_run cs)"

definition no_objects :: "'j objects" where
  "no_objects = \<lparr>instances = Map.empty, json_calls = []\<rparr>"

text \<open>The references the program owns by the rules of json-c.\<close>

fun owned :: "'j json_call list \<Rightarrow> 'j \<Rightarrow> int" where
  "owned [] j = 0"
| "owned (Json_new k # cs) j = owned cs j + (if k = j then 1 else 0)"
| "owned (Json_get k # cs) j = owned cs j + (if k = j then 1 else 0)"
| "owned (Json_put k # cs) j = owned cs j - (if k = j then 1 else 0)"
| "owned (Json_give k # cs) j = owned cs j - (if k = j then 1 else 0)"

lemma owned_append [simp]: "owned (cs @ ds) j = owned cs j + owned ds j"
  by (induction cs j rule: owned.induct) auto

definition holders :: "(nat \<rightharpoonup> 'j) \<Rightarrow> 'j \<Rightarrow> int" where
  "holders h j = int (card {v. h v = Some j})"

definition lookups :: "'j object_op list \<Rightarrow> 'j \<Rightarrow> int" where
  "lookups cs j = int (length (filter (\<lambda>c. case c of Op_get v k \<Rightarrow> k = j | _ \<Rightarrow> False) cs))"

lemma holders_update:
  assumes "finite (dom h)"
  shows "holders (h(v := x)) j = holders h j - (if h v = Some j then 1 else 0) + (if x = Some j then 1 else 0)"
proof -
  define A where "A = {w. h w = Some j}"
  have f: "finite A" by (rule finite_subset [OF _ assms]) (auto simp: A_def)
  have e: "{w. (h(v := x)) w = Some j} = (if x = Some j then insert v (A - {v}) else A - {v})"
    by (auto simp: A_def)
  have r: "int (card (A - {v})) = int (card A) - (if h v = Some j then 1 else 0)"
    using f card_Suc_Diff1 [OF f, of v] by (auto simp: A_def)
  have "v \<in> A \<longleftrightarrow> h v = Some j" by (simp add: A_def)
  then show ?thesis unfolding holders_def e A_def [symmetric] using f r by (simp add: card_insert_if)
qed

lemma object_step_balance:
  assumes "object_step c p = Some p'" "finite (dom (instances p))"
  shows "finite (dom (instances p')) \<and>
    owned (json_calls p') j - holders (instances p') j = owned (json_calls p) j - holders (instances p) j - lookups [c] j"
  using assms
  by (cases c) (auto simp: object_step_def object_create_def object_copy_def object_destroy_def object_assign_def object_get_def
      object_get_for_index_def object_put_def object_put_value_def new_instance_def holders_update lookups_def
      split: if_splits option.splits)

lemma object_run_balance:
  assumes "object_run cs p = Some p'" "finite (dom (instances p))"
  shows "finite (dom (instances p')) \<and>
    owned (json_calls p') j - holders (instances p') j = owned (json_calls p) j - holders (instances p) j - lookups cs j"
  using assms
proof (induction cs arbitrary: p)
  case (Cons c cs)
  then obtain q where q: "object_step c p = Some q" "object_run cs q = Some p'"
    by (auto simp: bind_eq_Some_conv)
  have "lookups (c # cs) j = lookups [c] j + lookups cs j" by (simp add: lookups_def)
  then show ?case
    using object_step_balance [OF q(1) Cons.prems(2)] Cons.IH [OF q(2)] by auto
qed (simp add: lookups_def)

text \<open>
  C13. The references a program of instances of \<open>json::Object\<close> owns are its instances, less one for every
  object it looked up by name. Without lookups, once all instances are gone, every reference has been
  given up exactly once: nothing leaks, and nothing is released twice.
\<close>

theorem object_references:
  assumes "object_run cs no_objects = Some p"
  shows "owned (json_calls p) j = holders (instances p) j - lookups cs j \<and>
    (instances p = Map.empty \<longrightarrow> owned (json_calls p) j = - lookups cs j)"
  using object_run_balance [OF assms, of j] by (auto simp: no_objects_def holders_def)

theorem object_references_witness:
  "owned (json_calls (the (object_run [Op_create 0 (7::nat), Op_copy 1 0, Op_put 1, Op_get 2 8, Op_destroy 0, Op_destroy 1, Op_destroy 2]
      no_objects))) 8 = - 1"
  using object_references [of "[Op_create 0 (7::nat), Op_copy 1 0, Op_put 1, Op_get 2 8, Op_destroy 0, Op_destroy 1, Op_destroy 2]" _ 8]
  by (simp add: object_step_def object_create_def object_copy_def object_destroy_def object_put_def object_get_def new_instance_def
      no_objects_def lookups_def holders_def)

text \<open>
  An assignment gives up the old reference before it takes the new one. When both are the same object
  and the instance held its only reference, the object is used after it was given up.
\<close>

theorem assignment_uses_released_object:
  assumes "instances p v = Some j" "owned (json_calls p) j = 1"
  shows "object_step (Op_assign v v) p = Some (object_assign v j j p) \<and>
    json_calls (object_assign v j j p) = (json_calls p @ [Json_put j]) @ [Json_get j] \<and>
    owned (json_calls p @ [Json_put j]) j = 0"
  using assms by (simp add: object_step_def object_assign_def new_instance_def)

theorem assignment_uses_released_object_witness:
  "owned (json_calls (object_create 0 (7::nat) no_objects) @ [Json_put 7]) 7 = 0"
  using assignment_uses_released_object [of "object_create 0 (7::nat) no_objects" 0 7]
  by (simp add: object_create_def new_instance_def no_objects_def)

section \<open>Reading back what was put\<close>

lemmas reader_defs = to_bool_def to_int32_def to_int64_def to_double_def to_string_def throw_if_type_mismatch_def

lemma get_put:
  assumes "json_laws ops" "json_object_is_object ops j"
  shows "json_get ops k (json_object_object_add ops j k v) = Inr v"
  using assms by (simp add: json_laws_def json_get_def)

text \<open>
  A member that was put under a name is read back by the reader of its type. Of a 64 bit integer the
  readers for 32 bits and for floating point values only see the value saturated to 32 bits.
\<close>

theorem typed_members_roundtrip:
  assumes "json_laws ops" "json_value_laws ops vs" "json_object_is_object ops j"
  shows "result_bind (json_get ops k (put_boolean ops vs k b j)) (to_bool vs) = Inr b \<and>
    result_bind (json_get ops k (put_int64 ops vs k i j)) (to_int64 vs) = Inr i \<and>
    result_bind (json_get ops k (put_int64 ops vs k i j)) (to_int32 vs) = Inr (saturate32 i) \<and>
    result_bind (json_get ops k (put_int64 ops vs k i j)) (to_double vs) = Inr (double_of_int vs (saturate32 i)) \<and>
    result_bind (json_get ops k (put_double ops k x j)) (to_double vs) = Inr x \<and>
    result_bind (json_get ops k (put_string ops k s j)) (to_string vs) = Inr s \<and>
    result_bind (json_get ops k (put_string ops k s j)) (to_int64 vs) = Inl (logic_error ''Type mismatch.'')"
  using assms(2)
  by (simp add: put_boolean_def put_int64_def put_double_def put_string_def get_put [OF assms(1,3)] reader_defs json_value_laws_def)

text \<open>The values of the library of \<open>simple_json\<close>.\<close>

definition simple_values :: "json json_values" where
  "simple_values = \<lparr>json_object_new_boolean = J_boolean, json_object_new_int64 = J_int,
     json_object_get_type = (\<lambda>j. case j of J_object _ \<Rightarrow> Json_object | J_array _ \<Rightarrow> Json_array | J_string _ \<Rightarrow> Json_string
        | J_double _ \<Rightarrow> Json_double | J_int _ \<Rightarrow> Json_int | J_boolean _ \<Rightarrow> Json_boolean),
     json_object_get_boolean = (\<lambda>j. case j of J_boolean b \<Rightarrow> b | _ \<Rightarrow> False),
     json_object_get_int = (\<lambda>j. case j of J_int i \<Rightarrow> saturate32 i | _ \<Rightarrow> 0),
     json_object_get_int64 = (\<lambda>j. case j of J_int i \<Rightarrow> i | _ \<Rightarrow> 0),
     json_object_get_double = (\<lambda>j. case j of J_double x \<Rightarrow> x | _ \<Rightarrow> NaN),
     json_object_get_string = (\<lambda>j. case j of J_string s \<Rightarrow> s | _ \<Rightarrow> []),
     double_of_int = (\<lambda>i. Fin (real_of_int i))\<rparr>"

lemma simple_value_laws: "json_value_laws simple_json simple_values"
  by (simp add: json_value_laws_def simple_json_def simple_values_def)

theorem typed_members_roundtrip_witness:
  "result_bind (json_get simple_json ''n'' (put_int64 simple_json simple_values ''n'' 3000000000 (J_object []))) (to_int32 simple_values) =
     Inr 2147483647"
  using typed_members_roundtrip [OF simple_json_laws simple_value_laws, of "J_object []" "''n''" True 3000000000 "Fin 0" "[]"]
  by (simp add: simple_json_def saturate32_def)

section \<open>The reporter and its thread\<close>

record ichnaea_configuration =
  conf_uri :: string
  conf_key :: string
  conf_nick_name :: string

record ichnaea_reporter =
  submit_uri :: string
  verify_host :: bool
  verify_peer :: bool
  headers :: "(string \<times> string) list"
  worker_joinable :: bool
  process_terminated :: bool
  submissions :: "string list"

definition submit_resource :: string where "submit_resource = ''/v1/submit?key=''"
definition nick_name_header :: string where "nick_name_header = ''X-Nickname''"

definition ichnaea_new :: "ichnaea_configuration \<Rightarrow> ichnaea_reporter" where
  "ichnaea_new c =
     \<lparr>submit_uri = conf_uri c @ submit_resource @ conf_key c, verify_host = False, verify_peer = False,
      headers = (if conf_nick_name c \<noteq> [] then [(nick_name_header, conf_nick_name c)] else []),
      worker_joinable = False, process_terminated = False, submissions = []\<rparr>"

text \<open>Assigning to a \<open>std::thread\<close> that is joinable ends the process.\<close>

definition ichnaea_start :: "ichnaea_reporter \<Rightarrow> ichnaea_reporter" where
  "ichnaea_start r = (if worker_joinable r then r\<lparr>process_terminated := True\<rparr> else r\<lparr>worker_joinable := True\<rparr>)"

definition ichnaea_stop :: "ichnaea_reporter \<Rightarrow> ichnaea_reporter" where
  "ichnaea_stop r = (if worker_joinable r then r\<lparr>worker_joinable := False\<rparr> else r)"

fun ichnaea_call :: "'j json_ops \<Rightarrow> ichnaea_reporter reporter" where
  "ichnaea_call ops Reporter_start r = (None, ichnaea_start r)"
| "ichnaea_call ops Reporter_stop r = (None, ichnaea_stop r)"
| "ichnaea_call ops (Reporter_report u wifis cells) r =
     (case ichnaea_report ops u wifis cells of
        Inl e \<Rightarrow> (Some e, r)
      | Inr s \<Rightarrow> (None, r\<lparr>submissions := submissions r @ [s]\<rparr>))"

section \<open>The harvester drives the reporter\<close>

datatype harvester_op = Harvester_start | Harvester_stop | Harvester_position "position update" "wifi list" "radio_cell list"

definition harvester_op :: "'s reporter \<Rightarrow> harvester_op \<Rightarrow> harvester \<times> 's \<Rightarrow> exn option \<times> harvester \<times> 's" where
  "harvester_op rep c p = (case c of
       Harvester_start \<Rightarrow> harvester_start rep p
     | Harvester_stop \<Rightarrow> harvester_stop rep p
     | Harvester_position u wifis cells \<Rightarrow> report_position_update rep wifis cells u p)"

definition harvest :: "'s reporter \<Rightarrow> harvester_op list \<Rightarrow> harvester \<times> 's \<Rightarrow> harvester \<times> 's" where
  "harvest rep cs p = fold (\<lambda>c p. snd (harvester_op rep c p)) cs p"

text \<open>What a run of the harvester should submit: the reports of the positions that come while it runs.\<close>

fun due_submissions :: "'j json_ops \<Rightarrow> bool \<Rightarrow> harvester_op list \<Rightarrow> string list" where
  "due_submissions ops on [] = []"
| "due_submissions ops on (Harvester_start # cs) = due_submissions ops True cs"
| "due_submissions ops on (Harvester_stop # cs) = due_submissions ops False cs"
| "due_submissions ops on (Harvester_position u wifis cells # cs) =
     (if on then (case ichnaea_report ops u wifis cells of Inl e \<Rightarrow> [] | Inr s \<Rightarrow> [s]) else []) @ due_submissions ops on cs"

definition harvest_inv :: "harvester \<times> ichnaea_reporter \<Rightarrow> bool" where
  "harvest_inv = (\<lambda>(h, r). worker_joinable r = is_running h \<and> \<not> process_terminated r)"

lemmas harvest_defs = harvester_op_def harvester_start_def harvester_stop_def report_position_update_def
  ichnaea_start_def ichnaea_stop_def harvest_inv_def

lemma harvest_step:
  assumes "harvest_inv (h, r)" "harvester_op (ichnaea_call ops) c (h, r) = (e, h', r')"
  shows "harvest_inv (h', r')" "submit_uri r' = submit_uri r \<and> headers r' = headers r"
    "submissions r' @ due_submissions ops (is_running h') cs = submissions r @ due_submissions ops (is_running h) (c # cs)"
  using assms by (cases c; auto simp: harvest_defs split: if_splits sum.splits)+

lemma harvest_run:
  assumes "harvest_inv (h, r)"
  shows "\<exists>h' r'. harvest (ichnaea_call ops) cs (h, r) = (h', r') \<and> harvest_inv (h', r') \<and>
    submit_uri r' = submit_uri r \<and> headers r' = headers r \<and>
    submissions r' = submissions r @ due_submissions ops (is_running h) cs"
  using assms
proof (induction cs arbitrary: h r)
  case (Cons c cs)
  obtain e h1 r1 where s: "harvester_op (ichnaea_call ops) c (h, r) = (e, h1, r1)"
    by (cases "harvester_op (ichnaea_call ops) c (h, r)") auto
  note step = harvest_step [OF Cons.prems s]
  from Cons.IH [OF step(1)] show ?case
    using step(2) step(3) [of cs] s by (auto simp: harvest_def)
qed (simp add: harvest_def)


text \<open>Started by hand a second time, the reporter ends the process.\<close>

theorem second_start_terminates: "process_terminated (ichnaea_start (ichnaea_start (ichnaea_new c)))"
  by (simp add: ichnaea_start_def ichnaea_new_def)

end
