(* ===== verification/Worker_Providers.thy ===== *)
theory Worker_Providers
  imports Provider_Controller Data_Model
begin

text \<open>
  The providers that publish from a thread of their own: the dummy provider (\<open>providers/dummy/provider.cpp\<close>,
  \<open>delayed_provider.cpp\<close>), the gpsd provider (\<open>providers/gpsd/provider.cpp\<close>) and the handlers of the Geoclue provider
  (\<open>providers/geoclue/provider.cpp\<close>).

  A thread is a program counter in the provider's record, next to the variables it shares with the client thread; the
  interleaving is the list of events. A step that ends the process (an assignment to a joinable \<open>std::thread\<close>, an
  exception that leaves the thread) has the value None. \<open>published\<close> is what \<open>mutable_updates()\<close> was called with.
\<close>

datatype published =
    Pub_position "position update"
  | Pub_heading "double update"
  | Pub_velocity "double update"

section \<open>The contract of a worker that is joined\<close>

text \<open>
  While the client waits in \<open>join\<close> every step of the worker brings it closer to its end. The inputs of the steps (clock
  readings, data of the device) are restricted to the ones that do not end the process.
\<close>

fun worker_run :: "('i \<Rightarrow> 's \<Rightarrow> 's option) \<Rightarrow> 'i list \<Rightarrow> 's \<Rightarrow> 's option" where
  "worker_run st [] s = Some s"
| "worker_run st (i # is) s = (case st i s of None \<Rightarrow> None | Some s' \<Rightarrow> worker_run st is s')"

locale joined_worker =
  fixes wf :: "'s \<Rightarrow> bool"
    and st :: "'i \<Rightarrow> 's \<Rightarrow> 's option"
    and ok :: "'i \<Rightarrow> bool"
    and joining :: "'s \<Rightarrow> bool"
    and finished :: "'s \<Rightarrow> bool"
    and rank :: "'s \<Rightarrow> nat"
  assumes progress: "wf s \<Longrightarrow> joining s \<Longrightarrow> \<not> finished s \<Longrightarrow> ok i \<Longrightarrow>
      \<exists>s'. st i s = Some s' \<and> wf s' \<and> joining s' \<and> rank s' < rank s"
    and pending: "wf s \<Longrightarrow> joining s \<Longrightarrow> \<not> finished s \<Longrightarrow> 0 < rank s"
    and idle: "finished s \<Longrightarrow> st i s = Some s"
begin

lemma run_finished: "finished s \<Longrightarrow> worker_run st is s = Some s"
  by (induction "is") (simp_all add: idle)

lemma join_returns:
  "wf s \<Longrightarrow> joining s \<Longrightarrow> list_all ok is \<Longrightarrow> rank s \<le> length is \<Longrightarrow>
     \<exists>s'. worker_run st is s = Some s' \<and> wf s' \<and> joining s' \<and> finished s'"
proof (induction "is" arbitrary: s)
  case Nil
  then show ?case using pending [of s] by (cases "finished s") auto
next
  case (Cons i "is")
  show ?case
  proof (cases "finished s")
    case True
    then show ?thesis using Cons.prems by (simp add: run_finished idle)
  next
    case False
    with Cons.prems obtain s' where "st i s = Some s'" "wf s'" "joining s'" "rank s' < rank s"
      using progress [of s i] by auto
    with Cons.prems Cons.IH [of s'] show ?thesis by simp
  qed
qed

end

section \<open>The dummy provider\<close>

record dummy_configuration =
  update_period :: int
  reference_position :: position
  reference_velocity :: double
  reference_heading :: double

definition dummy_configuration_default :: dummy_configuration where
  "dummy_configuration_default = \<lparr>update_period = 500, reference_position = position_lat_lon_alt (Fin 9) (Fin 53) (Fin (- 2)),
     reference_velocity = Fin 9, reference_heading = Fin 127\<rparr>"

text \<open>\<open>ptree::get\<close> with a default: the default also replaces a value that the translator \<open>parse\<close> rejects.\<close>

definition get_or :: "(string \<Rightarrow> 'a option) \<Rightarrow> string \<Rightarrow> 'a \<Rightarrow> (string \<times> string) list \<Rightarrow> 'a" where
  "get_or parse key deflt config =
     (case map_of config key of None \<Rightarrow> deflt | Some v \<Rightarrow> (case parse v of None \<Rightarrow> deflt | Some x \<Rightarrow> x))"

definition has_key :: "string \<Rightarrow> (string \<times> string) list \<Rightarrow> bool" where
  "has_key key config \<longleftrightarrow> map_of config key \<noteq> None"

definition dummy_create_instance ::
  "(string \<Rightarrow> int option) \<Rightarrow> (string \<Rightarrow> double option) \<Rightarrow> (string \<times> string) list \<Rightarrow> dummy_configuration result" where
  "dummy_create_instance parse_int parse_double config =
     (let c = dummy_configuration_default; p = reference_position c
      in result_bind (make_coordinate check_latitude (get_or parse_double ''ReferenceLocationLat'' (Fin 51) config)) (\<lambda>lat.
         result_bind (make_coordinate check_longitude (get_or parse_double ''ReferenceLocationLon'' (Fin 7) config)) (\<lambda>lon.
         Inr \<lparr>update_period = get_or parse_int ''UpdatePeriodInMs'' 500 config,
           reference_position = p\<lparr>latitude := lat, longitude := lon,
             altitude := (if has_key ''ReferenceLocationAlt'' config
               then Some (get_or parse_double ''ReferenceLocationAlt'' (Fin 0) config) else altitude p),
             horizontal := (if has_key ''ReferenceHorizontalAccuracy'' config
               then Some (get_or parse_double ''ReferenceHorizontalAccuracy'' (Fin 0) config) else horizontal p),
             vertical := (if has_key ''ReferenceVerticalAccuracy'' config
               then Some (get_or parse_double ''ReferenceVerticalAccuracy'' (Fin 0) config) else vertical p)\<rparr>,
           reference_velocity = get_or parse_double ''ReferenceVelocity'' (Fin 9) config,
           reference_heading = get_or parse_double ''ReferenceHeading'' (Fin 127) config\<rparr>)))"

text \<open>\<open>DelayedProvider::create_instance\<close>: how long it sleeps, and the provider it creates.\<close>

definition delayed_create_instance ::
  "(string \<Rightarrow> int option) \<Rightarrow> (string \<Rightarrow> double option) \<Rightarrow> (string \<times> string) list \<Rightarrow> int \<times> dummy_configuration result" where
  "delayed_create_instance parse_int parse_double config =
     (get_or parse_int ''DelayInMs'' 0 config, dummy_create_instance parse_int parse_double config)"

datatype dummy_state = dummy_started | dummy_stopping | dummy_stopped

text \<open>
  The thread: not joinable, created but not yet run, at the test of its loop, behind the loop, at its end (still joinable).
\<close>

datatype worker_thread = No_thread | Spawned | Looping | Left_loop | Ended

record dummy_provider =
  dummy_state_of :: dummy_state
  stop_requested :: bool
  dummy_worker :: worker_thread
  dummy_joining :: bool
  dummy_published :: "published list"

definition new_dummy :: dummy_provider where
  "new_dummy = \<lparr>dummy_state_of = dummy_stopped, stop_requested = False, dummy_worker = No_thread, dummy_joining = False,
     dummy_published = []\<rparr>"

definition dummy_start :: "dummy_provider \<Rightarrow> dummy_provider option" where
  "dummy_start d =
     (if dummy_state_of d \<noteq> dummy_stopped then Some d
      else let d = d\<lparr>stop_requested := False\<rparr>
           in if dummy_worker d \<noteq> No_thread then None else Some (d\<lparr>dummy_worker := Spawned\<rparr>))"

text \<open>\<open>stop_position_updates\<close> up to \<open>join\<close>.\<close>

definition dummy_stop :: "dummy_provider \<Rightarrow> dummy_provider" where
  "dummy_stop d =
     (if dummy_state_of d \<noteq> dummy_started then d
      else d\<lparr>dummy_state_of := dummy_stopping, stop_requested := True, dummy_joining := (dummy_worker d \<noteq> No_thread)\<rparr>)"

text \<open>A step of the thread, with what the clock says for the position, the heading and the velocity.\<close>

definition dummy_thread :: "dummy_configuration \<Rightarrow> int \<times> int \<times> int \<Rightarrow> dummy_provider \<Rightarrow> dummy_provider option" where
  "dummy_thread c now d =
     (case dummy_worker d of
        No_thread \<Rightarrow> Some d
      | Spawned \<Rightarrow> Some (d\<lparr>dummy_state_of := dummy_started, dummy_worker := Looping\<rparr>)
      | Looping \<Rightarrow>
          (if stop_requested d then Some (d\<lparr>dummy_worker := Left_loop\<rparr>)
           else case now of (tp, th, tv) \<Rightarrow>
             Some (d\<lparr>dummy_published := dummy_published d @
               [Pub_position (make_update (reference_position c) tp), Pub_heading (make_update (reference_heading c) th),
                Pub_velocity (make_update (reference_velocity c) tv)]\<rparr>))
      | Left_loop \<Rightarrow> Some (d\<lparr>dummy_state_of := dummy_stopped, dummy_worker := Ended\<rparr>)
      | Ended \<Rightarrow> Some d)"

definition dummy_join :: "dummy_provider \<Rightarrow> dummy_provider" where
  "dummy_join d = (if dummy_joining d \<and> dummy_worker d = Ended then d\<lparr>dummy_worker := No_thread, dummy_joining := False\<rparr> else d)"

datatype dummy_event = Dummy_start | Dummy_stop | Dummy_join | Dummy_thread "int \<times> int \<times> int"

text \<open>The client thread calls nothing while it waits.\<close>

fun dummy_step :: "dummy_configuration \<Rightarrow> dummy_event \<Rightarrow> dummy_provider \<Rightarrow> dummy_provider option" where
  "dummy_step c Dummy_start d = (if dummy_joining d then Some d else dummy_start d)"
| "dummy_step c Dummy_stop d = Some (if dummy_joining d then d else dummy_stop d)"
| "dummy_step c Dummy_join d = Some (dummy_join d)"
| "dummy_step c (Dummy_thread now) d = dummy_thread c now d"

definition dummy_run :: "dummy_configuration \<Rightarrow> dummy_event list \<Rightarrow> dummy_provider option" where
  "dummy_run c es = worker_run (dummy_step c) es new_dummy"

section \<open>The gpsd provider\<close>

text \<open>\<open>gps_data_t\<close>, as far as it is read. A \<open>double\<close> is true unless it compares equal to zero.\<close>

record gpsd_fix =
  fix_mode :: int
  fix_latitude :: double
  fix_longitude :: double
  fix_altitude :: double
  fix_epy :: double
  fix_speed :: double
  fix_track :: double

fun is_finite :: "double \<Rightarrow> bool" where
  "is_finite (Fin x) = True"
| "is_finite _ = False"

definition truthy :: "double \<Rightarrow> bool" where
  "truthy x \<longleftrightarrow> \<not> dbl_eq x (Fin 0)"

definition mode_3d :: int where "mode_3d = 3"

definition on_data :: "int \<Rightarrow> gpsd_fix \<Rightarrow> published list result" where
  "on_data now data =
     result_bind
       (if truthy (fix_latitude data) \<and> truthy (fix_longitude data) then
          result_bind (make_coordinate check_latitude (fix_latitude data)) (\<lambda>lat.
          result_bind (make_coordinate check_longitude (fix_longitude data)) (\<lambda>lon.
            let pos = position_lat_lon lat lon;
                pos = (if fix_mode data = mode_3d \<and> truthy (fix_altitude data) then pos\<lparr>altitude := Some (fix_altitude data)\<rparr> else pos);
                pos = pos\<lparr>horizontal := Some (if truthy (fix_epy data) then fix_epy data else Fin 10)\<rparr>
            in Inr [Pub_position (make_update pos now)]))
        else Inr [])
       (\<lambda>ps. Inr (ps @
          (if truthy (fix_speed data) then [Pub_velocity (make_update (fix_speed data) now)] else []) @
          (if truthy (fix_track data) then [Pub_heading (make_update (fix_track data) now)] else [])))"

text \<open>What \<open>waiting\<close> and \<open>read\<close> deliver in one iteration, and the flags passed to \<open>stream\<close>.\<close>

datatype gpsd_input = No_data | Read_error | Data gpsd_fix

datatype watch = Watch_enable | Watch_disable

datatype gpsd_thread = Gpsd_none | Gpsd_spawned | Gpsd_test | Gpsd_body | Gpsd_ended

record gpsd =
  m_run :: bool
  m_worker :: gpsd_thread
  gpsd_joining :: bool
  gpsd_watch :: "watch list"
  gpsd_published :: "published list"

definition new_gpsd :: gpsd where
  "new_gpsd = \<lparr>m_run = False, m_worker = Gpsd_none, gpsd_joining = False, gpsd_watch = [], gpsd_published = []\<rparr>"

definition gpsd_start :: "gpsd \<Rightarrow> gpsd" where
  "gpsd_start g =
     (if m_run g then g
      else let g = g\<lparr>m_run := True\<rparr> in if m_worker g = Gpsd_none then g\<lparr>m_worker := Gpsd_spawned\<rparr> else g)"

definition gpsd_stop :: "gpsd \<Rightarrow> gpsd" where
  "gpsd_stop g = (if \<not> m_run g then g else g\<lparr>m_run := False, gpsd_joining := (m_worker g \<noteq> Gpsd_none)\<rparr>)"

definition gpsd_join :: "gpsd \<Rightarrow> gpsd" where
  "gpsd_join g = (if gpsd_joining g \<and> m_worker g = Gpsd_ended then g\<lparr>m_worker := Gpsd_none, gpsd_joining := False\<rparr> else g)"

text \<open>The body of the loop.\<close>

definition gpsd_iteration :: "int \<Rightarrow> gpsd_input \<Rightarrow> gpsd \<Rightarrow> gpsd option" where
  "gpsd_iteration now inp g =
     (case inp of
        No_data \<Rightarrow> Some (g\<lparr>gpsd_watch := gpsd_watch g @ [Watch_enable]\<rparr>)
      | Read_error \<Rightarrow> Some g
      | Data data \<Rightarrow>
          if is_finite (fix_latitude data) \<and> is_finite (fix_longitude data) \<and> is_finite (fix_altitude data)
          then (case on_data now data of Inl e \<Rightarrow> None | Inr ps \<Rightarrow> Some (g\<lparr>gpsd_published := gpsd_published g @ ps\<rparr>))
          else Some g)"

definition gpsd_loop :: "int \<times> gpsd_input \<Rightarrow> gpsd \<Rightarrow> gpsd option" where
  "gpsd_loop inp g =
     (case m_worker g of
        Gpsd_none \<Rightarrow> Some g
      | Gpsd_spawned \<Rightarrow> Some (g\<lparr>gpsd_watch := gpsd_watch g @ [Watch_enable], m_worker := Gpsd_test\<rparr>)
      | Gpsd_test \<Rightarrow>
          if m_run g then Some (g\<lparr>m_worker := Gpsd_body\<rparr>)
          else Some (g\<lparr>gpsd_watch := gpsd_watch g @ [Watch_disable], m_worker := Gpsd_ended\<rparr>)
      | Gpsd_body \<Rightarrow> gpsd_iteration (fst inp) (snd inp) (g\<lparr>m_worker := Gpsd_test\<rparr>)
      | Gpsd_ended \<Rightarrow> Some g)"

text \<open>The six overridden methods.\<close>

fun gpsd_call :: "call \<Rightarrow> gpsd \<Rightarrow> gpsd" where
  "gpsd_call (Start ch) g = gpsd_start g"
| "gpsd_call (Stop ch) g = gpsd_stop g"

datatype gpsd_event = Gpsd_call call | Gpsd_join | Gpsd_thread "int \<times> gpsd_input"

fun gpsd_step :: "gpsd_event \<Rightarrow> gpsd \<Rightarrow> gpsd option" where
  "gpsd_step (Gpsd_call c) g = Some (if gpsd_joining g then g else gpsd_call c g)"
| "gpsd_step Gpsd_join g = Some (gpsd_join g)"
| "gpsd_step (Gpsd_thread inp) g = gpsd_loop inp g"

definition gpsd_run :: "gpsd_event list \<Rightarrow> gpsd option" where
  "gpsd_run es = worker_run gpsd_step es new_gpsd"

record gpsd_configuration =
  gpsd_host :: string
  gpsd_port :: string
  gpsd_features :: flags
  gpsd_requirements :: flags

definition gpsd_create_instance :: "(string \<times> string) list \<Rightarrow> gpsd_configuration" where
  "gpsd_create_instance config =
     \<lparr>gpsd_host = (if has_key ''host'' config then get_or Some ''host'' [] config else ''localhost''),
      gpsd_port = (if has_key ''port'' config then get_or Some ''port'' [] config else ''2947''),
      gpsd_features = feature_none, gpsd_requirements = requirement_none\<rparr>"

section \<open>The handlers of the Geoclue provider\<close>

text \<open>
  The bit positions that \<open>Geoclue::Position::Field\<close> and \<open>Velocity::Field\<close> name, tested in the word of fields of a signal.
\<close>

definition field_latitude :: nat where "field_latitude = 1"
definition field_longitude :: nat where "field_longitude = 2"
definition field_altitude :: nat where "field_altitude = 3"
definition field_speed :: nat where "field_speed = 1"
definition field_direction :: nat where "field_direction = 2"

definition geoclue_position_changed :: "int \<Rightarrow> 32 word \<times> double \<times> double \<times> double \<Rightarrow> published list result" where
  "geoclue_position_changed now arg =
     (case arg of (fl, lat, lon, alt) \<Rightarrow>
        result_bind (make_coordinate check_latitude (if bit fl field_latitude then lat else Fin 0)) (\<lambda>lat.
        result_bind (make_coordinate check_longitude (if bit fl field_longitude then lon else Fin 0)) (\<lambda>lon.
          let pos = position_lat_lon lat lon;
              pos = (if bit fl field_altitude then pos\<lparr>altitude := Some alt\<rparr> else pos)
          in Inr [Pub_position (make_update pos now)])))"

definition geoclue_velocity_changed :: "int \<Rightarrow> 32 word \<times> double \<times> double \<Rightarrow> published list" where
  "geoclue_velocity_changed now arg =
     (case arg of (fl, speed, direction) \<Rightarrow>
        if take_bit 4 fl = 0 then []
        else (if bit fl field_speed then [Pub_velocity (make_update speed now)] else []) @
             (if bit fl field_direction then [Pub_heading (make_update direction now)] else []))"

definition geoclue_create_instance :: "(string \<times> string) list \<Rightarrow> (string \<times> string) result" where
  "geoclue_create_instance config =
     result_bind (if has_key ''name'' config then Inr (get_or Some ''name'' [] config) else Inl (runtime_error ''Missing bus-name''))
       (\<lambda>name.
     result_bind (if has_key ''path'' config then Inr (get_or Some ''path'' [] config) else Inl (runtime_error ''Missing bus-path''))
       (\<lambda>path. Inr (name, path)))"

section \<open>Lemmas on the dummy provider\<close>

fun dummy_inv :: "dummy_provider \<Rightarrow> bool" where
  "dummy_inv d \<longleftrightarrow>
     (case dummy_worker d of
        No_thread \<Rightarrow> dummy_state_of d = dummy_stopped \<and> \<not> dummy_joining d
      | Spawned \<Rightarrow> dummy_state_of d = dummy_stopped \<and> \<not> dummy_joining d \<and> \<not> stop_requested d
      | Looping \<Rightarrow> (if dummy_joining d then dummy_state_of d = dummy_stopping else dummy_state_of d = dummy_started) \<and>
          stop_requested d = dummy_joining d
      | Left_loop \<Rightarrow> dummy_state_of d = dummy_stopping \<and> dummy_joining d \<and> stop_requested d
      | Ended \<Rightarrow> dummy_state_of d = dummy_stopped \<and> dummy_joining d)"

lemmas dummy_ops = dummy_start_def dummy_stop_def dummy_join_def dummy_thread_def Let_def

lemma dummy_step_inv: "dummy_inv d \<Longrightarrow> dummy_step c e d = Some d' \<Longrightarrow> dummy_inv d'"
  by (cases e) (auto simp: dummy_ops split: worker_thread.splits if_splits)

lemma worker_run_invariant:
  assumes "\<And>e s s'. P s \<Longrightarrow> st e s = Some s' \<Longrightarrow> P s'"
  shows "P s \<Longrightarrow> worker_run st es s = Some s' \<Longrightarrow> P s'"
  by (induction es arbitrary: s) (auto split: option.splits dest: assms)

lemma worker_run_append: "worker_run st (es @ fs) s = (case worker_run st es s of None \<Rightarrow> None | Some s' \<Rightarrow> worker_run st fs s')"
  by (induction es arbitrary: s) (auto split: option.splits)

lemma dummy_run_inv: "dummy_run c es = Some d \<Longrightarrow> dummy_inv d"
  unfolding dummy_run_def
  by (rule worker_run_invariant [where P = dummy_inv, OF dummy_step_inv]) (auto simp: new_dummy_def)

fun dummy_rank :: "dummy_provider \<Rightarrow> nat" where
  "dummy_rank d = (case dummy_worker d of Looping \<Rightarrow> 2 | Left_loop \<Rightarrow> 1 | _ \<Rightarrow> 0)"

interpretation dw: joined_worker dummy_inv "dummy_thread c" "\<lambda>_. True" dummy_joining "\<lambda>d. dummy_worker d = Ended" dummy_rank
proof unfold_locales
  fix s i
  assume "dummy_inv s" "dummy_joining s" "dummy_worker s \<noteq> Ended"
  then show "\<exists>s'. dummy_thread c i s = Some s' \<and> dummy_inv s' \<and> dummy_joining s' \<and> dummy_rank s' < dummy_rank s"
    by (cases "dummy_worker s") (simp_all add: dummy_thread_def)
qed (auto simp: dummy_thread_def split: worker_thread.splits)

lemma dummy_join_ends:
  assumes "dummy_worker d = Looping" "stop_requested d" "length ts \<ge> 2"
  shows "worker_run (dummy_thread c) ts d = Some (d\<lparr>dummy_state_of := dummy_stopped, dummy_worker := Ended\<rparr>)"
proof -
  obtain t1 t2 ts' where ts: "ts = t1 # t2 # ts'" using assms(3) by (metis Suc_le_length_iff numeral_2_eq_2)
  show ?thesis using assms(1,2) unfolding ts by (simp add: dummy_thread_def dw.run_finished)
qed

lemma worker_run_map:
  assumes "\<And>i s. st (f i) s = st' i s"
  shows "worker_run st (map f is) s = worker_run st' is s"
  by (induction "is" arbitrary: s) (auto simp: assms split: option.split)

lemma dummy_threads: "worker_run (dummy_step c) (map Dummy_thread ts) d = worker_run (dummy_thread c) ts d"
  by (rule worker_run_map) simp

lemma dummy_thread_loops:
  "dummy_worker d = Looping \<Longrightarrow> \<not> stop_requested d \<Longrightarrow> dummy_thread c (tp, th, tv) d =
     Some (d\<lparr>dummy_published := dummy_published d @
       [Pub_position (make_update (reference_position c) tp), Pub_heading (make_update (reference_heading c) th),
        Pub_velocity (make_update (reference_velocity c) tv)]\<rparr>)"
  by (simp add: dummy_thread_def)

lemma dummy_publishes:
  assumes "dummy_worker d = Looping" "\<not> stop_requested d"
  shows "\<exists>ps. worker_run (dummy_thread c) ts d = Some (d\<lparr>dummy_published := dummy_published d @ ps\<rparr>) \<and> length ps = 3 * length ts"
  using assms
proof (induction ts arbitrary: d)
  case (Cons t ts)
  obtain tp th tv where t: "t = (tp, th, tv)" by (cases t)
  let ?new = "[Pub_position (make_update (reference_position c) tp), Pub_heading (make_update (reference_heading c) th),
    Pub_velocity (make_update (reference_velocity c) tv)]"
  obtain ps where "worker_run (dummy_thread c) ts (d\<lparr>dummy_published := dummy_published d @ ?new\<rparr>) =
      Some (d\<lparr>dummy_published := dummy_published d @ ?new @ ps\<rparr>)" "length ps = 3 * length ts"
    using Cons.IH [of "d\<lparr>dummy_published := dummy_published d @ ?new\<rparr>"] Cons.prems by auto
  then show ?case using Cons.prems by (intro exI [of _ "?new @ ps"]) (simp add: dummy_thread_loops t)
qed simp

section \<open>Properties of the dummy provider\<close>



text \<open>
  A stop that comes before the thread of the provider has run its first statement is lost: the provider goes on
  publishing three updates in every iteration although nobody observes it. And a start that follows such a stop ends the
  process, because it assigns to a joinable thread.
\<close>

theorem dummy_early_stop_lost:
  assumes "dummy_run c es = Some d" and "dummy_worker d = No_thread"
  shows "dummy_run c (es @ [Dummy_start, Dummy_stop, Dummy_start]) = None \<and>
    (\<exists>d'. dummy_run c (es @ [Dummy_start, Dummy_stop, Dummy_thread t] @ map Dummy_thread ts) = Some d' \<and>
       dummy_state_of d' = dummy_started \<and> length (dummy_published d') = length (dummy_published d) + 3 * length ts)"
proof -
  have d: "dummy_state_of d = dummy_stopped" "\<not> dummy_joining d" "worker_run (dummy_step c) es new_dummy = Some d"
    using dummy_run_inv [OF assms(1)] assms by (simp_all add: dummy_run_def)
  let ?d = "d\<lparr>stop_requested := False, dummy_state_of := dummy_started, dummy_worker := Looping\<rparr>"
  obtain ps where "worker_run (dummy_thread c) ts ?d = Some (?d\<lparr>dummy_published := dummy_published d @ ps\<rparr>)"
      "length ps = 3 * length ts"
    using dummy_publishes [of ?d c ts] by auto
  with d assms(2) show ?thesis
    by (simp add: dummy_run_def worker_run_append dummy_threads dummy_ops)
qed

theorem dummy_early_stop_lost_witness:
  "dummy_run dummy_configuration_default [Dummy_start, Dummy_stop, Dummy_start] = None"
proof -
  have "dummy_run dummy_configuration_default [] = Some new_dummy" "dummy_worker new_dummy = No_thread"
    by (simp_all add: dummy_run_def new_dummy_def)
  from dummy_early_stop_lost [OF this] show ?thesis by simp
qed

text \<open>
  An instance of the dummy provider is created exactly when the configured coordinates are in range, and then
  it publishes the configured values and the documented defaults for what is not configured; the altitude is that of the
  default configuration.
\<close>

theorem dummy_instance_from_options:
  "(\<exists>i. dummy_create_instance parse_int parse_double config = Inr i) \<longleftrightarrow>
     \<not> dbl_lt (get_or parse_double ''ReferenceLocationLat'' (Fin 51) config) (Fin (- 90)) \<and>
     \<not> dbl_gt (get_or parse_double ''ReferenceLocationLat'' (Fin 51) config) (Fin 90) \<and>
     \<not> dbl_lt (get_or parse_double ''ReferenceLocationLon'' (Fin 7) config) (Fin (- 180)) \<and>
     \<not> dbl_gt (get_or parse_double ''ReferenceLocationLon'' (Fin 7) config) (Fin 180)"
  by (auto simp: dummy_create_instance_def result_bind_def make_coordinate_def check_latitude_def check_longitude_def
      latitude_min_def latitude_max_def longitude_min_def longitude_max_def Let_def split: sum.splits)

section \<open>Lemmas on the gpsd provider\<close>

fun gpsd_inv :: "gpsd \<Rightarrow> bool" where
  "gpsd_inv g \<longleftrightarrow>
     (case m_worker g of
        Gpsd_none \<Rightarrow> \<not> m_run g \<and> \<not> gpsd_joining g
      | Gpsd_ended \<Rightarrow> \<not> m_run g \<and> gpsd_joining g
      | _ \<Rightarrow> m_run g = (\<not> gpsd_joining g))"

lemma gpsd_iteration_keeps:
  "gpsd_iteration now inp g = Some g' \<Longrightarrow> m_run g' = m_run g \<and> m_worker g' = m_worker g \<and> gpsd_joining g' = gpsd_joining g"
  by (auto simp: gpsd_iteration_def split: gpsd_input.splits if_splits sum.splits)

lemma gpsd_step_inv: "gpsd_inv g \<Longrightarrow> gpsd_step e g = Some g' \<Longrightarrow> gpsd_inv g'"
proof (cases e)
  case (Gpsd_thread inp)
  assume "gpsd_inv g" "gpsd_step e g = Some g'"
  with Gpsd_thread show ?thesis
    by (auto simp: gpsd_loop_def split: gpsd_thread.splits if_splits dest!: gpsd_iteration_keeps)
next
  case (Gpsd_call c)
  assume "gpsd_inv g" "gpsd_step e g = Some g'"
  with Gpsd_call show ?thesis
    by (cases c) (auto simp: gpsd_start_def gpsd_stop_def Let_def split: gpsd_thread.splits if_splits)
qed (auto simp: gpsd_join_def split: gpsd_thread.splits if_splits)

lemma gpsd_run_inv: "gpsd_run es = Some g \<Longrightarrow> gpsd_inv g"
  unfolding gpsd_run_def
  by (rule worker_run_invariant [where P = gpsd_inv, OF gpsd_step_inv]) (auto simp: new_gpsd_def)

fun gpsd_rank :: "gpsd \<Rightarrow> nat" where
  "gpsd_rank g = (case m_worker g of Gpsd_spawned \<Rightarrow> 2 | Gpsd_body \<Rightarrow> 2 | Gpsd_test \<Rightarrow> 1 | _ \<Rightarrow> 0)"

text \<open>Data that the constructors of the coordinates accept.\<close>

definition in_range :: "int \<times> gpsd_input \<Rightarrow> bool" where
  "in_range i = (case snd i of Data data \<Rightarrow> check_latitude (fix_latitude data) = Inr () \<and> check_longitude (fix_longitude data) = Inr ()
     | _ \<Rightarrow> True)"

lemma in_range_iteration: "in_range i \<Longrightarrow> \<exists>g'. gpsd_iteration (fst i) (snd i) g = Some g'"
  by (auto simp: in_range_def gpsd_iteration_def on_data_def make_coordinate_def result_bind_def Let_def
      split: gpsd_input.splits)

interpretation gw: joined_worker gpsd_inv gpsd_loop in_range gpsd_joining "\<lambda>g. m_worker g = Gpsd_ended" gpsd_rank
proof unfold_locales
  fix s i
  assume a: "gpsd_inv s" "gpsd_joining s" "m_worker s \<noteq> Gpsd_ended" "in_range i"
  obtain g' where g': "gpsd_iteration (fst i) (snd i) (s\<lparr>m_worker := Gpsd_test\<rparr>) = Some g'"
    using in_range_iteration [OF a(4)] by blast
  then have "m_run g' = m_run s \<and> m_worker g' = Gpsd_test \<and> gpsd_joining g' = gpsd_joining s"
    by (auto dest: gpsd_iteration_keeps)
  with a g' show "\<exists>s'. gpsd_loop i s = Some s' \<and> gpsd_inv s' \<and> gpsd_joining s' \<and> gpsd_rank s' < gpsd_rank s"
    by (cases "m_worker s") (simp_all add: gpsd_loop_def)
qed (auto simp: gpsd_loop_def split: gpsd_thread.splits)

lemma gpsd_threads: "worker_run gpsd_step (map Gpsd_thread is) g = worker_run gpsd_loop is g"
  by (rule worker_run_map) simp

lemma gpsd_idle: "m_worker g = Gpsd_none \<Longrightarrow> worker_run gpsd_loop is g = Some g"
  by (induction "is") (simp_all add: gpsd_loop_def)

definition movement :: "int \<Rightarrow> gpsd_fix \<Rightarrow> published list" where
  "movement now data =
     (if truthy (fix_speed data) then [Pub_velocity (make_update (fix_speed data) now)] else []) @
     (if truthy (fix_track data) then [Pub_heading (make_update (fix_track data) now)] else [])"

lemma set_movement:
  "v \<in> set (movement now data) \<Longrightarrow> v = Pub_velocity (make_update (fix_speed data) now) \<or> v = Pub_heading (make_update (fix_track data) now)"
  by (auto simp: movement_def split: if_splits)

lemma coordinates_in_range:
  "\<bar>x\<bar> \<le> 90 \<Longrightarrow> make_coordinate check_latitude (Fin x) = Inr (Fin x)"
  "\<bar>x\<bar> \<le> 180 \<Longrightarrow> make_coordinate check_longitude (Fin x) = Inr (Fin x)"
  by (auto simp: make_coordinate_def check_latitude_def check_longitude_def latitude_min_def latitude_max_def
      longitude_min_def longitude_max_def)

lemma on_data_in_range:
  assumes "fix_latitude data = Fin lat" "fix_longitude data = Fin lon" "fix_altitude data = Fin alt" "\<bar>lat\<bar> \<le> 90" "\<bar>lon\<bar> \<le> 180"
  shows "on_data now data = Inr (
    (if lat = 0 \<or> lon = 0 then []
     else [Pub_position (make_update \<lparr>latitude = Fin lat, longitude = Fin lon,
       altitude = (if fix_mode data = 3 \<and> alt \<noteq> 0 then Some (Fin alt) else None),
       horizontal = Some (if dbl_eq (fix_epy data) (Fin 0) then Fin 10 else fix_epy data), vertical = None\<rparr> now)]) @ movement now data)"
  using assms
  by (simp add: on_data_def coordinates_in_range truthy_def result_bind_def mode_3d_def position_lat_lon_def
      position_default_def movement_def Let_def)

section \<open>Properties of the gpsd provider\<close>

text \<open>
  The three channels of a gpsd provider share one flag. Stopping any of them stops the provider: the call returns
  after two steps of the thread, and from then on nothing is published on any channel until the next start.
\<close>

theorem gpsd_stop_of_a_channel_stops_all:
  assumes "gpsd_run es = Some g" and "\<not> gpsd_joining g" and "list_all in_range is" and "length is \<ge> 2"
  shows "\<exists>g'. worker_run gpsd_step (Gpsd_call (Stop ch) # map Gpsd_thread is @ [Gpsd_join]) g = Some g' \<and>
    \<not> m_run g' \<and> m_worker g' = Gpsd_none \<and> \<not> gpsd_joining g' \<and> worker_run gpsd_step (map Gpsd_thread js) g' = Some g'"
proof (cases "m_run g")
  case False
  then have "m_worker g = Gpsd_none" using gpsd_run_inv [OF assms(1)] assms(2) by (auto split: gpsd_thread.splits)
  with False assms(2) show ?thesis
    by (simp add: worker_run_append gpsd_threads gpsd_idle gpsd_stop_def gpsd_join_def)
next
  case True
  let ?g = "gpsd_stop g"
  have "gpsd_inv ?g" "gpsd_joining ?g"
    using gpsd_run_inv [OF assms(1)] True assms(2) by (auto simp: gpsd_stop_def split: gpsd_thread.splits)
  moreover have "gpsd_rank ?g \<le> length is" using assms(4) by (simp split: gpsd_thread.split)
  ultimately obtain g' where g': "worker_run gpsd_loop is ?g = Some g'" "gpsd_inv g'" "gpsd_joining g'" "m_worker g' = Gpsd_ended"
    using gw.join_returns assms(3) by blast
  with g' assms(2) show ?thesis
    by (simp add: worker_run_append gpsd_threads gpsd_idle gpsd_join_def)
qed

theorem gpsd_stop_of_a_channel_stops_all_witness:
  "\<exists>g g'. gpsd_run [Gpsd_call (Start ch_position), Gpsd_call (Start ch_velocity), Gpsd_thread (0, No_data)] = Some g \<and>
     worker_run gpsd_step [Gpsd_call (Stop ch_velocity), Gpsd_thread (0, No_data), Gpsd_thread (0, No_data), Gpsd_join] g = Some g' \<and>
     \<not> m_run g'"
proof -
  let ?es = "[Gpsd_call (Start ch_position), Gpsd_call (Start ch_velocity), Gpsd_thread (0, No_data)]"
  obtain g where g: "gpsd_run ?es = Some g" "\<not> gpsd_joining g"
    by (simp add: gpsd_run_def new_gpsd_def gpsd_start_def gpsd_loop_def)
  have "list_all in_range [(0, No_data), (0, No_data)]" by (simp add: in_range_def)
  from gpsd_stop_of_a_channel_stops_all [OF g this, of ch_velocity] obtain g'
    where "worker_run gpsd_step (Gpsd_call (Stop ch_velocity) # map Gpsd_thread [(0, No_data), (0, No_data)] @ [Gpsd_join]) g = Some g'"
      "\<not> m_run g'" by auto
  with g(1) show ?thesis by (simp only: list.map append.simps) blast
qed

text \<open>
  The controller of a gpsd provider with observers of two channels therefore starves one of them: when the second
  observer leaves, the controller still counts the first one and the provider is stopped.
\<close>

theorem gpsd_observer_starved:
  assumes "ch \<noteq> ch'"
  shows "let (c, calls) = controller_run [Start ch, Start ch', Stop ch'] new_controller
    in counter ch c = 1 \<and> (\<exists>g. gpsd_run (map Gpsd_call calls) = Some g \<and> \<not> m_run g)"
  using assms
  by (cases ch; cases ch') (simp_all add: new_controller_def start_position_updates_def start_heading_updates_def
      start_velocity_updates_def stop_position_updates_def stop_heading_updates_def stop_velocity_updates_def
      gpsd_run_def new_gpsd_def gpsd_start_def gpsd_stop_def Let_def)

theorem gpsd_observer_starved_witness:
  "let (c, calls) = controller_run [Start ch_position, Start ch_heading, Stop ch_heading] new_controller
   in counter ch_position c = 1 \<and> (\<exists>g. gpsd_run (map Gpsd_call calls) = Some g \<and> \<not> m_run g)"
  by (rule gpsd_observer_starved) simp

text \<open>
  What an iteration publishes. A fix with a missing altitude is dropped altogether, although its mode is
  tested later; a fix on the equator or on the prime meridian publishes no position; any other fix in range publishes a
  position with its coordinates, its altitude if the fix is three-dimensional, and a horizontal accuracy that is ten
  metres if none is given.
\<close>

theorem gpsd_iteration_publishes:
  "(\<not> is_finite (fix_altitude data) \<longrightarrow> gpsd_iteration now (Data data) g = Some g) \<and>
   (fix_latitude data = Fin lat \<and> fix_longitude data = Fin lon \<and> fix_altitude data = Fin alt \<and>
    \<bar>lat\<bar> \<le> 90 \<and> \<bar>lon\<bar> \<le> 180 \<longrightarrow>
    (\<exists>vs. gpsd_iteration now (Data data) g = Some (g\<lparr>gpsd_published := gpsd_published g @
       (if lat = 0 \<or> lon = 0 then []
        else [Pub_position (make_update \<lparr>latitude = Fin lat, longitude = Fin lon,
          altitude = (if fix_mode data = 3 \<and> alt \<noteq> 0 then Some (Fin alt) else None),
          horizontal = Some (if dbl_eq (fix_epy data) (Fin 0) then Fin 10 else fix_epy data), vertical = None\<rparr> now)]) @ vs\<rparr>) \<and>
       (\<forall>v\<in>set vs. v = Pub_velocity (make_update (fix_speed data) now) \<or> v = Pub_heading (make_update (fix_track data) now))))"
proof (intro conjI impI)
  assume "\<not> is_finite (fix_altitude data)"
  then show "gpsd_iteration now (Data data) g = Some g" by (simp add: gpsd_iteration_def)
next
  assume "fix_latitude data = Fin lat \<and> fix_longitude data = Fin lon \<and> fix_altitude data = Fin alt \<and> \<bar>lat\<bar> \<le> 90 \<and> \<bar>lon\<bar> \<le> 180"
  then show "\<exists>vs. gpsd_iteration now (Data data) g = Some (g\<lparr>gpsd_published := gpsd_published g @
      (if lat = 0 \<or> lon = 0 then []
       else [Pub_position (make_update \<lparr>latitude = Fin lat, longitude = Fin lon,
         altitude = (if fix_mode data = 3 \<and> alt \<noteq> 0 then Some (Fin alt) else None),
         horizontal = Some (if dbl_eq (fix_epy data) (Fin 0) then Fin 10 else fix_epy data), vertical = None\<rparr> now)]) @ vs\<rparr>) \<and>
      (\<forall>v\<in>set vs. v = Pub_velocity (make_update (fix_speed data) now) \<or> v = Pub_heading (make_update (fix_track data) now))"
    by (intro exI [of _ "movement now data"]) (simp add: gpsd_iteration_def on_data_in_range set_movement)
qed

section \<open>Properties of the Geoclue provider\<close>

text \<open>
  Geoclue documents the field flags as one bit each: latitude 0, longitude 1, altitude 2. The provider takes the
  numbers of its own \<open>Field\<close> for bit positions and so tests the neighbouring bits: from a report of
  latitude and longitude it publishes the longitude zero, and it never publishes an altitude.
\<close>

theorem geoclue_fields_off_by_one:
  assumes "bit fl 1 = has_lon" "bit fl 2 = has_alt" "\<not> bit fl 3" "\<bar>lat\<bar> \<le> 90" "\<bar>lon\<bar> \<le> 180"
  shows "geoclue_position_changed now (fl, Fin lat, Fin lon, alt) =
    Inr [Pub_position (make_update (position_lat_lon (Fin (if has_lon then lat else 0)) (Fin (if has_alt then lon else 0))) now)]"
  using assms
  by (simp add: geoclue_position_changed_def field_latitude_def field_longitude_def field_altitude_def result_bind_def
      coordinates_in_range Let_def)

theorem geoclue_fields_off_by_one_witness:
  "geoclue_position_changed 0 (3, Fin 51, Fin 7, Fin 80) = Inr [Pub_position (make_update (position_lat_lon (Fin 51) (Fin 0)) 0)]"
  using geoclue_fields_off_by_one [of 3 True False 51 7 0 "Fin 80"] by (simp add: bit_numeral_word_iff)

end
