(* ===== verification/Geoclue.thy ===== *)
theory Geoclue
  imports Worker_Providers
begin

text \<open>
  The life of the Geoclue providers (\<open>providers/geoclue/provider.cpp\<close>): their construction, and the
  threads that run the session bus all of them share. The handlers of the signals are in the theory of
  the worker providers.

  \<open>Bus::run\<close> dispatches until \<open>Bus::stop\<close>, which makes every thread in it return (dbus-cpp); the handlers
  of all providers are called by whichever thread dispatches. A thread that has returned is joinable
  until it is joined.
\<close>

section \<open>Construction\<close>

datatype geoclue_status = Geoclue_error | Geoclue_unavailable | Geoclue_acquiring | Geoclue_available

definition geoclue_status_lut :: "(geoclue_status \<times> string) list" where
  "geoclue_status_lut = [(Geoclue_error, ''error''), (Geoclue_unavailable, ''unavailable''),
     (Geoclue_acquiring, ''acquiring''), (Geoclue_available, ''available'')]"

text \<open>Looking up a value that is not in the map inserts the empty string.\<close>

definition geoclue_status_of_int :: "int \<Rightarrow> geoclue_status option" where
  "geoclue_status_of_int i =
     (if i = 0 then Some Geoclue_error else if i = 1 then Some Geoclue_unavailable
      else if i = 2 then Some Geoclue_acquiring else if i = 3 then Some Geoclue_available else None)"

definition print_geoclue_status :: "int \<Rightarrow> string" where
  "print_geoclue_status i = (case geoclue_status_of_int i of
       None \<Rightarrow> [] | Some s \<Rightarrow> (case map_of geoclue_status_lut s of None \<Rightarrow> [] | Some n \<Rightarrow> n))"

text \<open>
  The constructor asks for the description and the status of the provider; \<open>value()\<close> throws on a reply
  that is an error. The result is the line it prints.
\<close>

definition geoclue_constructor :: "(string \<times> string) result \<Rightarrow> int result \<Rightarrow> string result" where
  "geoclue_constructor info status =
     result_bind info (\<lambda>i. result_bind status (\<lambda>s.
       Inr (''GeoclueProvider: ['' @ fst i @ '', '' @ snd i @ '','' @ print_geoclue_status s @ '']'')))"

section \<open>The shared session bus\<close>

datatype bus_thread = No_thread | Dispatching | Returned

type_synonym bus_threads = "nat \<Rightarrow> bus_thread"

definition thread_joinable :: "bus_thread \<Rightarrow> bool" where
  "thread_joinable t \<longleftrightarrow> t \<noteq> No_thread"

definition session_bus_stop :: "bus_threads \<Rightarrow> bus_threads" where
  "session_bus_stop s = (\<lambda>q. if s q = Dispatching then Returned else s q)"

definition geoclue_start :: "nat \<Rightarrow> bus_threads \<Rightarrow> bus_threads" where
  "geoclue_start p s = (if \<not> thread_joinable (s p) then s(p := Dispatching) else s)"

definition geoclue_stop :: "nat \<Rightarrow> bus_threads \<Rightarrow> bus_threads" where
  "geoclue_stop p s = (let s = session_bus_stop s in if thread_joinable (s p) then s(p := No_thread) else s)"

text \<open>The six methods of a provider only differ in their names.\<close>

fun geoclue_call :: "nat \<times> call \<Rightarrow> bus_threads \<Rightarrow> bus_threads" where
  "geoclue_call (p, Start ch) s = geoclue_start p s"
| "geoclue_call (p, Stop ch) s = geoclue_stop p s"

definition geoclue_run :: "(nat \<times> call) list \<Rightarrow> bus_threads" where
  "geoclue_run cs = fold geoclue_call cs (\<lambda>_. No_thread)"

definition bus_dispatches :: "bus_threads \<Rightarrow> bool" where
  "bus_dispatches s \<longleftrightarrow> (\<exists>p. s p = Dispatching)"

section \<open>Stopping one stops all\<close>

lemma geoclue_run_append: "geoclue_run (cs @ ds) = fold geoclue_call ds (geoclue_run cs)"
  by (simp add: geoclue_run_def)

lemma stop_no_dispatch: "geoclue_stop p s q \<noteq> Dispatching"
  by (simp add: geoclue_stop_def session_bus_stop_def thread_joinable_def Let_def)

lemma stop_keeps_joinable: "q \<noteq> p \<Longrightarrow> thread_joinable (geoclue_stop p s q) = thread_joinable (s q)"
  by (simp add: geoclue_stop_def session_bus_stop_def thread_joinable_def Let_def)

lemma starts_dispatch:
  "\<forall>c \<in> set cs. \<exists>p ch. c = (p, Start ch) \<Longrightarrow>
     fold geoclue_call cs s p = (if p \<in> fst ` set cs then if thread_joinable (s p) then s p else Dispatching else s p)"
proof (induction cs arbitrary: s)
  case (Cons c cs)
  then obtain q ch where c: "c = (q, Start ch)" by auto
  show ?case using Cons.IH [of "geoclue_call c s"] Cons.prems by (auto simp: c geoclue_start_def thread_joinable_def)
qed simp

text \<open>
  Stopping any channel of any Geoclue provider ends the dispatching of the session bus for all of them.
  A provider whose thread had run cannot be started again: its thread counts as there until the provider
  is stopped itself.
\<close>

theorem geoclue_stop_silences_all:
  "\<not> bus_dispatches (geoclue_run (cs @ [(p, Stop ch)])) \<and>
   (q \<noteq> p \<and> thread_joinable (geoclue_run cs q) \<longrightarrow>
      \<not> bus_dispatches (geoclue_run (cs @ [(p, Stop ch), (q, Start ch')])))"
  by (auto simp: geoclue_run_append bus_dispatches_def stop_no_dispatch geoclue_start_def stop_keeps_joinable)

theorem geoclue_stop_silences_all_witness:
  "\<not> bus_dispatches (geoclue_run [(0, Start ch_position), (1, Start ch_position), (0, Stop ch_position), (1, Start ch_velocity)])"
  using geoclue_stop_silences_all [of "[(0, Start ch_position), (1, Start ch_position)]" 0 ch_position 1 ch_velocity]
  by (simp add: geoclue_run_def geoclue_start_def thread_joinable_def)

text \<open>Until then one started provider makes the bus dispatch the signals of all of them.\<close>

theorem geoclue_start_dispatches:
  assumes "cs \<noteq> []" "\<forall>c \<in> set cs. \<exists>p ch. c = (p, Start ch)"
  shows "bus_dispatches (geoclue_run cs)"
proof -
  obtain p ch where "(p, Start ch) \<in> set cs" using assms by (cases cs) auto
  then have "fold geoclue_call cs (\<lambda>_. No_thread) p = Dispatching"
    using starts_dispatch [OF assms(2)] by (force simp: thread_joinable_def)
  then show ?thesis by (auto simp: bus_dispatches_def geoclue_run_def)
qed

theorem geoclue_start_dispatches_witness: "bus_dispatches (geoclue_run [(3, Start ch_heading)])"
  by (rule geoclue_start_dispatches) auto

end
