(* ===== verification/Bus_Interfaces.thy ===== *)
theory Bus_Interfaces
  imports Radio_Cell
begin

text \<open>
  The interfaces on the bus: what the service offers (\<open>service/interface.h\<close>, \<open>service/session/interface_p.h\<close>,
  \<open>providers/remote/interface.h\<close> among the headers) and what it uses (\<open>connectivity/ofono.h\<close>,
  \<open>connectivity/nm.h\<close>, \<open>providers/geoclue/geoclue.h\<close>). Every struct that declares a member is a value
  of \<open>bus_member\<close>: interface and name, with the timeout in milliseconds and the type of the result of
  a method, the type of the argument of a signal, or type and access of a property. Types are those
  of C++; how dbus-cpp writes them to the wire is not part of this repository.
\<close>

datatype cpp_type = Cpp_void | Cpp_bool | Cpp_int8 | Cpp_int32 | Cpp_uint16 | Cpp_uint32 | Cpp_double | Cpp_string | Cpp_object_path
  | Cpp_variant | Cpp_vector cpp_type | Cpp_map cpp_type cpp_type | Cpp_struct "cpp_type list" | Cpp_tuple "cpp_type list" | Cpp_class string

datatype bus_member =
    Method (member_interface: string) (member_name: string) (timeout_ms: "nat option") (member_type: cpp_type)
  | Signal (member_interface: string) (member_name: string) (member_type: cpp_type)
  | Property (member_interface: string) (member_name: string) (member_type: cpp_type) (readable: bool) (writable: bool)

definition member_key :: "bus_member \<Rightarrow> string \<times> string" where
  "member_key m = (member_interface m, member_name m)"

section \<open>The service and its sessions\<close>

definition service_interface :: string where "service_interface = ''com.lomiri.location.Service''"

definition service_object_path :: string where "service_object_path = ''/com/lomiri/location/Service''"

definition service_errors :: "string list" where
  "service_errors = [''com.lomiri.location.Service.Error.InsufficientPermissions'',
     ''com.lomiri.location.Service.Error.CreatingSession'']"

definition service_methods :: "bus_member list" where
  "service_methods = [
     Method service_interface ''CreateSessionForCriteria'' (Some 25000) Cpp_object_path,
     Method service_interface ''GetVisibleSpaceVehicles'' (Some 5000) (Cpp_map (Cpp_class ''SpaceVehicle::Key'') (Cpp_class ''SpaceVehicle''))]"

definition service_properties :: "bus_member list" where
  "service_properties = [
     Property service_interface ''State'' (Cpp_class ''State'') True True,
     Property service_interface ''DoesSatelliteBasedPositioning'' Cpp_bool True True,
     Property service_interface ''DoesReportCellAndWifiIds'' Cpp_bool True True,
     Property service_interface ''IsOnline'' Cpp_bool True True,
     Property service_interface ''VisibleSpaceVehicles'' (Cpp_map (Cpp_class ''SpaceVehicle::Key'') (Cpp_class ''SpaceVehicle'')) True False,
     Property service_interface ''ClientApplications'' (Cpp_vector Cpp_string) True False]"

definition session_interface :: string where "session_interface = ''com.lomiri.location.Service.Session''"

definition session_methods :: "bus_member list" where
  "session_methods = [
     Method session_interface ''UpdatePosition'' (Some 1000) Cpp_void,
     Method session_interface ''UpdateVelocity'' (Some 1000) Cpp_void,
     Method session_interface ''UpdateHeading'' (Some 1000) Cpp_void,
     Method session_interface ''StartPositionUpdates'' (Some 5000) Cpp_void,
     Method session_interface ''StopPositionUpdates'' (Some 5000) Cpp_void,
     Method session_interface ''StartVelocityUpdates'' (Some 5000) Cpp_void,
     Method session_interface ''StopVelocityUpdates'' (Some 5000) Cpp_void,
     Method session_interface ''StartHeadingUpdates'' (Some 5000) Cpp_void,
     Method session_interface ''StopHeadingUpdates'' (Some 5000) Cpp_void]"

definition session_errors :: "string list" where
  "session_errors = [''com.lomiri.location.Service.Session.ErrorParsingUpdate'',
     ''com.lomiri.location.Service.Session.ErrorStartingUpdate'']"

section \<open>Remote providers\<close>

definition remote_interface :: string where "remote_interface = ''com.lomiri.remote.Service.Provider''"

text \<open>The timeouts of these methods come from a macro of dbus-cpp.\<close>

definition remote_methods :: "bus_member list" where
  "remote_methods = [
     Method remote_interface ''MatchesCriteria'' None Cpp_bool,
     Method remote_interface ''Requires'' None Cpp_bool,
     Method remote_interface ''Supports'' None Cpp_bool,
     Method remote_interface ''OnWifiAndCellIdReportingStateChanged'' None Cpp_void,
     Method remote_interface ''OnReferenceLocationChanged'' None Cpp_void,
     Method remote_interface ''OnReferenceHeadingChanged'' None Cpp_void,
     Method remote_interface ''OnReferenceVelocityChanged'' None Cpp_void,
     Method remote_interface ''StartPositionUpdates'' None Cpp_void,
     Method remote_interface ''StopPositionUpdates'' None Cpp_void,
     Method remote_interface ''StartHeadingUpdates'' None Cpp_void,
     Method remote_interface ''StopHeadingUpdates'' None Cpp_void,
     Method remote_interface ''StartVelocityUpdates'' None Cpp_void,
     Method remote_interface ''StopVelocityUpdates'' None Cpp_void]"

definition remote_signals :: "bus_member list" where
  "remote_signals = [
     Signal remote_interface ''PositionChanged'' (Cpp_class ''Position''),
     Signal remote_interface ''HeadingChanged'' (Cpp_class ''Heading''),
     Signal remote_interface ''VelocityChanged'' (Cpp_class ''Velocity'')]"

definition remote_properties :: "bus_member list" where
  "remote_properties = [
     Property remote_interface ''HasPosition'' Cpp_bool True False,
     Property remote_interface ''HasVelocity'' Cpp_bool True False,
     Property remote_interface ''HasHeading'' Cpp_bool True False,
     Property remote_interface ''RequiresSatellites'' Cpp_bool True False,
     Property remote_interface ''RequiresCellNetwork'' Cpp_bool True False,
     Property remote_interface ''RequiresDataNetwork'' Cpp_bool True False,
     Property remote_interface ''RequiresMonetarySpending'' Cpp_bool True False,
     Property remote_interface ''ArePositionUpdatesRunning'' Cpp_bool True False,
     Property remote_interface ''AreHeadingUpdatesRunning'' Cpp_bool True False,
     Property remote_interface ''AreVelocityUpdatesRunning'' Cpp_bool True False]"

section \<open>oFono\<close>

definition ofono_manager_interface :: string where "ofono_manager_interface = ''org.ofono.Manager''"

definition ofono_modem_interface :: string where "ofono_modem_interface = ''org.ofono.Modem''"

definition network_registration_interface :: string where "network_registration_interface = ''org.ofono.NetworkRegistration''"

definition ofono_manager_members :: "bus_member list" where
  "ofono_manager_members = [
     Method ofono_manager_interface ''GetModems'' (Some 1000) (Cpp_vector (Cpp_struct [Cpp_object_path])),
     Signal ofono_manager_interface ''ModemAdded'' (Cpp_tuple [Cpp_object_path, Cpp_map Cpp_string Cpp_string]),
     Signal ofono_manager_interface ''ModemRemoved'' Cpp_object_path]"

definition ofono_modem_members :: "bus_member list" where
  "ofono_modem_members = [
     Method ofono_modem_interface ''GetProperties'' (Some 1000) (Cpp_map Cpp_string Cpp_variant),
     Signal ofono_modem_interface ''PropertyChanged'' (Cpp_tuple [Cpp_string, Cpp_variant])]"

definition ofono_modem_properties :: "bus_member list" where
  "ofono_modem_properties = [
     Property ofono_modem_interface ''Powered'' Cpp_bool True True,
     Property ofono_modem_interface ''Online'' Cpp_bool True True,
     Property ofono_modem_interface ''Lockdown'' Cpp_bool True True,
     Property ofono_modem_interface ''Name'' Cpp_string True False,
     Property ofono_modem_interface ''Manufacturer'' Cpp_string True False,
     Property ofono_modem_interface ''Model'' Cpp_string True False,
     Property ofono_modem_interface ''Revision'' Cpp_string True False,
     Property ofono_modem_interface ''Serial'' Cpp_string True False]"

definition ofono_modem_list_properties :: "bus_member list" where
  "ofono_modem_list_properties = [
     Property ofono_modem_interface ''Features'' (Cpp_vector Cpp_string) True False,
     Property ofono_modem_interface ''Interfaces'' (Cpp_vector Cpp_string) True False,
     Property ofono_modem_interface ''Type'' Cpp_string True False]"

definition modem_features :: "string list" where
  "modem_features = [''net'', ''rat'', ''cbs'', ''sms'', ''sim'', ''stk'', ''ussd'', ''gprs'', ''tty'', ''gps'']"

definition modem_interfaces :: "string list" where
  "modem_interfaces = [
     ''org.ofono.AssistedSatelliteNavigation'', ''org.ofono.AudioSettings'', ''org.ofono.CallBarring'',
     ''org.ofono.CallForwarding'', ''org.ofono.CallMeter'', ''org.ofono.CallSettings'',
     ''org.ofono.CallVolume'', ''org.ofono.CellBroadcast'', ''org.ofono.Handsfree'',
     ''org.ofono.LocationReporting'', ''org.ofono.MessageManager'', ''org.ofono.MessageWaiting'',
     ''org.ofono.NetworkRegistration'', ''org.ofono.Phonebook'', ''org.ofono.PushNotification'',
     ''org.ofono.RadioSettings'', ''org.ofono.SimManager'', ''org.ofono.SmartMessaging'',
     ''org.ofono.SimToolkit'', ''org.ofono.SupplementaryServices'', ''org.ofono.TextTelephony'',
     ''org.ofono.VoiceCallManager'']"

definition modem_types :: "string list" where
  "modem_types = [''test'', ''hfp'', ''sap'', ''hardware'']"

definition network_registration_members :: "bus_member list" where
  "network_registration_members = [
     Method network_registration_interface ''GetProperties'' (Some 1000) (Cpp_map Cpp_string Cpp_variant),
     Signal network_registration_interface ''PropertyChanged'' (Cpp_tuple [Cpp_string, Cpp_variant])]"

fun value_to_string :: "registration_status \<Rightarrow> string" where
  "value_to_string unregistered = ''unregistered''"
| "value_to_string registered = ''registered''"
| "value_to_string searching = ''searching''"
| "value_to_string denied = ''denied''"
| "value_to_string unknown_status = ''unknown''"
| "value_to_string roaming_status = ''roaming''"

definition network_registration_properties :: "bus_member list" where
  "network_registration_properties = [
     Property network_registration_interface ''Status'' Cpp_string True False,
     Property network_registration_interface ''LocationAreaCode'' Cpp_uint16 True False,
     Property network_registration_interface ''CellId'' Cpp_uint32 True False,
     Property network_registration_interface ''MobileCountryCode'' Cpp_string True False,
     Property network_registration_interface ''MobileNetworkCode'' Cpp_string True False,
     Property network_registration_interface ''Technology'' Cpp_string True False,
     Property network_registration_interface ''Strength'' Cpp_int8 True False]"

section \<open>NetworkManager\<close>

definition nm_interface :: string where "nm_interface = ''org.freedesktop.NetworkManager''"

definition access_point_interface :: string where "access_point_interface = ''org.freedesktop.NetworkManager.AccessPoint''"

definition nm_device_interface :: string where "nm_device_interface = ''org.freedesktop.NetworkManager.Device''"

definition nm_wireless_interface :: string where "nm_wireless_interface = ''org.freedesktop.NetworkManager.Device.Wireless''"

definition active_connection_interface :: string where "active_connection_interface = ''org.freedesktop.NetworkManager.Connection.Active''"

definition access_point_members :: "bus_member list" where
  "access_point_members = [
     Property access_point_interface ''Frequency'' Cpp_uint32 True False,
     Property access_point_interface ''LastSeen'' Cpp_int32 True False,
     Property access_point_interface ''Mode'' Cpp_uint32 True False,
     Property access_point_interface ''HwAddress'' Cpp_string True False,
     Property access_point_interface ''Ssid'' (Cpp_vector Cpp_int8) True False,
     Property access_point_interface ''Strength'' Cpp_int8 True False,
     Signal access_point_interface ''PropertiesChanged'' (Cpp_map Cpp_string Cpp_variant)]"

datatype nm_device_type = Dev_unknown | Dev_ethernet | Dev_wifi | Dev_unused_1 | Dev_unused_2 | Dev_bluetooth | Dev_olpc_mesh
  | Dev_wimax | Dev_modem | Dev_infiniband | Dev_bond | Dev_vlan | Dev_adsl | Dev_bridge

definition nm_device_types :: "nm_device_type list" where
  "nm_device_types = [Dev_unknown, Dev_ethernet, Dev_wifi, Dev_unused_1, Dev_unused_2, Dev_bluetooth, Dev_olpc_mesh,
     Dev_wimax, Dev_modem, Dev_infiniband, Dev_bond, Dev_vlan, Dev_adsl, Dev_bridge]"

definition wireless_members :: "bus_member list" where
  "wireless_members = [
     Method nm_wireless_interface ''GetAccessPoints'' (Some 1000) (Cpp_vector Cpp_object_path),
     Method nm_wireless_interface ''RequestScan'' (Some 1000) Cpp_void,
     Signal nm_wireless_interface ''ScanDone'' Cpp_void,
     Signal nm_wireless_interface ''AccessPointAdded'' Cpp_object_path,
     Signal nm_wireless_interface ''AccessPointRemoved'' Cpp_object_path]"

definition nm_device_members :: "bus_member list" where
  "nm_device_members = [
     Property nm_device_interface ''DeviceType'' Cpp_uint32 True False]"

definition active_connection_members :: "bus_member list" where
  "active_connection_members = [
     Property active_connection_interface ''Devices'' (Cpp_vector Cpp_object_path) True False]"

definition nm_methods :: "bus_member list" where
  "nm_methods = [
     Method nm_interface ''GetDevices'' (Some 1000) (Cpp_vector Cpp_object_path)]"

definition nm_properties :: "bus_member list" where
  "nm_properties = [
     Property nm_interface ''Connectivity'' Cpp_uint32 True False,
     Property nm_interface ''State'' Cpp_uint32 True False,
     Property nm_interface ''PrimaryConnection'' Cpp_object_path True False,
     Property nm_interface ''WirelessEnabled'' Cpp_bool True False,
     Property nm_interface ''WirelessHardwareEnabled'' Cpp_bool True False,
     Property nm_interface ''WwanEnabled'' Cpp_bool True False,
     Property nm_interface ''WwanHardwareEnabled'' Cpp_bool True False]"

definition nm_signals :: "bus_member list" where
  "nm_signals = [
     Signal nm_interface ''DeviceAdded'' Cpp_object_path,
     Signal nm_interface ''DeviceRemoved'' Cpp_object_path,
     Signal nm_interface ''PropertiesChanged'' (Cpp_map Cpp_string Cpp_variant),
     Signal nm_interface ''StateChanged'' Cpp_uint32]"

section \<open>Geoclue\<close>

definition geoclue_interface :: string where "geoclue_interface = ''org.freedesktop.Geoclue''"

definition geoclue_address_interface :: string where "geoclue_address_interface = ''org.freedesktop.Geoclue.Address''"

definition geoclue_position_interface :: string where "geoclue_position_interface = ''org.freedesktop.Geoclue.Position''"

definition geoclue_velocity_interface :: string where "geoclue_velocity_interface = ''org.freedesktop.Geoclue.Velocity''"

definition geoclue_methods :: "bus_member list" where
  "geoclue_methods = [
     Method geoclue_interface ''GetProviderInfo'' (Some 1000) (Cpp_tuple [Cpp_string, Cpp_string]),
     Method geoclue_interface ''GetStatus'' (Some 1000) Cpp_int32,
     Method geoclue_interface ''AddReference'' (Some 1000) Cpp_void,
     Method geoclue_interface ''RemoveReference'' (Some 1000) Cpp_void]"

definition geoclue_address_members :: "bus_member list" where
  "geoclue_address_members = [
     Method geoclue_address_interface ''GetAddress'' (Some 1000) (Cpp_tuple [Cpp_int32, Cpp_map Cpp_string Cpp_string, Cpp_struct [Cpp_int32, Cpp_double, Cpp_double]]),
     Signal geoclue_address_interface ''PositionChanged'' (Cpp_tuple [Cpp_int32, Cpp_map Cpp_string Cpp_string, Cpp_struct [Cpp_int32, Cpp_double, Cpp_double]])]"

definition geoclue_position_members :: "bus_member list" where
  "geoclue_position_members = [
     Method geoclue_position_interface ''GetPosition'' (Some 1000) (Cpp_tuple [Cpp_int32, Cpp_int32, Cpp_double, Cpp_double, Cpp_double, Cpp_struct [Cpp_int32, Cpp_double, Cpp_double]]),
     Signal geoclue_position_interface ''PositionChanged'' (Cpp_tuple [Cpp_int32, Cpp_int32, Cpp_double, Cpp_double, Cpp_double, Cpp_struct [Cpp_int32, Cpp_double, Cpp_double]])]"

definition geoclue_velocity_members :: "bus_member list" where
  "geoclue_velocity_members = [
     Method geoclue_velocity_interface ''GetVelocity'' (Some 1000) (Cpp_tuple [Cpp_int32, Cpp_int32, Cpp_double, Cpp_double, Cpp_double]),
     Signal geoclue_velocity_interface ''VelocityChanged'' (Cpp_tuple [Cpp_int32, Cpp_int32, Cpp_double, Cpp_double, Cpp_double])]"

end
