(* ===== verification/Bus_Objects.thy ===== *)
theory Bus_Objects
  imports Bus_Interfaces
begin

text \<open>
  The objects on the bus: the method handlers the skeletons and stubs install on them and remove again
  (\<open>service/skeleton.cpp\<close>, \<open>service/session/skeleton.cpp\<close>, \<open>service/session/stub.cpp\<close>,
  \<open>providers/remote/provider.cpp\<close>), the calls the other side makes, the properties and signals both sides
  open, and the enumerations of objects of oFono and NetworkManager (\<open>connectivity/ofono.h\<close>,
  \<open>connectivity/nm.h\<close>).

  The handlers of an object are a map from interface and method to the C++ function that runs and the
  object whose \<open>this\<close> it captured. dbus-cpp keeps this map for an object on the bus; the C++ objects come
  and go. The reply to a call is an error, as its printed text, or a value.
\<close>

section \<open>Method handlers\<close>

datatype handler_owner = Service_skeleton | Session_skeleton | Session_stub | Remote_skeleton

type_synonym handlers = "string \<times> string \<rightharpoonup> handler_owner \<times> string"

definition install_handlers :: "handler_owner \<Rightarrow> string \<Rightarrow> (string \<times> string) list \<Rightarrow> handlers \<Rightarrow> handlers" where
  "install_handlers own i hs t = fold (\<lambda>(m, f) t. t((i, m) \<mapsto> (own, f))) hs t"

definition uninstall_handlers :: "string \<Rightarrow> string list \<Rightarrow> handlers \<Rightarrow> handlers" where
  "uninstall_handlers i ms t = fold (\<lambda>m t. t((i, m) := None)) ms t"

definition service_skeleton_constructor :: "handlers \<Rightarrow> handlers" where
  "service_skeleton_constructor = install_handlers Service_skeleton service_interface
     [(''CreateSessionForCriteria'', ''handle_create_session_for_criteria''),
      (''GetVisibleSpaceVehicles'', ''visible_space_vehicles'')]"

definition service_skeleton_destructor :: "handlers \<Rightarrow> handlers" where
  "service_skeleton_destructor = uninstall_handlers service_interface [''CreateSessionForCriteria'', ''GetVisibleSpaceVehicles'']"

definition session_skeleton_constructor :: "handlers \<Rightarrow> handlers" where
  "session_skeleton_constructor = install_handlers Session_skeleton session_interface
     [(''StartPositionUpdates'', ''on_start_position_updates''), (''StopPositionUpdates'', ''on_stop_position_updates''),
      (''StartVelocityUpdates'', ''on_start_velocity_updates''), (''StopVelocityUpdates'', ''on_stop_velocity_updates''),
      (''StartHeadingUpdates'', ''on_start_heading_updates''), (''StopHeadingUpdates'', ''on_stop_heading_updates'')]"

definition session_skeleton_destructor :: "handlers \<Rightarrow> handlers" where
  "session_skeleton_destructor = uninstall_handlers session_interface
     [''StartPositionUpdates'', ''StopPositionUpdates'', ''StartVelocityUpdates'', ''StopVelocityUpdates'',
      ''StartHeadingUpdates'', ''StopHeadingUpdates'']"

definition session_stub_constructor :: "handlers \<Rightarrow> handlers" where
  "session_stub_constructor = install_handlers Session_stub session_interface
     [(''UpdatePosition'', ''update_position''), (''UpdateHeading'', ''update_heading''), (''UpdateVelocity'', ''update_velocity'')]"

definition session_stub_destructor :: "handlers \<Rightarrow> handlers" where
  "session_stub_destructor = uninstall_handlers session_interface [''UpdatePosition'', ''UpdateHeading'', ''UpdateVelocity'']"

definition remote_skeleton_constructor :: "handlers \<Rightarrow> handlers" where
  "remote_skeleton_constructor = install_handlers Remote_skeleton remote_interface
     [(''MatchesCriteria'', ''matches_criteria''), (''Supports'', ''supports''), (''Requires'', ''requires''),
      (''OnWifiAndCellIdReportingStateChanged'', ''on_wifi_and_cell_reporting_state_changed''),
      (''OnReferenceLocationChanged'', ''on_reference_location_updated''),
      (''OnReferenceHeadingChanged'', ''on_reference_heading_updated''),
      (''OnReferenceVelocityChanged'', ''on_reference_velocity_updated''),
      (''StartPositionUpdates'', ''start_position_updates''), (''StopPositionUpdates'', ''stop_position_updates''),
      (''StartHeadingUpdates'', ''start_heading_updates''), (''StopHeadingUpdates'', ''stop_heading_updates''),
      (''StartVelocityUpdates'', ''start_velocity_updates''), (''StopVelocityUpdates'', ''stop_velocity_updates'')]"

definition remote_skeleton_destructor :: "handlers \<Rightarrow> handlers" where
  "remote_skeleton_destructor = uninstall_handlers remote_interface
     [''MatchesCriteria'', ''StartPositionUpdates'', ''StopPositionUpdates'', ''StartHeadingUpdates'', ''StopHeadingUpdates'',
      ''StartVelocityUpdates'', ''StopVelocityUpdates'']"

text \<open>The calls of the other sides, with the function that makes each of them.\<close>

definition session_client_calls :: "(string \<times> string) list" where
  "session_client_calls = [(''StartPositionUpdates'', ''start_position_updates''), (''StopPositionUpdates'', ''stop_position_updates''),
     (''StartVelocityUpdates'', ''start_velocity_updates''), (''StopVelocityUpdates'', ''stop_velocity_updates''),
     (''StartHeadingUpdates'', ''start_heading_updates''), (''StopHeadingUpdates'', ''stop_heading_updates'')]"

definition session_update_calls :: "(string \<times> string) list" where
  "session_update_calls = [(''UpdatePosition'', ''on_position_changed''), (''UpdateHeading'', ''on_heading_changed''),
     (''UpdateVelocity'', ''on_velocity_changed'')]"

definition remote_stub_calls :: "(string \<times> string) list" where
  "remote_stub_calls = [(''MatchesCriteria'', ''matches_criteria''), (''Supports'', ''supports''), (''Requires'', ''requires''),
     (''OnWifiAndCellIdReportingStateChanged'', ''on_wifi_and_cell_reporting_state_changed''),
     (''OnReferenceLocationChanged'', ''on_reference_location_updated''),
     (''OnReferenceVelocityChanged'', ''on_reference_velocity_updated''),
     (''OnReferenceHeadingChanged'', ''on_reference_heading_updated''),
     (''StartPositionUpdates'', ''start_position_updates''), (''StopPositionUpdates'', ''stop_position_updates''),
     (''StartHeadingUpdates'', ''start_heading_updates''), (''StopHeadingUpdates'', ''stop_heading_updates''),
     (''StartVelocityUpdates'', ''start_velocity_updates''), (''StopVelocityUpdates'', ''stop_velocity_updates'')]"

section \<open>Properties and signals of both sides\<close>

definition service_skeleton_properties :: "string list" where
  "service_skeleton_properties = [''State'', ''DoesSatelliteBasedPositioning'', ''DoesReportCellAndWifiIds'', ''IsOnline'',
     ''VisibleSpaceVehicles'', ''ClientApplications'']"

definition service_stub_properties :: "string list" where
  "service_stub_properties = [''State'', ''DoesSatelliteBasedPositioning'', ''DoesReportCellAndWifiIds'', ''IsOnline'',
     ''VisibleSpaceVehicles'', ''ClientApplications'']"

definition remote_skeleton_members :: "string list" where
  "remote_skeleton_members = [''HasPosition'', ''HasVelocity'', ''HasHeading'', ''RequiresSatellites'', ''RequiresCellNetwork'',
     ''RequiresDataNetwork'', ''RequiresMonetarySpending'', ''ArePositionUpdatesRunning'', ''AreHeadingUpdatesRunning'',
     ''AreVelocityUpdatesRunning'', ''PositionChanged'', ''HeadingChanged'', ''VelocityChanged'']"

definition remote_stub_members :: "string list" where
  "remote_stub_members = [''HasPosition'', ''HasVelocity'', ''HasHeading'', ''RequiresSatellites'', ''RequiresCellNetwork'',
     ''RequiresDataNetwork'', ''RequiresMonetarySpending'', ''ArePositionUpdatesRunning'', ''AreHeadingUpdatesRunning'',
     ''AreVelocityUpdatesRunning'', ''PositionChanged'', ''HeadingChanged'', ''VelocityChanged'']"

definition nm_opened :: "string list" where
  "nm_opened = [''Connectivity'', ''PrimaryConnection'', ''State'', ''WirelessEnabled'', ''WirelessHardwareEnabled'', ''WwanEnabled'',
     ''WwanHardwareEnabled'', ''DeviceAdded'', ''DeviceRemoved'', ''PropertiesChanged'', ''StateChanged'']"

definition access_point_opened :: "string list" where
  "access_point_opened = [''Frequency'', ''LastSeen'', ''Mode'', ''HwAddress'', ''Ssid'', ''Strength'', ''PropertiesChanged'']"

definition wireless_opened :: "string list" where
  "wireless_opened = [''ScanDone'', ''AccessPointAdded'', ''AccessPointRemoved'']"

section \<open>Enumerating objects\<close>

type_synonym 'a bus_reply = "string + 'a"

fun for_each_path :: "('p \<Rightarrow> 's \<Rightarrow> exn option \<times> 's) \<Rightarrow> 'p list \<Rightarrow> 's \<Rightarrow> exn option \<times> 's" where
  "for_each_path f [] s = (None, s)"
| "for_each_path f (p # ps) s = (case f p s of (None, s') \<Rightarrow> for_each_path f ps s' | (Some e, s') \<Rightarrow> (Some e, s'))"

definition for_each_modem :: "'p list bus_reply \<Rightarrow> ('p \<Rightarrow> 's \<Rightarrow> exn option \<times> 's) \<Rightarrow> 's \<Rightarrow> exn option \<times> 's" where
  "for_each_modem reply f s =
     (case reply of Inl msg \<Rightarrow> (Some (runtime_error msg), s) | Inr ps \<Rightarrow> for_each_path f ps s)"

definition for_each_device :: "'p list bus_reply \<Rightarrow> ('p \<Rightarrow> 's \<Rightarrow> exn option \<times> 's) \<Rightarrow> 's \<Rightarrow> exn option \<times> 's" where
  "for_each_device reply f s =
     (case reply of Inl msg \<Rightarrow> (Some (runtime_error msg), s) | Inr ps \<Rightarrow> for_each_path f ps s)"

definition for_each_access_point :: "'p list bus_reply \<Rightarrow> ('p \<Rightarrow> 's \<Rightarrow> exn option \<times> 's) \<Rightarrow> 's \<Rightarrow> exn option \<times> 's" where
  "for_each_access_point reply f s =
     (case reply of Inl msg \<Rightarrow> (Some (runtime_error msg), s) | Inr ps \<Rightarrow> for_each_path f ps s)"

definition get_devices :: "'p list bus_reply \<Rightarrow> ('p \<Rightarrow> 'd) \<Rightarrow> 'd list result" where
  "get_devices reply device_for_path = (case reply of Inl msg \<Rightarrow> Inl (runtime_error msg) | Inr ps \<Rightarrow> Inr (map device_for_path ps))"

definition get_access_points :: "'p list bus_reply \<Rightarrow> ('p \<Rightarrow> 'd) \<Rightarrow> 'd list result" where
  "get_access_points reply access_point_for_path =
     (case reply of Inl msg \<Rightarrow> Inl (runtime_error msg) | Inr ps \<Rightarrow> Inr (map access_point_for_path ps))"

definition enumerate_devices :: "'p list result \<Rightarrow> ('p \<Rightarrow> 's \<Rightarrow> exn option \<times> 's) \<Rightarrow> 's \<Rightarrow> exn option \<times> 's" where
  "enumerate_devices device_paths f s =
     (case device_paths of Inl e \<Rightarrow> (Some e, s) | Inr ps \<Rightarrow> for_each_path f ps s)"

text \<open>\<open>type()\<close> casts the number NetworkManager sends; one that the enumeration does not have is none of its names.\<close>

definition nm_device_type_of :: "32 word \<Rightarrow> nm_device_type option" where
  "nm_device_type_of v = (if unat v < length nm_device_types then Some (nm_device_types ! unat v) else None)"

section \<open>Every call is handled\<close>

lemmas bus_handler_defs = install_handlers_def uninstall_handlers_def service_skeleton_constructor_def service_skeleton_destructor_def
  session_skeleton_constructor_def session_skeleton_destructor_def session_stub_constructor_def session_stub_destructor_def
  remote_skeleton_constructor_def remote_skeleton_destructor_def

lemmas interface_names = service_interface_def session_interface_def remote_interface_def


lemma uninstall_install:
  assumes "set (map fst hs) = set ms"
  shows "uninstall_handlers i ms (install_handlers own i hs t) = (\<lambda>k. if fst k = i \<and> snd k \<in> set ms then None else t k)"
proof -
  have inst: "fold (\<lambda>(m, f) t. t((i, m) \<mapsto> (own, f))) hs t k = t k" if "\<not> (fst k = i \<and> snd k \<in> set (map fst hs))" for k
    using that by (induction hs arbitrary: t) auto
  have un: "fold (\<lambda>m t. t((i, m) := None)) ms t k = (if fst k = i \<and> snd k \<in> set ms then None else t k)" for t :: handlers and k
    by (cases k, induction ms arbitrary: t) auto
  show ?thesis using inst assms by (auto simp: install_handlers_def uninstall_handlers_def un fun_eq_iff)
qed

text \<open>The six methods whose handlers stay.\<close>

definition left_behind :: "string list" where
  "left_behind = [''Supports'', ''Requires'', ''OnWifiAndCellIdReportingStateChanged'', ''OnReferenceLocationChanged'',
     ''OnReferenceHeadingChanged'', ''OnReferenceVelocityChanged'']"

text \<open>
  The destructors of the service, of a session and of a stub remove every handler their constructors
  installed, so no call can reach a destroyed object. The skeleton of a remote provider leaves six of its
  thirteen handlers behind, which refer to the destroyed skeleton.
\<close>

theorem handlers_after_destruction:
  "service_skeleton_destructor (service_skeleton_constructor Map.empty) = Map.empty \<and>
   session_skeleton_destructor (session_skeleton_constructor Map.empty) = Map.empty \<and>
   session_stub_destructor (session_stub_constructor Map.empty) = Map.empty \<and>
   {k. remote_skeleton_destructor (remote_skeleton_constructor Map.empty) k \<noteq> None} = Pair remote_interface ` set left_behind"
proof (intro conjI)
  show "service_skeleton_destructor (service_skeleton_constructor Map.empty) = Map.empty"
    unfolding service_skeleton_destructor_def service_skeleton_constructor_def by (subst uninstall_install) auto
  show "session_skeleton_destructor (session_skeleton_constructor Map.empty) = Map.empty"
    unfolding session_skeleton_destructor_def session_skeleton_constructor_def by (subst uninstall_install) auto
  show "session_stub_destructor (session_stub_constructor Map.empty) = Map.empty"
    unfolding session_stub_destructor_def session_stub_constructor_def by (subst uninstall_install) auto
  show "{k. remote_skeleton_destructor (remote_skeleton_constructor Map.empty) k \<noteq> None} = Pair remote_interface ` set left_behind"
    by (auto simp: bus_handler_defs left_behind_def split: if_splits)
qed

section \<open>Declarations and uses agree\<close>

definition declares :: "bus_member list \<Rightarrow> string list \<Rightarrow> bool" where
  "declares ms ns \<longleftrightarrow> distinct (map member_key ms) \<and> set ns \<subseteq> set (map member_name ms)"

lemma declares_simps [simp]: "declares ms ns \<longleftrightarrow> distinct (map member_key ms) \<and> list_all (\<lambda>n. n \<in> set (map member_name ms)) ns"
  by (auto simp: declares_def list_all_iff)

text \<open>
  Every member the program opens or calls is declared by the interface it names, no interface declares
  a member twice, and the properties opened on both sides of the bus are the same.
\<close>

theorem members_declared:
  "declares (service_methods @ service_properties) (service_skeleton_properties @ [''CreateSessionForCriteria'', ''GetVisibleSpaceVehicles'']) \<and>
   service_stub_properties = service_skeleton_properties \<and>
   declares session_methods (map fst (session_client_calls @ session_update_calls)) \<and>
   declares (remote_methods @ remote_signals @ remote_properties) (map fst remote_stub_calls @ remote_stub_members) \<and>
   remote_stub_members = remote_skeleton_members \<and>
   declares (nm_methods @ nm_properties @ nm_signals) (''GetDevices'' # nm_opened) \<and>
   declares access_point_members access_point_opened \<and>
   declares wireless_members (''GetAccessPoints'' # ''RequestScan'' # wireless_opened)"
  unfolding declares_simps by (intro conjI; code_simp)

section \<open>Enumerations\<close>

lemma for_each_path_collects: "for_each_path (\<lambda>p s. (None, s @ [d p])) ps s = (None, s @ map d ps)"
  by (induction ps arbitrary: s) simp_all

text \<open>
  The visitors and the functions that return lists agree: visiting the objects and collecting them gives
  the list, and both throw the printed error of the reply.
\<close>

theorem enumerations_agree:
  "for_each_device reply (\<lambda>p s. (None, s @ [d p])) [] = (case get_devices reply d of Inl e \<Rightarrow> (Some e, []) | Inr ds \<Rightarrow> (None, ds)) \<and>
   for_each_access_point reply (\<lambda>p s. (None, s @ [d p])) [] =
     (case get_access_points reply d of Inl e \<Rightarrow> (Some e, []) | Inr ds \<Rightarrow> (None, ds)) \<and>
   for_each_modem reply (\<lambda>p s. (None, s @ [d p])) [] = (case reply of Inl m \<Rightarrow> (Some (runtime_error m), []) | Inr ps \<Rightarrow> (None, map d ps))"
  by (auto simp: for_each_device_def for_each_access_point_def for_each_modem_def get_devices_def get_access_points_def
      for_each_path_collects split: sum.splits)

text \<open>A visitor that throws ends the enumeration; the objects after it are not visited.\<close>

lemma for_each_path_throws:
  assumes "list_all (\<lambda>p. \<forall>s. \<exists>s'. f p s = (None, s')) ps" "\<And>s. f q s = (Some e, s)"
  shows "for_each_path f (ps @ q # qs) s = (Some e, snd (for_each_path f ps s))"
  using assms(1)
proof (induction ps arbitrary: s)
  case (Cons p ps)
  from Cons.prems obtain s' where "f p s = (None, s')" by auto
  with Cons show ?case by simp
qed (simp add: assms(2))

lemma value_to_string_inj: "value_to_string s = value_to_string t \<longleftrightarrow> s = t"
  by (cases s; cases t) simp_all

lemma nm_device_types_distinct: "distinct nm_device_types \<and> length nm_device_types = 14"
  by (simp add: nm_device_types_def)

lemma device_types_used: "nm_device_type_of 2 = Some Dev_wifi" "nm_device_type_of 8 = Some Dev_modem"
  by (simp_all add: nm_device_type_of_def nm_device_types_def)

end
