(* ===== verification/Daemon.thy ===== *)
theory Daemon
  imports Provider_Selection Radio_Cell
begin

text \<open>
  The daemon and its command line (\<open>service/daemon.cpp\<close>, \<open>service/provider_daemon.cpp\<close>,
  \<open>service/program_options.h\<close>).

  Boost.Program_options splits the command line; what it found is the record \<open>program_options\<close>. The options
  of a provider are those Boost did not recognise; taking them apart is the code of the daemon. A property tree is the
  list of its paths and values. The buses are named, not opened.

  The command-line client talks to the service through a stub, the parameter \<open>stub\<close>. A line it prints is a
  value of \<open>cli_line\<close>.
\<close>

section \<open>Program options\<close>

record program_options =
  parsed :: bool
  bus_option :: string
  has_help :: bool
  has_testing :: bool
  provider_options_given :: "string list"
  config_file :: string
  unrecognized :: "string list"

datatype well_known_bus = session_bus | system_bus

definition bus_of_options :: "program_options \<Rightarrow> well_known_bus result" where
  "bus_of_options po =
     (if bus_option po = ''session'' then Inr session_bus
      else if bus_option po = ''system'' then Inr system_bus
      else Inl (out_of_range ''map::at''))"

section \<open>Options of a provider\<close>

text \<open>\<open>key.erase(key.find_first_of(marker), marker.size())\<close>: the first character that occurs in the marker, not the marker.\<close>

definition erase_first_of :: "string \<Rightarrow> string \<Rightarrow> string result" where
  "erase_first_of marker s =
     (let before = takeWhile (\<lambda>c. c \<notin> set marker) s
      in if before = s then Inl (out_of_range ''basic_string::erase'')
         else Inr (before @ drop (length before + length marker) s))"

definition split_option :: "string \<Rightarrow> string \<times> string" where
  "split_option s =
     (let key = takeWhile (\<lambda>c. c \<noteq> CHR ''='') s;
          rest = drop (Suc (length key)) s
      in (key, takeWhile (\<lambda>c. c \<noteq> CHR ''='') rest))"

text \<open>What an unrecognised option says about a provider.\<close>

definition provider_option :: "string \<Rightarrow> string \<Rightarrow> (string \<times> string) option result" where
  "provider_option provider s =
     (case split_option s of
        (key, value) \<Rightarrow>
          if \<not> contains_substring provider key then Inr None
          else result_bind (erase_first_of ''--'' key) (\<lambda>key.
               result_bind (erase_first_of provider key) (\<lambda>key.
               result_bind (erase_first_of ''::'' key) (\<lambda>key. Inr (Some (key, value))))))"

type_synonym config = "(string \<times> string) list"

fun config_put :: "string \<Rightarrow> string \<Rightarrow> config \<Rightarrow> config" where
  "config_put k v [] = [(k, v)]"
| "config_put k v ((j, w) # c) = (if j = k then (j, v) # c else (j, w) # config_put k v c)"

fun collect_options :: "string \<Rightarrow> string list \<Rightarrow> config \<Rightarrow> config result" where
  "collect_options provider [] c = Inr c"
| "collect_options provider (s # ss) c =
     result_bind (provider_option provider s) (\<lambda>r.
       collect_options provider ss (case r of None \<Rightarrow> c | Some (k, v) \<Rightarrow> config_put k v c))"

section \<open>Configuration of the daemon\<close>

record daemon_config =
  incoming :: well_known_bus
  outgoing :: well_known_bus
  provider_names :: "string list"
  provider_configs :: "(string \<times> config) list"
  settings_file :: string

definition config_for :: "string \<Rightarrow> (string \<times> config) list \<Rightarrow> config" where
  "config_for provider cs = (case map_find string_lt provider cs of None \<Rightarrow> [] | Some c \<Rightarrow> c)"

text \<open>\<open>provider_options[provider]\<close> only exists once an option of the provider was found.\<close>

fun collect_all :: "string list \<Rightarrow> string list \<Rightarrow> (string \<times> config) list \<Rightarrow> (string \<times> config) list result" where
  "collect_all [] ss cs = Inr cs"
| "collect_all (p # ps) ss cs =
     result_bind (collect_options p ss (config_for p cs)) (\<lambda>c.
       collect_all ps ss (if c = [] then cs else map_put string_lt p c cs))"

definition daemon_from_command_line :: "program_options \<Rightarrow> daemon_config result" where
  "daemon_from_command_line po =
     (if \<not> parsed po then Inl (runtime_error ''Could not parse command-line, aborting...'')
      else result_bind (bus_of_options po) (\<lambda>b.
        if \<not> has_testing po \<and> provider_options_given po = []
        then Inl (runtime_error ''A set of providers need to be specified.'')
        else result_bind (collect_all (provider_options_given po) (unrecognized po) []) (\<lambda>cs.
          Inr \<lparr>incoming = b, outgoing = b, provider_names = provider_options_given po, provider_configs = cs,
               settings_file = config_file po\<rparr>)))"

text \<open>
  The providers are created one after the other: the future of each creation is destroyed, and so waited for,
  before the next. An exception inside of the future is dropped with it.
\<close>

definition load_provider ::
  "'t platform \<Rightarrow> nat \<Rightarrow> (config \<Rightarrow> 't world \<Rightarrow> (nat option \<times> 't world) result) factory_store \<Rightarrow>
     (string \<times> config) list \<Rightarrow> string \<Rightarrow> 't world \<Rightarrow> 't world"
  where
  "load_provider pf fuel store configs name w =
     (case map_find string_lt (extract_undecorated_name name) store of
        None \<Rightarrow> w
      | Some factory \<Rightarrow>
          (case factory (config_for name configs) w of
             Inl e \<Rightarrow> w
           | Inr (i, w1) \<Rightarrow> (case add_provider pf fuel i w1 of Inl e \<Rightarrow> w1 | Inr w2 \<Rightarrow> w2)))"

definition load_providers ::
  "'t platform \<Rightarrow> nat \<Rightarrow> (config \<Rightarrow> 't world \<Rightarrow> (nat option \<times> 't world) result) factory_store \<Rightarrow> daemon_config \<Rightarrow> 't world \<Rightarrow> 't world" where
  "load_providers pf fuel store c w = fold (load_provider pf fuel store (provider_configs c)) (provider_names c) w"

section \<open>The provider daemon\<close>

record provider_options =
  common_options :: program_options
  service_name_option :: "string option"
  service_path_option :: "string option"
  provider_name_option :: "string option"

record 'p provider_daemon_config =
  connection :: well_known_bus
  service_name :: string
  service_path :: string
  exposed_provider :: "'p option"

definition value_for_key :: "string option \<Rightarrow> string result" where
  "value_for_key v = (case v of None \<Rightarrow> Inl (runtime_error ''bad_any_cast'') | Some s \<Rightarrow> Inr s)"

text \<open>A provider without a factory is a null pointer.\<close>

definition provider_daemon_from_command_line ::
  "(config \<Rightarrow> 'p result) factory_store \<Rightarrow> provider_options \<Rightarrow> 'p provider_daemon_config result" where
  "provider_daemon_from_command_line store p =
     (if \<not> parsed (common_options p) then Inl (runtime_error ''Could not parse command-line, aborting...'')
      else result_bind (bus_of_options (common_options p)) (\<lambda>b.
           result_bind (value_for_key (service_name_option p)) (\<lambda>name.
           result_bind (value_for_key (service_path_option p)) (\<lambda>path.
           result_bind (value_for_key (provider_name_option p)) (\<lambda>provider.
           result_bind (collect_options provider (unrecognized (common_options p)) []) (\<lambda>c.
           result_bind (case create_provider_for_name_with_config provider c store of
                          None \<Rightarrow> Inr None
                        | Some r \<Rightarrow> result_bind r (\<lambda>i. Inr (Some i))) (\<lambda>i.
             Inr \<lparr>connection = b, service_name = name, service_path = path, exposed_provider = i\<rparr>)))))))"

section \<open>The command-line client\<close>

datatype cli_command = cmd_unknown | cmd_get | cmd_set | cmd_test

datatype cli_property =
    prop_unknown
  | prop_state
  | prop_is_online
  | prop_does_satellite_based_positioning
  | prop_does_report_wifi_and_cell_ids
  | prop_visible_space_vehicles
  | prop_client_applications

definition cli_property_lut :: "(string \<times> cli_property) list" where
  "cli_property_lut =
     [(''state'', prop_state),
      (''is_online'', prop_is_online),
      (''does_satellite_based_positioning'', prop_does_satellite_based_positioning),
      (''does_report_wifi_and_cell_ids'', prop_does_report_wifi_and_cell_ids),
      (''visible_space_vehicles'', prop_visible_space_vehicles),
      (''client_applications'', prop_client_applications)]"

definition read_cli_property :: "string \<Rightarrow> (cli_property \<times> string) result" where
  "read_cli_property inp =
     (case read_token inp of
        (value, rest) \<Rightarrow>
          (case map_of cli_property_lut value of
             None \<Rightarrow> Inl (runtime_error (''Unknown property specified: '' @ value))
           | Some p \<Rightarrow> Inr (p, rest)))"

fun print_cli_property :: "cli_property \<Rightarrow> string" where
  "print_cli_property prop_state = ''state''"
| "print_cli_property prop_is_online = ''is_online''"
| "print_cli_property prop_does_satellite_based_positioning = ''does_satellite_based_positioning''"
| "print_cli_property prop_does_report_wifi_and_cell_ids = ''does_report_wifi_and_cell_ids''"
| "print_cli_property prop_visible_space_vehicles = ''visible_space_vehicles''"
| "print_cli_property prop_client_applications = ''client_applications''"
| "print_cli_property prop_unknown = ''unknown''"

record cli_options =
  cli_parsed :: bool
  cli_bus :: string
  cli_help :: bool
  cli_get :: bool
  cli_set :: "string option"
  cli_test :: bool
  cli_property_option :: cli_property

record cli_config =
  cli_command :: cli_command
  cli_property :: cli_property
  new_value :: string

definition cli_from_command_line :: "cli_options \<Rightarrow> cli_config result" where
  "cli_from_command_line po =
     (if \<not> cli_parsed po then Inl (runtime_error ''Error parsing command line'')
      else if cli_help po then Inl (runtime_error ''Error parsing command line'')
      else if cli_get po \<and> cli_set po \<noteq> None then Inl (logic_error ''Both set and get specified, aborting...'')
      else if cli_bus po \<notin> {''session'', ''system''} then Inl (out_of_range ''map::at'')
      else Inr
        (if cli_get po then \<lparr>cli_command = cmd_get, cli_property = cli_property_option po, new_value = []\<rparr>
         else case cli_set po of
           Some v \<Rightarrow> \<lparr>cli_command = cmd_set, cli_property = cli_property_option po, new_value = v\<rparr>
         | None \<Rightarrow> \<lparr>cli_command = (if cli_test po then cmd_test else cmd_unknown), cli_property = cli_property_option po, new_value = []\<rparr>))"

datatype service_flag = flag_is_online | flag_does_satellite_based_positioning | flag_does_report_cell_and_wifi_ids

record 's stub =
  stub_state :: "'s \<Rightarrow> service_state"
  stub_get :: "service_flag \<Rightarrow> 's \<Rightarrow> bool"
  stub_set :: "service_flag \<Rightarrow> bool \<Rightarrow> 's \<Rightarrow> 's"

datatype cli_line =
    Line_state service_state
  | Line_flag service_flag bool
  | Line_adjusted service_flag bool bool
  | Line_space_vehicles
  | Line_client_applications
  | Line_not_settable cli_property
  | Line_unknown_property
  | Line_help

text \<open>
  \<open>ss >> std::boolalpha >> flag\<close>. Nothing but white space leaves the flag alone; anything else that
  is not one of the two names makes it false.
\<close>

definition read_boolalpha :: "bool \<Rightarrow> string \<Rightarrow> bool" where
  "read_boolalpha flag s =
     (case dropWhile is_space s of
        [] \<Rightarrow> flag
      | t \<Rightarrow> starts_with ''true'' t)"

text \<open>The result of the client: the lines, whether it succeeded and the state of the service.\<close>

definition cli_flag :: "'s stub \<Rightarrow> service_flag \<Rightarrow> cli_config \<Rightarrow> 's \<Rightarrow> cli_line list \<times> bool \<times> 's" where
  "cli_flag st f c s =
     (case cli_command c of
        cmd_get \<Rightarrow> ([Line_flag f (stub_get st f s)], True, s)
      | cmd_set \<Rightarrow>
          (let flag = read_boolalpha (stub_get st f s) (new_value c);
               s1 = stub_set st f flag s;
               ok = (stub_get st f s1 = flag)
           in ([Line_adjusted f flag ok], ok, s1))
      | _ \<Rightarrow> ([], True, s))"

definition cli_list :: "cli_line \<Rightarrow> cli_config \<Rightarrow> 's \<Rightarrow> cli_line list \<times> bool \<times> 's" where
  "cli_list l c s =
     (case cli_command c of
        cmd_get \<Rightarrow> ([l], True, s)
      | cmd_set \<Rightarrow> ([Line_not_settable (cli_property c), Line_help], False, s)
      | _ \<Rightarrow> ([], True, s))"

text \<open>The case of the property \<open>state\<close> has no \<open>break\<close>: the case of \<open>is_online\<close> follows.\<close>

definition cli_main :: "'s stub \<Rightarrow> ('s \<Rightarrow> bool) \<Rightarrow> cli_config \<Rightarrow> 's \<Rightarrow> cli_line list \<times> bool \<times> 's" where
  "cli_main st runtime_tests c s =
     (if cli_command c = cmd_test then ([], runtime_tests s, s)
      else case cli_property c of
        prop_state \<Rightarrow>
          (case cli_flag st flag_is_online c s of
             (ls, ok, s1) \<Rightarrow> ((if cli_command c = cmd_get then [Line_state (stub_state st s)] else []) @ ls, ok, s1))
      | prop_is_online \<Rightarrow> cli_flag st flag_is_online c s
      | prop_does_report_wifi_and_cell_ids \<Rightarrow> cli_flag st flag_does_report_cell_and_wifi_ids c s
      | prop_does_satellite_based_positioning \<Rightarrow> cli_flag st flag_does_satellite_based_positioning c s
      | prop_visible_space_vehicles \<Rightarrow> cli_list Line_space_vehicles c s
      | prop_client_applications \<Rightarrow> cli_list Line_client_applications c s
      | prop_unknown \<Rightarrow> ([Line_unknown_property, Line_help], False, s))"

section \<open>Options reach their provider\<close>

lemma starts_with_append [simp]: "starts_with p (p @ ys)"
  by (induction p) simp_all

lemma starts_contains: "starts_with p s \<Longrightarrow> contains_substring p s"
  by (cases s; cases p) simp_all

lemma contains_append: "contains_substring p (xs @ p @ ys)"
  by (induction xs) (simp_all add: starts_contains)

lemma erase_first_of_head: "c \<in> set marker \<Longrightarrow> hd marker = c \<Longrightarrow> erase_first_of marker (marker @ s) = Inr s"
  by (cases marker) (simp_all add: erase_first_of_def Let_def)

text \<open>How a user writes an option of a provider.\<close>

definition written_option :: "string \<times> string \<times> string \<Rightarrow> string" where
  "written_option = (\<lambda>(p, k, v). ''--'' @ p @ ''::'' @ k @ ''='' @ v)"

definition option_well_formed :: "string \<times> string \<times> string \<Rightarrow> bool" where
  "option_well_formed = (\<lambda>(p, k, v). p \<noteq> [] \<and> CHR ''='' \<notin> set p \<and> CHR ''='' \<notin> set k)"

lemma takeWhile_no_equals: "CHR ''='' \<notin> set s \<Longrightarrow> takeWhile (\<lambda>c. c \<noteq> CHR ''='') (s @ CHR ''='' # t) = s"
  by (induction s) auto

lemma split_option_key:
  "CHR ''='' \<notin> set key \<Longrightarrow> split_option (key @ CHR ''='' # v) = (key, takeWhile (\<lambda>c. c \<noteq> CHR ''='') v)"
  by (simp add: split_option_def takeWhile_no_equals Let_def)

lemma split_written:
  assumes "option_well_formed (p, k, v)"
  shows "split_option (written_option (p, k, v)) = (''--'' @ p @ ''::'' @ k, takeWhile (\<lambda>c. c \<noteq> CHR ''='') v)"
proof -
  let ?key = "''--'' @ p @ ''::'' @ k"
  have "CHR ''='' \<notin> set ?key" using assms by (auto simp: option_well_formed_def)
  from split_option_key [OF this, of v] show ?thesis by (simp add: written_option_def)
qed

lemma own_option:
  assumes "option_well_formed (p, k, v)"
  shows "provider_option p (written_option (p, k, v)) = Inr (Some (k, takeWhile (\<lambda>c. c \<noteq> CHR ''='') v))"
proof -
  have "contains_substring p (''--'' @ p @ ''::'' @ k)" by (rule contains_append)
  moreover have "erase_first_of ''--'' (''--'' @ p @ ''::'' @ k) = Inr (p @ ''::'' @ k)"
    by (rule erase_first_of_head [of "CHR ''-''"]) simp_all
  moreover have "erase_first_of p (p @ ''::'' @ k) = Inr (''::'' @ k)"
    using assms by (intro erase_first_of_head [of "hd p"]) (auto simp: option_well_formed_def)
  moreover have "erase_first_of ''::'' (''::'' @ k) = Inr k"
    by (rule erase_first_of_head [of "CHR '':''"]) simp_all
  ultimately show ?thesis by (simp add: provider_option_def split_written [OF assms])
qed

lemma foreign_option:
  assumes "option_well_formed (q, k, v)" "\<not> contains_substring p (''--'' @ q @ ''::'' @ k)"
  shows "provider_option p (written_option (q, k, v)) = Inr None"
  using assms by (simp add: provider_option_def split_written)

lemma config_put_map_of: "map_of (config_put k v c) = (map_of c)(k \<mapsto> v)"
  by (induction k v c rule: config_put.induct) (auto simp: fun_eq_iff)

definition own_values :: "string \<Rightarrow> (string \<times> string \<times> string) list \<Rightarrow> (string \<times> string) list" where
  "own_values p opts = map (\<lambda>(q, k, v). (k, takeWhile (\<lambda>c. c \<noteq> CHR ''='') v)) (filter (\<lambda>(q, k, v). q = p) opts)"

text \<open>No option of one provider mentions another one.\<close>

definition options_separate :: "string \<Rightarrow> (string \<times> string \<times> string) list \<Rightarrow> bool" where
  "options_separate p opts = list_all (\<lambda>(q, k, v). q = p \<or> \<not> contains_substring p (''--'' @ q @ ''::'' @ k)) opts"

lemma collect_written:
  assumes "list_all option_well_formed opts" "options_separate p opts"
  shows "\<exists>c'. collect_options p (map written_option opts) c = Inr c' \<and> map_of c' = map_of c ++ map_of (rev (own_values p opts))"
  using assms
proof (induction opts arbitrary: c)
  case (Cons e opts)
  obtain q k v where e: "e = (q, k, v)" by (cases e) auto
  have IH: "\<exists>c'. collect_options p (map written_option opts) c = Inr c' \<and> map_of c' = map_of c ++ map_of (rev (own_values p opts))" for c
    using Cons by (simp add: options_separate_def)
  show ?case
  proof (cases "q = p")
    case True
    let ?v = "takeWhile (\<lambda>c. c \<noteq> CHR ''='') v"
    from IH [of "config_put k ?v c"] Cons.prems(1) True show ?thesis
      by (auto simp: e own_option own_values_def config_put_map_of)
  next
    case False
    with Cons.prems have "provider_option p (written_option e) = Inr None"
      by (auto simp: e options_separate_def intro: foreign_option)
    with False IH [of c] show ?thesis by (auto simp: e own_values_def)
  qed
qed (simp add: own_values_def)

lemma config_for_put:
  "map_sorted string_lt cs \<Longrightarrow> config_for p (map_put string_lt q c cs) = (if p = q then c else config_for p cs)"
  by (simp add: config_for_def string_order.map_find_put)

lemma collect_all_written:
  assumes "list_all option_well_formed opts" "list_all (\<lambda>p. options_separate p opts) ps" "distinct ps" "map_sorted string_lt cs"
    "\<And>p. p \<in> set ps \<Longrightarrow> config_for p cs = []"
  shows "\<exists>cs'. collect_all ps (map written_option opts) cs = Inr cs' \<and>
    (\<forall>p. map_of (config_for p cs') = (if p \<in> set ps then map_of (rev (own_values p opts)) else map_of (config_for p cs)))"
  using assms
proof (induction ps arbitrary: cs)
  case (Cons q ps)
  have q: "config_for q cs = []" using Cons.prems(5) by simp
  obtain c where c: "collect_options q (map written_option opts) [] = Inr c" "map_of c = map_of (rev (own_values q opts))"
    using collect_written [OF Cons.prems(1), of q "[]"] Cons.prems(2) by auto
  let ?cs = "if c = [] then cs else map_put string_lt q c cs"
  have f: "config_for p ?cs = (if p = q then c else config_for p cs)" for p
    using Cons.prems(4) q by (simp add: config_for_put)
  have s: "map_sorted string_lt ?cs" using Cons.prems(4) by (simp add: string_order.map_put_sorted)
  have n: "\<And>p. p \<in> set ps \<Longrightarrow> config_for p ?cs = []" unfolding f using Cons.prems(3,5) by auto
  have "list_all (\<lambda>p. options_separate p opts) ps" "distinct ps" using Cons.prems(2,3) by simp_all
  from Cons.IH [OF Cons.prems(1) this s n] obtain cs' where cs': "collect_all ps (map written_option opts) ?cs = Inr cs'"
    "\<forall>p. map_of (config_for p cs') = (if p \<in> set ps then map_of (rev (own_values p opts)) else map_of (config_for p ?cs))"
    by blast
  then have "map_of (config_for p cs') = (if p \<in> set (q # ps) then map_of (rev (own_values p opts)) else map_of (config_for p cs))" for p
    using c(2) f [of p] by auto
  with cs'(1) c(1) q show ?case by simp
qed simp



section \<open>Loading of providers\<close>

text \<open>What a factory must do: keep the world sound and return an object of it.\<close>

definition sound_factory :: "(config \<Rightarrow> 't world \<Rightarrow> (nat option \<times> 't world) result) \<Rightarrow> bool" where
  "sound_factory f \<longleftrightarrow> (\<forall>c w i w'. sound_world w \<longrightarrow> f c w = Inr (i, w') \<longrightarrow>
     sound_world w' \<and> providers w' = providers w \<and> (\<forall>j. i = Some j \<longrightarrow> objs w' j \<noteq> None))"

lemma load_provider_sound:
  assumes "total_order (addr_less pf)" "sound_world w" "\<And>f. f \<in> snd ` set store \<Longrightarrow> sound_factory f"
  shows "sound_world (load_provider pf fuel store configs name w) \<and> set (providers w) \<subseteq> set (providers (load_provider pf fuel store configs name w))"
proof (cases "map_find string_lt (extract_undecorated_name name) store")
  case (Some f)
  then have f: "sound_factory f"
    using assms(3) by (force simp: string_order.map_find_map_of dest: map_of_SomeD)
  show ?thesis
  proof (cases "f (config_for name configs) w")
    case (Inr r)
    obtain i w1 where r: "r = (i, w1)" by force
    with f Inr assms(2) have w1: "sound_world w1" "providers w1 = providers w" "\<And>j. i = Some j \<Longrightarrow> objs w1 j \<noteq> None"
      unfolding sound_factory_def by blast+
    show ?thesis
    proof (cases i)
      case None
      then show ?thesis using Some Inr r w1 by (simp add: load_provider_def add_provider_def)
    next
      case (Some j)
      from add_provider_consistent [OF assms(1) w1(1) w1(3) [OF Some], of fuel] obtain w2 where
        "add_provider pf fuel (Some j) w1 = Inr w2" "sound_world w2" "set (providers w) \<subseteq> set (providers w2)"
        using w1(2) by auto
      then show ?thesis using \<open>map_find _ _ store = Some f\<close> Inr r Some by (simp add: load_provider_def)
    qed
  qed (use Some assms(2) in \<open>simp add: load_provider_def\<close>)
qed (use assms(2) in \<open>simp add: load_provider_def\<close>)

text \<open>
  Loading the providers leaves a consistent engine with at least the providers it had, whatever factories are
  missing, fail or return nothing: a failing provider does not keep the others from being loaded.
\<close>

theorem load_providers_keeps_engine_consistent:
  assumes "total_order (addr_less pf)" "sound_world w" "list_all sound_factory (map snd store)"
  shows "sound_world (load_providers pf fuel store c w) \<and> set (providers w) \<subseteq> set (providers (load_providers pf fuel store c w))"
proof -
  have f: "\<And>f. f \<in> snd ` set store \<Longrightarrow> sound_factory f" using assms(3) by (auto simp: list_all_iff)
  have "sound_world (fold (load_provider pf fuel store cs) names w) \<and>
      set (providers w) \<subseteq> set (providers (fold (load_provider pf fuel store cs) names w))" if "sound_world w" for cs names and w :: "'a world"
    using that
  proof (induction names arbitrary: w)
    case (Cons n names)
    then show ?case using load_provider_sound [OF assms(1) Cons.prems, of store fuel cs n] f by fastforce
  qed simp
  then show ?thesis using assms(2) by (simp add: load_providers_def)
qed

text \<open>A factory that hands out an existing object, and one that fails.\<close>

theorem load_providers_keeps_engine_consistent_witness:
  "let store = [(''bad'', \<lambda>c w. Inl (runtime_error ''no device'')), (''good'', \<lambda>c w. if objs w 0 = None then Inr (None, w) else Inr (Some 0, w))];
       c = \<lparr>incoming = system_bus, outgoing = system_bus, provider_names = [''bad'', ''missing'', ''good''], provider_configs = [], settings_file = []\<rparr>
   in sound_world (load_providers demo_platform 3 store c demo_world)"
proof -
  let ?store = "[(''bad'', \<lambda>c w. Inl (runtime_error ''no device'')), (''good'', \<lambda>c w. if objs w 0 = None then Inr (None, w) else Inr (Some 0, w))]
    :: (config \<Rightarrow> (string \<rightharpoonup> string) world \<Rightarrow> (nat option \<times> (string \<rightharpoonup> string) world) result) factory_store"
  have "total_order (addr_less demo_platform)" by (simp add: demo_platform_def addr.total_order_axioms)
  moreover have "list_all sound_factory (map snd ?store)" by (auto simp: sound_factory_def)
  ultimately show ?thesis
    using load_providers_keeps_engine_consistent [OF _ demo_world_sound, of demo_platform ?store] by (simp add: Let_def)
qed

section \<open>The command-line client\<close>

text \<open>
  A property is read back from its printed name, with what follows it left in the stream; no other word is accepted.
\<close>

theorem cli_property_roundtrip:
  "(case read_cli_property (print_cli_property p) of Inl e \<Rightarrow> p = prop_unknown | Inr (q, rest) \<Rightarrow> q = p \<and> rest = []) \<and>
   (case read_cli_property s of Inl e \<Rightarrow> True | Inr (q, rest) \<Rightarrow> print_cli_property q = fst (read_token s) \<and> q \<noteq> prop_unknown)"
proof
  show "case read_cli_property (print_cli_property p) of Inl e \<Rightarrow> p = prop_unknown | Inr (q, rest) \<Rightarrow> q = p \<and> rest = []"
    by (cases p) (simp_all add: read_cli_property_def read_token_def is_space_def cli_property_lut_def Let_def)
  show "case read_cli_property s of Inl e \<Rightarrow> True | Inr (q, rest) \<Rightarrow> print_cli_property q = fst (read_token s) \<and> q \<noteq> prop_unknown"
    by (auto simp: read_cli_property_def cli_property_lut_def split: sum.split option.splits prod.splits if_splits)
qed

lemma read_boolalpha_if:
  "read_boolalpha flag s = (if dropWhile is_space s = [] then flag else starts_with ''true'' (dropWhile is_space s))"
  unfolding read_boolalpha_def by (cases "dropWhile is_space s") (simp_all only: list.case list.distinct if_False if_True refl)

text \<open>
  Setting a flag sets it to the value that was read, fails exactly if the service does not keep it and leaves
  the other properties alone; but any text that does not begin with \<open>true\<close> is read as false. Asked to set the read-only
  property \<open>state\<close>, the client switches the service on or off, because the case falls through.
\<close>

theorem cli_set_behaviour:
  assumes "cli_command c = cmd_set"
  shows "cli_main st tests (c\<lparr>cli_property := prop_state\<rparr>) s = cli_main st tests (c\<lparr>cli_property := prop_is_online\<rparr>) s \<and>
    (case cli_main st tests (c\<lparr>cli_property := prop_is_online\<rparr>) s of
       (ls, ok, s') \<Rightarrow>
         let v = (if dropWhile is_space (new_value c) = [] then stub_get st flag_is_online s
                  else starts_with ''true'' (dropWhile is_space (new_value c)))
         in s' = stub_set st flag_is_online v s \<and> (ok \<longleftrightarrow> stub_get st flag_is_online s' = v)) \<and>
    snd (snd (cli_main st tests (c\<lparr>cli_property := prop_visible_space_vehicles\<rparr>) s)) = s \<and>
    snd (snd (cli_main st tests (c\<lparr>cli_property := prop_client_applications\<rparr>) s)) = s"
  using assms by (simp add: cli_main_def cli_flag_def cli_list_def read_boolalpha_if Let_def)

text \<open>\<open>--property state --set yes\<close> switches a service off.\<close>

theorem cli_set_behaviour_witness:
  "let st = \<lparr>stub_state = (\<lambda>s. service_enabled), stub_get = (\<lambda>f s. s), stub_set = (\<lambda>f v s. v)\<rparr>;
       c = \<lparr>cli_command = cmd_set, cli_property = prop_state, new_value = ''yes''\<rparr>
   in snd (snd (cli_main st (\<lambda>s. True) c True)) = False"
  using cli_set_behaviour [of "\<lparr>cli_command = cmd_set, cli_property = prop_state, new_value = ''yes''\<rparr>"
      "\<lparr>stub_state = (\<lambda>s. service_enabled), stub_get = (\<lambda>f s. s), stub_set = (\<lambda>f v s. v)\<rparr>" "\<lambda>s. True" True]
  by (auto simp: is_space_def Let_def split: prod.splits)

end
