(* ===== verification/Remote_Provider.thy ===== *)
theory Remote_Provider
  imports Daemon
begin

text \<open>
  A provider in another process (\<open>providers/remote/provider.cpp\<close>): the stub in the service, which posts
  requests to a task queue, and the skeleton at the other end, which forwards them to the implementation.

  The state \<open>remote\<close> holds both ends: the controller of the stub, which counts the requests of the clients in the service,
  the queue of tasks, the controller of the implementation and the calls that reach the implementation. A
  transaction on the bus may fail: \<open>delivered\<close> says whether the method ran at the other end. An exception of a task ends the task only: the
  event loop is run again. Whether a task finds its stub alive is \<open>stub_alive\<close>.
\<close>

section \<open>Data\<close>

datatype reading = Position_reading position | Heading_reading double | Velocity_reading double

datatype remote_task =
    Request call
  | Reference "reading update"
  | Deliver reading

record remote =
  stub_alive :: bool
  stub_controller :: controller
  task_queue :: "remote_task list"
  impl_controller :: controller
  impl_calls :: "call list"
  impl_references :: "reading update list"
  stub_updates :: "reading update list"

definition new_remote :: remote where
  "new_remote = \<lparr>stub_alive = True, stub_controller = new_controller, task_queue = [], impl_controller = new_controller,
     impl_calls = [], impl_references = [], stub_updates = []\<rparr>"

section \<open>The skeleton\<close>

text \<open>Methods of the interface that change the implementation; the three queries are answered by it.\<close>

datatype skeleton_method = Method_request call | Method_reference "reading update"

fun skeleton_handle :: "skeleton_method \<Rightarrow> remote \<Rightarrow> remote" where
  "skeleton_handle (Method_request k) r =
     (case controller_op k (impl_controller r) of
        (c, ks) \<Rightarrow> r\<lparr>impl_controller := c, impl_calls := impl_calls r @ ks\<rparr>)"
| "skeleton_handle (Method_reference u) r = r\<lparr>impl_references := impl_references r @ [u]\<rparr>"

section \<open>The stub\<close>

definition post_task :: "remote_task \<Rightarrow> remote \<Rightarrow> remote" where
  "post_task t r = r\<lparr>task_queue := task_queue r @ [t]\<rparr>"

text \<open>The virtual start and stop functions of the stub.\<close>

definition stub_call :: "call \<Rightarrow> remote \<Rightarrow> remote" where
  "stub_call k r = post_task (Request k) r"

definition stub_reference :: "reading update \<Rightarrow> remote \<Rightarrow> remote" where
  "stub_reference u r = post_task (Reference u) r"

text \<open>The skeleton emits the value of an update; the stub posts what it receives.\<close>

definition impl_update :: "reading update \<Rightarrow> remote \<Rightarrow> remote" where
  "impl_update u r = post_task (Deliver (update_value u)) r"

fun run_remote_task :: "bool \<Rightarrow> int \<Rightarrow> remote_task \<Rightarrow> remote \<Rightarrow> remote" where
  "run_remote_task delivered now (Request k) r =
     (if stub_alive r \<and> delivered then skeleton_handle (Method_request k) r else r)"
| "run_remote_task delivered now (Reference u) r =
     (if stub_alive r \<and> delivered then skeleton_handle (Method_reference u) r else r)"
| "run_remote_task delivered now (Deliver v) r =
     (if stub_alive r then r\<lparr>stub_updates := stub_updates r @ [make_update v now]\<rparr> else r)"

text \<open>A request of a client in the service goes through the controller of the stub.\<close>

definition client_request :: "call \<Rightarrow> remote \<Rightarrow> remote" where
  "client_request k r =
     (case controller_op k (stub_controller r) of (c, ks) \<Rightarrow> fold stub_call ks (r\<lparr>stub_controller := c\<rparr>))"

datatype remote_event =
    Client_request call
  | Reference_update "reading update"
  | Impl_update "reading update"
  | Run_next bool int
  | Destroy_stub

fun remote_step :: "remote_event \<Rightarrow> remote \<Rightarrow> remote" where
  "remote_step (Client_request k) r = (if stub_alive r then client_request k r else r)"
| "remote_step (Reference_update u) r = (if stub_alive r then stub_reference u r else r)"
| "remote_step (Impl_update u) r = impl_update u r"
| "remote_step (Run_next delivered now) r =
     (case task_queue r of [] \<Rightarrow> r | t # ts \<Rightarrow> run_remote_task delivered now t (r\<lparr>task_queue := ts\<rparr>))"
| "remote_step Destroy_stub r = r\<lparr>stub_alive := False\<rparr>"

text \<open>The queries and the change of the reporting state wait for the answer; an error of the transaction is thrown.\<close>

definition throw_if_error_or_return :: "string + 'a \<Rightarrow> 'a result" where
  "throw_if_error_or_return r = (case r of Inl e \<Rightarrow> Inl (runtime_error e) | Inr v \<Rightarrow> Inr v)"

definition stub_query :: "string option \<Rightarrow> ('q \<Rightarrow> 'a) \<Rightarrow> 'q \<Rightarrow> 'a result" where
  "stub_query failure impl q =
     throw_if_error_or_return (case failure of Some e \<Rightarrow> Inl e | None \<Rightarrow> Inr (impl q))"

section \<open>Creation\<close>

record remote_env =
  system_bus_address :: "string option"
  session_bus_address :: "string option"
  has_owner :: "string \<Rightarrow> bool"
  registered_in_time :: "string \<Rightarrow> bool"
  ping_answer :: "string \<Rightarrow> string \<Rightarrow> bool result"

datatype bus_choice = Well_known well_known_bus | Address string

definition get_or_throw :: "string option \<Rightarrow> string result" where
  "get_or_throw v = (case v of None \<Rightarrow> Inl (runtime_error ''Variable not set'') | Some s \<Rightarrow> Inr s)"

definition bus_from_name :: "remote_env \<Rightarrow> string \<Rightarrow> bus_choice result" where
  "bus_from_name env bus_name =
     (if bus_name = ''system'' then Inr (Well_known system_bus)
      else if bus_name = ''session'' then Inr (Well_known session_bus)
      else if bus_name = ''system_with_address_from_env'' then result_bind (get_or_throw (system_bus_address env)) (\<lambda>a. Inr (Address a))
      else if bus_name = ''session_with_address_from_env'' then result_bind (get_or_throw (session_bus_address env)) (\<lambda>a. Inr (Address a))
      else Inl (runtime_error (''Could not create bus for name: '' @ bus_name)))"

definition create_stub :: "remote_env \<Rightarrow> config \<Rightarrow> (bus_choice \<times> remote) result" where
  "create_stub env c =
     (let bus_name = (case map_of c ''bus'' of None \<Rightarrow> ''system'' | Some b \<Rightarrow> b)
      in case map_of c ''name'' of
           None \<Rightarrow> Inl (runtime_error ''Missing bus-name'')
         | Some name \<Rightarrow>
             (case map_of c ''path'' of
                None \<Rightarrow> Inl (runtime_error ''Missing bus-path'')
              | Some path \<Rightarrow>
                  result_bind (bus_from_name env bus_name) (\<lambda>bus.
                    if \<not> has_owner env name \<and> \<not> registered_in_time env name
                    then Inl (runtime_error ''Remote service failed to start'')
                    else result_bind (ping_answer env name path) (\<lambda>b. Inr (bus, new_remote)))))"

definition remote_run :: "remote_event list \<Rightarrow> remote \<Rightarrow> remote" where
  "remote_run es r = fold remote_step es r"

section \<open>Requests arrive\<close>

lemma controller_run_single: "controller_run [k] c = controller_op k c"
  by (simp split: prod.split)

lemma controller_run_length: "length (snd (controller_run ks c)) \<le> length ks"
proof (induction ks arbitrary: c)
  case (Cons k ks)
  have "length (snd (controller_op k c)) \<le> 1" using controller_op_calls [of k c] by auto
  with Cons [of "fst (controller_op k c)"] show ?case unfolding controller_run_Cons by simp
qed simp

lemma running_observers:
  "running ch b ks = Some b' \<Longrightarrow> observers ch (of_bool b) ks = Some (of_bool b')"
  by (induction ch b ks rule: running.induct) (auto split: if_splits)

fun requests :: "remote_task list \<Rightarrow> call list" where
  "requests [] = []"
| "requests (Request k # ts) = k # requests ts"
| "requests (t # ts) = requests ts"

fun client_requests :: "remote_event list \<Rightarrow> call list" where
  "client_requests [] = []"
| "client_requests (Client_request k # es) = k # client_requests es"
| "client_requests (e # es) = client_requests es"

text \<open>Every transaction succeeds and the stub lives.\<close>

fun reliable :: "remote_event \<Rightarrow> bool" where
  "reliable (Run_next delivered now) = delivered"
| "reliable Destroy_stub = False"
| "reliable e = True"

lemma requests_append [simp]: "requests (ts @ us) = requests ts @ requests us"
  by (induction ts rule: requests.induct) simp_all

lemma stub_calls_effect:
  "fold stub_call ks r = r\<lparr>task_queue := task_queue r @ map Request ks\<rparr>"
  by (induction ks arbitrary: r) (simp_all add: stub_call_def post_task_def)

lemma requests_map [simp]: "requests (map Request ks) = ks"
  by (induction ks) simp_all

text \<open>What was requested so far went through the first controller; the second has seen all of it but the queue.\<close>

definition in_transit :: "call list \<Rightarrow> remote \<Rightarrow> bool" where
  "in_transit ks r \<longleftrightarrow> stub_alive r \<and>
     (\<exists>ps. controller_run ks new_controller = (stub_controller r, ps @ requests (task_queue r)) \<and>
           controller_run ps new_controller = (impl_controller r, impl_calls r))"

lemma in_transit_client:
  assumes "in_transit ks r"
  shows "in_transit (ks @ [k]) (client_request k r)"
proof -
  obtain c calls where op: "controller_op k (stub_controller r) = (c, calls)" by force
  from assms obtain ps where ps: "controller_run ks new_controller = (stub_controller r, ps @ requests (task_queue r))"
    "controller_run ps new_controller = (impl_controller r, impl_calls r)" and a: "stub_alive r"
    by (auto simp: in_transit_def)
  then have "controller_run (ks @ [k]) new_controller = (c, ps @ requests (task_queue r) @ calls)"
    by (simp add: controller_run_append controller_run_single op del: controller_run.simps)
  with ps(2) a op show ?thesis by (auto simp: in_transit_def client_request_def stub_calls_effect)
qed

lemma in_transit_run:
  assumes "in_transit ks r" "task_queue r = t # ts"
  shows "in_transit ks (run_remote_task True now t (r\<lparr>task_queue := ts\<rparr>))"
proof (cases t)
  case (Request k)
  obtain c calls where op: "controller_op k (impl_controller r) = (c, calls)" by force
  from assms Request obtain ps where ps: "controller_run ks new_controller = (stub_controller r, (ps @ [k]) @ requests ts)"
    "controller_run ps new_controller = (impl_controller r, impl_calls r)" and a: "stub_alive r"
    by (auto simp: in_transit_def)
  have "controller_run (ps @ [k]) new_controller = (c, impl_calls r @ calls)"
    by (simp add: controller_run_append controller_run_single ps(2) op del: controller_run.simps)
  with ps(1) a op Request show ?thesis unfolding in_transit_def by auto
qed (use assms in \<open>auto simp: in_transit_def\<close>)

lemma in_transit_step:
  assumes "in_transit ks r" "reliable e"
  shows "in_transit (ks @ client_requests [e]) (remote_step e r)"
proof (cases e)
  case (Client_request k)
  moreover have "stub_alive r" using assms(1) by (simp add: in_transit_def)
  ultimately show ?thesis using in_transit_client [OF assms(1), of k] by simp
next
  case (Run_next d now)
  then show ?thesis using assms in_transit_run by (auto split: list.split)
qed (use assms in \<open>auto simp: in_transit_def stub_reference_def impl_update_def post_task_def\<close>)

lemma client_requests_Cons: "client_requests (e # es) = client_requests [e] @ client_requests es"
  by (cases e) simp_all

lemma in_transit_remote_run:
  "in_transit ks r \<Longrightarrow> list_all reliable es \<Longrightarrow> in_transit (ks @ client_requests es) (remote_run es r)"
proof (induction es arbitrary: ks r)
  case (Cons e es)
  from Cons.IH [OF in_transit_step [OF Cons.prems(1)]] Cons.prems(2) show ?case
    by (simp add: remote_run_def client_requests_Cons [of e es])
qed (simp add: remote_run_def)

lemma new_remote_in_transit: "in_transit [] new_remote"
  by (simp add: in_transit_def new_remote_def)

text \<open>
  C21. The two ends agree. When every transaction succeeds and no request is queued, the implementation in the other process
  runs a channel exactly when a client in the service still observes it, and it has been started and stopped
  alternately: the reference counting of the stub and that of the implementation compose.
\<close>

theorem remote_channel_follows_clients:
  assumes "list_all reliable es" "requests (task_queue (remote_run es new_remote)) = []"
    "observers ch 0 (client_requests es) = Some n" "length (client_requests es) < 2 ^ 31"
  shows "running ch False (impl_calls (remote_run es new_remote)) = Some (n > 0)"
proof -
  let ?r = "remote_run es new_remote" and ?ks = "client_requests es"
  have z: "counter ch new_controller = 0" by (cases ch) (simp_all add: new_controller_def)
  have l: "int (length ?ks) < 2 ^ 31" using assms(4) by (metis of_nat_less_iff of_nat_numeral of_nat_power)
  obtain ps where ps: "controller_run ?ks new_controller = (stub_controller ?r, ps)"
    "controller_run ps new_controller = (impl_controller ?r, impl_calls ?r)"
    using in_transit_remote_run [OF new_remote_in_transit assms(1)] assms(2) by (auto simp: in_transit_def)
  have "running ch False ps = Some (n > 0)"
    using controller_run_refcount [of ch new_controller ?ks n] assms(3) l z ps(1) by simp
  from running_observers [OF this] have o: "observers ch 0 ps = Some (of_bool (n > 0))" by simp
  have "length ps \<le> length ?ks" using controller_run_length [of ?ks new_controller] ps(1) by simp
  then have "int (length ps) < 2 ^ 31" using l by linarith
  with controller_run_refcount [of ch new_controller ps "of_bool (n > 0)"] o z ps(2) show ?thesis by simp
qed

theorem remote_channel_follows_clients_witness:
  "running ch_position False (impl_calls (remote_run
      [Client_request (Start ch_position), Client_request (Start ch_position), Run_next True 5, Client_request (Stop ch_position)] new_remote)) =
   Some True"
proof -
  let ?es = "[Client_request (Start ch_position), Client_request (Start ch_position), Run_next True 5, Client_request (Stop ch_position)]"
  have "requests (task_queue (remote_run ?es new_remote)) = []"
    by (simp add: remote_run_def new_remote_def client_request_def start_position_updates_def stop_position_updates_def new_controller_def
        stub_call_def post_task_def Let_def)
  then show ?thesis using remote_channel_follows_clients [of ?es ch_position 1] by simp
qed

section \<open>A lost request\<close>

definition remote_disabled :: "channel \<Rightarrow> remote \<Rightarrow> bool" where
  "remote_disabled ch r \<longleftrightarrow> counter ch (impl_controller r) < 0 \<and> Start ch \<notin> set (impl_calls r)"

lemma skeleton_disabled:
  assumes "remote_disabled ch r"
  shows "remote_disabled ch (skeleton_handle m r)"
proof (cases m)
  case (Method_request k)
  obtain ch' where k: "k \<in> {Start ch', Stop ch'}" by (cases k) auto
  have "counter ch (fst (controller_op k (impl_controller r))) = counter ch (impl_controller r) \<and>
      Start ch \<notin> set (snd (controller_op k (impl_controller r)))"
  proof (cases "ch' = ch")
    case True
    then show ?thesis using k assms controller_op_disabled [of k ch] by (auto simp: remote_disabled_def)
  next
    case False
    then show ?thesis using k controller_op_other [OF k False] controller_op_calls [of k "impl_controller r"] by auto
  qed
  with assms Method_request show ?thesis by (auto simp: remote_disabled_def split: prod.split)
qed (use assms in \<open>simp add: remote_disabled_def\<close>)

lemma task_disabled: "remote_disabled ch r \<Longrightarrow> remote_disabled ch (run_remote_task d now t r)"
  using skeleton_disabled by (cases t) (auto simp: remote_disabled_def simp del: skeleton_handle.simps)

lemma step_disabled: "remote_disabled ch r \<Longrightarrow> remote_disabled ch (remote_step e r)"
proof (cases e)
  case (Run_next d now)
  assume "remote_disabled ch r"
  then have "remote_disabled ch (r\<lparr>task_queue := ts\<rparr>)" for ts by (simp add: remote_disabled_def)
  then show ?thesis using \<open>remote_disabled ch r\<close> Run_next by (auto intro: task_disabled split: list.split)
qed (auto simp: remote_disabled_def client_request_def stub_calls_effect stub_reference_def impl_update_def post_task_def split: prod.split)

lemma run_disabled: "remote_disabled ch r \<Longrightarrow> remote_disabled ch (remote_run es r)"
  by (induction es arbitrary: r) (simp_all add: remote_run_def step_disabled)

lemma controller_op_stop_at_zero:
  "counter ch c = 0 \<Longrightarrow> counter ch (fst (controller_op (Stop ch) c)) = - 1 \<and> snd (controller_op (Stop ch) c) = []"
  using position.stop_at_zero heading.stop_at_zero velocity.stop_at_zero by (cases ch) auto

text \<open>
  One lost start disables a channel for good: if the transaction of a start fails and that of the following stop
  succeeds, the controller of the implementation counts below zero, and whatever clients request afterwards
  the implementation is never started on that channel.
\<close>

theorem lost_start_disables_remote_channel:
  "Start ch \<notin> set (impl_calls (remote_run ([Client_request (Start ch), Run_next False t, Client_request (Stop ch), Run_next True t'] @ es)
     new_remote))"
proof -
  let ?es = "[Client_request (Start ch), Run_next False t, Client_request (Stop ch), Run_next True t']"
  have z: "counter ch new_controller = 0" by (cases ch) (simp_all add: new_controller_def)
  obtain c1 where c1: "controller_op (Start ch) new_controller = (c1, [Start ch])" "counter ch c1 = 1"
    using controller_op_start [of ch new_controller] z by (cases "controller_op (Start ch) new_controller") auto
  obtain c2 where c2: "controller_op (Stop ch) c1 = (c2, [Stop ch])"
    using controller_op_stop [of ch c1] c1(2) by (cases "controller_op (Stop ch) c1") auto
  obtain c3 where c3: "controller_op (Stop ch) new_controller = (c3, [])" "counter ch c3 = - 1"
    using controller_op_stop_at_zero [OF z] by (cases "controller_op (Stop ch) new_controller") auto
  have "remote_disabled ch (remote_run ?es new_remote)"
    by (simp add: remote_run_def new_remote_def client_request_def c1 c2 c3 stub_call_def post_task_def remote_disabled_def
        del: controller_op.simps)
  from run_disabled [OF this, of es] show ?thesis
    by (simp add: remote_run_def remote_disabled_def)
qed

section \<open>Updates arrive\<close>

fun deliveries :: "remote_task list \<Rightarrow> reading list" where
  "deliveries [] = []"
| "deliveries (Deliver v # ts) = v # deliveries ts"
| "deliveries (t # ts) = deliveries ts"

fun references :: "remote_task list \<Rightarrow> reading update list" where
  "references [] = []"
| "references (Reference u # ts) = u # references ts"
| "references (t # ts) = references ts"

fun emitted_updates :: "remote_event list \<Rightarrow> reading list" where
  "emitted_updates [] = []"
| "emitted_updates (Impl_update u # es) = update_value u # emitted_updates es"
| "emitted_updates (e # es) = emitted_updates es"

fun reference_updates :: "remote_event list \<Rightarrow> reading update list" where
  "reference_updates [] = []"
| "reference_updates (Reference_update u # es) = u # reference_updates es"
| "reference_updates (e # es) = reference_updates es"

lemma deliveries_append [simp]: "deliveries (ts @ us) = deliveries ts @ deliveries us"
  by (induction ts rule: deliveries.induct) simp_all

lemma references_append [simp]: "references (ts @ us) = references ts @ references us"
  by (induction ts rule: references.induct) simp_all

lemma no_deliveries [simp]: "deliveries (map Request ks) = []" "references (map Request ks) = []"
  by (induction ks) simp_all

lemma step_forwards:
  assumes "stub_alive r" "reliable e"
  shows "stub_alive (remote_step e r) \<and>
    map update_value (stub_updates (remote_step e r)) @ deliveries (task_queue (remote_step e r)) =
      map update_value (stub_updates r) @ deliveries (task_queue r) @ emitted_updates [e] \<and>
    impl_references (remote_step e r) @ references (task_queue (remote_step e r)) =
      impl_references r @ references (task_queue r) @ reference_updates [e]"
proof (cases e)
  case (Run_next d now)
  then show ?thesis
  proof (cases "task_queue r")
    case (Cons t ts)
    then show ?thesis using Run_next assms by (cases t) (auto simp: make_update_def split: prod.split)
  qed (use Run_next assms in simp)
qed (use assms in \<open>auto simp: client_request_def stub_calls_effect stub_reference_def impl_update_def post_task_def split: prod.split\<close>)

text \<open>
  While the stub lives and transactions succeed, the values the implementation reports arrive in order, none lost or invented: those
  delivered followed by those queued are those reported. The same holds for reference updates in the
  other direction, which keep their time; the time of a reported value is replaced by that of its delivery.
\<close>

theorem remote_updates_in_order:
  assumes "list_all reliable es"
  shows "map update_value (stub_updates (remote_run es new_remote)) @ deliveries (task_queue (remote_run es new_remote)) = emitted_updates es \<and>
    impl_references (remote_run es new_remote) @ references (task_queue (remote_run es new_remote)) = reference_updates es"
proof -
  have e: "emitted_updates (e # es) = emitted_updates [e] @ emitted_updates es" for e es by (cases e) simp_all
  have f: "reference_updates (e # es) = reference_updates [e] @ reference_updates es" for e es by (cases e) simp_all
  have "map update_value (stub_updates (remote_run es r)) @ deliveries (task_queue (remote_run es r)) =
      map update_value (stub_updates r) @ deliveries (task_queue r) @ emitted_updates es \<and>
    impl_references (remote_run es r) @ references (task_queue (remote_run es r)) =
      impl_references r @ references (task_queue r) @ reference_updates es" if "list_all reliable es" "stub_alive r" for es r
    using that
  proof (induction es arbitrary: r)
    case (Cons x es)
    then have s: "stub_alive r" "reliable x" by simp_all
    note t = step_forwards [OF s]
    have "list_all reliable es" using Cons.prems by simp
    from Cons.IH [OF this conjunct1 [OF t]] t show ?case
      unfolding e [of x es] f [of x es] remote_run_def fold_simps by simp
  qed (simp add: remote_run_def)
  from this [OF assms, of new_remote] show ?thesis by (simp add: new_remote_def)
qed

theorem remote_updates_in_order_witness:
  "map update_value (stub_updates (remote_run [Impl_update (make_update (Heading_reading (Fin 1)) 3), Run_next True 9] new_remote)) =
    [Heading_reading (Fin 1)]"
  using remote_updates_in_order [of "[Impl_update (make_update (Heading_reading (Fin 1)) 3), Run_next True 9]"]
  by (simp add: remote_run_def new_remote_def impl_update_def post_task_def make_update_def)

end
