(* ===== verification/Qt_Source.thy ===== *)
theory Qt_Source
  imports Provider_Controller Data_Model "HOL-Library.Signed_Division"
begin

text \<open>
  The position source of Qt applications (\<open>qt/position/core_geo_position_info_source.cpp\<close>): a client of the service
  with a timer for single requests that is suspended while the application is inactive.

  \<open>geo_source\<close> is the state of \<open>GeoPositionInfoSource\<close> and its \<open>Private\<close>. The session is absent or has the status of
  its three channels. \<open>emitted\<close> is the log of the signals. \<open>positionUpdated\<close> is invoked through the event loop: \<open>queued\<close> holds
  what has still to be delivered. Whether the service grants a session is the argument \<open>granted\<close>.
\<close>

section \<open>State\<close>

datatype source_state = src_stopped | src_running | src_one_shot | src_suspended

datatype source_error = NoError | AccessError

datatype application_state = ApplicationSuspended | ApplicationHidden | ApplicationInactive | ApplicationActive

datatype positioning_methods = NoPositioningMethods | SatellitePositioningMethods | NonSatellitePositioningMethods | AllPositioningMethods

record geo_info =
  coordinate :: "(double \<times> double \<times> double) option"
  horizontal_attribute :: "double option"
  vertical_attribute :: "double option"
  direction_attribute :: "double option"
  speed_attribute :: "double option"
  timestamp_ms :: "int option"

datatype source_signal = Position_updated geo_info | Error_occurred source_error | Update_timeout

record geo_source =
  application_active :: bool
  last_req_timeout :: int
  source_state :: source_state
  source_session :: "(channel \<Rightarrow> bool) option"
  source_error :: source_error
  timer_active :: bool
  timer_interval :: int
  last_known :: geo_info
  queued :: "geo_info list"
  emitted :: "source_signal list"
  preferred_methods :: positioning_methods

definition default_timeout_in_ms :: int where "default_timeout_in_ms = 10 * 1000"

definition new_source :: geo_source where
  "new_source = \<lparr>application_active = True, last_req_timeout = - 1, source_state = src_stopped, source_session = None,
     source_error = NoError, timer_active = False, timer_interval = 0,
     last_known = \<lparr>coordinate = None, horizontal_attribute = None, vertical_attribute = None, direction_attribute = None,
       speed_attribute = None, timestamp_ms = None\<rparr>, queued = [], emitted = [], preferred_methods = NoPositioningMethods\<rparr>"

section \<open>Operations\<close>

definition emit_error :: "geo_source \<Rightarrow> geo_source" where
  "emit_error s = s\<lparr>emitted := emitted s @ [Error_occurred (source_error s)]\<rparr>"

definition setUpdateInterval :: "geo_source \<Rightarrow> geo_source" where
  "setUpdateInterval s = (if source_error s \<noteq> NoError then emit_error s else s)"

text \<open>The base class restricts the methods to the supported ones.\<close>

definition supportedPositioningMethods :: "geo_source \<Rightarrow> positioning_methods" where
  "supportedPositioningMethods s = (if source_error s \<noteq> NoError then NoPositioningMethods else AllPositioningMethods)"

definition setPreferredPositioningMethods :: "positioning_methods \<Rightarrow> geo_source \<Rightarrow> geo_source" where
  "setPreferredPositioningMethods methods s =
     (if source_error s \<noteq> NoError then emit_error s
      else s\<lparr>preferred_methods := (if methods = NoPositioningMethods then supportedPositioningMethods s else methods)\<rparr>)"

definition lastKnownPosition :: "geo_source \<Rightarrow> geo_info" where
  "lastKnownPosition s = (if source_error s \<noteq> NoError then last_known new_source else last_known s)"

definition minimumUpdateInterval :: "geo_source \<Rightarrow> int" where
  "minimumUpdateInterval s = (if source_error s \<noteq> NoError then - 1 else 500)"

definition createLocationServiceSession :: "bool \<Rightarrow> geo_source \<Rightarrow> geo_source" where
  "createLocationServiceSession granted s =
     (if granted then s\<lparr>source_session := Some (\<lambda>_. False), source_error := NoError\<rparr>
      else s\<lparr>source_error := AccessError\<rparr>)"

definition startUpdates :: "bool \<Rightarrow> geo_source \<Rightarrow> geo_source" where
  "startUpdates granted s =
     (let s1 = (if source_session s = None then createLocationServiceSession granted s else s)
      in if source_error s1 \<noteq> NoError then emit_error s1
         else let s2 = s1\<lparr>source_session := Some (\<lambda>_. True)\<rparr>
              in if source_state s2 \<noteq> src_one_shot then s2\<lparr>source_state := src_running\<rparr> else s2)"

definition stopUpdates :: "geo_source \<Rightarrow> geo_source" where
  "stopUpdates s =
     (if source_error s \<noteq> NoError \<or> source_session s = None then s
      else s\<lparr>source_session := Some (\<lambda>_. False), source_state := src_stopped\<rparr>)"

definition requestUpdate :: "bool \<Rightarrow> int \<Rightarrow> geo_source \<Rightarrow> geo_source" where
  "requestUpdate granted timeout s =
     (if source_error s \<noteq> NoError then emit_error s
      else if timer_active s then s
      else let timeout = (if timeout \<le> 0 then default_timeout_in_ms else timeout)
           in (startUpdates granted s)\<lparr>timer_active := True, timer_interval := timeout\<rparr>)"

definition timeout_slot :: "geo_source \<Rightarrow> geo_source" where
  "timeout_slot s = (let s1 = stopUpdates s in s1\<lparr>emitted := emitted s1 @ [Update_timeout]\<rparr>)"

text \<open>\<open>applicationStateChanged\<close>, with the new state of the application as its argument.\<close>

definition applicationStateChanged :: "bool \<Rightarrow> application_state \<Rightarrow> geo_source \<Rightarrow> geo_source" where
  "applicationStateChanged granted state s =
     (if state = ApplicationInactive then
        (if application_active s then
           let st = source_state s;
               s1 = (stopUpdates s)\<lparr>application_active := False\<rparr>
           in if st = src_one_shot then
                (if timer_active s1 then s1\<lparr>last_req_timeout := timer_interval s1, timer_active := False\<rparr> else s1)
              else if st = src_running then s1\<lparr>source_state := src_suspended\<rparr>
              else s1
         else s)
      else if state = ApplicationActive then
        (if \<not> application_active s then
           let s1 = s\<lparr>application_active := True\<rparr>
           in if last_req_timeout s1 > - 1 then (requestUpdate granted (last_req_timeout s1) s1)\<lparr>last_req_timeout := - 1\<rparr>
              else if source_state s1 = src_suspended then startUpdates granted s1
              else s1
         else s)
      else s)"

section \<open>Updates of the service\<close>

definition not_nan :: "double option \<Rightarrow> double option" where
  "not_nan x = (case x of Some NaN \<Rightarrow> None | _ \<Rightarrow> x)"

definition keep_unless :: "double option \<Rightarrow> double option \<Rightarrow> double option" where
  "keep_unless new old = (case not_nan new of None \<Rightarrow> old | Some v \<Rightarrow> Some v)"

definition invoke_position_updated :: "geo_info \<Rightarrow> geo_source \<Rightarrow> geo_source" where
  "invoke_position_updated info s = s\<lparr>last_known := info, queued := queued s @ [info]\<rparr>"

text \<open>Timestamps are nanoseconds; \<open>duration_cast\<close> to milliseconds truncates.\<close>

definition handlePositionUpdate :: "position update \<Rightarrow> geo_source \<Rightarrow> geo_source" where
  "handlePositionUpdate u s =
     (let p = update_value u;
          info = (last_known s)\<lparr>
            coordinate := Some (latitude p, longitude p, case altitude p of None \<Rightarrow> Fin 0 | Some a \<Rightarrow> a),
            horizontal_attribute := keep_unless (horizontal p) (horizontal_attribute (last_known s)),
            vertical_attribute := keep_unless (vertical p) (vertical_attribute (last_known s)),
            timestamp_ms := Some (update_when u sdiv 1000000)\<rparr>;
          s1 = (invoke_position_updated info s)\<lparr>timer_active := False\<rparr>
      in if source_state s1 = src_one_shot then stopUpdates s1 else s1)"

definition handleHeadingUpdate :: "double update \<Rightarrow> geo_source \<Rightarrow> geo_source" where
  "handleHeadingUpdate u s =
     invoke_position_updated ((last_known s)\<lparr>direction_attribute := Some (update_value u), timestamp_ms := Some (update_when u sdiv 1000000)\<rparr>) s"

definition handleVelocityUpdate :: "double update \<Rightarrow> geo_source \<Rightarrow> geo_source" where
  "handleVelocityUpdate u s =
     invoke_position_updated ((last_known s)\<lparr>speed_attribute := Some (update_value u), timestamp_ms := Some (update_when u sdiv 1000000)\<rparr>) s"

text \<open>The event loop emits \<open>positionUpdated\<close>, to which the timer's \<open>stop\<close> is connected.\<close>

definition deliver_queued :: "geo_source \<Rightarrow> geo_source" where
  "deliver_queued s =
     (case queued s of
        [] \<Rightarrow> s
      | i # is \<Rightarrow> s\<lparr>queued := is, emitted := emitted s @ [Position_updated i], timer_active := False\<rparr>)"

datatype source_event =
    Start_updates bool
  | Stop_updates
  | Request_update bool int
  | Set_interval
  | Timer_fires
  | Set_preferred positioning_methods
  | Application_state bool application_state
  | Position_arrives "position update"
  | Heading_arrives "double update"
  | Velocity_arrives "double update"
  | Event_loop

text \<open>Updates arrive once there is a session; the timer fires while it is active.\<close>

fun source_step :: "source_event \<Rightarrow> geo_source \<Rightarrow> geo_source" where
  "source_step (Start_updates granted) s = startUpdates granted s"
| "source_step Stop_updates s = stopUpdates s"
| "source_step (Request_update granted t) s = requestUpdate granted t s"
| "source_step Set_interval s = setUpdateInterval s"
| "source_step Timer_fires s = (if timer_active s then timeout_slot (s\<lparr>timer_active := False\<rparr>) else s)"
| "source_step (Set_preferred ms) s = setPreferredPositioningMethods ms s"
| "source_step (Application_state granted st) s = applicationStateChanged granted st s"
| "source_step (Position_arrives u) s = (if source_session s = None then s else handlePositionUpdate u s)"
| "source_step (Heading_arrives u) s = (if source_session s = None then s else handleHeadingUpdate u s)"
| "source_step (Velocity_arrives u) s = (if source_session s = None then s else handleVelocityUpdate u s)"
| "source_step Event_loop s = deliver_queued s"

definition source_run :: "source_event list \<Rightarrow> geo_source" where
  "source_run es = fold source_step es new_source"

section \<open>Invariant\<close>

definition source_inv :: "geo_source \<Rightarrow> bool" where
  "source_inv s \<longleftrightarrow> source_state s \<noteq> src_one_shot \<and> last_req_timeout s = - 1 \<and>
     (case source_session s of
        None \<Rightarrow> source_state s = src_stopped
      | Some f \<Rightarrow> source_error s = NoError \<and> f = (\<lambda>_. source_state s = src_running)) \<and>
     (source_state s = src_suspended \<longrightarrow> \<not> application_active s)"

lemma source_inv_cong:
  assumes "source_state s' = source_state s" "last_req_timeout s' = last_req_timeout s" "source_session s' = source_session s"
    "source_error s' = source_error s" "application_active s' = application_active s"
  shows "source_inv s' = source_inv s"
  unfolding source_inv_def assms ..

lemmas source_ops = startUpdates_def stopUpdates_def createLocationServiceSession_def emit_error_def Let_def

lemma emit_error_inv: "source_inv (emit_error s) = source_inv s"
  by (rule source_inv_cong) (simp_all add: emit_error_def)

lemma startUpdates_inv: "source_inv s \<Longrightarrow> source_inv (startUpdates granted s)"
  by (auto simp: source_ops source_inv_def split: option.splits)

lemma stopUpdates_inv: "source_inv s \<Longrightarrow> source_inv (stopUpdates s)"
  by (auto simp: source_ops source_inv_def split: option.splits)

lemma requestUpdate_inv: "source_inv s \<Longrightarrow> source_inv (requestUpdate granted t s)"
proof -
  assume "source_inv s"
  then have "source_inv ((startUpdates granted s)\<lparr>timer_active := True, timer_interval := i\<rparr>)" for i
    using startUpdates_inv [of s granted] by (subst source_inv_cong [where s = "startUpdates granted s"]) simp_all
  with \<open>source_inv s\<close> show ?thesis by (simp add: requestUpdate_def emit_error_inv Let_def)
qed

lemma applicationStateChanged_inv: "source_inv s \<Longrightarrow> source_inv (applicationStateChanged granted st s)"
  by (auto simp: applicationStateChanged_def source_ops source_inv_def split: option.splits)

lemma setPreferred_inv: "source_inv s \<Longrightarrow> source_inv (setPreferredPositioningMethods ms s)"
  by (auto simp: setPreferredPositioningMethods_def emit_error_inv intro: source_inv_cong [THEN iffD2])

lemma invoke_inv: "source_inv (invoke_position_updated i s) = source_inv s"
  by (rule source_inv_cong) (simp_all add: invoke_position_updated_def)

lemma handlePositionUpdate_inv: "source_inv s \<Longrightarrow> source_inv (handlePositionUpdate u s)"
  by (auto simp: handlePositionUpdate_def invoke_position_updated_def source_inv_def Let_def split: option.splits)

lemma timeout_inv: "source_inv s \<Longrightarrow> source_inv (timeout_slot (s\<lparr>timer_active := False\<rparr>))"
  by (auto simp: timeout_slot_def source_ops source_inv_def split: option.splits)

lemma source_step_inv: "source_inv s \<Longrightarrow> source_inv (source_step e s)"
proof (cases e)
  case Event_loop
  assume "source_inv s"
  with Event_loop show ?thesis
    by (auto simp: deliver_queued_def split: list.split intro: source_inv_cong [THEN iffD2])
qed (simp_all add: startUpdates_inv stopUpdates_inv requestUpdate_inv setUpdateInterval_def emit_error_inv timeout_inv setPreferred_inv
    applicationStateChanged_inv handlePositionUpdate_inv handleHeadingUpdate_def handleVelocityUpdate_def invoke_inv)

lemma source_run_inv: "source_inv (source_run es)"
proof -
  have "source_inv s \<Longrightarrow> source_inv (fold source_step es s)" for s
    by (induction es arbitrary: s) (simp_all add: source_step_inv)
  moreover have "source_inv new_source" by (simp add: source_inv_def new_source_def)
  ultimately show ?thesis by (simp add: source_run_def)
qed


text \<open>
  Suspending and resuming an application gives its source back as it was: continuous updates go on, a stopped source stays
  stopped, nothing is announced.
\<close>

theorem source_suspend_resume:
  assumes "application_active (source_run es)"
  shows "applicationStateChanged granted' ApplicationActive (applicationStateChanged granted ApplicationInactive (source_run es)) = source_run es"
proof -
  let ?s = "source_run es"
  have inv: "source_inv ?s" by (rule source_run_inv)
  then have st: "source_state ?s = src_stopped \<or> source_state ?s = src_running"
    using assms by (cases "source_state ?s") (auto simp: source_inv_def)
  show ?thesis
  proof (cases "source_session ?s")
    case None
    then show ?thesis using inv assms by (simp add: applicationStateChanged_def source_ops source_inv_def)
  next
    case (Some f)
    then have "source_error ?s = NoError" "f = (\<lambda>_. source_state ?s = src_running)" "last_req_timeout ?s = - 1"
      using inv by (simp_all add: source_inv_def)
    then show ?thesis
      using Some st assms by (cases ?s) (auto simp: applicationStateChanged_def source_ops)
  qed
qed

theorem source_suspend_resume_witness:
  "applicationStateChanged True ApplicationActive (applicationStateChanged True ApplicationInactive (source_run [Start_updates True])) = source_run [Start_updates True]"
proof -
  have "application_active (source_run [Start_updates True])" by (simp add: source_run_def new_source_def source_ops)
  then show ?thesis by (rule source_suspend_resume)
qed

text \<open>
  A single request is not single: no sequence of events puts the source into the state of a single request, so
  after the requested position has arrived the channels stay enabled. And when the time of a request is over, updates that the
  application had started before are stopped too.
\<close>

theorem single_request_keeps_running:
  assumes "source_error (source_run es) = NoError" "\<not> timer_active (source_run es)"
  shows "source_state (source_run es) \<noteq> src_one_shot \<and>
    source_session (source_run (es @ [Request_update True t, Position_arrives u])) = Some (\<lambda>_. True) \<and>
    source_session (source_run (es @ [Start_updates True, Request_update True t, Timer_fires])) = Some (\<lambda>_. False)"
proof -
  let ?s = "source_run es"
  have inv: "source_inv ?s" by (rule source_run_inv)
  have run: "source_run (es @ fs) = fold source_step fs ?s" for fs by (simp add: source_run_def)
  have st: "source_state ?s \<noteq> src_one_shot" using inv by (simp add: source_inv_def)
  define s1 where "s1 = startUpdates True ?s"
  have s1: "source_session s1 = Some (\<lambda>_. True)" "source_error s1 = NoError" "source_state s1 = src_running" "\<not> timer_active s1"
    using inv assms st by (auto simp: s1_def source_ops source_inv_def split: option.splits)
  have "startUpdates True s1 = s1" using s1 by (cases s1) (simp add: source_ops)
  then have "source_session (source_run (es @ [Start_updates True, Request_update True t, Timer_fires])) = Some (\<lambda>_. False)"
    using s1 unfolding run by (simp add: s1_def [symmetric] requestUpdate_def timeout_slot_def stopUpdates_def Let_def)
  moreover have "source_session (source_run (es @ [Request_update True t, Position_arrives u])) = Some (\<lambda>_. True)"
    using assms s1 unfolding run
    by (simp add: s1_def [symmetric] requestUpdate_def handlePositionUpdate_def invoke_position_updated_def Let_def)
  ultimately show ?thesis using st by blast
qed

theorem single_request_keeps_running_witness:
  "source_session (source_run [Request_update True 100, Position_arrives (make_update (position_lat_lon (Fin 51) (Fin 7)) 0)]) = Some (\<lambda>_. True)"
proof -
  have "source_error (source_run []) = NoError" "\<not> timer_active (source_run [])" by (simp_all add: source_run_def new_source_def)
  from single_request_keeps_running [OF this, of 100 "make_update (position_lat_lon (Fin 51) (Fin 7)) 0"] show ?thesis by simp
qed

end
