(* ===== verification/Client_Stubs.thy ===== *)
theory Client_Stubs
  imports Session Space_Vehicles Enum_Streams
begin

text \<open>
  The client side of the service: the stub of a session (\<open>session/stub.cpp\<close>), the stub of the service
  (\<open>service/stub.cpp\<close>) and the signals of the skeleton that keep its properties up to date (\<open>service/skeleton.cpp\<close>).

  \<open>transact m v\<close> is a transaction with the service whose state is \<open>'v\<close>: it returns the text of the error, if there is one.
  \<open>peer_transact\<close> is the one with the skeleton of theory \<open>Session\<close>. A status is a \<open>core::Property\<close>, assigned with its
  documented semantics: the changed signal is emitted when the values differ.
\<close>

section \<open>The stub of a session\<close>

type_synonym 'v transact = "session_method \<Rightarrow> 'v \<Rightarrow> string option \<times> 'v"

record session_stub =
  stub_status :: "channel \<Rightarrow> update_status"
  stub_position :: "position update"
  stub_heading :: "double update"
  stub_velocity :: "double update"
  stub_changes :: "client_call list"

definition new_stub :: "position update \<Rightarrow> double update \<Rightarrow> double update \<Rightarrow> session_stub" where
  "new_stub p h v = \<lparr>stub_status = (\<lambda>_. updates_disabled), stub_position = p, stub_heading = h, stub_velocity = v, stub_changes = []\<rparr>"

fun start_method :: "channel \<Rightarrow> session_method" where
  "start_method ch_position = StartPositionUpdates"
| "start_method ch_velocity = StartVelocityUpdates"
| "start_method ch_heading = StartHeadingUpdates"

fun stop_method :: "channel \<Rightarrow> session_method" where
  "stop_method ch_position = StopPositionUpdates"
| "stop_method ch_velocity = StopVelocityUpdates"
| "stop_method ch_heading = StopHeadingUpdates"

text \<open>A start that fails throws; a stop that fails is logged.\<close>

definition stub_start :: "'v transact \<Rightarrow> channel \<Rightarrow> 'v \<Rightarrow> exn option \<times> 'v" where
  "stub_start transact ch v =
     (case transact (start_method ch) v of (None, v') \<Rightarrow> (None, v') | (Some e, v') \<Rightarrow> (Some (runtime_error e), v'))"

definition stub_stop :: "'v transact \<Rightarrow> channel \<Rightarrow> 'v \<Rightarrow> 'v" where
  "stub_stop transact ch v = snd (transact (stop_method ch) v)"

definition stub_status_slot :: "'v transact \<Rightarrow> channel \<Rightarrow> update_status \<Rightarrow> 'v \<Rightarrow> exn option \<times> 'v" where
  "stub_status_slot transact ch st v =
     (case st of updates_enabled \<Rightarrow> stub_start transact ch v | updates_disabled \<Rightarrow> (None, stub_stop transact ch v))"

text \<open>The client assigns the status of a channel.\<close>

definition stub_set_status :: "'v transact \<Rightarrow> channel \<Rightarrow> update_status \<Rightarrow> session_stub \<Rightarrow> 'v \<Rightarrow> exn option \<times> session_stub \<times> 'v" where
  "stub_set_status transact ch st s v =
     (if stub_status s ch = st then (None, s, v)
      else case stub_status_slot transact ch st v of (e, v') \<Rightarrow> (e, s\<lparr>stub_status := (stub_status s)(ch := st)\<rparr>, v'))"

fun stub_set_all :: "'v transact \<Rightarrow> (channel \<times> update_status) list \<Rightarrow> session_stub \<Rightarrow> 'v \<Rightarrow> session_stub \<times> 'v" where
  "stub_set_all transact [] s v = (s, v)"
| "stub_set_all transact ((ch, st) # xs) s v =
     (case stub_set_status transact ch st s v of (_, s', v') \<Rightarrow> stub_set_all transact xs s' v')"

text \<open>
  The handlers of the three methods the service calls. \<open>msg\<close> is the update read from the message, or the exception of the
  reader. Only a \<open>std::runtime_error\<close> becomes an error reply.
\<close>

definition error_parsing_update :: string where
  "error_parsing_update = ''com.lomiri.location.Service.Session.ErrorParsingUpdate''"

definition stub_handle :: "(client_call \<Rightarrow> session_stub \<Rightarrow> session_stub) \<Rightarrow> client_call result \<Rightarrow> session_stub \<Rightarrow> reply result \<times> session_stub" where
  "stub_handle assign msg s =
     (case msg of
        Inr u \<Rightarrow> (Inr Method_return, assign u s)
      | Inl (runtime_error e) \<Rightarrow> (Inr (Error_reply error_parsing_update e), s)
      | Inl e \<Rightarrow> (Inl e, s))"

fun assign_update :: "client_call \<Rightarrow> session_stub \<Rightarrow> session_stub" where
  "assign_update (UpdatePosition u) s =
     (if update_neq position_eq (stub_position s) u
      then s\<lparr>stub_position := u, stub_changes := stub_changes s @ [UpdatePosition u]\<rparr> else s)"
| "assign_update (UpdateHeading u) s =
     (if update_neq dbl_eq (stub_heading s) u
      then s\<lparr>stub_heading := u, stub_changes := stub_changes s @ [UpdateHeading u]\<rparr> else s)"
| "assign_update (UpdateVelocity u) s =
     (if update_neq dbl_eq (stub_velocity s) u
      then s\<lparr>stub_velocity := u, stub_changes := stub_changes s @ [UpdateVelocity u]\<rparr> else s)"

text \<open>A transaction with the skeleton of the session; an exception that escapes the handler leaves the client without a reply.\<close>

definition peer_transact :: "'w request \<Rightarrow> (session \<times> 'w) transact" where
  "peer_transact req m v =
     (case handle_method (\<noteq>) req m (fst v) (snd v) of
        (Inr Method_return, s, w) \<Rightarrow> (None, s, w)
      | (Inr (Error_reply _ msg), s, w) \<Rightarrow> (Some msg, s, w)
      | (Inl e, s, w) \<Rightarrow> (Some ''timeout'', s, w))"

text \<open>A provider's position on its way through the session and the message to the stub.\<close>

fun deliver_positions :: "position update list \<Rightarrow> session \<Rightarrow> session_stub \<Rightarrow> session \<times> session_stub" where
  "deliver_positions [] s c = (s, c)"
| "deliver_positions (u # us) s c =
     (case session_on_position (update_neq position_eq) u s of
        (s', calls) \<Rightarrow> deliver_positions us s' (fold (\<lambda>m c. snd (stub_handle assign_update (Inr m) c)) calls c))"

section \<open>The stub of the service and its properties\<close>

record mirror =
  mirror_state :: service_state
  mirror_satellites :: bool
  mirror_reports :: bool
  mirror_online :: bool
  mirror_applications :: "string list"
  mirror_vehicles :: visible_vehicles

datatype property_value =
    State_value service_state
  | Satellites_value bool
  | Reports_value bool
  | Online_value bool
  | Applications_value "string list"
  | Vehicles_value visible_vehicles

fun write_property :: "property_value \<Rightarrow> mirror \<Rightarrow> mirror" where
  "write_property (State_value x) p = p\<lparr>mirror_state := x\<rparr>"
| "write_property (Satellites_value x) p = p\<lparr>mirror_satellites := x\<rparr>"
| "write_property (Reports_value x) p = p\<lparr>mirror_reports := x\<rparr>"
| "write_property (Online_value x) p = p\<lparr>mirror_online := x\<rparr>"
| "write_property (Applications_value x) p = p\<lparr>mirror_applications := x\<rparr>"
| "write_property (Vehicles_value x) p = p\<lparr>mirror_vehicles := x\<rparr>"

text \<open>The slots of the skeleton: the entries of the \<open>PropertiesChanged\<close> signals they emit.\<close>

definition on_state_changed :: "service_state \<Rightarrow> property_value list" where
  "on_state_changed x = [State_value x]"

definition on_does_satellite_based_positioning_changed :: "bool \<Rightarrow> property_value list" where
  "on_does_satellite_based_positioning_changed x = [Satellites_value x]"

definition on_does_report_cell_and_wifi_ids_changed :: "bool \<Rightarrow> property_value list" where
  "on_does_report_cell_and_wifi_ids_changed x = [Reports_value x]"

definition on_is_online_changed :: "bool \<Rightarrow> property_value list" where
  "on_is_online_changed x = [Online_value x]"

definition on_client_applications_changed :: "string list \<Rightarrow> property_value list" where
  "on_client_applications_changed x = [Applications_value x]"

definition on_visible_space_vehicles_changed :: "visible_vehicles \<Rightarrow> property_value list" where
  "on_visible_space_vehicles_changed x = []"

fun property_slot :: "property_value \<Rightarrow> property_value list" where
  "property_slot (State_value x) = on_state_changed x"
| "property_slot (Satellites_value x) = on_does_satellite_based_positioning_changed x"
| "property_slot (Reports_value x) = on_does_report_cell_and_wifi_ids_changed x"
| "property_slot (Online_value x) = on_is_online_changed x"
| "property_slot (Applications_value x) = on_client_applications_changed x"
| "property_slot (Vehicles_value x) = on_visible_space_vehicles_changed x"

text \<open>The service assigns a property: the slot runs if the value changes.\<close>

definition assign_property :: "property_value \<Rightarrow> mirror \<Rightarrow> mirror \<times> property_value list" where
  "assign_property x p = (write_property x p, if write_property x p \<noteq> p then property_slot x else [])"

text \<open>The service assigns a list of properties, and the client applies the signals in the order of their emission.\<close>

fun assign_properties :: "property_value list \<Rightarrow> mirror \<Rightarrow> mirror \<times> property_value list" where
  "assign_properties [] p = (p, [])"
| "assign_properties (x # xs) p =
     (case assign_property x p of (p', es) \<Rightarrow> case assign_properties xs p' of (p'', es') \<Rightarrow> (p'', es @ es'))"

definition handle_get_visible_space_vehicles :: "mirror \<Rightarrow> visible_vehicles" where
  "handle_get_visible_space_vehicles p = mirror_vehicles p"

text \<open>\<open>Stub::create_session_for_criteria\<close>, with the reply to the transaction.\<close>

definition stub_create_session :: "string + string \<Rightarrow> string result" where
  "stub_create_session op = (case op of Inl e \<Rightarrow> Inl (runtime_error e) | Inr path \<Rightarrow> Inr path)"

section \<open>Lemmas\<close>

lemma peer_record:
  "peer_transact record_request m (s, tr) = (None, snd (handle_method (\<noteq>) record_request m s tr))"
  by (cases m) (auto simp: peer_transact_def handler_defs record_request_def split: update_status.splits)

lemma status_step:
  assumes "ch' \<noteq> ch_heading"
  shows "status ch (fst (snd (handle_method (\<noteq>) record_request (start_method ch') s tr))) = (if ch = ch' then updates_enabled else status ch s)"
    and "status ch (fst (snd (handle_method (\<noteq>) record_request (stop_method ch') s tr))) = (if ch = ch' then updates_disabled else status ch s)"
  using assms
  by (cases ch'; cases ch; auto simp: handler_defs record_request_def split: update_status.splits)+

lemma running_step:
  assumes "running ch False tr = Some (status ch s = updates_enabled)"
  shows "running ch False (snd (snd (handle_method (\<noteq>) record_request m s tr))) =
    Some (status ch (fst (snd (handle_method (\<noteq>) record_request m s tr))) = updates_enabled)"
  using handle_method_balanced [OF assms] by (metis prod.collapse)

lemma set_status_agrees:
  assumes "\<forall>ch. status ch s = stub_status c ch \<and> running ch False tr = Some (stub_status c ch = updates_enabled)"
    and "ch' \<noteq> ch_heading"
    and "stub_set_status (peer_transact record_request) ch' st c (s, tr) = (e, c', s', tr')"
  shows "e = None \<and> (\<forall>ch. status ch s' = stub_status c' ch \<and> running ch False tr' = Some (stub_status c' ch = updates_enabled))"
proof (cases "stub_status c ch' = st")
  case False
  define m where "m = (case st of updates_enabled \<Rightarrow> start_method ch' | updates_disabled \<Rightarrow> stop_method ch')"
  have r: "e = None" "c' = c\<lparr>stub_status := (stub_status c)(ch' := st)\<rparr>" "(s', tr') = snd (handle_method (\<noteq>) record_request m s tr)"
    using False assms(3)
    by (auto simp: stub_set_status_def stub_status_slot_def stub_start_def stub_stop_def peer_record m_def
        split: update_status.splits)
  have st: "status ch s' = (if ch = ch' then st else status ch s)" for ch
    using status_step [OF assms(2), of ch s tr] r(3) by (cases st) (auto simp: m_def dest: arg_cong [of _ _ fst])
  have "running ch False tr' = Some (status ch s' = updates_enabled)" for ch
    using running_step [of ch tr s m] assms(1) r(3) by (metis fst_conv snd_conv)
  with st r(1,2) assms(1) show ?thesis by simp
qed (use assms in \<open>simp add: stub_set_status_def\<close>)

lemma set_all_agrees:
  assumes "\<forall>ch. status ch s = stub_status c ch \<and> running ch False tr = Some (stub_status c ch = updates_enabled)"
    and "\<forall>x\<in>set xs. fst x \<noteq> ch_heading"
    and "stub_set_all (peer_transact record_request) xs c (s, tr) = (c', s', tr')"
  shows "\<forall>ch. status ch s' = stub_status c' ch \<and> running ch False tr' = Some (stub_status c' ch = updates_enabled)"
  using assms
proof (induction xs arbitrary: c s tr)
  case (Cons x xs)
  obtain e c1 s1 tr1 where 1: "stub_set_status (peer_transact record_request) (fst x) (snd x) c (s, tr) = (e, c1, s1, tr1)"
    by (metis prod_cases4)
  with set_status_agrees [OF Cons.prems(1) _ 1] Cons.prems(2)
  have "\<forall>ch. status ch s1 = stub_status c1 ch \<and> running ch False tr1 = Some (stub_status c1 ch = updates_enabled)" by simp
  moreover have "stub_set_all (peer_transact record_request) xs c1 (s1, tr1) = (c', s', tr')"
    using Cons.prems(3) 1 by (cases x) simp
  ultimately show ?case using Cons.IH Cons.prems(2) by (metis list.set_intros(2))
qed simp

lemma deliver_in_order:
  assumes "session_position s = stub_position c" and "sorted_wrt (<) (update_when (stub_position c) # map update_when us)"
    and "deliver_positions us s c = (s', c')"
  shows "stub_changes c' = stub_changes c @ map UpdatePosition us \<and> stub_position c' = last (stub_position c # us) \<and>
    session_position s' = stub_position c'"
  using assms
proof (induction us arbitrary: s c)
  case (Cons u us)
  have "update_neq position_eq (stub_position c) u" using Cons.prems(2) by (simp add: update_neq_def)
  then have "deliver_positions us (s\<lparr>session_position := u\<rparr>)
      (c\<lparr>stub_position := u, stub_changes := stub_changes c @ [UpdatePosition u]\<rparr>) = (s', c')"
    using Cons.prems(1,3) by (simp add: session_on_position_def on_position_changed_def stub_handle_def)
  from Cons.IH [OF _ _ this] Cons.prems(2) show ?case by simp
qed simp

section \<open>Properties\<close>

text \<open>
  C15. What a client asked for is what the service does. After any sequence of assignments to the status of position and
  velocity updates, the session in the service has the status the client sees, and the requests it made to its provider leave
  a channel running exactly when the client has it enabled.
\<close>

theorem stub_agrees_with_service:
  assumes "\<forall>x\<in>set xs. fst x \<noteq> ch_heading"
    and "stub_set_all (peer_transact record_request) xs (new_stub p h v) (new_session p' h' v', []) = (c, s, tr)"
  shows "status ch s = stub_status c ch \<and> running ch False tr = Some (stub_status c ch = updates_enabled)"
proof -
  have "\<forall>ch. status ch (new_session p' h' v') = stub_status (new_stub p h v) ch \<and>
      running ch False [] = Some (stub_status (new_stub p h v) ch = updates_enabled)"
    by (intro allI, rename_tac ch, case_tac ch) (simp_all add: new_session_def new_stub_def)
  from set_all_agrees [OF this assms] show ?thesis by blast
qed

theorem stub_agrees_with_service_witness:
  "\<exists>c s tr. stub_set_all (peer_transact record_request) [(ch_position, updates_enabled), (ch_velocity, updates_enabled), (ch_position, updates_disabled)]
      (new_stub (make_update position_default 0) (make_update (Fin 0) 0) (make_update (Fin 0) 0))
      (new_session (make_update position_default 0) (make_update (Fin 0) 0) (make_update (Fin 0) 0), []) = (c, s, tr) \<and>
     status ch_velocity s = stub_status c ch_velocity \<and> running ch_velocity False tr = Some (stub_status c ch_velocity = updates_enabled)"
  (is "\<exists>c s tr. ?run = (c, s, tr) \<and> _ c s tr")
proof -
  obtain c s tr where r: "?run = (c, s, tr)" by (metis prod_cases3)
  from stub_agrees_with_service [OF _ r, of ch_velocity] r show ?thesis by auto
qed

text \<open>
  A client that enables and disables heading updates has nothing enabled any more, but the service goes on
  with position updates: its handler of \<open>StartHeadingUpdates\<close> enables the position status, which \<open>StopHeadingUpdates\<close> does not
  touch.
\<close>

theorem heading_toggle_leaves_position_running:
  "\<exists>c s. stub_set_all (peer_transact record_request) [(ch_heading, updates_enabled), (ch_heading, updates_disabled)]
      (new_stub p h v) (new_session p' h' v', []) = (c, s, [Start ch_position]) \<and>
    (\<forall>ch. stub_status c ch = updates_disabled) \<and> position_status s = updates_enabled"
  by (simp add: stub_set_status_def stub_status_slot_def stub_start_def stub_stop_def peer_record new_stub_def
      new_session_def handler_defs record_request_def)

text \<open>
  A start that the service refuses throws at the client, but the status keeps the value enabled: assigning it
  again does not reach the service any more.
\<close>

theorem refused_start_is_not_retried:
  assumes "stub_status s ch = updates_disabled" and "transact (start_method ch) v = (Some e, v')"
  shows "\<exists>s'. stub_set_status transact ch updates_enabled s v = (Some (runtime_error e), s', v') \<and>
    stub_status s' ch = updates_enabled \<and> stub_set_status transact ch updates_enabled s' w = (None, s', w)"
  using assms by (simp add: stub_set_status_def stub_status_slot_def stub_start_def)

theorem refused_start_is_not_retried_witness:
  "\<exists>s'. stub_set_status (peer_transact (\<lambda>k w. (Some (runtime_error ''no provider''), w))) ch_position updates_enabled
      (new_stub (make_update position_default 0) (make_update (Fin 0) 0) (make_update (Fin 0) 0))
      (new_session (make_update position_default 0) (make_update (Fin 0) 0) (make_update (Fin 0) 0), ()) =
    (Some (runtime_error ''Could not enable position updates''), s',
     (new_session (make_update position_default 0) (make_update (Fin 0) 0) (make_update (Fin 0) 0))\<lparr>position_status := updates_enabled\<rparr>, ())"
  (is "\<exists>s'. stub_set_status ?t _ _ ?c ?v = (_, s', ?v')")
proof -
  have 1: "stub_status ?c ch_position = updates_disabled" by (simp add: new_stub_def)
  have 2: "?t (start_method ch_position) ?v = (Some ''Could not enable position updates'', ?v')"
    by (simp add: peer_transact_def handler_defs new_session_def)
  from refused_start_is_not_retried [where w = ?v' and transact = ?t and ch = ch_position and v = ?v, OF 1 2] show ?thesis by (elim exE conjE) (rule exI)
qed

text \<open>
  Positions reach the client in order and none is lost: updates of a provider with growing timestamps are
  announced to the client one by one, and session and client end with the last of them.
\<close>

theorem positions_reach_client:
  assumes "session_position s = stub_position c" and "sorted_wrt (<) (update_when (stub_position c) # map update_when us)"
    and "deliver_positions us s c = (s', c')"
  shows "stub_changes c' = stub_changes c @ map UpdatePosition us \<and> stub_position c' = last (stub_position c # us) \<and>
    session_position s' = stub_position c'"
  using assms by (rule deliver_in_order)

theorem positions_reach_client_witness:
  "\<exists>s' c'. deliver_positions [make_update (position_lat_lon (Fin 51) (Fin 7)) 1, make_update (position_lat_lon (Fin 51) (Fin 7)) 2]
      (new_session (make_update position_default 0) (make_update (Fin 0) 0) (make_update (Fin 0) 0))
      (new_stub (make_update position_default 0) (make_update (Fin 0) 0) (make_update (Fin 0) 0)) = (s', c') \<and>
    length (stub_changes c') = 2"
  (is "\<exists>s' c'. ?run = (s', c') \<and> _ s' c'")
proof -
  obtain s' c' where r: "?run = (s', c')" by fastforce
  from positions_reach_client [OF _ _ r] r show ?thesis by (simp add: new_session_def new_stub_def make_update_def)
qed

text \<open>
  C17. A client that applies the \<open>PropertiesChanged\<close> signals of the service has its properties, whatever the service
  assigned and in whatever order, with one exception: the visible space vehicles stay what they were when the client
  connected and are only found by asking for them.
\<close>

theorem properties_changed_mirrors_service:
  "case assign_properties xs p of
     (p', es) \<Rightarrow> fold write_property es p = p'\<lparr>mirror_vehicles := mirror_vehicles p\<rparr> \<and>
       mirror_vehicles (fold write_property xs p) = handle_get_visible_space_vehicles p'"
proof -
  have "fold write_property es q = p'\<lparr>mirror_vehicles := mirror_vehicles q\<rparr>"
    if "assign_properties xs p = (p', es)" "q = p\<lparr>mirror_vehicles := mirror_vehicles q\<rparr>" for p' es q
    using that
  proof (induction xs arbitrary: p q es)
    case (Cons x xs)
    let ?p = "write_property x p"
    obtain es' where r: "assign_properties xs ?p = (p', es')" "es = snd (assign_property x p) @ es'"
      using Cons.prems(1) by (auto simp: assign_property_def split: prod.splits)
    let ?q = "fold write_property (snd (assign_property x p)) q"
    have "mirror_vehicles ?q = mirror_vehicles q \<and> ?q = ?p\<lparr>mirror_vehicles := mirror_vehicles q\<rparr>"
      using Cons.prems(2)
      by (cases x; cases p; cases q) (auto simp: assign_property_def on_state_changed_def on_is_online_changed_def
          on_does_satellite_based_positioning_changed_def on_does_report_cell_and_wifi_ids_changed_def
          on_client_applications_changed_def on_visible_space_vehicles_changed_def)
    then show ?case using Cons.IH [OF r(1), of ?q] r(2) by simp
  qed simp
  moreover have "fold write_property xs p = fst (assign_properties xs p)"
    by (induction xs arbitrary: p) (auto simp: assign_property_def split: prod.split)
  ultimately show ?thesis by (auto simp: handle_get_visible_space_vehicles_def split: prod.split)
qed

end
