(* ===== verification/Engine_Updates.thy ===== *)
theory Engine_Updates
  imports Update_Policy Space_Vehicles Provider_Controller
begin

text \<open>
  The best known updates of the engine (\<open>Engine::Updates\<close> and the slots of \<open>Engine::add_provider\<close> in \<open>engine.h\<close> and
  \<open>engine.cpp\<close>): a position of any provider goes through the update policy, what the policy keeps becomes the last known
  location, and a change of that is sent to every provider as its new reference. The slots of \<open>gps::Provider\<close>
  (\<open>providers/gps/provider.cpp\<close>) that receive it are modelled here too.

  \<open>references\<close> logs the calls of \<open>on_reference_location_updated\<close>. Properties are assigned with their documented semantics.
\<close>

record engine_updates =
  last_known_location :: "position update option"
  last_known_velocity :: "double update option"
  last_known_heading :: "double update option"
  visible_space_vehicles :: visible_vehicles
  update_policy :: policy
  references :: "(nat \<times> position update) list"
  velocity_references :: "(nat \<times> double update) list"
  heading_references :: "(nat \<times> double update) list"

definition new_engine_updates :: "policy \<Rightarrow> engine_updates" where
  "new_engine_updates pol = \<lparr>last_known_location = None, last_known_velocity = None, last_known_heading = None,
     visible_space_vehicles = [], update_policy = pol, references = [], velocity_references = [], heading_references = []\<rparr>"

fun opt_update_neq :: "('a \<Rightarrow> 'a \<Rightarrow> bool) \<Rightarrow> 'a update option \<Rightarrow> 'a update option \<Rightarrow> bool" where
  "opt_update_neq eq (Some u) (Some v) = update_neq eq u v"
| "opt_update_neq eq None None = False"
| "opt_update_neq eq _ _ = True"

text \<open>The assignment of the three properties, with the slots that \<open>add_provider\<close> connected for the providers \<open>ps\<close>.\<close>

definition set_last_known_location :: "nat list \<Rightarrow> position update option \<Rightarrow> engine_updates \<Rightarrow> engine_updates" where
  "set_last_known_location ps pos eu =
     (if opt_update_neq position_eq (last_known_location eu) pos
      then eu\<lparr>last_known_location := pos,
        references := references eu @ (case pos of None \<Rightarrow> [] | Some u \<Rightarrow> map (\<lambda>p. (p, u)) ps)\<rparr>
      else eu)"

definition set_last_known_velocity :: "nat list \<Rightarrow> double update option \<Rightarrow> engine_updates \<Rightarrow> engine_updates" where
  "set_last_known_velocity ps v eu =
     (if opt_update_neq dbl_eq (last_known_velocity eu) v
      then eu\<lparr>last_known_velocity := v,
        velocity_references := velocity_references eu @ (case v of None \<Rightarrow> [] | Some u \<Rightarrow> map (\<lambda>p. (p, u)) ps)\<rparr>
      else eu)"

definition set_last_known_heading :: "nat list \<Rightarrow> double update option \<Rightarrow> engine_updates \<Rightarrow> engine_updates" where
  "set_last_known_heading ps h eu =
     (if opt_update_neq dbl_eq (last_known_heading eu) h
      then eu\<lparr>last_known_heading := h,
        heading_references := heading_references eu @ (case h of None \<Rightarrow> [] | Some u \<Rightarrow> map (\<lambda>p. (p, u)) ps)\<rparr>
      else eu)"

text \<open>The slots on the updates of a provider.\<close>

definition on_provider_position :: "nat list \<Rightarrow> position update \<Rightarrow> engine_updates \<Rightarrow> engine_updates" where
  "on_provider_position ps src eu =
     (case verify_position_update (update_policy eu) src of
        (r, pol) \<Rightarrow> set_last_known_location ps (Some r) (eu\<lparr>update_policy := pol\<rparr>))"

definition on_provider_svs :: "space_vehicle list \<Rightarrow> engine_updates \<Rightarrow> engine_updates" where
  "on_provider_svs svs eu = eu\<lparr>visible_space_vehicles := merge_visible svs (visible_space_vehicles eu)\<rparr>"

datatype provider_output =
    Position_out "position update"
  | Heading_out "double update"
  | Velocity_out "double update"
  | Vehicles_out "space_vehicle list"

text \<open>No slot is connected to headings and velocities.\<close>

fun engine_on_output :: "nat list \<Rightarrow> provider_output \<Rightarrow> engine_updates \<Rightarrow> engine_updates" where
  "engine_on_output ps (Position_out u) eu = on_provider_position ps u eu"
| "engine_on_output ps (Vehicles_out svs) eu = on_provider_svs svs eu"
| "engine_on_output ps (Heading_out u) eu = eu"
| "engine_on_output ps (Velocity_out u) eu = eu"

definition engine_outputs :: "nat list \<Rightarrow> provider_output list \<Rightarrow> engine_updates \<Rightarrow> engine_updates" where
  "engine_outputs ps os eu = fold (engine_on_output ps) os eu"

section \<open>The GPS provider\<close>

datatype hal_call = Hal_start | Hal_stop | Hal_inject position

text \<open>The six methods of the provider; only the two of the position channel reach the hardware.\<close>

fun gps_provider_call :: "call \<Rightarrow> hal_call list" where
  "gps_provider_call (Start ch_position) = [Hal_start]"
| "gps_provider_call (Stop ch_position) = [Hal_stop]"
| "gps_provider_call (Start ch_velocity) = []"
| "gps_provider_call (Stop ch_velocity) = []"
| "gps_provider_call (Start ch_heading) = []"
| "gps_provider_call (Stop ch_heading) = []"

definition gps_on_reference_location_updated :: "position update \<Rightarrow> hal_call list" where
  "gps_on_reference_location_updated u = [Hal_inject (update_value u)]"

definition gps_features :: flags where
  "gps_features = features_or (features_or feature_position feature_velocity) feature_heading"

definition gps_requirements :: flags where
  "gps_requirements = requirement_satellites"

datatype hal_report = Hal_position position | Hal_heading double | Hal_velocity double | Hal_vehicles "space_vehicle list"

text \<open>The slots on the signals of the hardware: every report becomes an update with the current time.\<close>

fun gps_on_report :: "int \<Rightarrow> hal_report \<Rightarrow> provider_output" where
  "gps_on_report now (Hal_position p) = Position_out (make_update p now)"
| "gps_on_report now (Hal_heading h) = Heading_out (make_update h now)"
| "gps_on_report now (Hal_velocity v) = Velocity_out (make_update v now)"
| "gps_on_report now (Hal_vehicles svs) = Vehicles_out svs"

section \<open>Lemmas\<close>

definition references_for :: "nat \<Rightarrow> engine_updates \<Rightarrow> position update list" where
  "references_for p eu = map snd (filter (\<lambda>c. fst c = p) (references eu))"

fun positions_out :: "provider_output list \<Rightarrow> position update list" where
  "positions_out [] = []"
| "positions_out (Position_out u # os) = u # positions_out os"
| "positions_out (_ # os) = positions_out os"

lemma filter_distinct: "distinct ps \<Longrightarrow> p \<in> set ps \<Longrightarrow> filter (\<lambda>q. q = p) ps = [p]"
  by (induction ps) (auto simp: filter_empty_conv)

lemma references_for_map:
  "distinct ps \<Longrightarrow> p \<in> set ps \<Longrightarrow> map snd (filter (\<lambda>c. fst c = p) (map (\<lambda>p. (p, u)) ps)) = [u]"
  by (simp add: filter_map comp_def filter_distinct)

text \<open>All providers were told the same references, and the last one is the last known location.\<close>

definition told :: "nat list \<Rightarrow> engine_updates \<Rightarrow> bool" where
  "told ps eu \<longleftrightarrow>
     (\<exists>refs. (\<forall>p\<in>set ps. references_for p eu = refs) \<and>
        last_known_location eu = (if refs = [] then None else Some (last refs))) \<and>
     velocity_references eu = [] \<and> heading_references eu = []"

lemma position_update_same: "\<not> update_neq position_eq u v \<Longrightarrow> u = v"
  by (cases u; cases v; cases "update_value u"; cases "update_value v")
    (auto simp: update_neq_def position_eq_def dbl_eq_iff opt_dbl_eq_iff)

lemma opt_position_same: "\<not> opt_update_neq position_eq x y \<Longrightarrow> x = y"
  by (cases x; cases y) (auto dest: position_update_same)

lemma set_location_told:
  assumes "distinct ps" "told ps eu"
  shows "told ps (set_last_known_location ps (Some r) eu) \<and> last_known_location (set_last_known_location ps (Some r) eu) = Some r"
proof (cases "opt_update_neq position_eq (last_known_location eu) (Some r)")
  case False
  then have "last_known_location eu = Some r" "set_last_known_location ps (Some r) eu = eu"
    by (auto simp: set_last_known_location_def dest: opt_position_same)
  with assms(2) show ?thesis by simp
next
  case True
  let ?eu = "set_last_known_location ps (Some r) eu"
  have new: "references_for p ?eu = references_for p eu @ [r]" if "p \<in> set ps" for p
    using references_for_map [OF assms(1) that, of r] True by (simp add: set_last_known_location_def references_for_def)
  have frame: "last_known_location ?eu = Some r" "velocity_references ?eu = velocity_references eu" "heading_references ?eu = heading_references eu"
    using True by (simp_all add: set_last_known_location_def)
  obtain refs where refs: "\<forall>p\<in>set ps. references_for p eu = refs" "velocity_references eu = []" "heading_references eu = []"
    using assms(2) unfolding told_def by blast
  have "\<forall>p\<in>set ps. references_for p ?eu = refs @ [r]" using new refs(1) by simp
  then have "told ps ?eu" unfolding told_def frame refs by (intro conjI exI [of _ "refs @ [r]"]) simp_all
  then show ?thesis using frame(1) by blast
qed

lemma on_position_told:
  fixes u
  assumes "distinct ps" "told ps eu"
  defines "eu' \<equiv> on_provider_position ps u eu"
  shows "told ps eu'" "update_policy eu' = snd (verify_position_update (update_policy eu) u)"
    "last_known_location eu' = Some (last_position_update (update_policy eu'))"
proof -
  obtain r pol where v: "verify_position_update (update_policy eu) u = (r, pol)" by fastforce
  have "references_for p (eu\<lparr>update_policy := pol\<rparr>) = references_for p eu" for p by (simp add: references_for_def)
  then have "told ps (eu\<lparr>update_policy := pol\<rparr>)" using assms(2) by (simp add: told_def)
  from set_location_told [OF assms(1) this, of r]
  have "told ps eu'" "last_known_location eu' = Some r" by (simp_all add: eu'_def on_provider_position_def v)
  moreover have pol: "update_policy eu' = pol" by (simp add: eu'_def on_provider_position_def v set_last_known_location_def)
  moreover have "last_position_update pol = r" using v by (auto simp: verify_position_update_def Let_def split: if_splits)
  ultimately show "told ps eu'" "update_policy eu' = snd (verify_position_update (update_policy eu) u)"
    "last_known_location eu' = Some (last_position_update (update_policy eu'))" by (simp_all add: v)
qed

lemma svs_told: "told ps eu \<Longrightarrow> told ps (on_provider_svs svs eu)"
proof -
  have "references_for p (on_provider_svs svs eu) = references_for p eu" for p
    by (simp add: references_for_def on_provider_svs_def)
  then show "told ps eu \<Longrightarrow> told ps (on_provider_svs svs eu)" by (simp add: told_def on_provider_svs_def)
qed

lemma engine_outputs_Cons: "engine_outputs ps (x # os) eu = engine_outputs ps os (engine_on_output ps x eu)"
  by (simp add: engine_outputs_def)

lemma engine_outputs_told:
  assumes "distinct ps" "told ps eu"
    and "last_known_location eu = None \<or> last_known_location eu = Some (last_position_update (update_policy eu))"
  shows "told ps (engine_outputs ps os eu) \<and>
    update_policy (engine_outputs ps os eu) = verify_position_updates (update_policy eu) (positions_out os) \<and>
    last_known_location (engine_outputs ps os eu) =
      (if positions_out os = [] then last_known_location eu
       else Some (last_position_update (update_policy (engine_outputs ps os eu))))"
  using assms
proof (induction os arbitrary: eu)
  case (Cons x os)
  let ?eu = "engine_on_output ps x eu"
  have told: "told ps ?eu" using Cons.prems(1,2) on_position_told(1) svs_told by (cases x) simp_all
  show ?case
  proof (cases x)
    case (Position_out u)
    have "update_policy ?eu = snd (verify_position_update (update_policy eu) u)"
      "last_known_location ?eu = Some (last_position_update (update_policy ?eu))"
      using on_position_told(2,3) [OF Cons.prems(1,2), of u] Position_out by simp_all
    with Cons.IH [OF Cons.prems(1) told] Position_out show ?thesis by (simp add: engine_outputs_Cons)
  next
    case (Vehicles_out svs)
    then have "update_policy ?eu = update_policy eu" "last_known_location ?eu = last_known_location eu"
      by (simp_all add: on_provider_svs_def)
    with Cons.IH [OF Cons.prems(1) told] Cons.prems(3) Vehicles_out show ?thesis by (simp add: engine_outputs_Cons)
  qed (use Cons.IH [OF Cons.prems] in \<open>simp_all add: engine_outputs_Cons\<close>)
qed (simp add: engine_outputs_def)

lemma new_updates_told: "told ps (new_engine_updates pol)"
  by (simp add: told_def references_for_def new_engine_updates_def)

text \<open>Whether the hardware is positioning after a sequence of calls that alternate.\<close>

fun positioning :: "bool \<Rightarrow> hal_call list \<Rightarrow> bool option" where
  "positioning b [] = Some b"
| "positioning b (Hal_start # cs) = (if b then None else positioning True cs)"
| "positioning b (Hal_stop # cs) = (if b then positioning False cs else None)"
| "positioning b (Hal_inject p # cs) = positioning b cs"

lemma positioning_running: "positioning b (concat (map gps_provider_call calls)) = running ch_position b calls"
proof (induction calls arbitrary: b)
  case (Cons k calls)
  obtain ch where "k = Start ch \<or> k = Stop ch" by (cases k) auto
  then show ?case using Cons by (cases ch) auto
qed simp

section \<open>Properties\<close>



text \<open>
  The hardware of the GPS provider is switched by the position channel alone: for any sequence of requests, the calls
  on the hardware alternate and leave it positioning exactly when a position observer is left, although the provider
  announces headings and velocities; a session that asks for these only never starts it.
\<close>

theorem gps_hardware_follows_position_observers:
  assumes "observers ch_position 0 ks = Some n" and "length ks < 2 ^ 31"
  shows "positioning False (concat (map gps_provider_call (snd (controller_run ks new_controller)))) = Some (n > 0)"
proof -
  have "int (length ks) < 2 ^ 31" using assms(2) by (metis of_nat_less_iff of_nat_numeral of_nat_power)
  then have "running ch_position False (snd (controller_run ks new_controller)) = Some (n > 0)"
    using controller_run_refcount [of ch_position new_controller ks n] assms(1) by (simp add: new_controller_def)
  then show ?thesis by (simp add: positioning_running)
qed

theorem gps_hardware_follows_position_observers_witness:
  "positioning False (concat (map gps_provider_call (snd (controller_run
      [Start ch_heading, Start ch_position, Start ch_position, Stop ch_position] new_controller)))) = Some True"
  using gps_hardware_follows_position_observers [of "[Start ch_heading, Start ch_position, Start ch_position, Stop ch_position]" 1]
  by simp

end
