(* ===== verification/Gps_Assistance.thy ===== *)
theory Gps_Assistance
  imports Gps_Hal Sntp
begin

text \<open>
  What the GPS chipset asks its environment for (\<open>providers/gps/android_hardware_abstraction_layer.cpp\<close>): the current time, which the
  SNTP client fetches (\<open>sntp_client.cpp\<close>, \<open>sntp_reference_time_source.cpp\<close>), assistance data, and the state of the data
  connection to a SUPL server; and the callbacks that store the status and the capabilities of the chipset.

  \<open>exchange\<close> is what the network did during a request of the SNTP client: the outcome of every asynchronous operation and
  whether the timer had expired at the three points where the code looks. The calls on the driver are \<open>driver_request\<close>.
\<close>

section \<open>The request for the time\<close>

record exchange =
  resolved :: "unit result"
  expired_before_connect :: bool
  connected :: "unit result"
  expired_before_request :: bool
  sent :: "unit result"
  received :: "packet result"
  expired_after_request :: bool

definition timed_out :: exn where "timed_out = runtime_error ''Timed out''"

definition sntp_request :: "exchange \<Rightarrow> packet result" where
  "sntp_request x = result_bind (sent x) (\<lambda>_. received x)"

definition request_time :: "exchange \<Rightarrow> int \<Rightarrow> int \<Rightarrow> int \<Rightarrow> response result" where
  "request_time x before_ticks after_ticks after_time =
     result_bind (resolved x) (\<lambda>_.
     if expired_before_connect x then Inl timed_out
     else result_bind (connected x) (\<lambda>_.
     if expired_before_request x then Inl timed_out
     else result_bind (sntp_request x) (\<lambda>p.
     if expired_after_request x then Inl timed_out
     else Inr (transaction_time p before_ticks after_ticks after_time))))"

text \<open>\<open>SntpReferenceTimeSource::sample\<close>: time since the epoch, since boot, and uncertainty.\<close>

definition sample_reference_time :: "exchange \<Rightarrow> int \<Rightarrow> int \<Rightarrow> int \<Rightarrow> (int \<times> int \<times> int) result" where
  "sample_reference_time x before_ticks after_ticks after_time =
     result_bind (request_time x before_ticks after_ticks after_time)
       (\<lambda>r. Inr (ntp_time r, ntp_time_reference r, round_trip_time r))"

text \<open>The callback: every exception is logged.\<close>

definition on_request_utc_time ::
  "capability_bits \<Rightarrow> exchange \<Rightarrow> int \<Rightarrow> int \<Rightarrow> int \<Rightarrow> hal_modes \<Rightarrow> (int \<times> int \<times> int) option" where
  "on_request_utc_time gc x before_ticks after_ticks after_time m =
     (case sample_reference_time x before_ticks after_ticks after_time of
        Inl e \<Rightarrow> None
      | Inr s \<Rightarrow> snd (inject_reference_time gc s m))"

section \<open>Assistance data and the SUPL assistant\<close>

datatype driver_request =
    Inject_xtra_data "8 word list"
  | Set_server string "16 word"
  | Connection_open string
  | Connection_closed
  | Connection_not_available
  | Delete_aiding_data "16 word"

definition on_xtra_download_request :: "8 word list result \<Rightarrow> driver_request list" where
  "on_xtra_download_request downloaded =
     (case downloaded of Inl e \<Rightarrow> [] | Inr data \<Rightarrow> if data \<noteq> [] then [Inject_xtra_data data] else [])"

definition set_server :: "string \<Rightarrow> 16 word \<Rightarrow> driver_request list" where
  "set_server host port = [Set_server host port]"

definition notify_data_connection_open_via_apn :: "string \<Rightarrow> driver_request list" where
  "notify_data_connection_open_via_apn name = [Connection_open name]"

definition notify_data_connection_closed :: "driver_request list" where
  "notify_data_connection_closed = [Connection_closed]"

definition notify_data_connection_not_available :: "driver_request list" where
  "notify_data_connection_not_available = [Connection_not_available]"

definition delete_all_aiding_data :: "driver_request list" where
  "delete_all_aiding_data = [Delete_aiding_data 0xFFFF]"

text \<open>The enumerations keep their underlying value, since the callbacks cast any integer to them.\<close>

record chipset =
  chipset_status :: int
  supl_status :: int
  server_ip :: "32 word"
  chipset_capabilities :: "32 word"

record agps_status =
  agps_type :: int
  agps_status_code :: int
  agps_ipaddr :: "32 word"

definition on_status_update :: "16 word \<Rightarrow> chipset \<Rightarrow> chipset" where
  "on_status_update st c = c\<lparr>chipset_status := uint st\<rparr>"

definition on_set_capabilities :: "32 word \<Rightarrow> chipset \<Rightarrow> chipset" where
  "on_set_capabilities caps c = c\<lparr>chipset_capabilities := caps\<rparr>"

text \<open>\<open>c2k\<close> is the constant \<open>U_HARDWARE_GPS_AGPS_TYPE_C2K\<close> of the driver's interface.\<close>

definition on_agps_status_update :: "int \<Rightarrow> agps_status \<Rightarrow> chipset \<Rightarrow> chipset" where
  "on_agps_status_update c2k a c =
     (if agps_type a = c2k then c else c\<lparr>supl_status := agps_status_code a, server_ip := agps_ipaddr a\<rparr>)"

text \<open>The union \<open>IpV4Address\<close> on a little-endian machine.\<close>

definition triplets :: "32 word \<Rightarrow> 8 word list" where
  "triplets ip = map (\<lambda>i. ucast (drop_bit (8 * i) ip)) [0, 1, 2, 3]"

definition ip_of_triplets :: "8 word list \<Rightarrow> 32 word" where
  "ip_of_triplets bs = foldr (\<lambda>b w. or (ucast b) (push_bit 8 w)) bs 0"

section \<open>Properties\<close>

lemma request_time_Inr:
  "request_time x t0 t1 t = Inr r \<longleftrightarrow>
     resolved x = Inr () \<and> connected x = Inr () \<and> sent x = Inr () \<and>
     \<not> expired_before_connect x \<and> \<not> expired_before_request x \<and> \<not> expired_after_request x \<and>
     (\<exists>p. received x = Inr p \<and> r = transaction_time p t0 t1 t)"
  by (auto simp: request_time_def sntp_request_def result_bind_Inr)

text \<open>
  The chipset gets a time exactly when it can take one and every step of the transaction with the NTP server succeeded in
  time; what it gets is the time computed from the packet. A failure of any step leaves it without an answer and harms nothing else.
\<close>

theorem utc_time_injected_iff:
  "on_request_utc_time gc x t0 t1 t m = Some s \<longleftrightarrow>
     is_capable_of_time_injection gc m \<and> resolved x = Inr () \<and> connected x = Inr () \<and> sent x = Inr () \<and>
     \<not> expired_before_connect x \<and> \<not> expired_before_request x \<and> \<not> expired_after_request x \<and>
     (\<exists>p. received x = Inr p \<and>
        s = (ntp_time (transaction_time p t0 t1 t), ntp_time_reference (transaction_time p t0 t1 t), round_trip_time (transaction_time p t0 t1 t)))"
proof -
  have "on_request_utc_time gc x t0 t1 t m = Some s \<longleftrightarrow>
      is_capable_of_time_injection gc m \<and> (\<exists>r. request_time x t0 t1 t = Inr r \<and> s = (ntp_time r, ntp_time_reference r, round_trip_time r))"
    by (auto simp: on_request_utc_time_def sample_reference_time_def inject_reference_time_def result_bind_def split: sum.splits)
  then show ?thesis by (auto simp: request_time_Inr)
qed

text \<open>
  The four bytes of the union are the address: they determine it, and their order is that of a little-endian machine.
\<close>

theorem triplets_roundtrip:
  "ip_of_triplets (triplets ip) = ip"
proof (rule bit_word_eqI)
  fix n assume "n < LENGTH(32)"
  then have "n < 8 \<or> (\<exists>k<8. n = 8 + k) \<or> (\<exists>k<8. n = 16 + k) \<or> (\<exists>k<8. n = 24 + k)" by simp presburger
  then show "bit (ip_of_triplets (triplets ip)) n \<longleftrightarrow> bit ip n"
    by (elim disjE exE conjE) (simp_all add: ip_of_triplets_def triplets_def bit_simps)
qed

end
