(* ===== verification/Platform.thy ===== *)
theory Platform
  imports Wireless_Network
begin

text \<open>
  What the service takes from the platform: the runtime whose threads execute its tasks (\<open>service/runtime.cpp\<close>), the time
  since boot (\<open>time_since_boot.cpp\<close>), and the configuration of the GPS hardware, read when its default instance is created
  (\<open>create_default_instance\<close> in \<open>providers/gps/android_hardware_abstraction_layer.cpp\<close>, \<open>sntp_reference_time_source.cpp\<close>).

  A task changes the state \<open>'s\<close> and may throw. \<open>stopped\<close> says whether \<open>stop\<close> was called; a run that has nothing to do waits,
  because the runtime keeps its service alive. The parser of INI files is the argument \<open>ini\<close>: its result on the remaining contents of a stream
  and what it leaves unread when it throws.
\<close>

section \<open>The runtime\<close>

type_synonym 's runtime_task = "'s \<Rightarrow> exn option \<times> 's"

datatype run_end = Run_returned | Run_waiting | Run_threw exn

text \<open>\<open>io_context::run\<close> in one thread: an exception of a task leaves it, the task is gone.\<close>

fun service_run :: "('s \<Rightarrow> bool) \<Rightarrow> 's runtime_task list \<Rightarrow> 's \<Rightarrow> run_end \<times> 's runtime_task list \<times> 's" where
  "service_run stopped [] s = (if stopped s then Run_returned else Run_waiting, [], s)"
| "service_run stopped (t # q) s =
     (if stopped s then (Run_returned, t # q, s)
      else case t s of (None, s') \<Rightarrow> service_run stopped q s' | (Some e, s') \<Rightarrow> (Run_threw e, q, s'))"

lemma service_run_threw: "service_run stopped q s = (Run_threw e, q', s') \<Longrightarrow> length q' < length q"
  by (induction stopped q s rule: service_run.induct) (auto split: if_splits prod.splits option.splits)

function exception_safe_run :: "('s \<Rightarrow> bool) \<Rightarrow> 's runtime_task list \<Rightarrow> 's \<Rightarrow> run_end \<times> 's runtime_task list \<times> 's" where
  "exception_safe_run stopped q s =
     (case service_run stopped q s of
        (Run_threw e, q', s') \<Rightarrow> exception_safe_run stopped q' s'
      | r \<Rightarrow> r)"
  by pat_completeness auto

termination
  by (relation "measure (\<lambda>(_, q, _). length q)") (auto dest: service_run_threw [OF sym])

declare exception_safe_run.simps [simp del]

text \<open>The reference: every task is executed, whether it throws or not, until the service is stopped.\<close>

fun run_tasks :: "('s \<Rightarrow> bool) \<Rightarrow> 's runtime_task list \<Rightarrow> 's \<Rightarrow> run_end \<times> 's runtime_task list \<times> 's" where
  "run_tasks stopped [] s = (if stopped s then Run_returned else Run_waiting, [], s)"
| "run_tasks stopped (t # q) s = (if stopped s then (Run_returned, t # q, s) else run_tasks stopped q (snd (t s)))"

lemma exception_safe_run_eq:
  "exception_safe_run stopped q s = run_tasks stopped q s"
proof (induction q arbitrary: s)
  case (Cons t q)
  show ?case
  proof (cases "stopped s \<or> fst (t s) = None")
    case True
    have "exception_safe_run stopped (t # q) s = (if stopped s then (Run_returned, t # q, s) else exception_safe_run stopped q (snd (t s)))"
      using True by (subst (1 2) exception_safe_run.simps) (auto split: prod.splits)
    then show ?thesis using Cons.IH by simp
  next
    case False
    then obtain e s' where "t s = (Some e, s')" by (cases "t s") auto
    with False show ?thesis by (subst exception_safe_run.simps) (simp add: Cons.IH)
  qed
qed (simp add: exception_safe_run.simps)

text \<open>
  A worker thread of the runtime executes the posted tasks in their order, each one once, until the service is stopped;
  tasks that throw do not end the thread and do not cost another task.
\<close>

theorem exception_safe_run_executes_all:
  "exception_safe_run stopped q s = run_tasks stopped q s"
  by (rule exception_safe_run_eq)

section \<open>The time since boot\<close>

text \<open>\<open>/proc/stat\<close> is the list of its lines. \<open>memory\<close> is what an extraction leaves that finds the line at its end. Times are nanoseconds.\<close>

definition from_clock_boottime :: "int \<Rightarrow> int \<times> int \<Rightarrow> int result" where
  "from_clock_boottime rc ts = (if rc = - 1 then Inl (runtime_error ''system_error'') else Inr (fst ts * 1000000000 + snd ts))"

fun proc_stat_boot_time :: "64 word \<Rightarrow> string list \<Rightarrow> int result" where
  "proc_stat_boot_time memory [] = Inl (runtime_error ''Failed to determine system boot time.'')"
| "proc_stat_boot_time memory (line # ls) =
     (if line = [] then proc_stat_boot_time memory ls
      else if fst (read_token line) \<noteq> ''btime'' then proc_stat_boot_time memory ls
      else Inr (sint (extract_uint64 memory (snd (read_token line))) * 1000000000))"

definition time_since_boot :: "64 word \<Rightarrow> int \<Rightarrow> int \<times> int \<Rightarrow> int \<Rightarrow> string list \<Rightarrow> int result" where
  "time_since_boot memory rc ts now proc_stat =
     (case from_clock_boottime rc ts of
        Inr t \<Rightarrow> Inr t
      | Inl _ \<Rightarrow> result_bind (proc_stat_boot_time memory proc_stat) (\<lambda>bt. Inr (now - bt)))"

text \<open>
  Without the boot clock the time since boot is the current time less that of the first line of \<open>/proc/stat\<close>
  whose name is \<open>btime\<close>, and an error when there is none; with it \<open>/proc/stat\<close> does not matter.
\<close>

theorem time_since_boot_sources:
  assumes "\<forall>l\<in>set ls. fst (read_token l) \<noteq> ''btime''" and "read_token line = (''btime'', rest)" and "line \<noteq> []"
  shows "time_since_boot memory (- 1) ts now (ls @ line # ls') = Inr (now - sint (extract_uint64 memory rest) * 1000000000) \<and>
    time_since_boot memory (- 1) ts now ls = Inl (runtime_error ''Failed to determine system boot time.'') \<and>
    (rc \<noteq> - 1 \<longrightarrow> time_since_boot memory rc (sec, nsec) now stat = Inr (sec * 1000000000 + nsec))"
proof -
  have "proc_stat_boot_time memory (ls @ line # ls') = Inr (sint (extract_uint64 memory rest) * 1000000000)"
    using assms by (induction ls) auto
  moreover have "proc_stat_boot_time memory ls = Inl (runtime_error ''Failed to determine system boot time.'')"
    using assms(1) by (induction ls) auto
  ultimately show ?thesis by (simp add: time_since_boot_def from_clock_boottime_def result_bind_def)
qed

section \<open>The configuration of the GPS hardware\<close>

record ifstream =
  contents :: string
  eofbit :: bool
  failbit :: bool

definition open_file :: "string option \<Rightarrow> ifstream" where
  "open_file f = (case f of None \<Rightarrow> \<lparr>contents = [], eofbit = False, failbit = True\<rparr> | Some c \<Rightarrow> \<lparr>contents = c, eofbit = False, failbit = False\<rparr>)"

type_synonym ini = "string \<Rightarrow> (string \<times> string) list result \<times> string"

text \<open>
  \<open>read_ini\<close> reads lines while the stream is good. When it succeeds the last \<open>getline\<close> has met the end of the file; it fails when it
  found no character, that is when the contents end with a newline or are empty.
\<close>

definition read_ini :: "ini \<Rightarrow> ifstream \<Rightarrow> (string \<times> string) list result \<times> ifstream" where
  "read_ini ini f =
     (if eofbit f \<or> failbit f then (Inr [], f)
      else case ini (contents f) of
        (Inl e, rest) \<Rightarrow> (Inl e, f\<lparr>contents := rest\<rparr>)
      | (Inr c, _) \<Rightarrow> (Inr c, \<lparr>contents = [], eofbit = True, failbit = (contents f = [] \<or> last (contents f) = CHR 0x0A)\<rparr>))"

definition xtra_from_gps_conf :: "(string \<times> string) list \<Rightarrow> string list" where
  "xtra_from_gps_conf c =
     List.map_filter (map_of c) [''XTRA_SERVER_1'', ''XTRA_SERVER_2'', ''XTRA_SERVER_3'']"

definition default_xtra_hosts :: "string list" where
  "default_xtra_hosts = [''http://xtra1.gpsonextra.net/xtra2.bin'', ''http://xtra2.gpsonextra.net/xtra2.bin'',
     ''http://xtra3.gpsonextra.net/xtra2.bin'']"

definition gps_xtra_downloader_configuration :: "ini \<Rightarrow> ifstream \<Rightarrow> string list \<times> ifstream" where
  "gps_xtra_downloader_configuration ini f =
     (case read_ini ini f of (Inr c, f') \<Rightarrow> (xtra_from_gps_conf c, f') | (Inl _, f') \<Rightarrow> (default_xtra_hosts, f'))"

definition ntp_host_from :: "(string \<times> string) list \<Rightarrow> string" where
  "ntp_host_from c = (case map_of c ''NTP_SERVER'' of None \<Rightarrow> ''pool.ntp.org'' | Some h \<Rightarrow> h)"

definition sntp_reference_time_source_configuration :: "ini \<Rightarrow> ifstream \<Rightarrow> string \<times> ifstream" where
  "sntp_reference_time_source_configuration ini f =
     (case read_ini ini f of (Inr c, f') \<Rightarrow> (ntp_host_from c, f') | (Inl _, f') \<Rightarrow> (''pool.ntp.org'', f'))"

text \<open>
  The two initialisers of \<open>create_default_instance\<close> in their order, for the contents of \<open>/system/etc/gps.conf\<close> and
  \<open>/etc/gps.conf\<close>. Each one takes the first stream unless that has failed.
\<close>

definition create_default_instance :: "ini \<Rightarrow> string option \<Rightarrow> string option \<Rightarrow> string list \<times> string" where
  "create_default_instance ini system_conf etc_conf =
     (let sys = open_file system_conf; etc = open_file etc_conf;
          (hosts, sys, etc) =
            (if \<not> failbit sys then (case gps_xtra_downloader_configuration ini sys of (h, sys) \<Rightarrow> (h, sys, etc))
             else (case gps_xtra_downloader_configuration ini etc of (h, etc) \<Rightarrow> (h, sys, etc)));
          ntp = fst (sntp_reference_time_source_configuration ini (if \<not> failbit sys then sys else etc))
      in (hosts, ntp))"

lemmas gps_conf_defs = create_default_instance_def open_file_def gps_xtra_downloader_configuration_def
  sntp_reference_time_source_configuration_def read_ini_def Let_def

text \<open>
  The NTP server is never read from the file that gives the servers for the assistance data. The first
  initialiser reads that file to its end. When the file ends with a newline the stream has then failed and the NTP
  server comes from \<open>/etc/gps.conf\<close>, otherwise, and when there is only \<open>/etc/gps.conf\<close>, it is the default.
\<close>

theorem ntp_server_not_from_device_file:
  assumes "ini c = (Inr conf, rest)" and "ini c' = (Inr conf', rest')" and "c \<noteq> []"
  shows "create_default_instance ini (Some c) (Some c') =
      (xtra_from_gps_conf conf, if last c = CHR 0x0A then ntp_host_from conf' else ''pool.ntp.org'') \<and>
    create_default_instance ini None (Some c) = (xtra_from_gps_conf conf, ''pool.ntp.org'')"
  using assms by (simp add: gps_conf_defs ntp_host_from_def)

text \<open>A parser for files of one line \<open>KEY=value\<close>.\<close>

definition one_line_ini :: ini where
  "one_line_ini s = (Inr [(takeWhile (\<lambda>c. c \<noteq> CHR ''='') s, takeWhile (\<lambda>c. c \<noteq> CHR 0x0A) (tl (dropWhile (\<lambda>c. c \<noteq> CHR ''='') s)))], [])"

theorem ntp_server_not_from_device_file_witness:
  "snd (create_default_instance one_line_ini (Some ''NTP_SERVER=device.example'') (Some ''NTP_SERVER=etc.example'')) = ''pool.ntp.org''"
  using ntp_server_not_from_device_file
    [of one_line_ini "''NTP_SERVER=device.example''" "[(''NTP_SERVER'', ''device.example'')]" "[]"
      "''NTP_SERVER=etc.example''" "[(''NTP_SERVER'', ''etc.example'')]" "[]"]
  by (simp add: one_line_ini_def)

end
