(* ===== verification/Service_Vehicles.thy ===== *)
theory Service_Vehicles
  imports Client_Stubs Engine_Updates Platform
begin

text \<open>
  The way of the visible space vehicles to a client (\<open>service/implementation.cpp\<close>, the slot on \<open>visible_space_vehicles\<close> of the
  engine): a report of a provider is merged by the engine, the slot posts a task to the dispatcher of the runtime, the task
  assigns the property of the service, and a client asks for it. The dispatcher posts to a strand, which runs its tasks
  one after the other in their order.
\<close>

definition assign_vehicles_task :: "visible_vehicles \<Rightarrow> mirror runtime_task" where
  "assign_vehicles_task svs = (\<lambda>m. (None, fst (assign_property (Vehicles_value svs) m)))"

text \<open>The tasks that the slot posts while providers put out their updates: every report changes the property.\<close>

fun posted_tasks :: "nat list \<Rightarrow> provider_output list \<Rightarrow> engine_updates \<Rightarrow> mirror runtime_task list" where
  "posted_tasks ps [] eu = []"
| "posted_tasks ps (Vehicles_out svs # os) eu =
     (let eu' = engine_on_output ps (Vehicles_out svs) eu
      in assign_vehicles_task (visible_space_vehicles eu') # posted_tasks ps os eu')"
| "posted_tasks ps (x # os) eu = posted_tasks ps os (engine_on_output ps x eu)"

lemma position_keeps_vehicles: "visible_space_vehicles (on_provider_position ps u eu) = visible_space_vehicles eu"
  by (simp add: on_provider_position_def set_last_known_location_def split: prod.split)

lemma run_posted_tasks:
  "mirror_vehicles m = visible_space_vehicles eu \<Longrightarrow>
     run_tasks (\<lambda>_. False) (posted_tasks ps os eu) m =
       (Run_waiting, [], m\<lparr>mirror_vehicles := visible_space_vehicles (engine_outputs ps os eu)\<rparr>)"
proof (induction ps os eu arbitrary: m rule: posted_tasks.induct)
  case (1 ps eu)
  then show ?case by (simp add: engine_outputs_def)
next
  case (2 ps svs os eu)
  let ?eu = "on_provider_svs svs eu"
  show ?case
    using 2(1) [OF refl, of "m\<lparr>mirror_vehicles := visible_space_vehicles ?eu\<rparr>"]
    by (simp add: Let_def assign_vehicles_task_def assign_property_def engine_outputs_Cons)
qed (simp_all add: engine_outputs_Cons position_keeps_vehicles)

text \<open>
  Once the dispatcher has executed the posted tasks, a client that asks for the visible vehicles gets the ones the
  engine has, however reports of vehicles, positions, headings and velocities were mixed; no other property of the service changes.
\<close>

theorem polling_client_sees_vehicles:
  assumes "mirror_vehicles m = visible_space_vehicles eu"
  shows "\<exists>m'. exception_safe_run (\<lambda>_. False) (posted_tasks ps os eu) m = (Run_waiting, [], m') \<and>
    handle_get_visible_space_vehicles m' = visible_space_vehicles (engine_outputs ps os eu) \<and>
    m'\<lparr>mirror_vehicles := mirror_vehicles m\<rparr> = m"
  using run_posted_tasks [OF assms, of ps os]
  by (simp add: exception_safe_run_eq handle_get_visible_space_vehicles_def)

theorem polling_client_sees_vehicles_witness:
  "\<exists>m'. exception_safe_run (\<lambda>_. False)
      (posted_tasks [0] [Vehicles_out [space_vehicle_default], Heading_out (make_update (Fin 90) 6)] (new_engine_updates example_policy))
      \<lparr>mirror_state = service_enabled, mirror_satellites = True, mirror_reports = False, mirror_online = True,
       mirror_applications = [], mirror_vehicles = []\<rparr> = (Run_waiting, [], m') \<and>
    handle_get_visible_space_vehicles m' = [(sv_key space_vehicle_default, space_vehicle_default)]"
  (is "\<exists>m'. exception_safe_run _ (posted_tasks ?ps ?os ?eu) ?m = _ \<and> _")
proof -
  have "mirror_vehicles ?m = visible_space_vehicles ?eu" by (simp add: new_engine_updates_def)
  from polling_client_sees_vehicles [OF this, of ?ps ?os] show ?thesis
    by (simp add: engine_outputs_def on_provider_svs_def new_engine_updates_def) blast
qed

end
