(* ===== verification/Bus_Types.thy ===== *)
theory Bus_Types
  imports Codec
begin

text \<open>
  What \<open>codec.h\<close> declares about its types (\<open>TypeMapper\<close>): the kind of argument, whether the type is basic, whether it needs a
  signature inside a variant or an array, and the signature. The declarations are held against the types of the D-Bus
  specification: a declaration fits when its signature is that of one complete type of the declared kind.

  The mappers of \<open>std::string\<close>, \<open>double\<close>, \<open>bool\<close> and the integers are the library's; only their signatures are used here, and that of \<open>float\<close> is
  the parameter \<open>float_sig\<close>.
\<close>

section \<open>Types of the specification\<close>

text \<open>A structure has at least one field, the key of a dictionary is basic.\<close>

datatype dbus_type =
    D_basic char
  | D_variant
  | D_array dbus_type
  | D_structure dbus_type "dbus_type list"
  | D_dictionary char dbus_type

definition basic_codes :: "char set" where
  "basic_codes = set ''ybnqiuxtdsogh''"

primrec type_ok :: "dbus_type \<Rightarrow> bool" where
  "type_ok (D_basic c) \<longleftrightarrow> c \<in> basic_codes"
| "type_ok D_variant \<longleftrightarrow> True"
| "type_ok (D_array t) \<longleftrightarrow> type_ok t"
| "type_ok (D_structure t ts) \<longleftrightarrow> type_ok t \<and> list_all id (map type_ok ts)"
| "type_ok (D_dictionary k t) \<longleftrightarrow> k \<in> basic_codes \<and> type_ok t"

primrec signature_of :: "dbus_type \<Rightarrow> string" where
  "signature_of (D_basic c) = [c]"
| "signature_of D_variant = ''v''"
| "signature_of (D_array t) = ''a'' @ signature_of t"
| "signature_of (D_structure t ts) = ''('' @ signature_of t @ concat (map signature_of ts) @ '')''"
| "signature_of (D_dictionary k t) = ''a{'' @ [k] @ signature_of t @ ''}''"

lemma basic_code: "c \<in> basic_codes \<Longrightarrow> c \<notin> set ''()a{}v''"
  by (auto simp: basic_codes_def)

lemma signature_starts: "type_ok t \<Longrightarrow> \<exists>c cs. signature_of t = c # cs \<and> c \<notin> set ''){}''"
  using basic_code by (cases t) fastforce+

lemma signature_not_closed: "type_ok t \<Longrightarrow> signature_of t @ r \<noteq> CHR '')'' # r'"
  using signature_starts [of t] by auto

lemma signatures_prefix_free:
  assumes "\<And>t t' r r'. t \<in> set ts \<Longrightarrow> type_ok t \<Longrightarrow> type_ok t' \<Longrightarrow> signature_of t @ r = signature_of t' @ r' \<Longrightarrow> t = t' \<and> r = r'"
    "\<forall>t \<in> set ts. type_ok t" "\<forall>t \<in> set ts'. type_ok t"
    "concat (map signature_of ts) @ '')'' @ r = concat (map signature_of ts') @ '')'' @ r'"
  shows "ts = ts' \<and> r = r'"
  using assms
proof (induction ts arbitrary: ts')
  case Nil
  show ?case
  proof (cases ts')
    case (Cons u us)
    with Nil.prems signature_not_closed [of u "concat (map signature_of us) @ '')'' @ r'" r] show ?thesis by simp
  qed (use Nil.prems in simp)
next
  case (Cons t ts)
  show ?case
  proof (cases ts')
    case Nil
    with Cons.prems(2,4) signature_not_closed [of t "concat (map signature_of ts) @ '')'' @ r" r'] show ?thesis by simp
  next
    case (Cons t' ts'')
    have "signature_of t @ concat (map signature_of ts) @ '')'' @ r = signature_of t' @ concat (map signature_of ts'') @ '')'' @ r'"
      using Cons.prems(4) Cons by simp
    from Cons.prems(1) [OF _ _ _ this] Cons.prems(2,3) Cons
    have t: "t = t'" and rest: "concat (map signature_of ts) @ '')'' @ r = concat (map signature_of ts'') @ '')'' @ r'"
      by auto
    have "ts = ts'' \<and> r = r'"
      by (rule Cons.IH [OF Cons.prems(1) _ _ rest]) (use Cons.prems(2,3) Cons in auto)
    with t Cons show ?thesis by simp
  qed
qed

text \<open>A signature says where it ends and of which type it is.\<close>

lemma signature_prefix_free:
  "type_ok t \<Longrightarrow> type_ok t' \<Longrightarrow> signature_of t @ r = signature_of t' @ r' \<Longrightarrow> t = t' \<and> r = r'"
proof (induction t arbitrary: t' r r')
  case (D_basic c)
  with basic_code [of c] show ?case by (cases t') simp_all
next
  case D_variant
  then show ?case using basic_code by (cases t') auto
next
  case (D_array t)
  show ?case
  proof (cases t')
    case (D_array u)
    with D_array.prems D_array.IH [of u r r'] show ?thesis by simp
  next
    case (D_dictionary k u)
    with D_array.prems signature_starts [of t] show ?thesis by auto
  qed (use D_array.prems basic_code in auto)
next
  case (D_structure t ts)
  show ?case
  proof (cases t')
    case (D_structure u us)
    have "signature_of t @ concat (map signature_of ts) @ '')'' @ r = signature_of u @ concat (map signature_of us) @ '')'' @ r'"
      using D_structure.prems(3) D_structure by simp
    from D_structure.IH(1) [OF _ _ this] D_structure.prems(1,2) D_structure
    have t: "t = u" and rest: "concat (map signature_of ts) @ '')'' @ r = concat (map signature_of us) @ '')'' @ r'" by auto
    have "ts = us \<and> r = r'"
      by (rule signatures_prefix_free [OF D_structure.IH(2) _ _ rest])
        (use D_structure.prems(1,2) D_structure in \<open>auto simp: list_all_iff\<close>)
    with t D_structure show ?thesis by simp
  qed (use D_structure.prems basic_code in auto)
next
  case (D_dictionary k t)
  show ?case
  proof (cases t')
    case (D_array u)
    with D_dictionary.prems signature_starts [of u] show ?thesis by auto
  next
    case (D_dictionary k' u)
    with D_dictionary.prems D_dictionary.IH [of u "''}'' @ r" "''}'' @ r'"] show ?thesis by simp
  qed (use D_dictionary.prems basic_code in auto)
qed

section \<open>The declarations\<close>

datatype argument_type = Arg_string | Arg_floating_point | Arg_array | Arg_structure

record type_mapper =
  type_value :: argument_type
  is_basic_type :: bool
  requires_signature :: bool
  mapper_signature :: string

definition state_mapper :: type_mapper where
  "state_mapper = \<lparr>type_value = Arg_string, is_basic_type = True, requires_signature = False, mapper_signature = ''s''\<rparr>"

definition quantity_mapper :: type_mapper where
  "quantity_mapper = \<lparr>type_value = Arg_floating_point, is_basic_type = True, requires_signature = False, mapper_signature = ''d''\<rparr>"

definition sv_key_mapper :: type_mapper where
  "sv_key_mapper = \<lparr>type_value = Arg_structure, is_basic_type = False, requires_signature = True, mapper_signature = sv_key_signature\<rparr>"

definition space_vehicle_mapper :: "string \<Rightarrow> type_mapper" where
  "space_vehicle_mapper float_sig =
     \<lparr>type_value = Arg_structure, is_basic_type = False, requires_signature = True, mapper_signature = space_vehicle_signature float_sig\<rparr>"

definition visible_mapper :: "string \<Rightarrow> type_mapper" where
  "visible_mapper float_sig =
     \<lparr>type_value = Arg_array, is_basic_type = False, requires_signature = True, mapper_signature = visible_signature float_sig\<rparr>"

definition update_mapper :: "string \<Rightarrow> type_mapper" where
  "update_mapper value_sig =
     \<lparr>type_value = Arg_structure, is_basic_type = False, requires_signature = True, mapper_signature = update_signature value_sig\<rparr>"

section \<open>Which declarations fit\<close>

fun is_kind :: "argument_type \<Rightarrow> dbus_type \<Rightarrow> bool" where
  "is_kind Arg_string t \<longleftrightarrow> t = D_basic CHR ''s''"
| "is_kind Arg_floating_point t \<longleftrightarrow> t = D_basic CHR ''d''"
| "is_kind Arg_array (D_array t) \<longleftrightarrow> True"
| "is_kind Arg_array (D_dictionary k t) \<longleftrightarrow> True"
| "is_kind Arg_structure (D_structure t ts) \<longleftrightarrow> True"
| "is_kind a t \<longleftrightarrow> False"

fun is_basic :: "dbus_type \<Rightarrow> bool" where
  "is_basic (D_basic c) = True"
| "is_basic t = False"

definition declares :: "type_mapper \<Rightarrow> dbus_type \<Rightarrow> bool" where
  "declares m t \<longleftrightarrow> type_ok t \<and> mapper_signature m = signature_of t \<and> is_kind (type_value m) t \<and>
     is_basic_type m = is_basic t \<and> requires_signature m = (\<not> is_basic t)"

definition key_type_of :: "dbus_type list" where
  "key_type_of = [D_basic CHR ''u'', D_basic CHR ''u'']"

definition vehicle_type :: "dbus_type \<Rightarrow> dbus_type" where
  "vehicle_type float_type = D_structure (D_basic CHR ''u'')
     (D_basic CHR ''u'' # float_type # replicate 3 (D_basic CHR ''b'') @ replicate 2 (D_basic CHR ''d''))"

lemma signature_pair: "type_ok t \<Longrightarrow> type_ok t' \<Longrightarrow> c \<noteq> [] \<Longrightarrow> signature_of t' \<noteq> signature_of t @ c"
  using signature_prefix_free [of t t' c "[]"] by auto

text \<open>
  The declarations of the state, of a quantity, of a vehicle and of the visible vehicles fit one type of the specification. Those of the
  key of a vehicle and of an update do not: they announce a structure with the signature of two values in a row, which is what their
  codecs write.
\<close>

theorem declared_types:
  assumes "type_ok float_type"
  shows "declares state_mapper (D_basic CHR ''s'') \<and> declares quantity_mapper (D_basic CHR ''d'') \<and>
    declares (space_vehicle_mapper (signature_of float_type)) (vehicle_type float_type) \<and>
    declares (visible_mapper (signature_of float_type)) (D_array (vehicle_type float_type)) \<and>
    \<not> declares sv_key_mapper t \<and>
    \<not> (type_ok value_type \<and> declares (update_mapper (signature_of value_type)) t)"
proof -
  have "type_ok (D_basic CHR ''u'')" by (simp add: basic_codes_def)
  from signature_pair [OF this, of t "''u''"] have "\<not> declares sv_key_mapper t"
    by (auto simp: declares_def sv_key_mapper_def sv_key_signature_def)
  moreover have "\<not> (type_ok value_type \<and> declares (update_mapper (signature_of value_type)) t)"
    using signature_pair [of value_type t "''t''"] by (auto simp: declares_def update_mapper_def update_signature_def)
  moreover have "declares state_mapper (D_basic CHR ''s'')" "declares quantity_mapper (D_basic CHR ''d'')"
    by (simp_all add: declares_def state_mapper_def quantity_mapper_def basic_codes_def)
  moreover have "declares (space_vehicle_mapper (signature_of float_type)) (vehicle_type float_type)"
    "declares (visible_mapper (signature_of float_type)) (D_array (vehicle_type float_type))"
    using assms by (simp_all add: declares_def space_vehicle_mapper_def visible_mapper_def visible_signature_def
        space_vehicle_signature_def sv_key_signature_def vehicle_type_def basic_codes_def numeral_eq_Suc)
  ultimately show ?thesis by blast
qed

theorem declared_types_witness:
  "declares (visible_mapper ''d'') (D_array (vehicle_type (D_basic CHR ''d'')))"
  using declared_types [of "D_basic CHR ''d''"] by (simp add: basic_codes_def)

section \<open>What the codecs write\<close>

text \<open>Whether every element of an array has the signature the array was opened with.\<close>

fun uniform :: "wire \<Rightarrow> bool" where
  "uniform (W_structure ws) \<longleftrightarrow> list_all id (map uniform ws)"
| "uniform (W_array s ws) \<longleftrightarrow> list_all id (map uniform ws) \<and> list_all (\<lambda>w. type_code w = s) ws"
| "uniform w \<longleftrightarrow> True"

lemmas encoders = encode_space_vehicle_def encode_sv_key_def encode_quantity_def

lemma vehicle_wire:
  "map type_code (encode_space_vehicle sv) = [signature_of (vehicle_type (D_basic CHR ''d''))]"
  "list_all uniform (encode_space_vehicle sv)"
  by (simp_all add: encoders vehicle_type_def numeral_eq_Suc)

text \<open>
  Visible vehicles go over the bus as one array of the declared type, whatever they are: each element has the signature the array is opened with, so
  the library never refuses an element.
\<close>

theorem visible_vehicles_well_typed:
  "\<exists>w. encode_visible ''d'' m = [w] \<and> uniform w \<and> type_code w = mapper_signature (visible_mapper ''d'') \<and>
     type_code w = signature_of (D_array (vehicle_type (D_basic CHR ''d'')))"
proof -
  have s: "space_vehicle_signature ''d'' = signature_of (vehicle_type (D_basic CHR ''d''))"
    by (simp add: space_vehicle_signature_def sv_key_signature_def vehicle_type_def numeral_eq_Suc)
  have "list_all uniform (concat (map (\<lambda>(k, sv). encode_space_vehicle sv) m)) \<and>
      list_all (\<lambda>w. type_code w = signature_of (vehicle_type (D_basic CHR ''d''))) (concat (map (\<lambda>(k, sv). encode_space_vehicle sv) m))"
  proof (induction m)
    case (Cons kv m)
    obtain w where "encode_space_vehicle (snd kv) = [w]" by (simp add: encode_space_vehicle_def)
    with Cons.IH vehicle_wire [of "snd kv"] show ?case by (simp add: case_prod_unfold)
  qed simp
  then show ?thesis
    by (simp add: encode_visible_def visible_mapper_def visible_signature_def s list.pred_map o_def)
qed

end
