(* ===== verification/Skyhook.thy ===== *)
theory Skyhook
  imports Worker_Providers
begin

text \<open>
  The Skyhook provider (\<open>providers/skyhook/provider.cpp\<close>). The header of the repository lags behind the source: it
  declares a member twice and no \<open>Private\<close>. The model is the source, with the provider and its \<open>Private\<close> in one record.

  The library calls back from \<open>WPS_periodic_location\<close>, which the worker thread sits in. What it reports and what it
  returns are events; \<open>WPS_other\<close> stands for the codes the table of the source does not have. A step that ends the process (an
  exception in the thread or in the callback, the destruction of a joinable thread) has the value None. The callback takes the time up to three times.
\<close>

section \<open>Data\<close>

datatype wps_code =
    WPS_OK
  | WPS_ERROR_SCANNER_NOT_FOUND
  | WPS_ERROR_WIFI_NOT_AVAILABLE
  | WPS_ERROR_NO_WIFI_IN_RANGE
  | WPS_ERROR_UNAUTHORIZED
  | WPS_ERROR_SERVER_UNAVAILABLE
  | WPS_ERROR_LOCATION_CANNOT_BE_DETERMINED
  | WPS_ERROR_PROXY_UNAUTHORIZED
  | WPS_ERROR_FILE_IO
  | WPS_ERROR_INVALID_FILE_FORMAT
  | WPS_ERROR_TIMEOUT
  | WPS_NOT_APPLICABLE
  | WPS_GEOFENCE_ERROR
  | WPS_ERROR_NOT_TUNED
  | WPS_NOMEM
  | WPS_ERROR
  | WPS_other int

definition return_code_lut :: "(wps_code \<times> string) list" where
  "return_code_lut =
     [(WPS_OK, ''WPS_OK''), (WPS_ERROR_SCANNER_NOT_FOUND, ''WPS_ERROR_SCANNER_NOT_FOUND''),
      (WPS_ERROR_WIFI_NOT_AVAILABLE, ''WPS_ERROR_WIFI_NOT_AVAILABLE''), (WPS_ERROR_NO_WIFI_IN_RANGE, ''WPS_ERROR_NO_WIFI_IN_RANGE''),
      (WPS_ERROR_UNAUTHORIZED, ''WPS_ERROR_UNAUTHORIZED''), (WPS_ERROR_SERVER_UNAVAILABLE, ''WPS_ERROR_SERVER_UNAVAILABLE''),
      (WPS_ERROR_LOCATION_CANNOT_BE_DETERMINED, ''WPS_ERROR_LOCATION_CANNOT_BE_DETERMINED''),
      (WPS_ERROR_PROXY_UNAUTHORIZED, ''WPS_ERROR_PROXY_UNAUTHORIZED''), (WPS_ERROR_FILE_IO, ''WPS_ERROR_FILE_IO''),
      (WPS_ERROR_INVALID_FILE_FORMAT, ''WPS_ERROR_INVALID_FILE_FORMAT''), (WPS_ERROR_TIMEOUT, ''WPS_ERROR_TIMEOUT''),
      (WPS_NOT_APPLICABLE, ''WPS_NOT_APPLICABLE''), (WPS_GEOFENCE_ERROR, ''WPS_GEOFENCE_ERROR''),
      (WPS_ERROR_NOT_TUNED, ''WPS_ERROR_NOT_TUNED''), (WPS_NOMEM, ''WPS_NOMEM''), (WPS_ERROR, ''WPS_ERROR'')]"

definition known_code :: "wps_code \<Rightarrow> bool" where
  "known_code c \<longleftrightarrow> map_of return_code_lut c \<noteq> None"

record wps_location =
  wps_latitude :: double
  wps_longitude :: double
  wps_altitude :: double
  wps_speed :: double
  wps_bearing :: double

datatype sky_state = Sky_stopped | Sky_started | Sky_stop_requested

datatype sky_thread = Sky_none | Sky_looping | Sky_over

record skyhook =
  sky_user_name :: string
  sky_realm :: string
  sky_period :: int
  sky_state :: sky_state
  sky_worker :: sky_thread
  sky_published :: "published list"

section \<open>Operations\<close>

definition skyhook_create_instance :: "(string \<Rightarrow> int option) \<Rightarrow> (string \<times> string) list \<Rightarrow> skyhook" where
  "skyhook_create_instance parse_int config =
     \<lparr>sky_user_name = get_or Some ''username'' [] config, sky_realm = get_or Some ''realm'' [] config,
      sky_period = get_or parse_int ''period'' 500 config,
      sky_state = Sky_stopped, sky_worker = Sky_none, sky_published = []\<rparr>"

text \<open>What a location is turned into; a latitude or longitude out of range throws.\<close>

definition located :: "wps_location \<Rightarrow> int \<Rightarrow> int \<Rightarrow> int \<Rightarrow> published list option" where
  "located l t t_speed t_bearing =
     (case (make_coordinate check_latitude (wps_latitude l), make_coordinate check_longitude (wps_longitude l)) of
        (Inr lat, Inr lon) \<Rightarrow>
          Some ([Pub_position (make_update
              (if dbl_le (Fin 0) (wps_altitude l) then position_lat_lon_alt lat lon (wps_altitude l) else position_lat_lon lat lon) t)] @
            (if dbl_le (Fin 0) (wps_speed l) then [Pub_velocity (make_update (wps_speed l) t_speed)] else []) @
            (if dbl_le (Fin 0) (wps_bearing l) then [Pub_heading (make_update (wps_bearing l) t_bearing)] else []))
      | _ \<Rightarrow> None)"

text \<open>The first component is whether the library goes on (\<open>WPS_CONTINUE\<close>).\<close>

definition periodic_callback :: "wps_code \<Rightarrow> wps_location \<Rightarrow> int \<Rightarrow> int \<Rightarrow> int \<Rightarrow> skyhook \<Rightarrow> (bool \<times> skyhook) option" where
  "periodic_callback code l t t_speed t_bearing s =
     (if code \<noteq> WPS_OK then
        (if known_code code then Some (code \<noteq> WPS_ERROR_WIFI_NOT_AVAILABLE, s) else None)
      else if sky_state s = Sky_stop_requested then Some (False, s\<lparr>sky_state := Sky_stopped\<rparr>)
      else case located l t t_speed t_bearing of
          None \<Rightarrow> None
        | Some ps \<Rightarrow> Some (True, s\<lparr>sky_published := sky_published s @ ps\<rparr>))"

text \<open>All channels share \<open>start\<close> and \<open>request_stop\<close>. The \<open>join\<close> of a thread that is still in its loop waits.\<close>

definition sky_start :: "skyhook \<Rightarrow> skyhook" where
  "sky_start s =
     (if sky_state s \<noteq> Sky_stopped \<or> sky_worker s = Sky_looping then s
      else s\<lparr>sky_worker := Sky_looping, sky_state := Sky_started\<rparr>)"

definition sky_request_stop :: "skyhook \<Rightarrow> skyhook" where
  "sky_request_stop s = s\<lparr>sky_state := Sky_stop_requested\<rparr>"

text \<open>The destructor: \<open>request_stop\<close>, then the members.\<close>

definition sky_destroy :: "skyhook \<Rightarrow> skyhook option" where
  "sky_destroy s = (if sky_worker s = Sky_none then Some (sky_request_stop s) else None)"

datatype sky_event =
    Sky_start channel
  | Sky_stop channel
  | Sky_called wps_code wps_location int int int
  | Sky_returned wps_code

fun sky_step :: "sky_event \<Rightarrow> skyhook \<Rightarrow> skyhook option" where
  "sky_step (Sky_start ch) s = Some (sky_start s)"
| "sky_step (Sky_stop ch) s = Some (sky_request_stop s)"
| "sky_step (Sky_called code l t u v) s =
     (if sky_worker s \<noteq> Sky_looping then Some s
      else case periodic_callback code l t u v s of
        None \<Rightarrow> None
      | Some (continue, s') \<Rightarrow> Some (if continue then s' else s'\<lparr>sky_worker := Sky_over\<rparr>))"
| "sky_step (Sky_returned rc) s =
     (if sky_worker s \<noteq> Sky_looping then Some s
      else if known_code rc then Some (s\<lparr>sky_worker := Sky_over\<rparr>) else None)"

fun sky_run :: "sky_event list \<Rightarrow> skyhook \<Rightarrow> skyhook option" where
  "sky_run [] s = Some s"
| "sky_run (e # es) s = (case sky_step e s of None \<Rightarrow> None | Some s' \<Rightarrow> sky_run es s')"

section \<open>Where it ends\<close>

text \<open>A provider whose thread is not in the loop and whose state is not \<open>stopped\<close> can do nothing any more.\<close>

definition sky_dead :: "skyhook \<Rightarrow> bool" where
  "sky_dead s \<longleftrightarrow> sky_worker s \<noteq> Sky_looping \<and> sky_state s \<noteq> Sky_stopped"

lemma dead_step: "sky_dead s \<Longrightarrow> \<exists>s'. sky_step e s = Some s' \<and> sky_dead s' \<and> sky_published s' = sky_published s"
  by (cases e) (auto simp: sky_dead_def sky_start_def sky_request_stop_def)

lemma dead_run: "sky_dead s \<Longrightarrow> \<exists>s'. sky_run es s = Some s' \<and> sky_dead s' \<and> sky_published s' = sky_published s"
proof (induction es arbitrary: s)
  case (Cons e es)
  from dead_step [OF Cons.prems, of e] obtain s1 where "sky_step e s = Some s1" "sky_dead s1" "sky_published s1 = sky_published s" by blast
  with Cons.IH [of s1] show ?case by auto
qed simp

text \<open>
  Three ways to a provider that never publishes again, whatever is started and stopped afterwards: a stop before the first start, the
  loss of wifi while it runs, and a library that gives up on its own.
\<close>

theorem skyhook_dead_ends:
  "(\<exists>s'. sky_run (Sky_stop ch # es) (skyhook_create_instance parse_int config) = Some s' \<and> sky_published s' = []) \<and>
   (case sky_run (Sky_start ch # Sky_called WPS_ERROR_WIFI_NOT_AVAILABLE l t u v # es) (skyhook_create_instance parse_int config) of
      None \<Rightarrow> False | Some s' \<Rightarrow> sky_published s' = []) \<and>
   (case sky_run (Sky_start ch # Sky_returned WPS_ERROR_UNAUTHORIZED # es) (skyhook_create_instance parse_int config) of
      None \<Rightarrow> False | Some s' \<Rightarrow> sky_published s' = [])"
proof -
  let ?s = "skyhook_create_instance parse_int config"
  have k: "known_code WPS_ERROR_WIFI_NOT_AVAILABLE" "known_code WPS_ERROR_UNAUTHORIZED"
    by (simp_all add: known_code_def return_code_lut_def)
  have s: "sky_state ?s = Sky_stopped" "sky_worker ?s = Sky_none" "sky_published ?s = []"
    by (simp_all add: skyhook_create_instance_def)
  let ?over = "?s\<lparr>sky_state := Sky_started, sky_worker := Sky_over\<rparr>"
  have d: "sky_dead (sky_request_stop ?s)" "sky_dead ?over"
    using s by (simp_all add: sky_dead_def sky_request_stop_def)
  have w: "sky_run (Sky_start ch # Sky_called WPS_ERROR_WIFI_NOT_AVAILABLE l t u v # es) ?s = sky_run es ?over"
    "sky_run (Sky_start ch # Sky_returned WPS_ERROR_UNAUTHORIZED # es) ?s = sky_run es ?over"
    using s k by (simp_all add: sky_start_def periodic_callback_def)
  show ?thesis
    unfolding w using dead_run [OF d(1), of es] dead_run [OF d(2), of es] s by (auto simp: sky_request_stop_def)
qed

text \<open>
  The thread of a provider is never detached and only joined by the next start: a provider that was ever started ends the
  process when it is destroyed.
\<close>

lemma worker_stays: "sky_step e s = Some s' \<Longrightarrow> sky_worker s \<noteq> Sky_none \<Longrightarrow> sky_worker s' \<noteq> Sky_none"
  by (cases e) (auto simp: sky_start_def sky_request_stop_def periodic_callback_def split: if_splits option.splits prod.splits)

lemma worker_stays_run: "sky_run es s = Some s' \<Longrightarrow> sky_worker s \<noteq> Sky_none \<Longrightarrow> sky_worker s' \<noteq> Sky_none"
  by (induction es arbitrary: s) (auto split: option.splits dest: worker_stays)

theorem skyhook_destroyed_after_start:
  assumes "sky_run (Sky_start ch # es) (skyhook_create_instance parse_int config) = Some s"
  shows "sky_destroy s = None"
proof -
  have "sky_worker (sky_start (skyhook_create_instance parse_int config)) \<noteq> Sky_none"
    by (simp add: sky_start_def skyhook_create_instance_def)
  with assms worker_stays_run show ?thesis by (fastforce simp: sky_destroy_def)
qed

theorem skyhook_destroyed_after_start_witness:
  "sky_destroy (sky_request_stop (sky_start (skyhook_create_instance (\<lambda>s. None) []))) = None"
  using skyhook_destroyed_after_start [of ch_position "[Sky_stop ch_position]" "\<lambda>s. None" "[]"] by simp

section \<open>What it publishes\<close>

definition sky_inv :: "skyhook \<Rightarrow> bool" where
  "sky_inv s \<longleftrightarrow> (sky_state s = Sky_stopped \<longrightarrow> sky_worker s \<noteq> Sky_looping)"

lemma sky_inv_step: "sky_step e s = Some s' \<Longrightarrow> sky_inv s \<Longrightarrow> sky_inv s'"
  by (cases e) (auto simp: sky_inv_def sky_start_def sky_request_stop_def periodic_callback_def split: if_splits option.splits prod.splits)

text \<open>
  A location is published while the provider is started, as a position, and as a velocity and a heading when they are not negative. A
  requested stop only takes effect with the next location: while the library reports errors the provider stays in its loop.
\<close>

theorem skyhook_publishes:
  assumes "sky_worker s = Sky_looping" "sky_inv s"
  shows "sky_step (Sky_called WPS_OK l t u v) s =
      (if sky_state s = Sky_started then map_option (\<lambda>ps. s\<lparr>sky_published := sky_published s @ ps\<rparr>) (located l t u v)
       else Some (s\<lparr>sky_state := Sky_stopped, sky_worker := Sky_over\<rparr>)) \<and>
    sky_step (Sky_called WPS_ERROR_TIMEOUT l t u v) s = Some s"
  using assms by (cases "sky_state s")
    (auto simp: sky_inv_def periodic_callback_def known_code_def return_code_lut_def split: option.splits)

theorem skyhook_publishes_witness:
  "let s = sky_start (skyhook_create_instance (\<lambda>s. None) []);
       l = \<lparr>wps_latitude = Fin 51, wps_longitude = Fin 7, wps_altitude = Fin (- 1), wps_speed = Fin 3, wps_bearing = Fin (- 1)\<rparr>
   in map_option sky_published (sky_step (Sky_called WPS_OK l 1 2 3) s) =
     Some [Pub_position (make_update (position_lat_lon (Fin 51) (Fin 7)) 1), Pub_velocity (make_update (Fin 3) 2)]"
proof -
  let ?s = "sky_start (skyhook_create_instance (\<lambda>s. None) [])"
  have "sky_worker ?s = Sky_looping" "sky_inv ?s" "sky_state ?s = Sky_started" "sky_published ?s = []"
    by (simp_all add: sky_inv_def sky_start_def skyhook_create_instance_def)
  then show ?thesis
    by (simp add: skyhook_publishes located_def make_coordinate_def check_latitude_def check_longitude_def latitude_min_def
        latitude_max_def longitude_min_def longitude_max_def dbl_le_def Let_def del: sky_step.simps)
qed

end
