(* ===== verification/Xtra_Download.thy ===== *)
theory Xtra_Download
  imports Platform Gps_Assistance
begin

text \<open>
  The download of assistance data for the GPS chipset (\<open>providers/gps/net_cpp_gps_xtra_downloader.h\<close>,
  \<open>null_gps_xtra_downloader.h\<close>), from the servers the configuration names to what is injected into the driver.

  The HTTP client of net-cpp is the parameter \<open>execute\<close>, the random number engine the parameter \<open>draw\<close>: \<open>draw g n\<close> is a number and the engine after
  it, and \<open>draws_within\<close> states that \<open>uniform_int_distribution{0, n}\<close> stays in its bounds. The requests that are made are part of the result.
\<close>

section \<open>The request\<close>

definition x_wap_profile_key :: string where "x_wap_profile_key = ''x-wap-profile''"

definition x_wap_profile_value :: string where
  "x_wap_profile_value = ''http://www.openmobilealliance.org/tech/profiles/UAPROF/ccppschema-20021212#''"

record xtra_configuration =
  xtra_timeout_ms :: int
  xtra_hosts :: "string list"

definition xtra_configuration_of :: "string list \<Rightarrow> xtra_configuration" where
  "xtra_configuration_of hosts = \<lparr>xtra_timeout_ms = 30000, xtra_hosts = hosts\<rparr>"

record http_request =
  request_uri :: string
  request_headers :: "(string \<times> string) list"
  request_timeout_ms :: int

record http_response =
  response_status :: int
  response_body :: "8 word list"

definition status_ok :: int where "status_ok = 200"

definition xtra_request :: "xtra_configuration \<Rightarrow> string \<Rightarrow> http_request" where
  "xtra_request config host =
     \<lparr>request_uri = host,
      request_headers = [(''Accept'', ''*/*''), (''Accept'', ''application/vnd.wap.mms-message''), (''Accept'', ''application/vnd.wap.sic''),
        (x_wap_profile_key, x_wap_profile_value)],
      request_timeout_ms = xtra_timeout_ms config\<rparr>"

text \<open>A string stream that is constructed with a text is written from its beginning.\<close>

definition written_over :: "string \<Rightarrow> string \<Rightarrow> string" where
  "written_over old new = new @ drop (length new) old"

definition xtra_failure :: "(int \<Rightarrow> string) \<Rightarrow> string \<Rightarrow> int \<Rightarrow> exn" where
  "xtra_failure print_status host status =
     runtime_error (written_over ''Request for xtra data on '' (host @ '' did not succeed: '' @ print_status status))"

section \<open>The downloaders\<close>

definition net_cpp_download ::
  "('g \<Rightarrow> nat \<Rightarrow> nat \<times> 'g) \<Rightarrow> (http_request \<Rightarrow> http_response result) \<Rightarrow> (int \<Rightarrow> string) \<Rightarrow>
     xtra_configuration \<Rightarrow> 'g \<Rightarrow> http_request list \<times> 8 word list result \<times> 'g" where
  "net_cpp_download draw execute print_status config g =
     (if xtra_hosts config = [] then ([], Inl (runtime_error ''Missing xtra hosts.''), g)
      else case draw g (length (xtra_hosts config) - 1) of
        (i, g') \<Rightarrow>
          if length (xtra_hosts config) \<le> i then ([], Inl (out_of_range ''vector::_M_range_check''), g')
          else let host = xtra_hosts config ! i; request = xtra_request config host
            in ([request],
                (case execute request of
                   Inl e \<Rightarrow> Inl e
                 | Inr response \<Rightarrow>
                     if response_status response \<noteq> status_ok then Inl (xtra_failure print_status host (response_status response))
                     else Inr (response_body response)),
                g'))"

definition null_download :: "xtra_configuration \<Rightarrow> 'g \<Rightarrow> http_request list \<times> 8 word list result \<times> 'g" where
  "null_download config g = ([], Inr [], g)"

text \<open>\<open>create_xtra_downloader\<close>, decided when the program is compiled.\<close>

definition xtra_downloader ::
  "bool \<Rightarrow> ('g \<Rightarrow> nat \<Rightarrow> nat \<times> 'g) \<Rightarrow> (http_request \<Rightarrow> http_response result) \<Rightarrow> (int \<Rightarrow> string) \<Rightarrow>
     xtra_configuration \<Rightarrow> 'g \<Rightarrow> http_request list \<times> 8 word list result \<times> 'g" where
  "xtra_downloader have_net_cpp draw execute print_status =
     (if have_net_cpp then net_cpp_download draw execute print_status else null_download)"

section \<open>What is injected\<close>

definition draws_within :: "('g \<Rightarrow> nat \<Rightarrow> nat \<times> 'g) \<Rightarrow> bool" where
  "draws_within draw \<longleftrightarrow> (\<forall>g n. fst (draw g n) \<le> n)"

text \<open>
  With servers configured the chipset's request makes one HTTP request, to one of them, and what the driver gets is the body of a
  successful answer that is not empty; every failure is swallowed. Without servers, or without net-cpp, nothing is requested and nothing injected.
\<close>

theorem xtra_request_injects_body:
  assumes "draws_within draw"
  shows "case xtra_downloader have_net_cpp draw execute print_status config g of (reqs, r, g') \<Rightarrow>
    if have_net_cpp \<and> xtra_hosts config \<noteq> []
    then \<exists>host \<in> set (xtra_hosts config). reqs = [xtra_request config host] \<and>
      on_xtra_download_request r =
        (case execute (xtra_request config host) of
           Inl e \<Rightarrow> []
         | Inr response \<Rightarrow>
             if response_status response = status_ok \<and> response_body response \<noteq> [] then [Inject_xtra_data (response_body response)] else [])
    else reqs = [] \<and> on_xtra_download_request r = []"
proof (cases "have_net_cpp \<and> xtra_hosts config \<noteq> []")
  case True
  obtain i g' where d: "draw g (length (xtra_hosts config) - 1) = (i, g')" by force
  with assms have "i \<le> length (xtra_hosts config) - 1" by (metis draws_within_def fst_conv)
  with True have i: "i < length (xtra_hosts config)" by (cases "xtra_hosts config") auto
  let ?host = "xtra_hosts config ! i"
  have "?host \<in> set (xtra_hosts config)" using i by simp
  with True d i show ?thesis
    by (auto simp: xtra_downloader_def net_cpp_download_def on_xtra_download_request_def Let_def xtra_failure_def
        split: sum.split intro!: bexI [of _ ?host])
next
  case False
  then show ?thesis
    by (auto simp: xtra_downloader_def net_cpp_download_def null_download_def on_xtra_download_request_def)
qed

theorem xtra_request_injects_body_witness:
  "let config = xtra_configuration_of [''a'', ''b'']; draw = (\<lambda>g n. (g mod Suc n, Suc g));
       execute = (\<lambda>r. if request_uri r = ''b'' then Inr \<lparr>response_status = 200, response_body = [7]\<rparr> else Inl (runtime_error []));
       (reqs, r, g) = xtra_downloader True draw execute (\<lambda>s. []) config 1
   in length reqs = 1 \<and> (on_xtra_download_request r = [] \<or> on_xtra_download_request r = [Inject_xtra_data [7]])"
proof -
  let ?config = "xtra_configuration_of [''a'', ''b'']" and ?draw = "\<lambda>g n. (g mod Suc n, Suc g)"
  let ?execute = "\<lambda>r. if request_uri r = ''b'' then Inr \<lparr>response_status = 200, response_body = [7 :: 8 word]\<rparr> else Inl (runtime_error [])"
  have "draws_within ?draw"
    unfolding draws_within_def by (simp add: less_Suc_eq_le [symmetric])
  from xtra_request_injects_body [OF this, where have_net_cpp = True and execute = ?execute and print_status = "\<lambda>s. []" and config = ?config and g = 1] show ?thesis
    by (auto simp: xtra_configuration_of_def xtra_request_def status_ok_def Let_def split: prod.splits if_splits)
qed

text \<open>
  The built-in servers are only used when a file cannot be parsed: without any file no server is configured, so a request of the
  chipset is not answered.
\<close>

theorem builtin_hosts_need_broken_file:
  "let hosts = fst (create_default_instance ini None None)
   in hosts = [] \<and> (case xtra_downloader have_net_cpp draw execute print_status (xtra_configuration_of hosts) g of
        (reqs, r, g') \<Rightarrow> reqs = [] \<and> on_xtra_download_request r = [])"
proof -
  have "fst (create_default_instance ini None None) = []"
    by (simp add: gps_conf_defs xtra_from_gps_conf_def List.map_filter_def)
  then show ?thesis
    by (simp add: Let_def xtra_configuration_of_def xtra_downloader_def net_cpp_download_def null_download_def on_xtra_download_request_def)
qed

text \<open>The introduction of the error message is overwritten by the rest of it.\<close>

theorem xtra_failure_loses_introduction:
  "7 \<le> length host + length (print_status status) \<Longrightarrow>
     xtra_failure print_status host status = runtime_error (host @ '' did not succeed: '' @ print_status status)"
  by (simp add: xtra_failure_def written_over_def)

theorem xtra_failure_loses_introduction_witness:
  "xtra_failure (\<lambda>s. ''404'') ''http://xtra1'' 404 = runtime_error ''http://xtra1 did not succeed: 404''"
  by (subst xtra_failure_loses_introduction) simp_all

end
