(* ===== verification/Engine_Events.thy ===== *)
theory Engine_Events
  imports Provider_Selection Engine_Updates
begin

text \<open>
  Events on the graph of provider objects of \<open>Engine_World\<close>, in both directions.

  Down: what the engine tells its providers (the reporting state and the references) is forwarded by
  \<open>StateTrackingProvider\<close> and \<open>FusionProvider\<close> to the implementations; a \<open>ProxyProvider\<close> and the null provider inherit the empty handlers of
  \<open>Provider\<close>. Up: an update an implementation emits is emitted again by every object that is connected to it. An object connects in its constructor
  to objects that exist by then, so the slots of a signal run in the order of the addresses of their owners.
\<close>

section \<open>Down: events of the engine\<close>

datatype engine_event =
    Reporting_state_changed wifi_state
  | Reference_location_updated "position update"
  | Reference_velocity_updated "double update"
  | Reference_heading_updated "double update"

fun gather :: "'a list option list \<Rightarrow> 'a list option" where
  "gather [] = Some []"
| "gather (x # xs) = (case (x, gather xs) of (Some ys, Some zs) \<Rightarrow> Some (ys @ zs) | _ \<Rightarrow> None)"

text \<open>Who handles an event: the results are the implementations it reaches, in order.\<close>

definition empty_on_event :: "(nat \<times> engine_event) list option" where
  "empty_on_event = Some []"

definition leaf_on_event :: "engine_event \<Rightarrow> nat \<Rightarrow> (nat \<times> engine_event) list option" where
  "leaf_on_event e p = Some [(p, e)]"

definition tracking_on_event :: "(nat \<Rightarrow> (nat \<times> engine_event) list option) \<Rightarrow> nat \<Rightarrow> (nat \<times> engine_event) list option" where
  "tracking_on_event tell impl = tell impl"

definition fusion_on_event :: "(nat \<Rightarrow> (nat \<times> engine_event) list option) \<Rightarrow> nat list \<Rightarrow> (nat \<times> engine_event) list option" where
  "fusion_on_event tell ps = gather (map tell ps)"

lemmas on_event_defs [simp] = empty_on_event_def leaf_on_event_def tracking_on_event_def fusion_on_event_def

text \<open>The virtual call on the object at \<open>p\<close>. None is a missing object, or too little fuel.\<close>

primrec on_engine_event :: "nat \<Rightarrow> 't world \<Rightarrow> engine_event \<Rightarrow> nat \<Rightarrow> (nat \<times> engine_event) list option" where
  "on_engine_event 0 = (\<lambda>w e p. None)"
| "on_engine_event (Suc fuel) = (\<lambda>w e p.
     (case objs w p of
        None \<Rightarrow> None
      | Some ob \<Rightarrow>
          (case prov_kind ob of
             Null_provider \<Rightarrow> empty_on_event
           | Leaf \<Rightarrow> leaf_on_event e p
           | Tracking impl st \<Rightarrow> tracking_on_event (on_engine_event fuel w e) impl
           | Fusion ps \<Rightarrow> fusion_on_event (on_engine_event fuel w e) ps
           | Proxy pos hdg vel \<Rightarrow> empty_on_event)))"

text \<open>The slots of the providers on the properties of the engine, in the order of their connection.\<close>

definition engine_tells :: "nat \<Rightarrow> 't world \<Rightarrow> engine_event \<Rightarrow> (nat \<times> engine_event) list option" where
  "engine_tells fuel w e = gather (map (on_engine_event fuel w e) (providers w))"

lemma gather_Some: "(\<And>x. x \<in> set xs \<Longrightarrow> x \<noteq> None) \<Longrightarrow> gather xs = Some (concat (map the xs))"
  by (induction xs) fastforce+

inductive forwards_to :: "'t world \<Rightarrow> nat \<Rightarrow> nat \<Rightarrow> bool" for w where
  leaf: "objs w p = Some ob \<Longrightarrow> prov_kind ob = Leaf \<Longrightarrow> forwards_to w p p"
| tracking: "objs w p = Some ob \<Longrightarrow> prov_kind ob = Tracking impl st \<Longrightarrow> forwards_to w impl q \<Longrightarrow> forwards_to w p q"
| fusion: "objs w p = Some ob \<Longrightarrow> prov_kind ob = Fusion ps \<Longrightarrow> c \<in> set ps \<Longrightarrow> forwards_to w c q \<Longrightarrow> forwards_to w p q"

inductive_cases forwards_toE: "forwards_to w p q"

lemma wf_child:
  "wf_world w \<Longrightarrow> objs w p = Some ob \<Longrightarrow> q \<in> set (children (prov_kind ob)) \<Longrightarrow> q < p \<and> objs w q \<noteq> None"
proof -
  assume wf: "wf_world w" and ob: "objs w p = Some ob" and q: "q \<in> set (children (prov_kind ob))"
  have "kinds w p = Some (prov_kind ob, prov_features ob, prov_requirements ob)" using ob by (simp add: kinds_def)
  with wf q have "q < p \<and> kinds w q \<noteq> None" unfolding wf_world_def by blast
  then show ?thesis by (simp add: kinds_None)
qed

text \<open>In a well-formed world a call on an object ends and is handled by exactly the implementations it forwards to.\<close>

lemma on_engine_event_leaves:
  "wf_world w \<Longrightarrow> objs w p \<noteq> None \<Longrightarrow> p < fuel \<Longrightarrow>
     \<exists>ds. on_engine_event fuel w e p = Some ds \<and> set ds = {(q, e) | q. forwards_to w p q}"
proof (induction fuel arbitrary: p)
  case (Suc fuel)
  then obtain ob where ob: "objs w p = Some ob" by auto
  have sub: "\<exists>ds. on_engine_event fuel w e q = Some ds \<and> set ds = {(r, e) | r. forwards_to w q r}"
    if "q \<in> set (children (prov_kind ob))" for q
    using wf_child [OF Suc.prems(1) ob that] Suc.prems(3) by (intro Suc.IH [OF Suc.prems(1)]) auto
  show ?case
  proof (cases "prov_kind ob")
    case Leaf
    with ob show ?thesis by (auto elim: forwards_toE intro: forwards_to.leaf)
  next
    case (Tracking impl st)
    have "forwards_to w p r \<longleftrightarrow> forwards_to w impl r" for r
      using ob Tracking by (subst forwards_to.simps) auto
    with sub [of impl] ob Tracking show ?thesis by simp
  next
    case (Fusion ps)
    have r: "forwards_to w p r \<longleftrightarrow> (\<exists>c \<in> set ps. forwards_to w c r)" for r
      using ob Fusion by (subst forwards_to.simps) auto
    have "on_engine_event fuel w e c \<noteq> None" if "c \<in> set ps" for c using sub [of c] that Fusion by auto
    then have "gather (map (on_engine_event fuel w e) ps) = Some (concat (map (\<lambda>c. the (on_engine_event fuel w e c)) ps))"
      by (subst gather_Some) (auto simp: comp_def)
    moreover have "set (the (on_engine_event fuel w e c)) = {(q, e) | q. forwards_to w c q}" if "c \<in> set ps" for c
      using sub [of c] that Fusion by auto
    then have "set (concat (map (\<lambda>c. the (on_engine_event fuel w e c)) ps)) = {(q, e) | q. forwards_to w p q}"
      unfolding r by auto
    ultimately show ?thesis using ob Fusion by simp
  qed (use ob in \<open>auto elim: forwards_toE\<close>)
qed simp

text \<open>The providers of an engine to which each implementation was added once.\<close>

definition implementations :: "'t world \<Rightarrow> (nat \<Rightarrow> nat) \<Rightarrow> bool" where
  "implementations w impl \<longleftrightarrow> inj_on impl (set (providers w)) \<and>
     (\<forall>q \<in> set (providers w). (\<exists>st. prov_kind (the (objs w q)) = Tracking (impl q) st) \<and> prov_kind (the (objs w (impl q))) = Leaf)"

lemma tracked_implementation:
  assumes "wf_world w" "implementations w impl" "q \<in> set (providers w)"
  shows "\<exists>ob st i. objs w q = Some ob \<and> prov_kind ob = Tracking (impl q) st \<and> objs w (impl q) = Some i \<and> prov_kind i = Leaf \<and> impl q < q"
proof -
  from wf_world_provider [OF assms(1,3)] obtain ob where ob: "objs w q = Some ob" by auto
  with assms(2,3) obtain st where k: "prov_kind ob = Tracking (impl q) st" by (fastforce simp: implementations_def)
  with wf_child [OF assms(1) ob, of "impl q"] obtain i where i: "objs w (impl q) = Some i" "impl q < q" by auto
  with assms(2,3) have "prov_kind i = Leaf" by (fastforce simp: implementations_def)
  with ob k i show ?thesis by blast
qed

text \<open>What the engine announces reaches the implementation of every provider once, in the order of the providers, and nobody else.\<close>

theorem engine_tells_every_implementation:
  assumes "wf_world w" "implementations w impl" "\<forall>p \<in> set (providers w). p < fuel"
  shows "engine_tells fuel w e = Some (map (\<lambda>p. (impl p, e)) (providers w))"
proof -
  have d: "on_engine_event fuel w e p = Some [(impl p, e)]" if p: "p \<in> set (providers w)" for p
  proof -
    from tracked_implementation [OF assms(1,2) p] obtain ob st i where
      "objs w p = Some ob" "prov_kind ob = Tracking (impl p) st" "objs w (impl p) = Some i" "prov_kind i = Leaf" "impl p < p" by blast
    moreover from this(5) assms(3) p have "Suc 0 < fuel" by fastforce
    then obtain n where "fuel = Suc (Suc n)" by (metis Suc_lessE less_imp_Suc_add)
    ultimately show ?thesis by simp
  qed
  have "gather (map (on_engine_event fuel w e) ps) = Some (map (\<lambda>p. (impl p, e)) ps)" if "set ps \<subseteq> set (providers w)" for ps
    using that by (induction ps) (auto simp: d)
  then show ?thesis by (simp add: engine_tells_def)
qed

section \<open>Up: updates of the implementations\<close>

text \<open>To which signals of its children an object is connected.\<close>

definition tracking_passes :: "nat \<Rightarrow> nat \<Rightarrow> provider_output \<Rightarrow> bool" where
  "tracking_passes impl c x \<longleftrightarrow> c = impl"

fun fusion_passes :: "nat list \<Rightarrow> nat \<Rightarrow> provider_output \<Rightarrow> bool" where
  "fusion_passes ps c (Position_out u) \<longleftrightarrow> c \<in> set ps"
| "fusion_passes ps c (Heading_out u) \<longleftrightarrow> c \<in> set ps"
| "fusion_passes ps c (Velocity_out u) \<longleftrightarrow> c \<in> set ps"
| "fusion_passes ps c (Vehicles_out svs) \<longleftrightarrow> False"

fun proxy_passes :: "nat \<Rightarrow> nat \<Rightarrow> nat \<Rightarrow> nat \<Rightarrow> provider_output \<Rightarrow> bool" where
  "proxy_passes pos hdg vel c (Position_out u) \<longleftrightarrow> c = pos"
| "proxy_passes pos hdg vel c (Heading_out u) \<longleftrightarrow> c = hdg"
| "proxy_passes pos hdg vel c (Velocity_out u) \<longleftrightarrow> c = vel"
| "proxy_passes pos hdg vel c (Vehicles_out svs) \<longleftrightarrow> False"

fun passes :: "prov_kind \<Rightarrow> nat \<Rightarrow> provider_output \<Rightarrow> bool" where
  "passes Null_provider c x = False"
| "passes Leaf c x = False"
| "passes (Tracking impl st) c x = tracking_passes impl c x"
| "passes (Fusion ps) c x = fusion_passes ps c x"
| "passes (Proxy pos hdg vel) c x = proxy_passes pos hdg vel c x"

declare tracking_passes_def [simp]

definition slot_connected :: "'t world \<Rightarrow> nat \<Rightarrow> provider_output \<Rightarrow> nat \<Rightarrow> bool" where
  "slot_connected w c x p \<longleftrightarrow> (case objs w p of None \<Rightarrow> False | Some ob \<Rightarrow> passes (prov_kind ob) c x)"

text \<open>What the slot emits. A fusion selects among positions; \<open>m\<close> is the \<open>last_position\<close> of every object.\<close>

type_synonym memory = "nat \<Rightarrow> sourced_update option"

definition relay ::
  "(sourced_update \<Rightarrow> sourced_update \<Rightarrow> sourced_update) \<Rightarrow> 't world \<Rightarrow> nat \<Rightarrow> nat \<Rightarrow> provider_output \<Rightarrow> memory \<Rightarrow>
     provider_output \<times> memory" where
  "relay select w p c x m =
     (case (map_option prov_kind (objs w p), x) of
        (Some (Fusion ps), Position_out u) \<Rightarrow>
          (case fusion_on_position select c u (m p) of (u', l) \<Rightarrow> (Position_out u', m(p := l)))
      | _ \<Rightarrow> (x, m))"

definition update_slots :: "'t world \<Rightarrow> nat \<Rightarrow> provider_output \<Rightarrow> nat list" where
  "update_slots w c x = List.filter (slot_connected w c x) [Suc c..<next_addr w]"

text \<open>The emission of an output by the object at \<open>c\<close>, depth first: who emits what.\<close>

function emit_update ::
    "(sourced_update \<Rightarrow> sourced_update \<Rightarrow> sourced_update) \<Rightarrow> 't world \<Rightarrow> nat \<Rightarrow> provider_output \<Rightarrow> memory \<Rightarrow>
       (nat \<times> provider_output) list \<times> memory"
  and emit_slots ::
    "(sourced_update \<Rightarrow> sourced_update \<Rightarrow> sourced_update) \<Rightarrow> 't world \<Rightarrow> nat \<Rightarrow> provider_output \<Rightarrow> nat list \<Rightarrow> memory \<Rightarrow>
       (nat \<times> provider_output) list \<times> memory" where
  "emit_update select w c x m =
     (case emit_slots select w c x (update_slots w c x) m of (es, m') \<Rightarrow> ((c, x) # es, m'))"
| "emit_slots select w c x [] m = ([], m)"
| "emit_slots select w c x (p # ps) m =
     (if p \<le> c \<or> next_addr w \<le> p then emit_slots select w c x ps m
      else case relay select w p c x m of
        (x', m1) \<Rightarrow>
          (case emit_update select w p x' m1 of
             (es, m2) \<Rightarrow> (case emit_slots select w c x ps m2 of (es', m3) \<Rightarrow> (es @ es', m3))))"
  by pat_completeness auto
termination
  by (relation "measures [\<lambda>y. case y of Inl (select, w, c, x, m) \<Rightarrow> next_addr w - c | Inr (select, w, c, x, ps, m) \<Rightarrow> next_addr w - c,
      \<lambda>y. case y of Inl z \<Rightarrow> Suc 0 | Inr z \<Rightarrow> 0,
      \<lambda>y. case y of Inl z \<Rightarrow> 0 | Inr (select, w, c, x, ps, m) \<Rightarrow> length ps]") auto

declare emit_update.simps [simp del]

fun channel_of :: "provider_output \<Rightarrow> channel option" where
  "channel_of (Position_out u) = Some ch_position"
| "channel_of (Heading_out u) = Some ch_heading"
| "channel_of (Velocity_out u) = Some ch_velocity"
| "channel_of (Vehicles_out svs) = None"

lemma passes_channel: "channel_of x = channel_of y \<Longrightarrow> passes k c x = passes k c y"
  by (cases k; cases x; cases y) simp_all

lemma slot_connected_channel: "channel_of x = channel_of y \<Longrightarrow> slot_connected w c x p = slot_connected w c y p"
  by (simp add: slot_connected_def passes_channel [of x y] split: option.splits)

lemma relay_channel: "relay select w p c x m = (x', m') \<Longrightarrow> channel_of x' = channel_of x"
  by (auto simp: relay_def split: option.splits prov_kind.splits provider_output.splits prod.splits)

lemma relay_memory: "relay select w p c x m = (x', m') \<Longrightarrow> q \<noteq> p \<Longrightarrow> m' q = m q"
  by (auto simp: relay_def split: option.splits prov_kind.splits provider_output.splits prod.splits)

lemma relay_local:
  "m p = n p \<Longrightarrow> fst (relay select w p c x m) = fst (relay select w p c x n) \<and> snd (relay select w p c x m) p = snd (relay select w p c x n) p"
  by (auto simp: relay_def split: option.splits prov_kind.splits provider_output.splits prod.splits)

text \<open>Only objects above the origin emit, on the same channel, and only their memory changes.\<close>

lemma emit_above:
  "emit_update select w c x m = (es, m') \<Longrightarrow> (\<forall>(q, y) \<in> set es. c \<le> q \<and> channel_of y = channel_of x) \<and> (\<forall>q \<le> c. m' q = m q)"
  "emit_slots select w c x ps m = (es, m') \<Longrightarrow> (\<forall>(q, y) \<in> set es. c < q \<and> channel_of y = channel_of x) \<and> (\<forall>q \<le> c. m' q = m q)"
proof (induction select w c x m and select w c x ps m arbitrary: es m' and es m' rule: emit_update_emit_slots.induct)
  case (1 select w c x m)
  obtain es1 m1 where "emit_slots select w c x (update_slots w c x) m = (es1, m1)" by force
  with 1 show ?case by (fastforce simp: emit_update.simps)
next
  case (3 select w c x p ps m)
  show ?case
  proof (cases "p \<le> c \<or> next_addr w \<le> p")
    case False
    obtain x' m1 where r: "relay select w p c x m = (x', m1)" by force
    obtain es1 m2 where e1: "emit_update select w p x' m1 = (es1, m2)" by force
    obtain es2 m3 where e2: "emit_slots select w c x ps m2 = (es2, m3)" by force
    have "(\<forall>(q, y) \<in> set es1. p \<le> q \<and> channel_of y = channel_of x') \<and> (\<forall>q \<le> p. m2 q = m1 q)"
      using "3.IH"(2) [OF False r [symmetric] e1] .
    moreover have "(\<forall>(q, y) \<in> set es2. c < q \<and> channel_of y = channel_of x) \<and> (\<forall>q \<le> c. m3 q = m2 q)"
      using "3.IH"(3) [OF False r [symmetric] e1 [symmetric] e2] .
    moreover have "es = es1 @ es2" "m' = m3" using "3.prems" False r e1 e2 by simp_all
    ultimately show ?thesis using False relay_channel [OF r] relay_memory [OF r] by fastforce
  qed (use 3 in auto)
qed simp

definition outputs_at :: "nat \<Rightarrow> (nat \<times> provider_output) list \<Rightarrow> provider_output list" where
  "outputs_at p es = map snd (List.filter (\<lambda>(q, y). q = p) es)"

lemma outputs_at_simps [simp]:
  "outputs_at p [] = []" "outputs_at p ((q, y) # es) = (if q = p then [y] else []) @ outputs_at p es"
  "outputs_at p (es @ es') = outputs_at p es @ outputs_at p es'"
  by (auto simp: outputs_at_def)

lemma outputs_at_above: "\<forall>(q, y) \<in> set es. c < q \<Longrightarrow> p \<le> c \<Longrightarrow> outputs_at p es = []"
  by (induction es) fastforce+

lemma outputs_at_Nil: "outputs_at p es = [] \<longleftrightarrow> (\<forall>y. (p, y) \<notin> set es)"
  by (induction es) auto

text \<open>What an object emits whose only child that emits is \<open>c\<close>, and what it remembers, from the outputs of \<open>c\<close>.\<close>

fun relays ::
  "(sourced_update \<Rightarrow> sourced_update \<Rightarrow> sourced_update) \<Rightarrow> 't world \<Rightarrow> nat \<Rightarrow> nat \<Rightarrow> provider_output list \<Rightarrow> memory \<Rightarrow>
     provider_output list \<times> memory" where
  "relays select w p c [] m = ([], m)"
| "relays select w p c (x # xs) m =
     (case relay select w p c x m of (y, m1) \<Rightarrow> case relays select w p c xs m1 of (ys, m2) \<Rightarrow> (y # ys, m2))"

definition relayed ::
  "(sourced_update \<Rightarrow> sourced_update \<Rightarrow> sourced_update) \<Rightarrow> 't world \<Rightarrow> nat \<Rightarrow> nat \<Rightarrow> provider_output list \<Rightarrow> memory \<Rightarrow>
     provider_output list \<times> sourced_update option" where
  "relayed select w p c xs m = (fst (relays select w p c xs m), snd (relays select w p c xs m) p)"

lemma relayed_local: "m p = n p \<Longrightarrow> relayed select w p c xs m = relayed select w p c xs n"
proof (induction xs arbitrary: m n)
  case (Cons x xs)
  obtain y m1 z n1 where r: "relay select w p c x m = (y, m1)" "relay select w p c x n = (z, n1)" by force
  with relay_local [where m = m and n = n and p = p and select = select and w = w and c = c and x = x] Cons.prems have "y = z" "m1 p = n1 p" by simp_all
  with Cons.IH [of m1 n1] r show ?case by (simp add: relayed_def case_prod_unfold)
qed (simp add: relayed_def)

lemma relayed_append:
  "relayed select w p c xs m = (ys, n p) \<Longrightarrow> relayed select w p c (xs @ zs) m = (ys @ fst (relayed select w p c zs n), snd (relayed select w p c zs n))"
proof (induction xs arbitrary: m ys)
  case Nil
  then show ?case using relayed_local [of m p n select w c zs] by (simp add: relayed_def)
next
  case (Cons x xs)
  obtain y m1 where r: "relay select w p c x m = (y, m1)" by force
  with Cons.prems obtain ys' where "relayed select w p c xs m1 = (ys', n p)" "ys = y # ys'"
    by (auto simp: relayed_def case_prod_unfold)
  with Cons.IH [of m1 ys'] r show ?case by (simp add: relayed_def case_prod_unfold)
qed

definition only_feeder :: "'t world \<Rightarrow> nat \<Rightarrow> nat \<Rightarrow> (nat \<times> provider_output) list \<Rightarrow> bool" where
  "only_feeder w p c es \<longleftrightarrow> (\<forall>(q, y) \<in> set es. slot_connected w q y p \<longrightarrow> q = c)"

lemma only_feeder_simps [simp]:
  "only_feeder w p c []" "only_feeder w p c ((q, y) # es) \<longleftrightarrow> (slot_connected w q y p \<longrightarrow> q = c) \<and> only_feeder w p c es"
  "only_feeder w p c (es @ es') \<longleftrightarrow> only_feeder w p c es \<and> only_feeder w p c es'"
  by (auto simp: only_feeder_def)

lemma emit_slots_skip: "p \<le> c \<or> next_addr w \<le> p \<Longrightarrow> emit_slots select w c x (p # ps) m = emit_slots select w c x ps m"
  by simp

lemma update_slots_distinct: "distinct (update_slots w c x)"
  by (simp add: update_slots_def)

lemma emit_head: "emit_update select w c x m = (es, m') \<Longrightarrow> outputs_at c es = [x] \<and> m' c = m c"
proof -
  assume e: "emit_update select w c x m = (es, m')"
  obtain es1 m1 where s: "emit_slots select w c x (update_slots w c x) m = (es1, m1)" by force
  with e have "es = (c, x) # es1" "m' = m1" by (auto simp: emit_update.simps)
  with emit_above(2) [OF s] show ?thesis using outputs_at_above [of es1 c c] by auto
qed

definition feeder :: "'t world \<Rightarrow> nat \<Rightarrow> nat \<Rightarrow> channel option \<Rightarrow> bool" where
  "feeder w p c ch \<longleftrightarrow> c < p \<and> p < next_addr w \<and> (\<forall>y. channel_of y = ch \<longrightarrow> slot_connected w c y p)"

lemma feeds:
  "emit_update select w d x m = (es, m') \<Longrightarrow> feeder w p c (channel_of x) \<Longrightarrow> d \<noteq> p \<Longrightarrow> only_feeder w p c es \<Longrightarrow>
     (outputs_at p es, m' p) = relayed select w p c (outputs_at c es) m"
  "emit_slots select w d x ps m = (es, m') \<Longrightarrow> feeder w p c (channel_of x) \<Longrightarrow> d \<noteq> p \<Longrightarrow> only_feeder w p c es \<Longrightarrow>
     distinct ps \<Longrightarrow> (p \<in> set ps \<Longrightarrow> d = c) \<Longrightarrow>
     (outputs_at p es, m' p) = relayed select w p c ((if p \<in> set ps then [x] else []) @ outputs_at c es) m"
proof (induction select w d x m and select w d x ps m arbitrary: es m' and es m' rule: emit_update_emit_slots.induct)
  case (1 select w d x m)
  obtain es1 m1 where e: "emit_slots select w d x (update_slots w d x) m = (es1, m1)" by force
  with 1 have es: "es = (d, x) # es1" "m' = m1" by (auto simp: emit_update.simps)
  have p: "p \<in> set (update_slots w d x) \<longleftrightarrow> d = c"
    using "1.prems"(2,4) es by (auto simp: update_slots_def feeder_def)
  have "(outputs_at p es1, m1 p) = relayed select w p c ((if p \<in> set (update_slots w d x) then [x] else []) @ outputs_at c es1) m"
    by (rule "1.IH" [OF e "1.prems"(2,3)]) (use "1.prems"(4) es p update_slots_distinct in auto)
  then show ?case using es p "1.prems"(3) by auto
next
  case (3 select w d x q ps m)
  have qs: "distinct ps" "q \<notin> set ps" "p \<in> set ps \<Longrightarrow> d = c" using "3.prems"(5,6) by auto
  show ?case
  proof (cases "q \<le> d \<or> next_addr w \<le> q")
    case True
    with "3.prems"(2,6) have "q \<noteq> p" by (auto simp: feeder_def)
    with "3.IH"(1) [OF True _ "3.prems"(2,3)] "3.prems"(1,4) qs True show ?thesis by simp
  next
    case False
    obtain x' m1 where r: "relay select w q d x m = (x', m1)" by force
    obtain es1 m2 where e1: "emit_update select w q x' m1 = (es1, m2)" by force
    obtain es2 m3 where e2: "emit_slots select w d x ps m2 = (es2, m3)" by force
    have es: "es = es1 @ es2" "m' = m3" using "3.prems"(1) False r e1 e2 by simp_all
    have ch: "channel_of x' = channel_of x" by (rule relay_channel [OF r])
    have rest: "(outputs_at p es2, m3 p) = relayed select w p c ((if p \<in> set ps then [x] else []) @ outputs_at c es2) m2"
      by (rule "3.IH"(3) [OF False r [symmetric] e1 [symmetric] e2 "3.prems"(2,3)]) (use "3.prems"(4) es qs in auto)
    have above: "\<forall>(s, y) \<in> set es1. d < s" "\<forall>(s, y) \<in> set es2. d < s"
      using emit_above(1) [OF e1] emit_above(2) [OF e2] False by fastforce+
    have c: "d = c \<Longrightarrow> outputs_at c es1 = [] \<and> outputs_at c es2 = []"
      using above by (auto intro: outputs_at_above)
    show ?thesis
    proof (cases "q = p")
      case True
      with "3.prems"(6) qs have "d = c" "p \<notin> set ps" by auto
      moreover from this rest c have "outputs_at p es2 = []" "m3 p = m2 p" by (simp_all add: relayed_def)
      moreover have "outputs_at p es1 = [x']" "m2 p = m1 p" using emit_head [OF e1] True by simp_all
      ultimately show ?thesis using es r c True by (simp add: relayed_def)
    next
      case neq: False
      have "(outputs_at p es1, m2 p) = relayed select w p c (outputs_at c es1) m1"
        by (rule "3.IH"(2) [OF False r [symmetric] e1]) (use "3.prems"(2,4) es neq ch in auto)
      then have sub: "relayed select w p c (outputs_at c es1) m = (outputs_at p es1, m2 p)"
        using relayed_local [of m p m1] relay_memory [OF r] neq by simp
      show ?thesis
      proof (cases "p \<in> set ps")
        case True
        with qs c sub have "outputs_at p es1 = []" "m2 p = m p" "outputs_at c es1 = []" by (simp_all add: relayed_def)
        with rest True neq es show ?thesis using relayed_local [of m2 p m select w c] by simp
      next
        case False
        with relayed_append [where n = m2 and p = p, OF sub, of "outputs_at c es2"] rest neq es show ?thesis by (simp add: prod_eq_iff)
      qed
    qed
  qed
qed (simp add: relayed_def)

lemma fed_by_someone:
  "emit_update select w d x m = (es, m') \<Longrightarrow> (p, y) \<in> set es \<Longrightarrow> p = d \<or> (\<exists>(q, z) \<in> set es. slot_connected w q z p)"
  "emit_slots select w d x ps m = (es, m') \<Longrightarrow> (p, y) \<in> set es \<Longrightarrow> p \<in> set ps \<or> (\<exists>(q, z) \<in> set es. slot_connected w q z p)"
proof (induction select w d x m and select w d x ps m arbitrary: es m' and es m' rule: emit_update_emit_slots.induct)
  case (1 select w d x m)
  obtain es1 m1 where e: "emit_slots select w d x (update_slots w d x) m = (es1, m1)" by force
  with 1 show ?case by (fastforce simp: emit_update.simps update_slots_def)
next
  case (3 select w d x q ps m)
  show ?case
  proof (cases "q \<le> d \<or> next_addr w \<le> q")
    case False
    obtain x' m1 where r: "relay select w q d x m = (x', m1)" by force
    obtain es1 m2 where e1: "emit_update select w q x' m1 = (es1, m2)" by force
    obtain es2 m3 where e2: "emit_slots select w d x ps m2 = (es2, m3)" by force
    have "es = es1 @ es2" using "3.prems"(1) False r e1 e2 by simp
    with "3.IH"(2) [OF False r [symmetric] e1] "3.IH"(3) [OF False r [symmetric] e1 [symmetric] e2] "3.prems"(2)
    show ?thesis by fastforce
  qed (use 3 in auto)
qed simp

lemma not_fed:
  "emit_update select w d x m = (es, m') \<Longrightarrow> p \<noteq> d \<Longrightarrow> \<forall>(q, y) \<in> set es. \<not> slot_connected w q y p \<Longrightarrow> outputs_at p es = []"
  using fed_by_someone(1) by (fastforce simp: outputs_at_Nil)

text \<open>The world of a session: its fusion and its proxy are the two youngest objects.\<close>

lemma session_world:
  assumes "create_session_for_criteria (fusion_selection pf) w = Some (p, w')"
  shows "p = Suc (next_addr w)" "next_addr w' = Suc p" "\<exists>ob. objs w' p = Some ob \<and> prov_kind ob = Proxy (next_addr w) (next_addr w) (next_addr w)"
    "\<exists>ob. objs w' (next_addr w) = Some ob \<and> prov_kind ob = Fusion (bag_of pf w)"
    "q < next_addr w \<Longrightarrow> objs w' q = objs w q"
  using assms
  by (auto simp: create_session_for_criteria_def fusion_selection_def new_fusion_provider_def new_proxy_provider_def new_object_def)

lemma slot_connected_kind: "objs w p = Some ob \<Longrightarrow> slot_connected w c y p = passes (prov_kind ob) c y"
  by (simp add: slot_connected_def)

lemma relay_not_position: "channel_of x \<noteq> Some ch_position \<Longrightarrow> relay select w p c x m = (x, m)"
  by (cases x) (auto simp: relay_def split: option.splits prov_kind.splits)

lemma memory_not_position:
  "emit_update select w c x m = (es, m') \<Longrightarrow> channel_of x \<noteq> Some ch_position \<Longrightarrow> m' = m"
  "emit_slots select w c x ps m = (es, m') \<Longrightarrow> channel_of x \<noteq> Some ch_position \<Longrightarrow> m' = m"
proof (induction select w c x m and select w c x ps m arbitrary: es m' and es m' rule: emit_update_emit_slots.induct)
  case (1 select w c x m)
  then show ?case by (cases "emit_slots select w c x (update_slots w c x) m") (auto simp: emit_update.simps)
next
  case (3 select w c x p ps m)
  show ?case
  proof (cases "p \<le> c \<or> next_addr w \<le> p")
    case False
    note r = relay_not_position [OF "3.prems"(2), of select w p c m]
    obtain es1 m2 where e1: "emit_update select w p x m = (es1, m2)" by force
    obtain es2 m3 where e2: "emit_slots select w c x ps m2 = (es2, m3)" by force
    with "3.IH"(2) [OF False r [symmetric] e1 "3.prems"(2)] "3.IH"(3) [OF False r [symmetric] e1 [symmetric] e2 "3.prems"(2)]
    show ?thesis using "3.prems"(1) False r e1 e2 by simp
  qed (use 3 in auto)
qed simp

lemma relayed_same:
  "(\<And>ps. map_option prov_kind (objs w p) \<noteq> Some (Fusion ps)) \<Longrightarrow> relayed select w p c xs m = (xs, m p)"
proof (induction xs)
  case (Cons x xs)
  from Cons.prems have "relay select w p c x m = (x, m)"
    by (auto simp: relay_def split: option.splits prov_kind.splits)
  with Cons show ?case by (simp add: relayed_def case_prod_unfold)
qed (simp add: relayed_def)

text \<open>Who is connected to whom in the world of a new session.\<close>

lemma session_connections:
  assumes "total_order (addr_less pf)" "sound_world w" "implementations w impl"
    and session: "create_session_for_criteria (fusion_selection pf) w = Some (p, w')"
  shows "q \<in> set (providers w) \<Longrightarrow> slot_connected w' c y q \<longleftrightarrow> c = impl q" "q \<in> set (providers w) \<Longrightarrow> \<not> slot_connected w' c y (impl q)"
    "slot_connected w' c y (next_addr w) \<longleftrightarrow> c \<in> set (providers w) \<and> channel_of y \<noteq> None"
    "slot_connected w' c y p \<longleftrightarrow> c = next_addr w \<and> channel_of y \<noteq> None"
    "q \<in> set (providers w) \<Longrightarrow> impl q < q \<and> q < next_addr w"
    "q \<in> set (providers w) \<Longrightarrow> map_option prov_kind (objs w' q) \<noteq> Some (Fusion ps)"
    "q \<in> set (providers w) \<Longrightarrow> t \<in> set (providers w) \<Longrightarrow> impl t \<noteq> q"
proof -
  let ?f = "next_addr w"
  note sw = session_world [OF session]
  obtain fb where fb: "objs w' ?f = Some fb" "prov_kind fb = Fusion (bag_of pf w)" using sw(4) by blast
  obtain pb where pb: "objs w' p = Some pb" "prov_kind pb = Proxy ?f ?f ?f" using sw(3) by blast
  have "set (bag_of pf w) = set (providers w)"
    using insert_matching_set [OF assms(1)] by (simp add: bag_of_def)
  then show "slot_connected w' c y ?f \<longleftrightarrow> c \<in> set (providers w) \<and> channel_of y \<noteq> None"
    using fb by (cases y) (simp_all add: slot_connected_kind [OF fb(1)])
  show "slot_connected w' c y p \<longleftrightarrow> c = ?f \<and> channel_of y \<noteq> None"
    using pb by (cases y) (simp_all add: slot_connected_kind [OF pb(1)])
  have tr: "\<exists>ob st i. objs w' q = Some ob \<and> prov_kind ob = Tracking (impl q) st \<and> objs w' (impl q) = Some i \<and> prov_kind i = Leaf \<and>
      impl q < q \<and> q < ?f" if q: "q \<in> set (providers w)" for q
  proof -
    from assms(2) have "wf_world w" and fresh: "\<And>q. objs w q \<noteq> None \<Longrightarrow> q < ?f" by (auto simp: sound_world_def fresh_world_def)
    from tracked_implementation [OF this(1) assms(3) q] obtain ob st i where
      o: "objs w q = Some ob" "prov_kind ob = Tracking (impl q) st" "objs w (impl q) = Some i" "prov_kind i = Leaf" "impl q < q" by blast
    then have "q < ?f" "impl q < ?f" using fresh [of q] by simp_all
    with sw(5) o show ?thesis by simp
  qed
  show "slot_connected w' c y q \<longleftrightarrow> c = impl q" if "q \<in> set (providers w)" using tr [OF that] by (auto simp: slot_connected_kind)
  show "\<not> slot_connected w' c y (impl q)" if "q \<in> set (providers w)" using tr [OF that] by (auto simp: slot_connected_kind)
  show "impl q < q \<and> q < ?f" "map_option prov_kind (objs w' q) \<noteq> Some (Fusion ps)" if "q \<in> set (providers w)"
    using tr [OF that] by auto
  show "impl t \<noteq> q" if "q \<in> set (providers w)" "t \<in> set (providers w)" using tr [OF that(1)] tr [OF that(2)] by auto
qed

lemma tracked_output:
  assumes "total_order (addr_less pf)" "sound_world w" "implementations w impl"
    and session: "create_session_for_criteria (fusion_selection pf) w = Some (p, w')"
    and t: "t \<in> set (providers w)" and q: "q \<in> set (providers w)" and es: "emit_update select w' (impl t) x m = (es, m')"
  shows "outputs_at q es = (if q = t then [x] else [])"
proof -
  note c = session_connections [OF assms(1-4)]
  have "feeder w' q (impl q) (channel_of x)" using c(1) [OF q] c(5) [OF q] session_world(1,2) [OF session] by (simp add: feeder_def)
  moreover have "only_feeder w' q (impl q) es" using c(1) [OF q] by (auto simp: only_feeder_def)
  ultimately have "(outputs_at q es, m' q) = relayed select w' q (impl q) (outputs_at (impl q) es) m"
    using feeds(1) [OF es] c(7) [OF q t] by blast
  then have e: "outputs_at q es = outputs_at (impl q) es" using c(6) [OF q] by (simp add: relayed_same)
  show ?thesis
  proof (cases "q = t")
    case True
    with e emit_head [OF es] show ?thesis by simp
  next
    case False
    then have "impl q \<noteq> impl t" using assms(3) q t by (auto simp: implementations_def inj_on_def)
    with c(2) [OF q] have "outputs_at (impl q) es = []" by (intro not_fed [OF es]) auto
    with e False show ?thesis by simp
  qed
qed

text \<open>
  An update of an implementation reaches the engine, through its tracking provider, once and as it is. A session with the fusion policy gets a
  heading and a velocity once and as they are, a position as its fusion selects it, and vehicles never.
\<close>

lemma update_reaching_session:
  assumes "total_order (addr_less pf)" "sound_world w" "implementations w impl"
    and session: "create_session_for_criteria (fusion_selection pf) w = Some (p, w')"
    and t: "t \<in> set (providers w)" and es: "emit_update select w' (impl t) x m = (es, m')"
  shows "outputs_at t es = [x] \<and>
    (outputs_at p es, m' (next_addr w)) =
      (case x of
         Position_out u \<Rightarrow> (case fusion_on_position select t u (m (next_addr w)) of (u', l) \<Rightarrow> ([Position_out u'], l))
       | Vehicles_out svs \<Rightarrow> ([], m (next_addr w))
       | _ \<Rightarrow> ([x], m (next_addr w)))"
proof -
  let ?f = "next_addr w"
  note sw = session_world [OF session] and c = session_connections [OF assms(1-4)] and out = tracked_output [OF assms(1-5) _ es]
  have below: "impl t < t" "t < ?f" using c(5) [OF t] by simp_all
  have "(outputs_at p es, m' ?f) = (if channel_of x = None then ([], m ?f) else relayed select w' ?f t [x] m)"
  proof (cases "channel_of x = None")
    case True
    have "channel_of y = channel_of x" if "(q, y) \<in> set es" for q y using emit_above(1) [OF es] that by auto
    with True have "outputs_at p es = []" using below sw(1) c(4) by (intro not_fed [OF es]) auto
    with True memory_not_position(1) [OF es] show ?thesis by simp
  next
    case False
    have "feeder w' ?f t (channel_of x)" using below sw(1,2) c(3) t False by (simp add: feeder_def)
    moreover have "only_feeder w' ?f t es" using c(3) out by (fastforce simp: only_feeder_def outputs_at_Nil split: if_splits)
    ultimately have f: "(outputs_at ?f es, m' ?f) = relayed select w' ?f t [x] m"
      using feeds(1) [OF es] out [OF t] below by simp
    have "feeder w' p ?f (channel_of x)" using sw(1,2) c(4) False by (simp add: feeder_def)
    moreover have "only_feeder w' p ?f es" using c(4) by (auto simp: only_feeder_def)
    ultimately have "(outputs_at p es, m' p) = relayed select w' p ?f (outputs_at ?f es) m"
      using feeds(1) [OF es] below sw(1) by simp
    moreover have "map_option prov_kind (objs w' p) \<noteq> Some (Fusion ps)" for ps using sw(3) by auto
    ultimately have "outputs_at p es = outputs_at ?f es" by (simp add: relayed_same)
    with f False show ?thesis by auto
  qed
  moreover have "relay select w' ?f t x m = (case x of Position_out u \<Rightarrow>
      (case fusion_on_position select t u (m ?f) of (u', l) \<Rightarrow> (Position_out u', m(?f := l))) | _ \<Rightarrow> (x, m))"
    using sw(4) by (auto simp: relay_def split: provider_output.split)
  ultimately show ?thesis
    using out [OF t] by (cases x) (auto simp: relayed_def split: prod.splits)
qed

text \<open>A sequence of updates of implementations, and the positions a fusion selects of them.\<close>

fun emit_all ::
  "(sourced_update \<Rightarrow> sourced_update \<Rightarrow> sourced_update) \<Rightarrow> 't world \<Rightarrow> (nat \<times> provider_output) list \<Rightarrow> memory \<Rightarrow>
     (nat \<times> provider_output) list \<times> memory" where
  "emit_all select w [] m = ([], m)"
| "emit_all select w ((c, x) # xs) m =
     (case emit_update select w c x m of (es, m1) \<Rightarrow> case emit_all select w xs m1 of (es', m2) \<Rightarrow> (es @ es', m2))"

fun selected ::
  "(sourced_update \<Rightarrow> sourced_update \<Rightarrow> sourced_update) \<Rightarrow> (nat \<times> position update) list \<Rightarrow> sourced_update option \<Rightarrow> position update list" where
  "selected select [] l = []"
| "selected select ((t, u) # us) l = (case fusion_on_position select t u l of (u', l') \<Rightarrow> u' # selected select us l')"

lemma fusion_on_position_memory:
  "snd (fusion_on_position select t u l) = Some (the (snd (fusion_on_position select t u l))) \<and>
   fst (fusion_on_position select t u l) = sourced (the (snd (fusion_on_position select t u l)))"
  by (cases l) (simp_all add: fusion_on_position_def Let_def)

lemma selected_length [simp]: "length (selected select us l) = length us"
  by (induction us arbitrary: l) (auto split: prod.split)

lemma selected_nth: "k < length us \<Longrightarrow> selected select us l ! k = sourced (the (fusion_run select (take (Suc k) us) l))"
proof (induction us arbitrary: l k)
  case (Cons tu us)
  obtain t u where tu: "tu = (t, u)" by force
  with Cons fusion_on_position_memory [of select t u l] show ?case
    by (cases k) (auto simp: case_prod_unfold)
qed simp

lemma session_positions:
  assumes "total_order (addr_less pf)" "sound_world w" "implementations w impl"
    and "create_session_for_criteria (fusion_selection pf) w = Some (p, w')"
  shows "fst ` set us \<subseteq> set (providers w) \<Longrightarrow>
    outputs_at p (fst (emit_all select w' (map (\<lambda>(t, u). (impl t, Position_out u)) us) m)) =
      map Position_out (selected select us (m (next_addr w)))"
proof (induction us arbitrary: m)
  case (Cons tu us)
  obtain t u where tu: "tu = (t, u)" by force
  obtain es m1 where e: "emit_update select w' (impl t) (Position_out u) m = (es, m1)" by force
  have t: "t \<in> set (providers w)" using Cons.prems tu by simp
  from update_reaching_session [OF assms t e] Cons.IH [of m1] Cons.prems tu e show ?case
    by (auto split: prod.splits)
qed simp

text \<open>
  C26. A session with the fusion policy gets a position for every position of the implementations. Over a chronological sequence each of
  them is one the implementations had emitted by then, and at most eleven seconds older than the newest of these.
\<close>

theorem session_sees_recent_positions:
  assumes "total_order (addr_less pf)" "sound_world w" "implementations w impl"
    and "create_session_for_criteria (fusion_selection pf) w = Some (p, w')" and "m (next_addr w) = None"
    and "fst ` set us \<subseteq> set (providers w)" and "sorted_wrt (\<lambda>a b. update_when (snd a) \<le> update_when (snd b)) us"
  shows "\<exists>vs. outputs_at p (fst (emit_all newer_or_more_accurate_select w' (map (\<lambda>(t, u). (impl t, Position_out u)) us) m)) =
      map Position_out vs \<and> length vs = length us \<and>
    (\<forall>k < length us. vs ! k \<in> snd ` set (take (Suc k) us) \<and>
       (\<forall>j \<le> k. update_when (snd (us ! j)) \<le> update_when (vs ! k) + seconds 11))"
proof (intro exI conjI allI impI)
  let ?vs = "selected newer_or_more_accurate_select us None"
  show "outputs_at p (fst (emit_all newer_or_more_accurate_select w' (map (\<lambda>(t, u). (impl t, Position_out u)) us) m)) = map Position_out ?vs"
    using session_positions [OF assms(1-4,6), of newer_or_more_accurate_select m] assms(5) by simp
  show "length ?vs = length us" by simp
  fix k assume k: "k < length us"
  then have us: "take (Suc k) us \<noteq> []" "sorted_wrt (\<lambda>a b. update_when (snd a) \<le> update_when (snd b)) (take (Suc k) us)"
    using assms(7) by (auto intro: sorted_wrt_take)
  from fused_position_is_recent [OF this] obtain l where
    l: "fusion_run newer_or_more_accurate_select (take (Suc k) us) None = Some l" "(source l, sourced l) \<in> set (take (Suc k) us)"
      "list_all (\<lambda>(p, u). update_when u \<le> update_when (sourced l) + seconds 11) (take (Suc k) us)" by blast
  with selected_nth [OF k, of newer_or_more_accurate_select None] have v: "?vs ! k = sourced l" by simp
  with l(2) show "?vs ! k \<in> snd ` set (take (Suc k) us)" by force
  fix j assume "j \<le> k"
  with k have "us ! j \<in> set (take (Suc k) us)" by (auto simp: in_set_conv_nth intro!: exI [of _ j])
  with l(3) v show "update_when (snd (us ! j)) \<le> update_when (?vs ! k) + seconds 11"
    by (auto simp: list_all_iff case_prod_unfold)
qed

theorem session_sees_recent_positions_witness:
  "\<exists>p w' vs. create_session_for_criteria (fusion_selection demo_platform) demo_world = Some (p, w') \<and>
     outputs_at p (fst (emit_all newer_or_more_accurate_select w' [(0, Position_out (example_update 10 0)), (0, Position_out (example_update 30 5))] (\<lambda>_. None))) =
       map Position_out vs \<and> length vs = 2 \<and> vs ! 0 = example_update 10 0"
proof -
  obtain p w' where s: "create_session_for_criteria (fusion_selection demo_platform) demo_world = Some (p, w')"
    by (simp add: create_session_for_criteria_def fusion_selection_def new_fusion_provider_def new_proxy_provider_def new_object_def)
  have o: "total_order (addr_less demo_platform)" by (simp add: demo_platform_def addr.total_order_axioms)
  have "implementations demo_world (\<lambda>_. 0)" by (simp add: implementations_def demo_world_def)
  moreover have "fst ` set [(1, example_update 10 0), (1, example_update 30 5)] \<subseteq> set (providers demo_world)"
    by (simp add: demo_world_def)
  moreover have "sorted_wrt (\<lambda>a b. update_when (snd a) \<le> update_when (snd b)) [(1 :: nat, example_update 10 0), (1, example_update 30 5)]"
    by (simp add: example_update_def make_update_def)
  ultimately obtain vs where
    v: "outputs_at p (fst (emit_all newer_or_more_accurate_select w' (map (\<lambda>(t, u). (0, Position_out u)) [(1 :: nat, example_update 10 0), (1, example_update 30 5)]) (\<lambda>_. None))) =
      map Position_out vs" "length vs = 2"
      "\<forall>k < 2. vs ! k \<in> snd ` set (take (Suc k) [(1 :: nat, example_update 10 0), (1, example_update 30 5)])"
    using session_sees_recent_positions [OF o demo_world_sound _ s, of "\<lambda>_. 0" "\<lambda>_. None" "[(1, example_update 10 0), (1, example_update 30 5)]"]
    by fastforce
  from v(3) [rule_format, of 0] have "vs ! 0 = example_update 10 0" by simp
  with s v(1,2) show ?thesis by auto
qed

end
