(* ===== verification/Runtime_Pool.thy ===== *)
theory Runtime_Pool
  imports Platform
begin

text \<open>
  The pool of workers of the service (\<open>service/runtime.h\<close>, \<open>service/runtime.cpp\<close>): \<open>start\<close> and
  \<open>stop\<close>, and the dispatcher that posts tasks to a strand of the io_context.

  The io_context and its strand are those Boost.Asio documents: \<open>run\<close> takes ready handlers until
  \<open>stop\<close>, and the handlers of a strand run in the order of their posts and never at the same time.
  The work guard keeps an idle \<open>run\<close> from returning. A worker executes \<open>exception_safe_run\<close>, so a
  handler that throws leaves its worker in the loop; \<open>Platform\<close> has that loop.

  An interleaving of the threads is a sequence of steps of \<open>pool_step\<close>. Tasks are values of any type;
  \<open>begun\<close> is the history of the tasks the workers took, with the strand's and the other handlers apart.
\<close>

section \<open>State and operations\<close>

datatype 't worker = Idle | Busy_strand 't | Busy_plain 't | Exited

record 't pool =
  pool_size :: nat
  workers :: "'t worker list"
  pool_stopped :: bool
  strand_queue :: "'t list"
  plain_queue :: "'t list"
  finished_strand :: "'t list"
  posted_strand :: "'t list"

definition pool_create :: "nat \<Rightarrow> 't pool" where
  "pool_create n = \<lparr>pool_size = n, workers = [], pool_stopped = False, strand_queue = [], plain_queue = [],
     finished_strand = [], posted_strand = []\<rparr>"

text \<open>The threads of the pool; each is in its loop as soon as it exists.\<close>

definition pool_start :: "'t pool \<Rightarrow> 't pool" where
  "pool_start r = r\<lparr>workers := workers r @ replicate (pool_size r) Idle\<rparr>"

text \<open>\<open>stop\<close> stops the io_context, then waits for the threads; it returns when all have exited.\<close>

definition pool_stop_service :: "'t pool \<Rightarrow> 't pool" where
  "pool_stop_service r = r\<lparr>pool_stopped := True\<rparr>"

definition pool_joined :: "'t pool \<Rightarrow> bool" where
  "pool_joined r \<longleftrightarrow> pool_stopped r \<and> (\<forall>w \<in> set (workers r). w = Exited)"

definition dispatch_task :: "'t \<Rightarrow> 't pool \<Rightarrow> 't pool" where
  "dispatch_task t r = r\<lparr>strand_queue := strand_queue r @ [t], posted_strand := posted_strand r @ [t]\<rparr>"

definition post_plain :: "'t \<Rightarrow> 't pool \<Rightarrow> 't pool" where
  "post_plain t r = r\<lparr>plain_queue := plain_queue r @ [t]\<rparr>"

fun on_strand :: "'t worker \<Rightarrow> 't list" where
  "on_strand (Busy_strand t) = [t]"
| "on_strand w = []"

definition strand_running :: "'t pool \<Rightarrow> 't list" where
  "strand_running r = concat (map on_strand (workers r))"

definition begin_strand :: "nat \<Rightarrow> 't pool \<Rightarrow> 't pool option" where
  "begin_strand i r =
     (if i < length (workers r) \<and> workers r ! i = Idle \<and> \<not> pool_stopped r \<and> strand_running r = []
      then (case strand_queue r of [] \<Rightarrow> None
         | t # q \<Rightarrow> Some (r\<lparr>workers := (workers r)[i := Busy_strand t], strand_queue := q\<rparr>))
      else None)"

definition begin_plain :: "nat \<Rightarrow> 't pool \<Rightarrow> 't pool option" where
  "begin_plain i r =
     (if i < length (workers r) \<and> workers r ! i = Idle \<and> \<not> pool_stopped r
      then (case plain_queue r of [] \<Rightarrow> None
         | t # q \<Rightarrow> Some (r\<lparr>workers := (workers r)[i := Busy_plain t], plain_queue := q\<rparr>))
      else None)"

text \<open>A handler ends, with or without an exception: the worker is back in the loop.\<close>

definition end_task :: "nat \<Rightarrow> 't pool \<Rightarrow> 't pool option" where
  "end_task i r =
     (if i < length (workers r)
      then (case workers r ! i of
          Busy_strand t \<Rightarrow> Some (r\<lparr>workers := (workers r)[i := Idle], finished_strand := finished_strand r @ [t]\<rparr>)
        | Busy_plain t \<Rightarrow> Some (r\<lparr>workers := (workers r)[i := Idle]\<rparr>)
        | _ \<Rightarrow> None)
      else None)"

definition leave_loop :: "nat \<Rightarrow> 't pool \<Rightarrow> 't pool option" where
  "leave_loop i r =
     (if i < length (workers r) \<and> workers r ! i = Idle \<and> pool_stopped r
      then Some (r\<lparr>workers := (workers r)[i := Exited]\<rparr>) else None)"

inductive pool_step :: "'t pool \<Rightarrow> 't pool \<Rightarrow> bool" where
  step_start: "pool_step r (pool_start r)"
| step_stop: "pool_step r (pool_stop_service r)"
| step_dispatch: "pool_step r (dispatch_task t r)"
| step_post: "pool_step r (post_plain t r)"
| step_begin_strand: "begin_strand i r = Some r' \<Longrightarrow> pool_step r r'"
| step_begin_plain: "begin_plain i r = Some r' \<Longrightarrow> pool_step r r'"
| step_end: "end_task i r = Some r' \<Longrightarrow> pool_step r r'"
| step_leave: "leave_loop i r = Some r' \<Longrightarrow> pool_step r r'"

inductive pool_reachable :: "nat \<Rightarrow> 't pool \<Rightarrow> bool" for n where
  reach_create: "pool_reachable n (pool_create n)"
| reach_step: "pool_reachable n r \<Longrightarrow> pool_step r r' \<Longrightarrow> pool_reachable n r'"

inductive_cases pool_stepE: "pool_step r r'"

section \<open>The strand serializes its tasks\<close>

lemma strand_window:
  assumes "i < length (workers r)"
  obtains a b where "strand_running r = a @ on_strand (workers r ! i) @ b"
    "\<And>w. concat (map on_strand ((workers r)[i := w])) = a @ on_strand w @ b"
proof -
  have u: "concat (map on_strand ((workers r)[i := w])) =
      concat (map on_strand (take i (workers r))) @ on_strand w @ concat (map on_strand (drop (Suc i) (workers r)))" for w
    using assms by (simp add: upd_conv_take_nth_drop)
  from that [OF _ u] u [of "workers r ! i"] show thesis by (simp add: strand_running_def)
qed

definition strand_inv :: "'t pool \<Rightarrow> bool" where
  "strand_inv r \<longleftrightarrow> posted_strand r = finished_strand r @ strand_running r @ strand_queue r \<and> length (strand_running r) \<le> 1"

lemma strand_running_start: "strand_running (pool_start r) = strand_running r"
  by (simp add: strand_running_def pool_start_def)

lemma begin_strand_inv:
  assumes "begin_strand i r = Some r'" "strand_inv r"
  shows "strand_inv r'"
proof -
  from assms(1) obtain t q where i: "i < length (workers r)" "workers r ! i = Idle" "strand_running r = []"
    and q: "strand_queue r = t # q" and r': "r' = r\<lparr>workers := (workers r)[i := Busy_strand t], strand_queue := q\<rparr>"
    by (auto simp: begin_strand_def split: if_splits list.splits)
  have e: "strand_running r' = concat (map on_strand ((workers r)[i := Busy_strand t]))"
    by (simp add: r' strand_running_def)
  have "strand_running r' = [t]"
    unfolding e by (rule strand_window [OF i(1)]) (use i in simp)
  then show ?thesis using assms(2) i q by (simp add: strand_inv_def r')
qed

lemma idle_update_inv:
  assumes "i < length (workers r)" "on_strand (workers r ! i) = []" "on_strand w = []"
  shows "concat (map on_strand ((workers r)[i := w])) = strand_running r"
  by (rule strand_window [OF assms(1)]) (simp add: assms(2,3))

lemma end_task_inv:
  assumes "end_task i r = Some r'" "strand_inv r"
  shows "strand_inv r'"
proof (cases "\<exists>t. workers r ! i = Busy_strand t")
  case True
  then obtain t where t: "workers r ! i = Busy_strand t" by blast
  have i: "i < length (workers r)" using assms(1) by (auto simp: end_task_def split: if_splits)
  have r': "r' = r\<lparr>workers := (workers r)[i := Idle], finished_strand := finished_strand r @ [t]\<rparr>"
    using assms(1) t i by (simp add: end_task_def)
  have e: "strand_running r' = concat (map on_strand ((workers r)[i := Idle]))"
    by (simp add: r' strand_running_def)
  obtain a b where "strand_running r = a @ on_strand (workers r ! i) @ b"
    "\<And>w. concat (map on_strand ((workers r)[i := w])) = a @ on_strand w @ b"
    by (rule strand_window [OF i]) blast
  then have w: "strand_running r = a @ on_strand (workers r ! i) @ b" "strand_running r' = a @ b"
    by (simp_all add: e)
  have "a = [] \<and> b = []" using assms(2) w(1) by (simp add: strand_inv_def t)
  then have "strand_running r = [t] \<and> strand_running r' = []" using w t by simp
  then show ?thesis using assms(2) by (simp add: strand_inv_def r')
next
  case False
  then show ?thesis using assms idle_update_inv [of i r Idle]
    by (auto simp: end_task_def strand_inv_def strand_running_def split: if_splits worker.splits)
qed

lemma begin_plain_inv:
  assumes "begin_plain i r = Some r'" "strand_inv r"
  shows "strand_inv r'"
proof -
  from assms(1) obtain t q where i: "i < length (workers r)" "workers r ! i = Idle"
    and r': "r' = r\<lparr>workers := (workers r)[i := Busy_plain t], plain_queue := q\<rparr>"
    by (auto simp: begin_plain_def split: if_splits list.splits)
  have "strand_running r' = strand_running r"
    using idle_update_inv [of i r "Busy_plain t"] i by (simp add: r' strand_running_def)
  then show ?thesis using assms(2) by (simp add: strand_inv_def r')
qed

lemma leave_loop_inv:
  assumes "leave_loop i r = Some r'" "strand_inv r"
  shows "strand_inv r'"
proof -
  from assms(1) have i: "i < length (workers r)" "workers r ! i = Idle"
    and r': "r' = r\<lparr>workers := (workers r)[i := Exited]\<rparr>"
    by (auto simp: leave_loop_def split: if_splits)
  have "strand_running r' = strand_running r"
    using idle_update_inv [of i r Exited] i by (simp add: r' strand_running_def)
  then show ?thesis using assms(2) by (simp add: strand_inv_def r')
qed

lemma strand_inv_simps [simp]:
  "strand_inv (pool_start r) = strand_inv r" "strand_inv (pool_stop_service r) = strand_inv r"
  "strand_inv (dispatch_task t r) = strand_inv r" "strand_inv (post_plain t r) = strand_inv r"
  by (simp_all add: strand_inv_def strand_running_def pool_start_def pool_stop_service_def dispatch_task_def post_plain_def)

lemma pool_step_inv: "pool_step r r' \<Longrightarrow> strand_inv r \<Longrightarrow> strand_inv r'"
  by (erule pool_stepE) (auto intro: begin_strand_inv begin_plain_inv end_task_inv leave_loop_inv)

lemma pool_reachable_inv: "pool_reachable n r \<Longrightarrow> strand_inv r"
proof (induction rule: pool_reachable.induct)
  case reach_create
  then show ?case by (simp add: strand_inv_def pool_create_def strand_running_def)
qed (rule pool_step_inv)


lemma reachable_start: "pool_reachable n (pool_start (pool_create n))"
  by (intro reach_step [OF reach_create] step_start)


section \<open>After stop\<close>

text \<open>The tasks that have begun, in order.\<close>

definition begun :: "'t pool \<Rightarrow> 't list" where
  "begun r = finished_strand r @ strand_running r"

lemma end_task_begun:
  assumes "end_task i r = Some r'" "strand_inv r"
  shows "begun r' = begun r" "strand_queue r' = strand_queue r"
proof -
  show q: "strand_queue r' = strand_queue r"
    using assms(1) by (auto simp: end_task_def split: if_splits worker.splits)
  have p: "posted_strand r' = posted_strand r"
    using assms(1) by (auto simp: end_task_def split: if_splits worker.splits)
  show "begun r' = begun r"
    using assms(2) end_task_inv [OF assms] p q by (auto simp: strand_inv_def begun_def)
qed

lemma leave_loop_begun:
  assumes "leave_loop i r = Some r'"
  shows "begun r' = begun r" "pool_stopped r'"
  using assms idle_update_inv [of i r Exited]
  by (auto simp: leave_loop_def begun_def strand_running_def split: if_splits)

lemma stopped_step:
  assumes "pool_step r r'" "pool_stopped r" "strand_inv r"
  shows "pool_stopped r' \<and> begun r' = begun r"
  using assms(1)
proof (cases rule: pool_step.cases)
  case (step_end i)
  then show ?thesis using end_task_begun [OF step_end assms(3)] assms(2)
    by (auto simp: end_task_def split: if_splits worker.splits)
next
  case (step_leave i)
  then show ?thesis using leave_loop_begun [OF step_leave] by simp
qed (use assms(2) in \<open>auto simp: begin_strand_def begin_plain_def begun_def strand_running_def pool_start_def pool_stop_service_def
    dispatch_task_def post_plain_def\<close>)

text \<open>
  Once the pool is stopped no dispatched task begins any more, not even after another start. When
  \<open>stop\<close> has returned, none is running either: the objects the tasks refer to can be destroyed.
\<close>

theorem no_task_after_stop:
  assumes "pool_reachable n r" "pool_stopped r" "pool_step\<^sup>*\<^sup>* r r'"
  shows "begun r' = begun r \<and> (pool_joined r \<longrightarrow> strand_running r = [])"
proof -
  from assms(3) have "pool_stopped r' \<and> strand_inv r' \<and> begun r' = begun r"
  proof (induction rule: rtranclp_induct)
    case base
    then show ?case using assms pool_reachable_inv by auto
  next
    case (step y z)
    then show ?case using stopped_step [of y z] pool_step_inv [of y z] by simp
  qed
  moreover have "pool_joined r \<longrightarrow> strand_running r = []"
    by (auto simp: pool_joined_def strand_running_def)
  ultimately show ?thesis by simp
qed

theorem no_task_after_stop_witness:
  "begun (dispatch_task (7::nat) (pool_stop_service (pool_start (pool_create 4)))) = []"
proof -
  have "pool_reachable 4 (pool_stop_service (pool_start (pool_create 4)) :: nat pool)"
    by (intro reach_step [OF reachable_start] step_stop)
  moreover have "pool_stopped (pool_stop_service (pool_start (pool_create 4)) :: nat pool)"
    by (simp add: pool_stop_service_def)
  ultimately have "begun (dispatch_task (7::nat) (pool_stop_service (pool_start (pool_create 4)))) =
      begun (pool_stop_service (pool_start (pool_create 4)) :: nat pool)"
    by (rule conjunct1 [OF no_task_after_stop [OF _ _ r_into_rtranclp [of pool_step, OF step_dispatch]]])
  then show ?thesis by (simp add: begun_def pool_stop_service_def pool_start_def pool_create_def strand_running_def)
qed

section \<open>Progress\<close>

text \<open>What the workers do by themselves: take a task, or finish one.\<close>

definition worker_step :: "'t pool \<Rightarrow> 't pool \<Rightarrow> bool" where
  "worker_step r r' \<longleftrightarrow> (\<exists>i. begin_strand i r = Some r' \<or> begin_plain i r = Some r' \<or> end_task i r = Some r')"

fun busy :: "'t worker \<Rightarrow> bool" where
  "busy (Busy_strand t) = True"
| "busy (Busy_plain t) = True"
| "busy w = False"

definition pending_work :: "'t pool \<Rightarrow> nat" where
  "pending_work r = 2 * (length (strand_queue r) + length (plain_queue r)) + length (filter busy (workers r))"

lemma filter_update:
  "i < length ws \<Longrightarrow> length (filter P (ws[i := w])) + (if P (ws ! i) then 1 else 0) = length (filter P ws) + (if P w then 1 else 0)"
proof -
  assume i: "i < length ws"
  then have "filter P ws = filter P (take i ws) @ filter P [ws ! i] @ filter P (drop (Suc i) ws)"
    by (metis append_Cons append_Nil filter_append id_take_nth_drop)
  then show ?thesis using i by (simp add: upd_conv_take_nth_drop)
qed

lemmas filter_busy_update = filter_update [where P = busy]

lemma begin_decreases:
  "begin_strand i r = Some r' \<Longrightarrow> pending_work r' < pending_work r"
  "begin_plain i r = Some r' \<Longrightarrow> pending_work r' < pending_work r"
  using filter_busy_update [of i "workers r"]
  by (auto simp: begin_strand_def begin_plain_def pending_work_def split: if_splits list.splits)

lemma end_decreases:
  "end_task i r = Some r' \<Longrightarrow> pending_work r' < pending_work r"
  using filter_busy_update [of i "workers r" Idle]
  by (auto simp: end_task_def pending_work_def split: if_splits worker.splits)

lemma worker_step_decreases: "worker_step r r' \<Longrightarrow> pending_work r' < pending_work r"
  by (auto simp: worker_step_def intro: begin_decreases end_decreases)

text \<open>While the pool has not been stopped none of its workers has left.\<close>

definition alive_inv :: "'t pool \<Rightarrow> bool" where
  "alive_inv r \<longleftrightarrow> pool_stopped r \<or> Exited \<notin> set (workers r)"

lemma alive_update: "Exited \<notin> set ws \<Longrightarrow> w \<noteq> Exited \<Longrightarrow> Exited \<notin> set (ws[i := w])"
  using set_update_subset_insert [of ws i w] by auto

lemma alive_step: "pool_step r r' \<Longrightarrow> alive_inv r \<Longrightarrow> alive_inv r'"
  by (erule pool_stepE)
    (auto simp: alive_inv_def pool_start_def pool_stop_service_def dispatch_task_def post_plain_def begin_strand_def
      begin_plain_def end_task_def leave_loop_def alive_update split: if_splits list.splits worker.splits)

lemma alive_reachable: "pool_reachable n r \<Longrightarrow> alive_inv r"
proof (induction rule: pool_reachable.induct)
  case reach_create
  then show ?case by (simp add: alive_inv_def pool_create_def)
qed (rule alive_step)

lemma blocked_pool:
  assumes "strand_inv r" "alive_inv r" "\<not> pool_stopped r" "workers r \<noteq> []" "\<nexists>r'. worker_step r r'"
  shows "strand_running r = [] \<and> strand_queue r = [] \<and> plain_queue r = []"
proof -
  have no_end: "end_task i r = None" for i
    using assms(5) by (auto simp: worker_step_def not_Some_eq [symmetric] simp del: not_Some_eq)
  have idle: "workers r ! i = Idle" if "i < length (workers r)" for i
  proof (cases "workers r ! i")
    case Exited
    then show ?thesis using that assms(2,3) nth_mem [OF that] by (auto simp: alive_inv_def)
  qed (use that no_end [of i] in \<open>auto simp: end_task_def\<close>)
  then have run: "strand_running r = []" by (auto simp: strand_running_def in_set_conv_nth)
  have 0: "0 < length (workers r)" using assms(4) by simp
  have "begin_strand 0 r = None" "begin_plain 0 r = None"
    using assms(5) by (auto simp: worker_step_def not_Some_eq [symmetric] simp del: not_Some_eq)
  then show ?thesis using 0 idle [OF 0] assms(3) run
    by (auto simp: begin_strand_def begin_plain_def split: list.splits)
qed

text \<open>
  C40. A started pool works off what was posted, under every schedule of its workers: each of their steps
  brings the work down, and when none is possible any more every dispatched task has finished and no
  handler waits.
\<close>

theorem pool_drains:
  assumes "pool_reachable n r" "\<not> pool_stopped r" "workers r \<noteq> []"
  shows "(\<forall>r'. worker_step r r' \<longrightarrow> pending_work r' < pending_work r) \<and>
    ((\<nexists>r'. worker_step r r') \<longrightarrow> finished_strand r = posted_strand r \<and> plain_queue r = [])"
  using blocked_pool [OF pool_reachable_inv alive_reachable assms(2,3)] assms(1) pool_reachable_inv [OF assms(1)]
  by (auto simp: worker_step_decreases strand_inv_def)

theorem pool_drains_witness:
  "pending_work (the (begin_strand 0 (dispatch_task (7::nat) (pool_start (pool_create 4))))) <
     pending_work (dispatch_task (7::nat) (pool_start (pool_create 4)))"
proof -
  let ?r = "dispatch_task (7::nat) (pool_start (pool_create 4))"
  have "begin_strand 0 ?r \<noteq> None" by (simp add: dispatch_task_def pool_start_def pool_create_def begin_strand_def strand_running_def)
  then have "worker_step ?r (the (begin_strand 0 ?r))" by (auto simp: worker_step_def)
  moreover have "pool_reachable 4 ?r" by (intro reach_step [OF reachable_start] step_dispatch)
  ultimately show ?thesis using pool_drains [of 4 ?r]
    by (simp add: dispatch_task_def pool_start_def pool_create_def)
qed

end
