(* ===== verification/Text_Output.thy ===== *)
theory Text_Output
  imports Service_Skeleton Connectivity_Manager Space_Vehicles
begin

text \<open>
  What the stream operators of the values write: the state and the characteristics of a connection
  (\<open>connectivity/manager.cpp\<close>), bounded integers, radio cells and wireless networks (\<open>connectivity/\<close>), positions,
  updates, accuracies, coordinates and space vehicles, and the samples of a reference time. These texts go to logs, to the output of
  the command-line client and into the failures of tests.

  A stream is the text written to it. How it writes a \<open>double\<close> is the parameter \<open>num\<close>, how Boost.Units writes a
  quantity is \<open>quantity\<close>; integers are decimal.

  A field that ends before a character it cannot contain is read back by the locale \<open>delimited\<close>, so a record
  of such fields can be told apart by its text.
\<close>

section \<open>Decimal integers\<close>

definition signed_decimal :: "int \<Rightarrow> string" where
  "signed_decimal n = (if n < 0 then CHR ''-'' # decimal (nat (- n)) else decimal (nat n))"

definition print_flag :: "bool \<Rightarrow> string" where
  "print_flag b = (if b then ''1'' else ''0'')"

text \<open>\<open>operator<<\<close> of a bounded integer.\<close>

definition print_bounded :: "bounds \<Rightarrow> int \<Rightarrow> string" where
  "print_bounded b v = signed_decimal v @ (if bi_is_valid b v then [] else '' -> invalid'')"

section \<open>Connectivity\<close>

definition state_unknown :: "32 word" where "state_unknown = 0"
definition state_asleep :: "32 word" where "state_asleep = 10"
definition state_disconnected :: "32 word" where "state_disconnected = 20"
definition state_disconnecting :: "32 word" where "state_disconnecting = 30"
definition state_connecting :: "32 word" where "state_connecting = 40"
definition state_connected_local :: "32 word" where "state_connected_local = 50"
definition state_connected_site :: "32 word" where "state_connected_site = 60"
definition state_connected_global :: "32 word" where "state_connected_global = 70"

lemmas state_values = state_unknown_def state_asleep_def state_disconnected_def state_disconnecting_def
  state_connecting_def state_connected_local_def state_connected_site_def state_connected_global_def

text \<open>The switch has no default: a value without an enumerator writes nothing.\<close>

definition print_connection_state :: "32 word \<Rightarrow> string" where
  "print_connection_state s =
     (if s = state_unknown then ''State::unknown''
      else if s = state_asleep then ''State::asleep''
      else if s = state_disconnected then ''State::disconnected''
      else if s = state_disconnecting then ''State::disconnecting''
      else if s = state_connecting then ''State::connecting''
      else if s = state_connected_local then ''State::connected_local''
      else if s = state_connected_site then ''State::connected_site''
      else if s = state_connected_global then ''State::connected_global''
      else [])"

definition no_characteristics :: "32 word" where "no_characteristics = 0"

definition characteristics_or :: "32 word \<Rightarrow> 32 word \<Rightarrow> 32 word" where
  "characteristics_or l r = or l r"

definition characteristics_and :: "32 word \<Rightarrow> 32 word \<Rightarrow> 32 word" where
  "characteristics_and l r = and l r"

text \<open>One \<open>if\<close> of the operator: the state is the flag \<open>first\<close> and the text so far.\<close>

definition put_characteristic :: "32 word \<Rightarrow> 32 word \<Rightarrow> string \<Rightarrow> bool \<times> string \<Rightarrow> bool \<times> string" where
  "put_characteristic c flag name = (\<lambda>(first, out).
     if characteristics_and c flag \<noteq> no_characteristics
     then (False, out @ (if first then [] else '', '') @ name) else (first, out))"

definition print_characteristics :: "32 word \<Rightarrow> string" where
  "print_characteristics c =
     snd (put_characteristic c connection_is_volume_limited ''connection_is_volume_limited''
         (put_characteristic c connection_is_bandwith_limited ''connection_is_bandwidth_limited''
         (put_characteristic c connection_has_monetary_costs ''connection_has_monetary_costs''
         (put_characteristic c connection_is_roaming ''connection_is_roaming''
         (put_characteristic c connection_goes_via_wwan ''connection_goes_via_wwan''
         (put_characteristic c connection_goes_via_wifi ''connection_goes_via_wifi'' (True, ''[''))))))) @ '']''"

fun print_mode :: "wifi_mode \<Rightarrow> string" where
  "print_mode mode_unknown = ''Mode::unknown''"
| "print_mode mode_adhoc = ''Mode::adhoc''"
| "print_mode mode_infrastructure = ''Mode::infrastructure''"

text \<open>The time stamp is kept in seconds and written in nanoseconds.\<close>

definition print_network :: "cached_network \<Rightarrow> string" where
  "print_network n = ''('' @ ''bssid: '' @ bssid n @ '', '' @ ''ssid: '' @ ssid n @ '', '' @
     ''last seen: '' @ signed_decimal (last_seen n * 1000000000) @ '', '' @ ''mode: '' @ print_mode (wifi_mode n) @ '', '' @
     ''frequency: '' @ print_bounded frequency_bounds (frequency n) @ '', '' @
     ''strength: '' @ print_bounded strength_bounds (signal_strength n) @ '')''"

section \<open>Radio cells\<close>

definition print_gsm :: "gsm \<Rightarrow> string" where
  "print_gsm g = ''('' @ ''mcc: '' @ print_bounded country_code_bounds (gsm_mcc g) @ '', '' @
     ''mnc: '' @ print_bounded network_code_bounds (gsm_mnc g) @ '', '' @
     ''lac: '' @ print_bounded area_code_bounds (gsm_lac g) @ '', '' @
     ''id: '' @ print_bounded gsm_id_bounds (gsm_id g) @ '', '' @
     ''asu: '' @ print_bounded signal_bounds (gsm_strength g) @ '')''"

definition print_umts :: "umts \<Rightarrow> string" where
  "print_umts u = ''('' @ ''mcc: '' @ print_bounded country_code_bounds (umts_mcc u) @ '', '' @
     ''mnc: '' @ print_bounded network_code_bounds (umts_mnc u) @ '', '' @
     ''lac: '' @ print_bounded area_code_bounds (umts_lac u) @ '', '' @
     ''id: '' @ print_bounded wide_id_bounds (umts_id u) @ '', '' @
     ''asu: '' @ print_bounded signal_bounds (umts_strength u) @ '')''"

text \<open>Both identities of the cell are labelled \<open>id\<close>.\<close>

definition print_lte :: "lte \<Rightarrow> string" where
  "print_lte l = ''('' @ ''mcc: '' @ print_bounded country_code_bounds (lte_mcc l) @ '', '' @
     ''mnc: '' @ print_bounded network_code_bounds (lte_mnc l) @ '', '' @
     ''lac: '' @ print_bounded area_code_bounds (lte_tac l) @ '', '' @
     ''id: '' @ print_bounded wide_id_bounds (lte_id l) @ '', '' @
     ''id: '' @ print_bounded physical_id_bounds (lte_physical_id l) @ '', '' @
     ''asu: '' @ print_bounded signal_bounds (lte_strength l) @ '')''"

definition print_cell :: "radio_cell \<Rightarrow> string result" where
  "print_cell c =
     (case radio_type c of
        type_gsm \<Rightarrow> result_bind (cell_gsm c) (\<lambda>g. Inr (''gsm'' @ print_gsm g))
      | type_umts \<Rightarrow> result_bind (cell_umts c) (\<lambda>u. Inr (''umts'' @ print_umts u))
      | type_lte \<Rightarrow> result_bind (cell_lte c) (\<lambda>l. Inr (''lte'' @ print_lte l))
      | type_unknown \<Rightarrow> Inr [])"

section \<open>Positions, updates and space vehicles\<close>

definition print_coordinate :: "('q \<Rightarrow> string) \<Rightarrow> 'q \<Rightarrow> string" where
  "print_coordinate quantity v = ''Coordinate('' @ quantity v @ '')''"

definition print_accuracy :: "('a \<Rightarrow> string) \<Rightarrow> 'a \<Rightarrow> string" where
  "print_accuracy value v = ''Accuracy('' @ value v @ '')''"

definition print_update :: "('a \<Rightarrow> string) \<Rightarrow> 'a update \<Rightarrow> string" where
  "print_update value u = ''Update('' @ value (update_value u) @ '', '' @ signed_decimal (update_when u) @ '')''"

definition print_optional :: "('a \<Rightarrow> string) \<Rightarrow> 'a option \<Rightarrow> string" where
  "print_optional value x = (case x of None \<Rightarrow> ''n/a'' | Some v \<Rightarrow> value v)"

definition print_position :: "(double \<Rightarrow> string) \<Rightarrow> (double \<Rightarrow> string) \<Rightarrow> position \<Rightarrow> string" where
  "print_position degrees metres p = ''Position('' @
     ''lat: '' @ print_coordinate degrees (latitude p) @ '', '' @
     ''lon: '' @ print_coordinate degrees (longitude p) @ '', '' @
     ''alt: '' @ print_optional (print_coordinate metres) (altitude p) @ '', '' @
     ''hor.acc.: '' @ print_optional metres (horizontal p) @ '', '' @
     ''ver.acc.: '' @ print_optional metres (vertical p) @ '')''"

definition sv_type_lut :: "(sv_type \<times> string) list" where
  "sv_type_lut =
     [(sv_unknown, ''unknown''), (sv_beidou, ''beidou''), (sv_galileo, ''galileo''), (sv_glonass, ''glonass''),
      (sv_gps, ''gps''), (sv_compass, ''compass''), (sv_irnss, ''irnss''), (sv_qzss, ''qzss'')]"

definition print_space_vehicle :: "(double \<Rightarrow> string) \<Rightarrow> (double \<Rightarrow> string) \<Rightarrow> space_vehicle \<Rightarrow> string result" where
  "print_space_vehicle num degrees sv =
     (case map_of sv_type_lut (key_type (sv_key sv)) of
        None \<Rightarrow> Inl (out_of_range ''map::at'')
      | Some name \<Rightarrow> Inr (''('' @ ''type: '' @ name @ '', '' @
          ''prn: '' @ decimal (unat (key_id (sv_key sv))) @ '', '' @ ''snr: '' @ num (snr sv) @ '', '' @
          ''has_almanac_data: '' @ print_flag (has_almanac_data sv) @ '', '' @
          ''has_ephimeris_data: '' @ print_flag (has_ephimeris_data sv) @ '', '' @
          ''used_in_fix: '' @ print_flag (used_in_fix sv) @ '', '' @
          ''azimuth: '' @ degrees (azimuth sv) @ '', '' @ ''elevation: '' @ degrees (elevation sv) @ '')''))"

section \<open>Reading the fields back\<close>

locale delimited =
  fixes field :: "'a \<Rightarrow> string" and stop :: char
  assumes no_stop: "stop \<notin> set (field x)"
    and field_inj: "field x = field y \<longleftrightarrow> x = y"
begin

lemma field_eq: "field x @ stop # r = field y @ stop # s \<longleftrightarrow> x = y \<and> r = s"
proof -
  have "takeWhile (\<lambda>c. c \<noteq> stop) (field z @ stop # t) = field z" for z t
    using no_stop [of z] by (subst takeWhile_append2) auto
  then show ?thesis using field_inj by (metis append_eq_append_conv list.inject)
qed

end

lemma decimal_digits: "c \<in> set (decimal n) \<Longrightarrow> \<exists>d<10. c = digit d"
proof (induction n rule: decimal.induct)
  case (1 n)
  then show ?case
    by (cases "n < 10") (auto simp: decimal.simps [of n] intro: exI [of _ "n mod 10"])
qed

lemma digit_code: "d < 10 \<Longrightarrow> of_char (digit d) = 48 + d"
  by (simp add: of_char_digit)

lemma decimal_not: "of_char c < (48::nat) \<Longrightarrow> c \<notin> set (decimal n)"
  using decimal_digits [of c n] digit_code by fastforce

lemma decimal_nonempty: "decimal n \<noteq> []"
  by (subst decimal.simps) simp

lemma signed_decimal_not: "of_char c < (48::nat) \<Longrightarrow> c \<noteq> CHR ''-'' \<Longrightarrow> c \<notin> set (signed_decimal n)"
  by (simp add: signed_decimal_def decimal_not)

lemma of_char_hyphen: "of_char (CHR ''-'') < (48::nat)"
  by simp

lemma signed_decimal_inj: "signed_decimal m = signed_decimal n \<longleftrightarrow> m = n"
proof -
  have "CHR ''-'' # s \<noteq> decimal k" for s k
    using decimal_not [of "CHR ''-''" k] by (metis list.set_intros(1) of_char_hyphen)
    then show ?thesis by (auto simp: signed_decimal_def decimal_inj dest: sym)
qed

lemma print_bounded_not: "of_char c < (48::nat) \<Longrightarrow> c \<notin> set ''- > invalid'' \<Longrightarrow> c \<notin> set (print_bounded b v)"
  by (auto simp: print_bounded_def signed_decimal_not)

lemma print_bounded_inj: "print_bounded b v = print_bounded b w \<longleftrightarrow> v = w"
proof (cases "bi_is_valid b v = bi_is_valid b w")
  case True
  then show ?thesis by (simp add: print_bounded_def signed_decimal_inj)
next
  case False
  have n: "CHR '' '' \<notin> set (signed_decimal k)" for k by (simp add: signed_decimal_not)
  have "signed_decimal k \<noteq> signed_decimal j @ '' -> invalid''" for k j
    using n [of k] by (auto dest!: arg_cong [where f = set])
  with False show ?thesis by (auto simp: print_bounded_def dest: sym)
qed

text \<open>The fields of a record but the last end before a comma.\<close>

interpretation bounded_comma: delimited "print_bounded b" "CHR '',''" for b
  by unfold_locales (simp_all add: print_bounded_not print_bounded_inj)

interpretation int_comma: delimited signed_decimal "CHR '',''"
  by unfold_locales (simp_all add: signed_decimal_not signed_decimal_inj)

interpretation decimal_comma: delimited decimal "CHR '',''"
  by unfold_locales (simp_all add: decimal_not decimal_inj)

lemma print_mode_inj: "print_mode m = print_mode n \<longleftrightarrow> m = n"
  by (cases m; cases n) simp_all

interpretation mode_comma: delimited print_mode "CHR '',''"
proof
  show "CHR '','' \<notin> set (print_mode m)" for m by (cases m) simp_all
qed (rule print_mode_inj)

lemma print_flag_inj: "print_flag a = print_flag b \<longleftrightarrow> a = b"
  by (simp add: print_flag_def)

interpretation flag_comma: delimited print_flag "CHR '',''"
  by unfold_locales (simp_all add: print_flag_def)

lemmas field_eqs = bounded_comma.field_eq int_comma.field_eq decimal_comma.field_eq mode_comma.field_eq
  flag_comma.field_eq print_bounded_inj signed_decimal_inj

section \<open>A cell is known by its text\<close>

lemma print_gsm_eq: "print_gsm g = print_gsm h \<longleftrightarrow> gsm_eq g h"
  by (simp add: print_gsm_def gsm_eq_def field_eqs)

lemma print_umts_eq: "print_umts g = print_umts h \<longleftrightarrow> umts_eq g h"
  by (simp add: print_umts_def umts_eq_def field_eqs)

lemma print_lte_eq: "print_lte g = print_lte h \<longleftrightarrow> lte_eq g h"
  by (simp add: print_lte_def lte_eq_def field_eqs)

lemmas cell_accessors = cell_gsm_def cell_umts_def cell_lte_def

text \<open>
  C36. Writing a cell never throws, and two cells have the same text exactly when \<open>operator==\<close> finds them equal: the technology
  and every field that it compares can be read back from the text, also where a value is out of its range and marked as
  invalid. Only cells of an unknown technology have no text.
\<close>

theorem cell_text_equality:
  "(\<exists>t. print_cell c = Inr t \<and> (t = [] \<longleftrightarrow> radio_type c = type_unknown)) \<and>
   (print_cell c = print_cell d \<longleftrightarrow> cell_eq c d = Inr True)"
  by (cases "radio_type c"; cases "radio_type d")
    (auto simp: print_cell_def cell_eq_def cell_accessors result_bind_def print_gsm_eq print_umts_eq print_lte_eq)

section \<open>Characteristics are sets\<close>

definition characteristic_names :: "(32 word \<times> string) list" where
  "characteristic_names =
     [(connection_goes_via_wifi, ''connection_goes_via_wifi''), (connection_goes_via_wwan, ''connection_goes_via_wwan''),
      (connection_is_roaming, ''connection_is_roaming''), (connection_has_monetary_costs, ''connection_has_monetary_costs''),
      (connection_is_bandwith_limited, ''connection_is_bandwidth_limited''),
      (connection_is_volume_limited, ''connection_is_volume_limited'')]"

fun comma_list :: "string list \<Rightarrow> string" where
  "comma_list [] = []"
| "comma_list [n] = n"
| "comma_list (n # ns) = n @ '', '' @ comma_list ns"

definition names_of :: "32 word \<Rightarrow> string list" where
  "names_of c = map snd (filter (\<lambda>(f, n). and c f \<noteq> 0) characteristic_names)"

lemmas flag_values = connection_goes_via_wifi_def connection_goes_via_wwan_def connection_is_roaming_def
  connection_has_monetary_costs_def connection_is_bandwith_limited_def connection_is_volume_limited_def

lemma print_characteristics_names: "print_characteristics c = ''['' @ comma_list (names_of c) @ '']''"
  by (simp add: print_characteristics_def put_characteristic_def names_of_def characteristic_names_def
      characteristics_and_def no_characteristics_def)

definition plain_name :: "string \<Rightarrow> bool" where
  "plain_name n \<longleftrightarrow> n \<noteq> [] \<and> CHR '','' \<notin> set n"

lemma comma_list_Cons: "ns \<noteq> [] \<Longrightarrow> comma_list (n # ns) = n @ CHR '','' # CHR '' '' # comma_list ns"
  by (cases ns) simp_all

lemma comma_list_nonempty: "list_all plain_name ns \<Longrightarrow> comma_list ns = [] \<longleftrightarrow> ns = []"
  by (cases ns rule: comma_list.cases) (auto simp: plain_name_def)

lemma plain_split:
  assumes "CHR '','' \<notin> set m" "CHR '','' \<notin> set n"
  shows "m @ CHR '','' # r = n @ CHR '','' # s \<longleftrightarrow> m = n \<and> r = s" "m \<noteq> n @ CHR '','' # s"
proof -
  have "takeWhile (\<lambda>c. c \<noteq> CHR '','') (k @ CHR '','' # t) = k" if "CHR '','' \<notin> set k" for k t
    using that by (subst takeWhile_append2) auto
  then show "m @ CHR '','' # r = n @ CHR '','' # s \<longleftrightarrow> m = n \<and> r = s"
    using assms by (metis append_eq_append_conv list.inject)
qed (use assms in auto)

lemma comma_list_inj:
  "list_all plain_name ms \<Longrightarrow> list_all plain_name ns \<Longrightarrow> comma_list ms = comma_list ns \<longleftrightarrow> ms = ns"
proof (induction ms arbitrary: ns)
  case Nil
  then show ?case by (metis comma_list.simps(1) comma_list_nonempty)
next
  case (Cons m ms)
  show ?case
  proof (cases ns)
    case Nil
    then show ?thesis using Cons.prems by (metis comma_list.simps(1) comma_list_nonempty)
  next
    case (Cons n ns')
    with Cons.prems have p: "CHR '','' \<notin> set m" "CHR '','' \<notin> set n" by (simp_all add: plain_name_def)
    note split = plain_split [OF p] plain_split(2) [OF p(2,1)]
    show ?thesis
      using Cons.IH [of ns'] Cons.prems \<open>ns = n # ns'\<close> split
      by (cases "ms = []"; cases "ns' = []") (auto simp: comma_list_Cons)
  qed
qed

lemma names_plain: "list_all plain_name (names_of c)"
  by (simp add: names_of_def characteristic_names_def plain_name_def)

lemma flag_bit: "and c (2 ^ n) \<noteq> 0 \<longleftrightarrow> bit c n" for c :: "32 word"
  by (simp add: and_exp_eq_0_iff_not_bit)

text \<open>The flags by their bits.\<close>

definition bit_names :: "(nat \<times> string) list" where
  "bit_names =
     [(0, ''connection_goes_via_wifi''), (1, ''connection_goes_via_wwan''), (2, ''connection_is_roaming''),
      (3, ''connection_has_monetary_costs''), (5, ''connection_is_bandwidth_limited''), (4, ''connection_is_volume_limited'')]"

lemma characteristic_bits: "characteristic_names = map (\<lambda>(i, n). (2 ^ i, n)) bit_names"
  by (simp add: characteristic_names_def bit_names_def flag_values)

lemma names_by_bit: "names_of c = map snd (filter (\<lambda>(i, n). bit c i) bit_names)"
  unfolding names_of_def characteristic_bits
  by (simp add: filter_map comp_def case_prod_unfold flag_bit)

lemma bit_names_inj: "inj_on snd (set bit_names)"
  by (simp add: bit_names_def)

lemma set_names: "set (names_of c) = snd ` {x \<in> set bit_names. bit c (fst x)}"
  by (simp add: names_by_bit case_prod_unfold)

lemma names_eq_bits: "names_of c = names_of d \<longleftrightarrow> (\<forall>x\<in>set bit_names. bit c (fst x) = bit d (fst x))"
proof
  assume "names_of c = names_of d"
  then have "snd ` {x \<in> set bit_names. bit c (fst x)} = snd ` {x \<in> set bit_names. bit d (fst x)}"
    by (metis set_names)
  then have "{x \<in> set bit_names. bit c (fst x)} = {x \<in> set bit_names. bit d (fst x)}"
    by (simp add: inj_on_image_eq_iff [OF bit_names_inj])
  then show "\<forall>x\<in>set bit_names. bit c (fst x) = bit d (fst x)" by blast
next
  assume "\<forall>x\<in>set bit_names. bit c (fst x) = bit d (fst x)"
  then show "names_of c = names_of d"
    unfolding names_by_bit by (intro arg_cong [where f = "map snd"] filter_cong) auto
qed

lemma bit_indices: "fst ` set bit_names = {..<6}"
  by (simp add: bit_names_def numeral_eq_Suc lessThan_Suc insert_commute)

lemma names_eq_take_bit: "names_of c = names_of d \<longleftrightarrow> take_bit 6 c = take_bit 6 d"
proof -
  have "names_of c = names_of d \<longleftrightarrow> (\<forall>i\<in>fst ` set bit_names. bit c i = bit d i)"
    by (simp add: names_eq_bits)
  also have "\<dots> \<longleftrightarrow> (\<forall>i. bit (take_bit 6 c) i = bit (take_bit 6 d) i)"
    unfolding bit_indices by (auto simp: bit_take_bit_iff)
  also have "\<dots> \<longleftrightarrow> take_bit 6 c = take_bit 6 d"
    by (metis bit_eqI)
  finally show ?thesis .
qed

text \<open>
  The text of the characteristics lists the flags that are set, in a fixed order and separated by commas; two values have the
  same text exactly when they agree in the six flags. The operators are the union and the intersection of these sets.
\<close>

theorem characteristics_text:
  "print_characteristics c = ''['' @ comma_list (names_of c) @ '']'' \<and>
   (print_characteristics c = print_characteristics d \<longleftrightarrow> take_bit 6 c = take_bit 6 d) \<and>
   set (names_of (characteristics_or c d)) = set (names_of c) \<union> set (names_of d) \<and>
   set (names_of (characteristics_and c d)) = set (names_of c) \<inter> set (names_of d)"
proof -
  have "print_characteristics c = print_characteristics d \<longleftrightarrow> take_bit 6 c = take_bit 6 d"
    by (simp add: print_characteristics_names comma_list_inj [OF names_plain names_plain] names_eq_take_bit)
  moreover have "set (names_of (characteristics_or c d)) = set (names_of c) \<union> set (names_of d)"
    by (auto simp: set_names characteristics_or_def bit_or_iff)
  moreover have "set (names_of (characteristics_and c d)) = set (names_of c) \<inter> set (names_of d)"
    using bit_names_inj by (auto simp: set_names characteristics_and_def bit_and_iff inj_on_def)
  ultimately show ?thesis by (simp add: print_characteristics_names)
qed

text \<open>Each of the eight states has a text of its own, and only a value that is none of them has the empty one.\<close>

lemma connection_state_text:
  "(print_connection_state s = [] \<longleftrightarrow> s \<notin> {0, 10, 20, 30, 40, 50, 60, 70}) \<and>
   (print_connection_state s = print_connection_state t \<longleftrightarrow>
     s = t \<or> s \<notin> {0, 10, 20, 30, 40, 50, 60, 70} \<and> t \<notin> {0, 10, 20, 30, 40, 50, 60, 70})"
  by (simp add: print_connection_state_def state_values)

section \<open>Networks and space vehicles\<close>

text \<open>
  A network is known by its text as long as its names contain no comma: nothing in an SSID is escaped.
\<close>

lemma network_text:
  assumes "CHR '','' \<notin> set (bssid m)" "CHR '','' \<notin> set (bssid n)" "CHR '','' \<notin> set (ssid m)" "CHR '','' \<notin> set (ssid n)"
  shows "print_network m = print_network n \<longleftrightarrow> m\<lparr>ap_path := ap_path n\<rparr> = n"
  using plain_split(1) [OF assms(1,2)] plain_split(1) [OF assms(3,4)]
  by (cases m; cases n) (auto simp: print_network_def field_eqs)

lemma network_text_forged:
  "\<exists>m n. print_network m = print_network n \<and> bssid m \<noteq> bssid n"
proof -
  define m where "m = (\<lambda>b s. \<lparr>bssid = b, ssid = s, frequency = 2412, ap_path = [], last_seen = 0,
    wifi_mode = mode_adhoc, signal_strength = 0\<rparr>)"
  have "print_network (m ''x'' ''y, ssid: z'') = print_network (m ''x, ssid: y'' ''z'')"
    "bssid (m ''x'' ''y, ssid: z'') \<noteq> bssid (m ''x, ssid: y'' ''z'')"
    by (simp_all add: m_def print_network_def)
  then show ?thesis by blast
qed

lemmas sv_types = sv_unknown_def sv_beidou_def sv_galileo_def sv_glonass_def sv_gps_def sv_compass_def sv_irnss_def sv_qzss_def

lemma sv_lut_domain: "map_of sv_type_lut t = None \<longleftrightarrow> \<not> t \<le> 7" for t :: sv_type
proof -
  have "fst ` set sv_type_lut = {0, 1, 2, 3, 4, 5, 6, 7}"
    by (simp add: sv_type_lut_def sv_types insert_commute)
  moreover have "t \<le> 7 \<longleftrightarrow> t \<in> {0, 1, 2, 3, 4, 5, 6, 7}"
  proof
    assume "t \<le> 7"
    then have "unat t < 8" by (simp add: word_le_nat_alt)
    then have "unat t \<in> {0, 1, 2, 3, 4, 5, 6, 7}" by auto
    then show "t \<in> {0, 1, 2, 3, 4, 5, 6, 7}" by (simp add: word_unat_eq_iff)
  qed auto
  ultimately show ?thesis by (simp add: map_of_eq_None_iff)
qed

text \<open>
  A vehicle whose type is none of the enumerators, as it can be read from a message, cannot be written: the lookup throws. A text
  that is written names the key of the vehicle.
\<close>

theorem vehicle_text:
  "(print_space_vehicle num degrees sv = Inl (out_of_range ''map::at'') \<longleftrightarrow> \<not> key_type (sv_key sv) \<le> 7) \<and>
   (print_space_vehicle num degrees sv = Inr t \<and> print_space_vehicle num' degrees' sv' = Inr t \<longrightarrow> sv_key sv = sv_key sv')"
proof -
  have plain: "CHR '','' \<notin> set n" if "map_of sv_type_lut k = Some n" for k n
    using that by (auto simp: sv_type_lut_def split: if_splits)
  have inj: "k = l" if "map_of sv_type_lut k = Some n" "map_of sv_type_lut l = Some n" for k l n
    using that by (auto simp: sv_type_lut_def split: if_splits)
  have "sv_key sv = sv_key sv'"
    if t: "print_space_vehicle num degrees sv = Inr t" "print_space_vehicle num' degrees' sv' = Inr t"
  proof -
    from t obtain m n where mn: "map_of sv_type_lut (key_type (sv_key sv)) = Some m" "map_of sv_type_lut (key_type (sv_key sv')) = Some n"
      by (auto simp: print_space_vehicle_def split: option.splits)
    have "print_space_vehicle num degrees sv = print_space_vehicle num' degrees' sv'" using t by simp
    with mn have "m = n \<and> decimal (unat (key_id (sv_key sv))) = decimal (unat (key_id (sv_key sv')))"
      using plain_split(1) [OF plain plain, OF mn]
      by (simp add: print_space_vehicle_def field_eqs decimal_inj)
    moreover from this have "key_type (sv_key sv) = key_type (sv_key sv')" using inj mn by blast
    ultimately show ?thesis by (cases "sv_key sv"; cases "sv_key sv'") (simp add: decimal_inj word_unat_eq_iff)
  qed
  then show ?thesis
    using sv_lut_domain [of "key_type (sv_key sv)"] by (auto simp: print_space_vehicle_def split: option.splits)
qed

end
