(* ===== verification/Runtime_Tests.thy ===== *)
theory Runtime_Tests
  imports Gps_Hal
begin

text \<open>
  The runtime tests of the command-line client (\<open>service/runtime_tests.cpp\<close>): the daemon is stopped, the GPS hardware is cold started
  three times and the mean and variance of the time to the first fix are printed.

  The calls that leave the test are a list of \<open>test_call\<close>. How a wait ends is a parameter: the microseconds between the two readings of
  the clock, or None when it timed out. The wait itself, a condition variable the thread of the driver notifies, is a
  step relation. The accumulators of Boost compute the mean and the variance of the population; their doubles are reals here.
\<close>

section \<open>The trials\<close>

datatype test_call =
    Service_stop
  | Service_start
  | Set_standalone
  | Connect_updates
  | Delete_all_aiding
  | Start_positioning
  | Stop_positioning

definition trials :: nat where "trials = 3"

definition wait_timed_out :: exn where "wait_timed_out = runtime_error ''Wait for fix timed out.''"

text \<open>The loop, over the indices that are left; the second component are the samples.\<close>

fun snr_trials :: "(nat \<Rightarrow> int option) \<Rightarrow> nat list \<Rightarrow> test_call list \<times> int list result" where
  "snr_trials wait [] = ([], Inr [])"
| "snr_trials wait (i # is) =
     (case wait i of
        None \<Rightarrow> ([Delete_all_aiding, Start_positioning], Inl wait_timed_out)
      | Some t \<Rightarrow>
          (case snr_trials wait is of
             (cs, r) \<Rightarrow> ([Delete_all_aiding, Start_positioning, Stop_positioning] @ cs, map_sum id ((#) t) r)))"

section \<open>Statistics\<close>

definition mean :: "int list \<Rightarrow> real" where
  "mean ts = (\<Sum>t\<leftarrow>ts. real_of_int t) / real (length ts)"

definition variance :: "int list \<Rightarrow> real" where
  "variance ts = (\<Sum>t\<leftarrow>ts. (real_of_int t)\<^sup>2) / real (length ts) - (mean ts)\<^sup>2"

text \<open>The cast to \<open>std::uint64_t\<close>, and what is printed of it; a value that does not fit has no result.\<close>

definition as_milliseconds :: "real \<Rightarrow> int option" where
  "as_milliseconds x = (if - 1 < x \<and> x < 2 ^ 63 then Some (\<lfloor>max 0 x\<rfloor> div 1000) else None)"

definition snr_and_ttff :: "bool \<Rightarrow> unit result \<Rightarrow> (nat \<Rightarrow> int option) \<Rightarrow> test_call list \<times> (int option \<times> int option) option result" where
  "snr_and_ttff gps_built hal wait =
     (if \<not> gps_built then ([], Inr None)
      else case hal of
        Inl e \<Rightarrow> ([], Inl e)
      | Inr _ \<Rightarrow>
          (case snr_trials wait [0..<trials] of
             (cs, r) \<Rightarrow> ([Set_standalone, Connect_updates] @ cs,
               map_sum id (\<lambda>ts. Some (as_milliseconds (mean ts), as_milliseconds (variance ts))) r)))"

text \<open>The fixture stops the service before the test and starts it when the stack is unwound.\<close>

definition execute_runtime_tests :: "nat \<Rightarrow> bool \<Rightarrow> unit result \<Rightarrow> (nat \<Rightarrow> int option) \<Rightarrow> test_call list \<times> int result" where
  "execute_runtime_tests uid gps_built hal wait =
     (if uid \<noteq> 0 then ([], Inl (logic_error ''This test has to be run as root.''))
      else case snr_and_ttff gps_built hal wait of
        (cs, r) \<Rightarrow> ([Service_stop] @ cs @ [Service_start], map_sum id (\<lambda>_. 0) r))"

section \<open>What a run leaves behind\<close>

lemma snr_trials_calls:
  "set (fst (snr_trials wait is)) \<subseteq> {Delete_all_aiding, Start_positioning, Stop_positioning} \<and>
   count_list (fst (snr_trials wait is)) Start_positioning =
     count_list (fst (snr_trials wait is)) Stop_positioning + (case snd (snr_trials wait is) of Inl e \<Rightarrow> 1 | Inr ts \<Rightarrow> 0)"
  by (induction "is") (auto split: option.splits prod.splits sum.splits)

lemma snr_trials_result:
  "snd (snr_trials wait is) = (if \<forall>i \<in> set is. wait i \<noteq> None then Inr (map (\<lambda>i. the (wait i)) is) else Inl wait_timed_out)"
  by (induction "is") (auto split: option.splits prod.splits)

lemma execute_runtime_tests_cases:
  obtains (unprivileged) "uid \<noteq> 0" "execute_runtime_tests uid gps_built hal wait = ([], Inl (logic_error ''This test has to be run as root.''))"
  | (no_gps) "uid = 0" "\<not> gps_built" "execute_runtime_tests uid gps_built hal wait = ([Service_stop, Service_start], Inr 0)"
  | (no_hal) e where "uid = 0" "gps_built" "hal = Inl e" "execute_runtime_tests uid gps_built hal wait = ([Service_stop, Service_start], Inl e)"
  | (trials) "uid = 0" "gps_built" "hal = Inr ()"
      "execute_runtime_tests uid gps_built hal wait =
        ([Service_stop, Set_standalone, Connect_updates] @ fst (snr_trials wait [0..<trials]) @ [Service_start],
         if \<forall>i < trials. wait i \<noteq> None then Inr 0 else Inl wait_timed_out)"
proof -
  obtain cs r where s: "snr_trials wait [0..<trials] = (cs, r)" by force
  have r: "r = (if \<forall>i < trials. wait i \<noteq> None then Inr (map (\<lambda>i. the (wait i)) [0..<trials]) else Inl wait_timed_out)"
    using snr_trials_result [of wait "[0..<trials]"] by (simp add: s)
  show thesis
  proof (cases "uid = 0 \<and> gps_built")
    case True
    with s r show ?thesis
      by (cases hal) (auto intro: no_hal trials simp: execute_runtime_tests_def snr_and_ttff_def)
  next
    case False
    then show ?thesis
      by (cases "uid = 0") (auto intro: unprivileged no_gps simp: execute_runtime_tests_def snr_and_ttff_def)
  qed
qed

lemma execute_runtime_tests_result:
  "(snd (execute_runtime_tests uid gps_built hal wait) = Inr 0 \<longleftrightarrow>
     uid = 0 \<and> (gps_built \<longrightarrow> hal = Inr () \<and> (\<forall>i < trials. wait i \<noteq> None))) \<and>
   (snd (execute_runtime_tests uid gps_built hal wait) = Inr 0 \<or> (\<exists>e. snd (execute_runtime_tests uid gps_built hal wait) = Inl e))"
  by (rule execute_runtime_tests_cases [of uid gps_built hal wait]) auto

text \<open>
  C29. The service is running again when the tests end, however they end: only a run as root stops it, first, and starts it last. The
  test succeeds exactly when the hardware exists and all trials see a fix; positioning is switched off again unless a trial times out.
\<close>

theorem runtime_tests_restore_service:
  "case execute_runtime_tests uid gps_built hal wait of (cs, r) \<Rightarrow>
     (if uid = 0 then \<exists>ds. cs = [Service_stop] @ ds @ [Service_start] \<and> Service_stop \<notin> set ds \<and> Service_start \<notin> set ds else cs = []) \<and>
     (r = Inr 0 \<longleftrightarrow> uid = 0 \<and> (gps_built \<longrightarrow> hal = Inr () \<and> (\<forall>i < trials. wait i \<noteq> None))) \<and>
     count_list cs Start_positioning =
       count_list cs Stop_positioning + (if uid = 0 \<and> gps_built \<and> hal = Inr () \<and> (\<exists>i < trials. wait i = None) then 1 else 0)"
proof -
  let ?cs = "fst (snr_trials wait [0..<trials])"
  have c: "Service_stop \<notin> set ?cs" "Service_start \<notin> set ?cs"
    "count_list ?cs Start_positioning = count_list ?cs Stop_positioning + (if \<exists>i < trials. wait i = None then 1 else 0)"
    using snr_trials_calls [of wait "[0..<trials]"] snr_trials_result [of wait "[0..<trials]"] by (auto split: if_splits)
  show ?thesis
    by (rule execute_runtime_tests_cases [of uid gps_built hal wait]) (auto simp: c)
qed

theorem runtime_tests_restore_service_witness:
  "case execute_runtime_tests 0 True (Inr ()) (\<lambda>i. if i = 1 then None else Some 5000) of (cs, r) \<Rightarrow>
     r \<noteq> Inr 0 \<and> count_list cs Start_positioning = Suc (count_list cs Stop_positioning)"
proof -
  let ?wait = "\<lambda>i::nat. if i = 1 then None else Some (5000 :: int)"
  have "\<not> (\<forall>i < trials. ?wait i \<noteq> None)" by (auto simp: trials_def intro!: exI [of _ 1])
  with runtime_tests_restore_service [of 0 True "Inr ()" ?wait] show ?thesis by (auto split: prod.splits)
qed

section \<open>The statistics\<close>

lemma variance_scaled: "variance (map ((*) k) ts) = (real_of_int k)\<^sup>2 * variance ts"
  by (simp add: variance_def mean_def o_def power_mult_distrib sum_list_const_mult right_diff_distrib power_divide)

lemma variance_eq: "ts \<noteq> [] \<Longrightarrow> variance ts = (\<Sum>t\<leftarrow>ts. (real_of_int t - mean ts)\<^sup>2) / real (length ts)"
proof -
  assume "ts \<noteq> []"
  then have n: "real (length ts) \<noteq> 0" by simp
  have "(\<Sum>t\<leftarrow>ts. (real_of_int t - m)\<^sup>2) = (\<Sum>t\<leftarrow>ts. (real_of_int t)\<^sup>2) - 2 * m * (\<Sum>t\<leftarrow>ts. real_of_int t) + real (length ts) * m\<^sup>2" for m
    by (induction ts) (simp_all add: power2_eq_square algebra_simps)
  moreover have s: "(\<Sum>t\<leftarrow>ts. real_of_int t) = real (length ts) * mean ts" using n by (simp add: mean_def)
  ultimately have "(\<Sum>t\<leftarrow>ts. (real_of_int t - mean ts)\<^sup>2) = (\<Sum>t\<leftarrow>ts. (real_of_int t)\<^sup>2) - real (length ts) * (mean ts)\<^sup>2"
    by (simp add: power2_eq_square)
  then show ?thesis using n by (simp add: variance_def diff_divide_distrib)
qed

lemma mean_bounds:
  assumes "ts \<noteq> []" "\<And>t. t \<in> set ts \<Longrightarrow> a \<le> t \<and> t \<le> b"
  shows "real_of_int a \<le> mean ts" "mean ts \<le> real_of_int b"
proof -
  have "real (length ts) * a \<le> (\<Sum>t\<leftarrow>ts. real_of_int t) \<and> (\<Sum>t\<leftarrow>ts. real_of_int t) \<le> real (length ts) * b"
    using assms(2) by (induction ts) (fastforce simp: algebra_simps)+
  with assms(1) show "real_of_int a \<le> mean ts" "mean ts \<le> real_of_int b"
    by (simp_all add: mean_def field_simps)
qed

text \<open>
  The mean that is printed is the mean in milliseconds, rounded down. The variance is in square microseconds, so what is printed of
  it as milliseconds is the variance in square milliseconds a thousand times too large.
\<close>

theorem runtime_tests_statistics:
  assumes "ts \<noteq> []" "\<And>t. t \<in> set ts \<Longrightarrow> 0 \<le> t \<and> t < 2 ^ 31"
  shows "as_milliseconds (mean (map ((*) 1000) ts)) = Some \<lfloor>mean ts\<rfloor> \<and>
    as_milliseconds (variance (map ((*) 1000) ts)) = (if variance ts < 2 ^ 63 / 1000000 then Some (\<lfloor>1000000 * variance ts\<rfloor> div 1000) else None)"
proof -
  have m: "mean (map ((*) 1000) ts) = 1000 * mean ts"
    by (simp add: mean_def o_def sum_list_const_mult)
  have b: "0 \<le> mean ts" "mean ts \<le> 2 ^ 31"
    using mean_bounds [OF assms(1), of 0 "2 ^ 31"] assms(2) by (auto intro: less_imp_le)
  have v: "variance (map ((*) 1000) ts) = 1000000 * variance ts" by (simp add: variance_scaled)
  have nn: "0 \<le> variance ts"
    unfolding variance_eq [OF assms(1)] by (intro divide_nonneg_nonneg sum_list_nonneg) auto
  have "\<lfloor>1000 * mean ts\<rfloor> div 1000 = \<lfloor>mean ts\<rfloor>"
    using floor_divide_real_eq_div [of 1000 "1000 * mean ts"] by simp
  then have "as_milliseconds (mean (map ((*) 1000) ts)) = Some \<lfloor>mean ts\<rfloor>"
    using b by (simp add: m as_milliseconds_def)
  moreover have "as_milliseconds (variance (map ((*) 1000) ts)) = (if variance ts < 2 ^ 63 / 1000000 then Some (\<lfloor>1000000 * variance ts\<rfloor> div 1000) else None)"
    unfolding v as_milliseconds_def using nn by (auto simp: max_def)
  ultimately show ?thesis ..
qed

theorem runtime_tests_statistics_witness:
  "as_milliseconds (variance [1000, 3000]) = Some 1000 \<and> variance [1, 3] = 1"
proof -
  have v: "variance [1, 3] = 1" by (simp add: variance_def mean_def)
  have "as_milliseconds (variance (map ((*) 1000) [1, 3])) = Some (\<lfloor>1000000 * variance [1, 3]\<rfloor> div 1000)"
    by (subst runtime_tests_statistics [of "[1, 3]", THEN conjunct2]) (auto simp: v)
  with v show ?thesis by simp
qed

section \<open>The wait for a fix\<close>

text \<open>
  \<open>wait_for\<close> evaluates its predicate under the mutex, blocks, and evaluates it again when it is woken, when it wakes up by itself and
  when the time is over. \<open>on_position_updated\<close> runs on a thread of the driver: it sets the flag without the mutex, then notifies.
\<close>

datatype waiter = Evaluates | About_to_block | Blocked | Time_over | Waited bool

datatype updater = No_update | Flag_set

record fix_wait =
  fix_received :: bool
  waiter :: waiter
  updater :: updater

definition wait_new :: fix_wait where
  "wait_new = \<lparr>fix_received = False, waiter = Evaluates, updater = No_update\<rparr>"

definition evaluate :: "fix_wait \<Rightarrow> fix_wait" where
  "evaluate w = w\<lparr>waiter := (if fix_received w then Waited True else About_to_block)\<rparr>"

definition on_position_updated :: "fix_wait \<Rightarrow> fix_wait" where
  "on_position_updated w = w\<lparr>fix_received := True, updater := Flag_set\<rparr>"

definition notify_all :: "fix_wait \<Rightarrow> fix_wait" where
  "notify_all w = w\<lparr>waiter := (if waiter w = Blocked then Evaluates else waiter w), updater := No_update\<rparr>"

inductive wait_step :: "fix_wait \<Rightarrow> fix_wait \<Rightarrow> bool" where
  evaluates: "waiter w = Evaluates \<Longrightarrow> wait_step w (evaluate w)"
| blocks: "waiter w = About_to_block \<Longrightarrow> wait_step w (w\<lparr>waiter := Blocked\<rparr>)"
| spurious: "waiter w = Blocked \<Longrightarrow> wait_step w (w\<lparr>waiter := Evaluates\<rparr>)"
| time_over: "waiter w = Blocked \<Longrightarrow> wait_step w (w\<lparr>waiter := Time_over\<rparr>)"
| last_look: "waiter w = Time_over \<Longrightarrow> wait_step w (w\<lparr>waiter := Waited (fix_received w)\<rparr>)"
| updated: "updater w = No_update \<Longrightarrow> wait_step w (on_position_updated w)"
| notifies: "updater w = Flag_set \<Longrightarrow> wait_step w (notify_all w)"

inductive wait_reachable :: "fix_wait \<Rightarrow> bool" where
  start: "wait_reachable wait_new"
| step: "wait_reachable w \<Longrightarrow> wait_step w w' \<Longrightarrow> wait_reachable w'"

inductive_cases wait_stepE: "wait_step w w'"

lemma wait_inv: "wait_reachable w \<Longrightarrow> (waiter w = Waited True \<longrightarrow> fix_received w) \<and> (updater w = Flag_set \<longrightarrow> fix_received w)"
proof (induction rule: wait_reachable.induct)
  case (step w w')
  from step.hyps(2) step.IH show ?case
    by (elim wait_stepE) (auto simp: evaluate_def on_position_updated_def notify_all_def split: if_splits)
qed (simp add: wait_new_def)

lemma wait_path: "wait_reachable w \<Longrightarrow> wait_step w w1 \<Longrightarrow> wait_step w1 w2 \<Longrightarrow> wait_reachable w2"
  by (blast intro: wait_reachable.step)

text \<open>
  The wait only succeeds when a fix was received. It can sleep through one: the flag is set and its notification gone between the
  evaluation of the predicate and the block, after which only another position, a spurious wakeup or the end of the fifteen minutes continues the
  trial. A fix is then counted as received that late.
\<close>

theorem fix_is_slept_through:
  "(wait_reachable w \<longrightarrow> waiter w = Waited True \<longrightarrow> fix_received w) \<and>
   wait_reachable \<lparr>fix_received = True, waiter = Blocked, updater = No_update\<rparr> \<and>
   wait_reachable \<lparr>fix_received = True, waiter = Waited True, updater = No_update\<rparr> \<and>
   (wait_step \<lparr>fix_received = True, waiter = Blocked, updater = No_update\<rparr> w' \<longrightarrow>
      w' \<in> {\<lparr>fix_received = True, waiter = Evaluates, updater = No_update\<rparr>, \<lparr>fix_received = True, waiter = Time_over, updater = No_update\<rparr>,
        \<lparr>fix_received = True, waiter = Blocked, updater = Flag_set\<rparr>})"
proof -
  let ?w = "\<lambda>f p u. \<lparr>fix_received = f, waiter = p, updater = u\<rparr>"
  have "wait_step wait_new (?w False About_to_block No_update)"
    using wait_step.evaluates [of wait_new] by (simp add: wait_new_def evaluate_def)
  then have 1: "wait_reachable (?w False About_to_block No_update)" by (rule wait_reachable.step [OF wait_reachable.start])
  have 2: "wait_step (?w False About_to_block No_update) (?w True About_to_block Flag_set)"
    using wait_step.updated [of "?w False About_to_block No_update"] by (simp add: on_position_updated_def)
  have 3: "wait_step (?w True About_to_block Flag_set) (?w True About_to_block No_update)"
    using wait_step.notifies [of "?w True About_to_block Flag_set"] by (simp add: notify_all_def)
  have 4: "wait_step (?w True About_to_block No_update) (?w True Blocked No_update)"
    using wait_step.blocks [of "?w True About_to_block No_update"] by simp
  have 5: "wait_step (?w True Blocked No_update) (?w True Time_over No_update)"
    using wait_step.time_over [of "?w True Blocked No_update"] by simp
  have 6: "wait_step (?w True Time_over No_update) (?w True (Waited True) No_update)"
    using wait_step.last_look [of "?w True Time_over No_update"] by simp
  have slept: "wait_reachable (?w True Blocked No_update)"
    by (rule wait_reachable.step [OF wait_path [OF 1 2 3] 4])
  have next_steps: "wait_step (?w True Blocked No_update) w' \<Longrightarrow>
      w' \<in> {?w True Evaluates No_update, ?w True Time_over No_update, ?w True Blocked Flag_set}"
    by (elim wait_stepE) (auto simp: on_position_updated_def)
  show ?thesis
    using wait_inv [of w] slept wait_path [OF slept 5 6] next_steps by blast
qed

section \<open>On the hardware\<close>

text \<open>The calls on an Android hardware that nothing interferes with; the rest does not reach the life cycle of its handle.\<close>

definition undisturbed_start :: "hal \<Rightarrow> hal" where
  "undisturbed_start h =
     (let h1 = start_positioning h
      in case client h1 of Client_fast g \<Rightarrow> start_fast g h1 | Client_slow \<Rightarrow> start_slow h1 | Client_idle \<Rightarrow> h1)"

fun hal_call :: "test_call \<Rightarrow> hal \<Rightarrow> hal" where
  "hal_call Start_positioning h = undisturbed_start h"
| "hal_call Stop_positioning h = stop_positioning h"
| "hal_call Set_standalone h = dispatch_updated_modes_to_driver h"
| "hal_call c h = h"

definition on_hal :: "test_call list \<Rightarrow> hal \<Rightarrow> hal" where
  "on_hal cs h = fold hal_call cs h"

text \<open>Whether the driver positions, from its log.\<close>

fun positions_after :: "driver_call list \<Rightarrow> bool \<Rightarrow> bool" where
  "positions_after [] b = b"
| "positions_after (Gps_start g # cs) b = positions_after cs True"
| "positions_after (Gps_stop g # cs) b = positions_after cs False"
| "positions_after (c # cs) b = positions_after cs b"

lemma positions_after_append [simp]: "positions_after (cs @ ds) b = positions_after ds (positions_after cs b)"
  by (induction cs b rule: positions_after.induct) simp_all

definition ready :: "nat \<Rightarrow> hal \<Rightarrow> bool" where
  "ready g h \<longleftrightarrow> gps_handle h = Some g \<and> \<not> write_locked h \<and> client h = Client_idle"

lemma ready_call:
  "ready g h \<Longrightarrow> ready g (hal_call c h) \<and>
     positions_after (driver (hal_call c h)) b =
       (if c = Start_positioning then True else if c = Stop_positioning then False else positions_after (driver h) b)"
  by (cases c) (auto simp: ready_def undisturbed_start_def start_positioning_def start_fast_def stop_positioning_def
      dispatch_updated_modes_to_driver_def call_driver_def write_locked_def Let_def)

lemma ready_calls:
  "ready g h \<Longrightarrow> ready g (hal_call c h)"
  "ready g h \<Longrightarrow> positions_after (driver (hal_call Start_positioning h)) b"
  "ready g h \<Longrightarrow> \<not> positions_after (driver (hal_call Stop_positioning h)) b"
  using ready_call [of g h] by (simp_all del: hal_call.simps)

lemma trials_positioning:
  "ready g h \<Longrightarrow> is \<noteq> [] \<Longrightarrow> ready g (on_hal (fst (snr_trials wait is)) h) \<and>
     (positions_after (driver (on_hal (fst (snr_trials wait is)) h)) b \<longleftrightarrow> (\<exists>i \<in> set is. wait i = None))"
proof (induction "is" arbitrary: h)
  case (Cons i "is")
  define h1 where "h1 = hal_call Start_positioning (hal_call Delete_all_aiding h)"
  define h2 where "h2 = hal_call Stop_positioning h1"
  have r: "ready g h1" "positions_after (driver h1) b" "ready g h2" "\<not> positions_after (driver h2) b"
    using Cons.prems(1) by (simp_all add: h1_def h2_def ready_calls [of g] del: hal_call.simps)
  show ?case
  proof (cases "wait i")
    case None
    with r show ?thesis by (simp add: on_hal_def h1_def del: hal_call.simps)
  next
    case (Some t)
    obtain cs rest where cs: "snr_trials wait is = (cs, rest)" by force
    have "on_hal (fst (snr_trials wait (i # is))) h = on_hal cs h2"
      by (simp add: Some cs on_hal_def h1_def h2_def del: hal_call.simps)
    moreover have "is = [] \<Longrightarrow> cs = []" using cs by auto
    ultimately show ?thesis
      using Cons.IH [of h2] r(3,4) Some cs by (cases "is = []") (simp_all add: on_hal_def)
  qed
qed simp

text \<open>A run of the tests leaves the driver positioning when a trial timed out, and stopped when none did.\<close>

theorem tests_leave_driver_positioning:
  assumes "ready g h"
  shows "positions_after (driver (on_hal (fst (execute_runtime_tests 0 True (Inr ()) wait)) h)) False \<longleftrightarrow> (\<exists>i < trials. wait i = None)"
proof -
  let ?h = "on_hal [Service_stop, Set_standalone, Connect_updates] h"
  have p: "ready g ?h"
    using assms by (simp add: on_hal_def ready_call del: hal_call.simps)
  have c: "fst (execute_runtime_tests 0 True (Inr ()) wait) =
      [Service_stop, Set_standalone, Connect_updates] @ fst (snr_trials wait [0..<trials]) @ [Service_start]"
    by (simp add: execute_runtime_tests_def snr_and_ttff_def split: prod.split)
  have "on_hal (fst (execute_runtime_tests 0 True (Inr ()) wait)) h = hal_call Service_start (on_hal (fst (snr_trials wait [0..<trials])) ?h)"
    unfolding c by (simp add: on_hal_def)
  moreover have "[0..<trials] \<noteq> []" by (simp add: trials_def)
  ultimately show ?thesis
    using trials_positioning [OF p, of "[0..<trials]" wait False] by (simp add: Bex_def)
qed

theorem tests_leave_driver_positioning_witness:
  "positions_after (driver (on_hal (fst (execute_runtime_tests 0 True (Inr ()) (\<lambda>i. if i = 1 then None else Some 5000))) (hal_new True 0))) False"
proof -
  have "ready 0 (hal_new True 0)"
    by (simp add: ready_def hal_eval write_locked_def)
  from tests_leave_driver_positioning [OF this, of "\<lambda>i. if i = 1 then None else Some 5000"] show ?thesis
    by (auto simp: trials_def)
qed

end
