(* ===== verification/Daemon_Main.thy ===== *)
theory Daemon_Main
  imports Daemon Service_Properties Runtime_Pool Text_Output Runtime_Tests
begin

text \<open>
  What the executables are made of (\<open>service/daemon.cpp\<close>, \<open>service/provider_daemon.cpp\<close>, their \<open>_main.cpp\<close>,
  \<open>service/default_configuration.cpp\<close>, \<open>service/system_configuration.cpp\<close>, \<open>providers/config.cpp\<close>): the providers that are
  known, the engine and the service of the daemon with the reporter and the connectivity manager it is given, how the main
  functions end, and in which order the daemon takes itself apart.

  The connectivity manager of the daemon is the dummy of \<open>connectivity/dummy_connectivity_manager.h\<close>;
  \<open>platform_default_manager\<close> (\<open>connectivity/ofono_nm_connectivity_manager.cpp\<close>) is the one clients of the library get. Whether the
  construction of the real manager succeeds is a parameter.
\<close>

section \<open>Known providers\<close>

record provider_build =
  with_geoclue :: bool
  with_gps :: bool
  with_gpsd :: bool
  with_skyhook :: bool

datatype provider_class = Dummy_provider | Delayed_provider | Remote_stub | Geoclue_provider | Gps_provider | Gpsd_provider | Skyhook_provider

definition factory_injectors :: "provider_build \<Rightarrow> (string \<times> provider_class) list" where
  "factory_injectors b =
     [(''dummy::Provider'', Dummy_provider), (''dummy::DelayedProvider'', Delayed_provider), (''remote::Provider'', Remote_stub)] @
     (if with_geoclue b then [(''geoclue::Provider'', Geoclue_provider)] else []) @
     (if with_gps b then [(''gps::Provider'', Gps_provider)] else []) @
     (if with_gpsd b then [(''gpsd::Provider'', Gpsd_provider)] else []) @
     (if with_skyhook b then [(''skyhook::Provider'', Skyhook_provider)] else [])"

definition known_factories :: "provider_build \<Rightarrow> (provider_class \<Rightarrow> 'f) \<Rightarrow> 'f factory_store" where
  "known_factories b create_instance = fold (\<lambda>(name, c). add_factory_for_name name (create_instance c)) (factory_injectors b) []"

section \<open>Connectivity of the daemon\<close>

record dummy_manager =
  dummy_is_wifi_enabled :: bool
  dummy_is_wwan_enabled :: bool
  dummy_is_wifi_hardware_enabled :: bool
  dummy_is_wwan_hardware_enabled :: bool
  dummy_state :: "32 word"
  dummy_characteristics :: "32 word"

definition new_dummy_manager :: dummy_manager where
  "new_dummy_manager = \<lparr>dummy_is_wifi_enabled = False, dummy_is_wwan_enabled = False, dummy_is_wifi_hardware_enabled = False,
     dummy_is_wwan_hardware_enabled = False, dummy_state = state_unknown, dummy_characteristics = no_characteristics\<rparr>"

definition dummy_request_scan :: "dummy_manager \<Rightarrow> dummy_manager" where
  "dummy_request_scan m = m"

definition dummy_visible_networks :: "dummy_manager \<Rightarrow> wifi list" where
  "dummy_visible_networks m = []"

definition dummy_connected_cells :: "dummy_manager \<Rightarrow> radio_cell list" where
  "dummy_connected_cells m = []"

text \<open>The two function-local instances of \<open>platform_default_manager\<close>; a constructor that throws leaves the first unset.\<close>

record 'm manager_statics =
  platform_instance :: "'m option"
  dummy_instance :: bool

datatype 'm default_manager = Platform_manager 'm | Dummy_manager

definition no_statics :: "'m manager_statics" where
  "no_statics = \<lparr>platform_instance = None, dummy_instance = False\<rparr>"

definition platform_default_manager :: "'m result \<Rightarrow> 'm manager_statics \<Rightarrow> 'm default_manager \<times> 'm manager_statics" where
  "platform_default_manager attempt s =
     (case platform_instance s of
        Some m \<Rightarrow> (Platform_manager m, s)
      | None \<Rightarrow>
          (case attempt of
             Inr m \<Rightarrow> (Platform_manager m, s\<lparr>platform_instance := Some m\<rparr>)
           | Inl e \<Rightarrow> (Dummy_manager, s\<lparr>dummy_instance := True\<rparr>)))"

section \<open>The engine and the service of the daemon\<close>

definition null_reporter :: "'s reporter" where
  "null_reporter call s = (None, s)"

fun add_providers :: "'t platform \<Rightarrow> nat \<Rightarrow> nat option list \<Rightarrow> 't world \<Rightarrow> 't outcome" where
  "add_providers pf fuel [] w = Inr w"
| "add_providers pf fuel (p # ps) w = bind_outcome (add_provider pf fuel p w) (add_providers pf fuel ps)"

definition the_engine :: "'t platform \<Rightarrow> nat \<Rightarrow> nat option list \<Rightarrow> 't settings \<Rightarrow> 't outcome" where
  "the_engine pf fuel provider_set s = bind_outcome (engine_new pf s) (add_providers pf fuel provider_set)"

definition the_provider_set :: "'p \<Rightarrow> 'p list" where
  "the_provider_set seed = [seed]"

text \<open>The permission manager depends on whether the trust store was enabled in the build; it is never null.\<close>

definition create_permission_manager ::
  "bool \<Rightarrow> bool \<Rightarrow> (credentials \<Rightarrow> trust_answer result) \<Rightarrow> int \<Rightarrow> int \<Rightarrow> criteria \<Rightarrow> credentials \<Rightarrow> permission" where
  "create_permission_manager trust_store testing authenticate pid uid =
     (if trust_store then trust_store_check testing authenticate else default_check pid uid)"

text \<open>
  Up to the service, on an engine restored from the settings with the providers of the configuration. The
  properties start out value-initialised.
\<close>

definition daemon_service ::
  "('t, 's) service_platform \<Rightarrow> nat \<Rightarrow> (config \<Rightarrow> 't world \<Rightarrow> (nat option \<times> 't world) result) factory_store \<Rightarrow>
     daemon_config \<Rightarrow> 't settings \<Rightarrow> 's \<Rightarrow> ('t, 's) service_outcome" where
  "daemon_service sp fuel store c st s =
     bind_outcome (the_engine (engine_platform sp) fuel [] st) (\<lambda>w.
       service_new sp fuel False False False service_disabled True (load_providers (engine_platform sp) fuel store c w) s)"

text \<open>A position update in the daemon: the harvester asks the dummy for networks and cells.\<close>

fun daemon_step :: "('t, 's) service_platform \<Rightarrow> bool + position update option \<Rightarrow> ('t, 's) service \<Rightarrow> ('t, 's) service_outcome" where
  "daemon_step sp (Inl setting) sv = set_does_report_cell_and_wifi_ids sp setting sv"
| "daemon_step sp (Inr u) sv =
     on_last_known_location sp (dummy_visible_networks new_dummy_manager) (dummy_connected_cells new_dummy_manager) u sv"

fun daemon_run :: "('t, 's) service_platform \<Rightarrow> (bool + position update option) list \<Rightarrow> ('t, 's) service \<Rightarrow> ('t, 's) service_outcome" where
  "daemon_run sp [] sv = Inr sv"
| "daemon_run sp (e # es) sv = bind_outcome (daemon_step sp e sv) (daemon_run sp es)"

section \<open>How the programs end\<close>

datatype process_end = Exit_success | Exit_failure | Uncaught exn

text \<open>\<open>catch (const std::runtime_error&)\<close>: an \<open>out_of_range\<close> is a \<open>logic_error\<close>, and neither is a \<open>runtime_error\<close>.\<close>

fun is_runtime_error :: "exn \<Rightarrow> bool" where
  "is_runtime_error (runtime_error m) = True"
| "is_runtime_error e = False"

text \<open>The second component says whether the settings were synced at the end.\<close>

definition daemon_process :: "'c result \<Rightarrow> ('c \<Rightarrow> exn option) \<Rightarrow> process_end \<times> bool" where
  "daemon_process config main =
     (case config of
        Inl e \<Rightarrow> (if is_runtime_error e then Exit_failure else Uncaught e, False)
      | Inr c \<Rightarrow> (case main c of None \<Rightarrow> (Exit_success, True) | Some e \<Rightarrow> (Exit_failure, False)))"

text \<open>The service is only looked up when the command is not the test; \<open>service\<close> is the result of that.\<close>

definition cli_process ::
  "cli_options \<Rightarrow> 's stub \<Rightarrow> int result \<Rightarrow> 's \<Rightarrow> exn option \<Rightarrow> process_end \<times> cli_line list \<times> 's" where
  "cli_process po st runtime_tests s service =
     (case cli_from_command_line po of
        Inl e \<Rightarrow> (if is_runtime_error e then Exit_failure else Uncaught e, [], s)
      | Inr c \<Rightarrow>
          if cli_command c = cmd_test
          then (case runtime_tests of
              Inl e \<Rightarrow> (Exit_failure, [], s)
            | Inr rc \<Rightarrow> (case cli_main st (\<lambda>_. rc = 0) c s of (ls, ok, s') \<Rightarrow> (Exit_success, ls, s')))
          else if service \<noteq> None then (Exit_failure, [], s)
          else (case cli_main st (\<lambda>_. True) c s of (ls, ok, s') \<Rightarrow> (Exit_success, ls, s')))"

definition provider_process :: "'c result \<Rightarrow> ('c \<Rightarrow> exn option) \<Rightarrow> process_end" where
  "provider_process config main =
     (case config of
        Inl e \<Rightarrow> Uncaught e
      | Inr c \<Rightarrow> (case main c of None \<Rightarrow> Exit_success | Some e \<Rightarrow> Uncaught e))"

section \<open>The life of the daemon\<close>

text \<open>
  The main thread of the daemon next to the workers of its runtime. \<open>trap->run()\<close> returns when a signal arrives, at any
  time; the service is destroyed when \<open>main\<close> returns. Its slots post tasks to the strand as long as it exists; the executors of the buses
  post other handlers at any time.
\<close>

datatype main_phase = Main_created | Main_started | Main_serving | Main_stopping | Main_stopped | Main_destroyed

record 't daemon =
  phase :: main_phase
  runtime :: "'t pool"

definition daemon_new :: "'t daemon" where
  "daemon_new = \<lparr>phase = Main_created, runtime = pool_create 4\<rparr>"

definition main_advance :: "'t daemon \<Rightarrow> 't daemon option" where
  "main_advance d =
     (case phase d of
        Main_created \<Rightarrow> Some \<lparr>phase = Main_started, runtime = pool_start (runtime d)\<rparr>
      | Main_started \<Rightarrow> Some (d\<lparr>phase := Main_serving\<rparr>)
      | Main_serving \<Rightarrow> Some \<lparr>phase = Main_stopping, runtime = pool_stop_service (runtime d)\<rparr>
      | Main_stopping \<Rightarrow> if pool_joined (runtime d) then Some (d\<lparr>phase := Main_stopped\<rparr>) else None
      | Main_stopped \<Rightarrow> Some (d\<lparr>phase := Main_destroyed\<rparr>)
      | Main_destroyed \<Rightarrow> None)"

definition service_exists :: "main_phase \<Rightarrow> bool" where
  "service_exists ph \<longleftrightarrow> ph \<in> {Main_serving, Main_stopping, Main_stopped}"

inductive daemon_moves :: "'t daemon \<Rightarrow> 't daemon \<Rightarrow> bool" where
  move_main: "main_advance d = Some d' \<Longrightarrow> daemon_moves d d'"
| move_slot: "service_exists (phase d) \<Longrightarrow> daemon_moves d (d\<lparr>runtime := dispatch_task t (runtime d)\<rparr>)"
| move_bus: "daemon_moves d (d\<lparr>runtime := post_plain t (runtime d)\<rparr>)"
| move_worker: "worker_step (runtime d) r \<Longrightarrow> daemon_moves d (d\<lparr>runtime := r\<rparr>)"
| move_leave: "leave_loop i (runtime d) = Some r \<Longrightarrow> daemon_moves d (d\<lparr>runtime := r\<rparr>)"

inductive daemon_reachable :: "'t daemon \<Rightarrow> bool" where
  daemon_begin: "daemon_reachable daemon_new"
| daemon_continue: "daemon_reachable d \<Longrightarrow> daemon_moves d d' \<Longrightarrow> daemon_reachable d'"

text \<open>
  The provider daemon makes its skeleton before its runtime runs and never stops the runtime: it stops the bus, which at best
  stops the io_context, and returns. The runtime is a static object and lives on.
\<close>

datatype provider_phase = Exposed | Exposed_running | Bus_stopped | Skeleton_destroyed

fun provider_main_advance :: "provider_phase \<times> 't pool \<Rightarrow> (provider_phase \<times> 't pool) option" where
  "provider_main_advance (Exposed, r) = Some (Exposed_running, pool_start r)"
| "provider_main_advance (Exposed_running, r) = Some (Bus_stopped, pool_stop_service r)"
| "provider_main_advance (Bus_stopped, r) = Some (Skeleton_destroyed, r)"
| "provider_main_advance (Skeleton_destroyed, r) = None"

inductive provider_daemon_moves :: "provider_phase \<times> 't pool \<Rightarrow> provider_phase \<times> 't pool \<Rightarrow> bool" where
  provider_main: "provider_main_advance s = Some s' \<Longrightarrow> provider_daemon_moves s s'"
| provider_call: "provider_daemon_moves (ph, r) (ph, post_plain t r)"
| provider_worker: "worker_step r r' \<Longrightarrow> provider_daemon_moves (ph, r) (ph, r')"
| provider_leave: "leave_loop i r = Some r' \<Longrightarrow> provider_daemon_moves (ph, r) (ph, r')"

section \<open>Lookup of the known providers\<close>

lemma known_factories_find:
  "map_sorted string_lt (known_factories b create_instance) \<and>
   map_find string_lt n (known_factories b create_instance) = map_option create_instance (map_of (rev (factory_injectors b)) n)"
proof -
  have "map_sorted string_lt (fold (\<lambda>(name, c). add_factory_for_name name (create_instance c)) xs st) \<and>
      map_find string_lt n (fold (\<lambda>(name, c). add_factory_for_name name (create_instance c)) xs st) =
        (case map_of (rev xs) n of Some c \<Rightarrow> Some (create_instance c) | None \<Rightarrow> map_find string_lt n st)"
    if "map_sorted string_lt st" for xs :: "(string \<times> provider_class) list" and st
    using that
  proof (induction xs arbitrary: st)
    case (Cons x xs)
    have "map_sorted string_lt (add_factory_for_name (fst x) (create_instance (snd x)) st)"
      using Cons.prems by (simp add: add_factory_for_name_def string_order.map_put_sorted)
    from Cons.IH [OF this] show ?case using Cons.prems
      by (auto simp: add_factory_for_name_def string_order.map_find_put map_add_def case_prod_unfold split: option.splits)
  qed simp
  from this [of "[]" "factory_injectors b"] show ?thesis
    by (simp add: known_factories_def map_sorted_def option.case_eq_if map_option_case)
qed

text \<open>
  A provider named on the command line, with or without a decoration, is made by the class that the build installed under
  this name, and there are no other names.
\<close>

theorem known_providers:
  "create_provider_for_name_with_config n c (known_factories b (\<lambda>k config. (k, config))) =
     map_option (\<lambda>k. (k, c)) (map_of (factory_injectors b) (extract_undecorated_name n))"
proof -
  have "map_of (rev (factory_injectors b)) = map_of (factory_injectors b)"
  proof (subst map_of_inject_set)
    show "distinct (map fst (factory_injectors b))" by (simp add: factory_injectors_def)
    then show "distinct (map fst (rev (factory_injectors b)))" by (simp add: rev_map [symmetric])
  qed simp
  then show ?thesis
    by (simp add: create_provider_for_name_with_config_def known_factories_find option.map_comp comp_def)
qed

section \<open>A consistent start\<close>

text \<open>A factory makes an object and leaves the state of the engine alone.\<close>

definition quiet_factory :: "(config \<Rightarrow> 't world \<Rightarrow> (nat option \<times> 't world) result) \<Rightarrow> bool" where
  "quiet_factory f \<longleftrightarrow> sound_factory f \<and> (\<forall>c w i w'. f c w = Inr (i, w') \<longrightarrow> engine_state w' = engine_state w)"

lemma add_provider_state:
  assumes "total_order (addr_less pf)" "sound_world w" "add_provider pf fuel (Some i) w = Inr w'"
  shows "sound_world w' \<and> engine_state w' = engine_state w"
proof -
  have "objs w i \<noteq> None" using assms(3) by (auto simp: add_provider_def split: option.splits)
  from add_provider_detail [OF assms(1,2) this, of fuel] assms(3) show ?thesis by auto
qed

lemma load_provider_state:
  assumes "total_order (addr_less pf)" "sound_world w" "\<And>f. f \<in> snd ` set store \<Longrightarrow> quiet_factory f"
  shows "sound_world (load_provider pf fuel store cs n w) \<and> engine_state (load_provider pf fuel store cs n w) = engine_state w"
proof (cases "map_find string_lt (extract_undecorated_name n) store")
  case (Some f)
  then have f: "quiet_factory f"
    using assms(3) by (force simp: string_order.map_find_map_of dest: map_of_SomeD)
  show ?thesis
  proof (cases "f (config_for n cs) w")
    case (Inr r)
    obtain i w1 where r: "r = (i, w1)" by force
    with f Inr assms(2) have w1: "sound_world w1" "engine_state w1 = engine_state w"
      unfolding quiet_factory_def sound_factory_def by blast+
    show ?thesis
    proof (cases "add_provider pf fuel i w1")
      case (Inr w2)
      then obtain j where "i = Some j" by (cases i) (auto simp: add_provider_def)
      with add_provider_state [OF assms(1) w1(1)] Inr w1 \<open>f (config_for n cs) w = Inr r\<close> Some r show ?thesis
        by (simp add: load_provider_def)
    qed (use Some Inr r w1 in \<open>simp add: load_provider_def\<close>)
  qed (use Some assms(2) in \<open>simp add: load_provider_def\<close>)
qed (use assms(2) in \<open>simp add: load_provider_def\<close>)

lemma load_providers_state:
  assumes "total_order (addr_less pf)" "sound_world w" "list_all quiet_factory (map snd store)"
  shows "sound_world (load_providers pf fuel store c w) \<and> engine_state (load_providers pf fuel store c w) = engine_state w"
proof -
  have "sound_world (fold (load_provider pf fuel store cs) ns w) \<and> engine_state (fold (load_provider pf fuel store cs) ns w) = engine_state w"
    for cs ns
    using assms(2)
  proof (induction ns arbitrary: w)
    case (Cons n ns)
    have "quiet_factory f" if "f \<in> snd ` set store" for f using assms(3) that by (auto simp: list_all_iff)
    from load_provider_state [OF assms(1) Cons.prems this] Cons.IH show ?case by simp
  qed simp
  then show ?thesis by (simp add: load_providers_def)
qed

lemma new_engine_sound:
  assumes "engine_new pf st = Inr w" "engine_state w \<noteq> engine_active"
  shows "sound_world w"
  using assms
  by (auto simp: engine_new_def sound_world_def wf_world_def fresh_world_def engine_inv_def is_any_active_def kinds_def
      split: sum.splits)

lemma set_wifi_state_fields:
  "objs (set_wifi_state pf st w) = objs w" "providers (set_wifi_state pf st w) = providers w"
  "engine_state (set_wifi_state pf st w) = engine_state w" "emitting (set_wifi_state pf st w) = emitting w"
  "wifi_and_cell_id_reporting_state (set_wifi_state pf st w) = st"
  by (simp_all add: set_wifi_state_def persist_wifi_state_def Let_def)

lemma set_wifi_state_frame:
  "wf_world (set_wifi_state pf st w) = wf_world w" "engine_inv (set_wifi_state pf st w) = engine_inv w"
  "emitting (set_wifi_state pf st w) = emitting w" "engine_state (set_wifi_state pf st w) = engine_state w"
  "wifi_and_cell_id_reporting_state (set_wifi_state pf st w) = st"
proof -
  show "wf_world (set_wifi_state pf st w) = wf_world w"
    by (rule kinds_cong(2)) (simp_all add: kinds_def set_wifi_state_fields)
  show "engine_inv (set_wifi_state pf st w) = engine_inv w"
    by (rule engine_inv_agree) (simp_all add: set_wifi_state_fields)
qed (simp_all add: set_wifi_state_fields)

lemma null_harvester:
  "run_harvester (harvester_start null_reporter) sv = Inr (sv\<lparr>harvester_of := (harvester_of sv)\<lparr>is_running := True\<rparr>\<rparr>)"
  "run_harvester (harvester_stop null_reporter) sv = Inr (sv\<lparr>harvester_of := (harvester_of sv)\<lparr>is_running := False\<rparr>\<rparr>)"
  "run_harvester (report_position_update null_reporter ws cs u) sv = Inr sv"
  by (cases sv; cases "harvester_of sv";
    simp add: run_harvester_def harvester_start_def harvester_stop_def report_position_update_def null_reporter_def)+

lemma set_does_report_null:
  assumes "bool_notified sp" "service_reporter sp = null_reporter"
  shows "\<exists>sv'. set_does_report_cell_and_wifi_ids sp v sv = Inr sv' \<and> does_report_cell_and_wifi_ids sv' = v \<and>
    (service_inv sv \<longrightarrow> service_inv sv') \<and> reporter_state sv' = reporter_state sv \<and> is_online sv' = is_online sv \<and>
    ((does_report_cell_and_wifi_ids sv = (wifi_and_cell_id_reporting_state (engine sv) = wifi_on)) \<longrightarrow>
      wifi_and_cell_id_reporting_state (engine sv') = (if v then wifi_on else wifi_off))"
proof -
  note frame = set_wifi_state_frame
  show ?thesis
  proof (cases "does_report_cell_and_wifi_ids sv = v")
    case True
    then have "set_does_report_cell_and_wifi_ids sp v sv = Inr sv"
      using assms(1) by (cases sv) (simp add: set_does_report_cell_and_wifi_ids_def bool_notified_def)
    with True show ?thesis by (cases "wifi_and_cell_id_reporting_state (engine sv)") auto
  next
    case False
    let ?w = "set_wifi_state (engine_platform sp) (if v then wifi_on else wifi_off) (engine sv)"
    have "set_does_report_cell_and_wifi_ids sp v sv =
        Inr (sv\<lparr>does_report_cell_and_wifi_ids := v, engine := ?w, harvester_of := (harvester_of sv)\<lparr>is_running := v\<rparr>\<rparr>)"
      using False assms by (simp add: set_does_report_cell_and_wifi_ids_def bool_notified_def Let_def null_harvester)
    then show ?thesis by (simp add: service_inv_def frame)
  qed
qed

lemma service_new_null:
  assumes "change_notified (engine_platform sp)" "bool_notified sp" "service_reporter sp = null_reporter"
    and "sound_world w" "engine_state w \<noteq> engine_active"
  shows "\<exists>sv. service_new sp fuel False False False service_disabled True w s = Inr sv \<and> service_inv sv \<and>
    is_online sv = (engine_state w \<noteq> engine_off) \<and> reporter_state sv = s"
proof -
  define first :: "('a, 'b) service" where "first = \<lparr>engine = w, is_online = False, online_emitting = False,
      does_report_cell_and_wifi_ids = False, does_satellite_based_positioning = False, service_state_of = service_disabled,
      harvester_of = new_harvester, reporter_state = s\<rparr>"
  have "\<exists>sv1. (case engine_state w of
       engine_off \<Rightarrow> bind_outcome (set_is_online sp fuel False first) (\<lambda>sv. Inr (sv\<lparr>service_state_of := service_disabled\<rparr>))
     | engine_on \<Rightarrow> bind_outcome (set_is_online sp fuel True first) (\<lambda>sv. Inr (sv\<lparr>service_state_of := service_enabled\<rparr>))
     | engine_active \<Rightarrow> bind_outcome (set_is_online sp fuel True first) (\<lambda>sv. Inr (sv\<lparr>service_state_of := service_active\<rparr>))) =
       Inr sv1 \<and> service_inv sv1 \<and> is_online sv1 = (engine_state w \<noteq> engine_off) \<and> reporter_state sv1 = s"
  proof (cases "engine_state w")
    case engine_off
    then show ?thesis
      using assms(2,4) by (simp add: set_is_online_def bool_notified_def first_def service_inv_def sound_world_def state_for_def)
  next
    case engine_on
    have "\<not> is_online first" "\<not> online_emitting first" "\<not> emitting (engine first)" "engine_state (engine first) \<noteq> engine_off"
      using engine_on assms(4) by (simp_all add: first_def sound_world_def)
    from set_is_online_fresh [OF assms(1,2) this, of fuel] obtain w' where
      w': "set_is_online sp fuel True first = Inr (first\<lparr>is_online := True, engine := w'\<rparr>)"
        "kinds w' = kinds w" "providers w' = providers w" "\<not> emitting w'" "engine_state w' = engine_on"
      using engine_on by (auto simp: first_def)
    have "engine_inv w'" "wf_world w'"
      using w' assms(4) kinds_cong [of w' w] engine_on by (auto simp: sound_world_def engine_inv_def)
    with w' engine_on show ?thesis by (simp add: service_inv_def state_for_def first_def)
  qed (use assms(5) in simp)
  then obtain sv1 where sv1: "(case engine_state w of
       engine_off \<Rightarrow> bind_outcome (set_is_online sp fuel False first) (\<lambda>sv. Inr (sv\<lparr>service_state_of := service_disabled\<rparr>))
     | engine_on \<Rightarrow> bind_outcome (set_is_online sp fuel True first) (\<lambda>sv. Inr (sv\<lparr>service_state_of := service_enabled\<rparr>))
     | engine_active \<Rightarrow> bind_outcome (set_is_online sp fuel True first) (\<lambda>sv. Inr (sv\<lparr>service_state_of := service_active\<rparr>))) = Inr sv1"
    "service_inv sv1" "is_online sv1 = (engine_state w \<noteq> engine_off)" "reporter_state sv1 = s" by blast
  obtain sv2 where sv2: "set_does_report_cell_and_wifi_ids sp (wifi_and_cell_id_reporting_state (engine sv1) = wifi_on) sv1 = Inr sv2"
    "service_inv sv2" "reporter_state sv2 = reporter_state sv1" "is_online sv2 = is_online sv1"
    using set_does_report_null [OF assms(2,3)] sv1(2) by blast
  obtain b where "set_does_satellite_based_positioning sp fuel (satellite_based_positioning_state (engine sv2) = sat_on) sv2 =
      Inr (sv2\<lparr>does_satellite_based_positioning := b\<rparr>)"
    using set_does_satellite_unchanged [OF assms(1,2)] by blast
  then show ?thesis
    using sv1 sv2 by (simp add: service_new_def Let_def first_def [symmetric] service_inv_def)
qed

text \<open>
  C24. The daemon starts consistent: with settings that do not claim an active engine and whatever providers are configured, missing or
  failing, the service is constructed, is online exactly when the stored state is not off, and is in line with its
  engine, which is what the properties of the service assume.
\<close>

theorem daemon_starts_consistent:
  assumes "change_notified (engine_platform sp)" "bool_notified sp" "service_reporter sp = null_reporter"
    and "total_order (addr_less (engine_platform sp))" "list_all quiet_factory (map snd store)"
    and "engine_new (engine_platform sp) st = Inr w0" "engine_state w0 \<noteq> engine_active"
  shows "\<exists>sv. daemon_service sp fuel store c st s = Inr sv \<and> service_inv sv \<and>
    is_online sv = (engine_state w0 \<noteq> engine_off) \<and> reporter_state sv = s"
proof -
  from load_providers_state [OF assms(4) new_engine_sound [OF assms(6,7)] assms(5), of fuel c]
  have w: "sound_world (load_providers (engine_platform sp) fuel store c w0)"
    "engine_state (load_providers (engine_platform sp) fuel store c w0) = engine_state w0" by blast+
  from service_new_null [OF assms(1-3) w(1), of fuel s] w(2) assms(6,7) show ?thesis
    by (simp add: daemon_service_def the_engine_def)
qed

text \<open>
  In the daemon a client can switch the reporting of networks and cells on: the property and the state of the engine follow, but
  no sequence of settings and positions makes it report anything.
\<close>

theorem daemon_never_reports:
  assumes "bool_notified sp" "service_reporter sp = null_reporter"
  shows "\<exists>sv'. daemon_run sp es sv = Inr sv' \<and> reporter_state sv' = reporter_state sv \<and>
    does_report_cell_and_wifi_ids sv' = last (does_report_cell_and_wifi_ids sv # concat (map (case_sum (\<lambda>b. [b]) (\<lambda>u. [])) es))"
proof (induction es arbitrary: sv)
  case (Cons e es)
  have "\<exists>sv1. daemon_step sp e sv = Inr sv1 \<and> reporter_state sv1 = reporter_state sv \<and>
      does_report_cell_and_wifi_ids sv1 = last (does_report_cell_and_wifi_ids sv # case_sum (\<lambda>b. [b]) (\<lambda>u. []) e)"
  proof (cases e)
    case (Inl b)
    then show ?thesis using set_does_report_null [OF assms, of b sv] by auto
  next
    case (Inr u)
    then show ?thesis using assms(2)
      by (cases u) (simp_all add: on_last_known_location_def null_harvester)
  qed
  then obtain sv1 where sv1: "daemon_step sp e sv = Inr sv1" "reporter_state sv1 = reporter_state sv"
    "does_report_cell_and_wifi_ids sv1 = last (does_report_cell_and_wifi_ids sv # case_sum (\<lambda>b. [b]) (\<lambda>u. []) e)" by blast
  from Cons.IH [of sv1] sv1 show ?case by (cases e) auto
qed simp

text \<open>A daemon in the simplest configuration: empty settings, no providers.\<close>

definition demo_daemon_platform :: "(string \<rightharpoonup> string, reporter_call list) service_platform" where
  "demo_daemon_platform = \<lparr>engine_platform = demo_platform, bool_emits = (\<noteq>), service_reporter = null_reporter\<rparr>"

lemma demo_daemon_facts [simp]:
  "engine_platform demo_daemon_platform = demo_platform" "bool_notified demo_daemon_platform"
  "service_reporter demo_daemon_platform = null_reporter"
  by (simp_all add: demo_daemon_platform_def bool_notified_def)

theorem daemon_starts_consistent_witness:
  "\<exists>sv. daemon_service demo_daemon_platform 2 [] \<lparr>incoming = system_bus, outgoing = system_bus, provider_names = [''gps::Provider''],
      provider_configs = [], settings_file = []\<rparr> (open_settings Map.empty None) [] = Inr sv \<and> service_inv sv \<and> is_online sv"
proof -
  have addr: "total_order (addr_less demo_platform)" by (simp add: demo_platform_def addr.total_order_axioms)
  have unset: "\<not> has_value_for_key (ptree demo_platform) (open_settings Map.empty None) k" for k
    by (simp add: has_value_for_key_def demo_platform_def map_ptree_def open_settings_def)
  obtain w0 where w0: "engine_new demo_platform (open_settings Map.empty None) = Inr w0" "engine_state w0 = engine_on"
    by (simp add: engine_new_def engine_status.get_unset_enum wifi_state.get_unset_enum unset)
  let ?c = "\<lparr>incoming = system_bus, outgoing = system_bus, provider_names = [''gps::Provider''], provider_configs = [], settings_file = []\<rparr>"
  from daemon_starts_consistent [OF _ demo_daemon_facts(2,3), of "[]" "open_settings Map.empty None" w0 2 ?c "[]"] addr w0
  have "\<exists>sv. daemon_service demo_daemon_platform 2 [] ?c (open_settings Map.empty None) [] = Inr sv \<and> service_inv sv \<and> is_online sv \<and>
      reporter_state sv = []" by simp
  then show ?thesis by blast
qed

theorem daemon_never_reports_witness:
  "\<exists>sv'. daemon_run demo_daemon_platform [Inl True, Inr (Some (make_update position_default 3))]
      demo_service = Inr sv' \<and> reporter_state sv' = [] \<and> does_report_cell_and_wifi_ids sv'"
  using daemon_never_reports [OF demo_daemon_facts(2,3), of "[Inl True, Inr (Some (make_update position_default 3))]" demo_service]
  by (simp add: demo_service_def)

section \<open>The default manager\<close>

fun default_managers :: "'m result list \<Rightarrow> 'm manager_statics \<Rightarrow> 'm default_manager list" where
  "default_managers [] s = []"
| "default_managers (a # as) s = (case platform_default_manager a s of (m, s') \<Rightarrow> m # default_managers as s')"

lemma default_managers_after: "platform_instance s = Some m \<Longrightarrow> default_managers as s = replicate (length as) (Platform_manager m)"
  by (induction as) (simp_all add: platform_default_manager_def)

text \<open>
  Nothing is ever thrown: as long as the real manager cannot be made, each caller gets the dummy and the next one tries
  again; from the first success on everybody gets the same manager. Those who were given the dummy keep it.
\<close>

theorem default_manager_retries:
  "default_managers (map Inl es @ Inr m # as) no_statics =
     replicate (length es) Dummy_manager @ replicate (Suc (length as)) (Platform_manager m)"
proof -
  have "default_managers (map Inl es @ Inr m # as) s =
      replicate (length es) Dummy_manager @ replicate (Suc (length as)) (Platform_manager m)"
    if "platform_instance s = None" for s
    using that
    by (induction es arbitrary: s) (simp_all add: platform_default_manager_def default_managers_after)
  then show ?thesis by (simp add: no_statics_def)
qed

section \<open>Exit codes\<close>

text \<open>
  The exit code of the command-line client says nothing about its result: once the command line is accepted and the service
  found it is a success, also when a value could not be set or the runtime tests failed. Setting and getting at once, or
  an unknown bus, end the program with an uncaught exception, where the help asks for a failure.
\<close>

theorem cli_exit_code:
  "fst (cli_process po st tests s service) =
     (if \<not> cli_parsed po \<or> cli_help po then Exit_failure
      else if cli_get po \<and> cli_set po \<noteq> None then Uncaught (logic_error ''Both set and get specified, aborting...'')
      else if cli_bus po \<notin> {''session'', ''system''} then Uncaught (out_of_range ''map::at'')
      else if cli_test po \<and> \<not> cli_get po \<and> cli_set po = None
      then (case tests of Inl e \<Rightarrow> Exit_failure | Inr rc \<Rightarrow> Exit_success)
      else if service \<noteq> None then Exit_failure
      else Exit_success)"
  by (auto simp: cli_process_def cli_from_command_line_def split: prod.splits option.splits sum.splits)

text \<open>With the runtime tests as they are: a failure is only seen when they throw, and the service is started again before the client ends.\<close>

theorem cli_runs_tests:
  assumes "cli_from_command_line po = Inr c" "cli_command c = cmd_test"
  shows "cli_process po st (snd (execute_runtime_tests uid gps_built hal wait)) s service =
     (if uid = 0 \<and> (gps_built \<longrightarrow> hal = Inr () \<and> (\<forall>i < trials. wait i \<noteq> None)) then Exit_success else Exit_failure, [], s)"
proof -
  obtain cs r where r: "execute_runtime_tests uid gps_built hal wait = (cs, r)" by force
  have "r = Inr 0 \<longleftrightarrow> uid = 0 \<and> (gps_built \<longrightarrow> hal = Inr () \<and> (\<forall>i < trials. wait i \<noteq> None))" "r = Inr 0 \<or> (\<exists>e. r = Inl e)"
    using execute_runtime_tests_result [of uid gps_built hal wait] unfolding r snd_conv by blast+
  then show ?thesis
    using assms unfolding r snd_conv by (auto simp: cli_process_def cli_main_def)
qed

theorem cli_runs_tests_witness:
  "let po = \<lparr>cli_parsed = True, cli_bus = ''system'', cli_help = False, cli_get = False, cli_set = None, cli_test = True, cli_property_option = prop_unknown\<rparr>
   in cli_process po \<lparr>stub_state = \<lambda>s. service_disabled, stub_get = \<lambda>f s. False, stub_set = \<lambda>f b s. s\<rparr>
        (snd (execute_runtime_tests 0 True (Inr ()) (\<lambda>i. None))) () None = (Exit_failure, [], ())"
proof -
  let ?po = "\<lparr>cli_parsed = True, cli_bus = ''system'', cli_help = False, cli_get = False, cli_set = None, cli_test = True, cli_property_option = prop_unknown\<rparr>"
  have "cli_from_command_line ?po = Inr \<lparr>cli_command = cmd_test, cli_property = prop_unknown, new_value = []\<rparr>"
    by (simp add: cli_from_command_line_def)
  note run = cli_runs_tests [OF this]
  show ?thesis unfolding Let_def by (subst run) (auto simp: trials_def intro: exI [of _ 0])
qed

text \<open>
  The daemon reports a bad command line with its exit code, but not an unknown bus, which is looked up with \<open>at\<close> and not caught; the
  provider daemon catches nothing. The settings are synced at the end of a successful run only.
\<close>

theorem daemon_exit_code:
  "fst (daemon_process (daemon_from_command_line po) main) =
     (if \<not> parsed po then Exit_failure
      else if bus_option po \<notin> {''session'', ''system''} then Uncaught (out_of_range ''map::at'')
      else if \<not> has_testing po \<and> provider_options_given po = [] then Exit_failure
      else case collect_all (provider_options_given po) (unrecognized po) [] of
        Inl e \<Rightarrow> if is_runtime_error e then Exit_failure else Uncaught e
      | Inr cs \<Rightarrow> case main \<lparr>incoming = (if bus_option po = ''session'' then session_bus else system_bus),
            outgoing = (if bus_option po = ''session'' then session_bus else system_bus),
            provider_names = provider_options_given po, provider_configs = cs, settings_file = config_file po\<rparr> of
          None \<Rightarrow> Exit_success | Some e \<Rightarrow> Exit_failure) \<and>
   (snd (daemon_process c main) \<longleftrightarrow> fst (daemon_process c main) = Exit_success)"
  by (auto simp: daemon_process_def daemon_from_command_line_def bus_of_options_def result_bind_def split: sum.splits option.splits)

section \<open>The service outlives its tasks\<close>

definition phase_inv :: "'t daemon \<Rightarrow> bool" where
  "phase_inv d \<longleftrightarrow>
     (phase d \<in> {Main_created, Main_started} \<longrightarrow> posted_strand (runtime d) = []) \<and>
     (phase d = Main_created \<longrightarrow> workers (runtime d) = []) \<and>
     (phase d \<noteq> Main_created \<longrightarrow> length (workers (runtime d)) = 4) \<and>
     (phase d \<in> {Main_stopping, Main_stopped, Main_destroyed} \<longleftrightarrow> pool_stopped (runtime d)) \<and>
     (phase d \<in> {Main_stopped, Main_destroyed} \<longrightarrow> pool_joined (runtime d))"

lemma not_joined: "j < length (workers r) \<Longrightarrow> workers r ! j \<noteq> Exited \<Longrightarrow> \<not> pool_joined r"
  using nth_mem by (fastforce simp: pool_joined_def)

lemma worker_moves_keep:
  assumes "worker_step r r' \<or> leave_loop i r = Some r'"
  shows "posted_strand r' = posted_strand r \<and> length (workers r') = length (workers r) \<and> pool_stopped r' = pool_stopped r \<and>
    pool_size r' = pool_size r \<and> \<not> pool_joined r"
proof -
  have "\<exists>j<length (workers r). workers r ! j \<noteq> Exited"
    using assms by (auto simp: worker_step_def begin_strand_def begin_plain_def end_task_def leave_loop_def
        split: if_splits worker.splits)
  then have "\<not> pool_joined r" using not_joined by blast
  with assms show ?thesis
    by (auto simp: worker_step_def begin_strand_def begin_plain_def end_task_def leave_loop_def split: if_splits list.splits worker.splits)
qed

lemma worker_moves_are_steps: "worker_step r r' \<or> leave_loop i r = Some r' \<Longrightarrow> pool_step r r'"
  by (auto simp: worker_step_def intro: pool_step.intros)

lemma main_advance_inv:
  assumes "main_advance d = Some d'" "phase_inv d" "pool_size (runtime d) = 4"
  shows "phase_inv d' \<and> pool_size (runtime d') = 4"
  using assms
  by (auto simp: main_advance_def phase_inv_def pool_start_def pool_stop_service_def pool_joined_def split: main_phase.splits if_splits)

lemma daemon_moves_inv:
  assumes "daemon_moves d d'" "phase_inv d" "pool_size (runtime d) = 4"
  shows "phase_inv d' \<and> pool_size (runtime d') = 4"
  using assms(1)
proof cases
  case move_main
  then show ?thesis using main_advance_inv assms by blast
next
  case (move_worker r)
  then have "worker_step (runtime d) r \<or> leave_loop 0 (runtime d) = Some r" by simp
  from worker_moves_keep [OF this] move_worker assms(2,3) show ?thesis by (auto simp: phase_inv_def)
next
  case (move_leave i r)
  then have "worker_step (runtime d) r \<or> leave_loop i (runtime d) = Some r" by simp
  from worker_moves_keep [OF this] move_leave assms(2,3) show ?thesis by (auto simp: phase_inv_def)
qed (use assms(2,3) in \<open>auto simp: phase_inv_def service_exists_def dispatch_task_def post_plain_def pool_joined_def\<close>)

lemma daemon_moves_pool:
  assumes "daemon_moves d d'" "pool_reachable 4 (runtime d)"
  shows "pool_reachable 4 (runtime d')"
  using assms(1)
proof cases
  case move_main
  then show ?thesis
    using assms(2) reach_step [OF assms(2) step_start] reach_step [OF assms(2) step_stop]
    by (auto simp: main_advance_def split: main_phase.splits if_splits)
next
  case (move_worker r)
  then show ?thesis using assms(2) worker_moves_are_steps [of _ r 0] by (auto intro: reach_step)
qed (use assms(2) in \<open>auto intro: reach_step pool_step.intros\<close>)

lemma daemon_reachable_inv: "daemon_reachable d \<Longrightarrow> phase_inv d \<and> pool_size (runtime d) = 4 \<and> pool_reachable 4 (runtime d)"
proof (induction rule: daemon_reachable.induct)
  case daemon_begin
  then show ?case using reach_create [of 4] by (auto simp: daemon_new_def phase_inv_def pool_create_def)
qed (use daemon_moves_inv daemon_moves_pool in blast)


text \<open>A daemon that has constructed its service and posted a task.\<close>

lemma serving_reachable:
  "daemon_reachable \<lparr>phase = Main_serving, runtime = dispatch_task (7::nat) (pool_start (pool_create 4))\<rparr>"
proof -
  have "daemon_reachable \<lparr>phase = Main_started, runtime = pool_start (pool_create 4) :: nat pool\<rparr>"
    by (rule daemon_continue [OF daemon_begin move_main]) (simp add: main_advance_def daemon_new_def)
  then have "daemon_reachable \<lparr>phase = Main_serving, runtime = pool_start (pool_create 4) :: nat pool\<rparr>"
    by (rule daemon_continue [OF _ move_main]) (simp add: main_advance_def)
  from daemon_continue [OF this move_slot [of _ 7]] show ?thesis by (simp add: service_exists_def)
qed


text \<open>How far the workers are from having left.\<close>

definition to_leave :: "'t pool \<Rightarrow> nat" where
  "to_leave r = length (filter busy (workers r)) + length (filter (\<lambda>w. w \<noteq> Exited) (workers r))"

lemma leaving_decreases:
  assumes "end_task i r = Some r' \<or> leave_loop i r = Some r'"
  shows "to_leave r' < to_leave r"
proof -
  have i: "i < length (workers r)" using assms by (auto simp: end_task_def leave_loop_def split: if_splits)
  from filter_update [OF i, of busy Idle] filter_update [OF i, of "\<lambda>w. w \<noteq> Exited" Idle]
    filter_update [OF i, of busy Exited] filter_update [OF i, of "\<lambda>w. w \<noteq> Exited" Exited] assms show ?thesis
    by (auto simp: to_leave_def end_task_def leave_loop_def split: if_splits worker.splits)
qed

lemma stopped_workers_step:
  assumes "pool_stopped r" "\<not> pool_joined r"
  shows "\<exists>i r'. end_task i r = Some r' \<or> leave_loop i r = Some r'"
proof -
  from assms obtain i where i: "i < length (workers r)" "workers r ! i \<noteq> Exited"
    by (auto simp: pool_joined_def in_set_conv_nth)
  with assms(1) have "(end_task i r \<noteq> None) \<or> (leave_loop i r \<noteq> None)"
    by (cases "workers r ! i") (simp_all add: end_task_def leave_loop_def)
  then show ?thesis by auto
qed

text \<open>
  C39. Stopping the daemon ends: once \<open>runtime->stop()\<close> is called no worker can begin a task, each step of a worker brings it closer to its
  end, and as long as some worker is left one of them has a step to make; when none has, the main thread goes on to destroy the
  service. The tasks themselves are assumed to return.
\<close>

theorem stop_returns:
  assumes "daemon_reachable d" "phase d = Main_stopping"
  shows "(\<forall>i. begin_strand i (runtime d) = None \<and> begin_plain i (runtime d) = None) \<and>
    (\<forall>i r. end_task i (runtime d) = Some r \<or> leave_loop i (runtime d) = Some r \<longrightarrow> to_leave r < to_leave (runtime d)) \<and>
    ((\<exists>i r. end_task i (runtime d) = Some r \<or> leave_loop i (runtime d) = Some r) \<or>
     main_advance d = Some (d\<lparr>phase := Main_stopped\<rparr>))"
proof -
  have st: "pool_stopped (runtime d)"
    using daemon_reachable_inv [OF assms(1)] assms(2) by (simp add: phase_inv_def)
  then have "begin_strand i (runtime d) = None \<and> begin_plain i (runtime d) = None" for i
    by (simp add: begin_strand_def begin_plain_def)
  then show ?thesis
    using stopped_workers_step [OF st] leaving_decreases assms(2) by (auto simp: main_advance_def)
qed

theorem stop_returns_witness:
  "\<exists>d :: nat daemon. phase d = Main_stopping \<and> begin_strand 0 (runtime d) = None \<and> posted_strand (runtime d) = [7]"
proof -
  let ?d = "\<lparr>phase = Main_stopping, runtime = pool_stop_service (dispatch_task (7::nat) (pool_start (pool_create 4)))\<rparr>"
  have "daemon_reachable ?d"
    by (rule daemon_continue [OF serving_reachable move_main]) (simp add: main_advance_def)
  from stop_returns [OF this] have "begin_strand 0 (runtime ?d) = None" by simp
  moreover have "posted_strand (runtime ?d) = [7]"
    by (simp add: pool_stop_service_def dispatch_task_def pool_start_def pool_create_def)
  ultimately show ?thesis by (metis daemon.select_convs)
qed

section \<open>The provider daemon\<close>

text \<open>
  A call that a worker of the provider daemon handles may still be running when the skeleton is destroyed, even if stopping the bus stops
  the io_context at once: nothing waits for the workers.
\<close>

theorem skeleton_destroyed_under_call:
  "\<exists>r. provider_daemon_moves\<^sup>*\<^sup>* (Exposed, pool_create 2) (Skeleton_destroyed, r) \<and> Busy_plain c \<in> set (workers r)"
proof -
  let ?r0 = "pool_create 2 :: 'a pool"
  let ?r1 = "post_plain c (pool_start ?r0)"
  let ?r2 = "?r1\<lparr>workers := (workers ?r1)[0 := Busy_plain c], plain_queue := []\<rparr>"
  have b: "begin_plain 0 ?r1 = Some ?r2"
    by (simp add: begin_plain_def post_plain_def pool_start_def pool_create_def)
  then have w: "worker_step ?r1 ?r2" by (auto simp: worker_step_def)
  have "provider_daemon_moves (Exposed, ?r0) (Exposed_running, pool_start ?r0)" by (rule provider_main) simp
  moreover have "provider_daemon_moves (Exposed_running, pool_start ?r0) (Exposed_running, ?r1)" by (rule provider_call)
  moreover have "provider_daemon_moves (Exposed_running, ?r1) (Exposed_running, ?r2)" using w by (rule provider_worker)
  moreover have "provider_daemon_moves (Exposed_running, ?r2) (Bus_stopped, pool_stop_service ?r2)" by (rule provider_main) simp
  moreover have "provider_daemon_moves (Bus_stopped, pool_stop_service ?r2) (Skeleton_destroyed, pool_stop_service ?r2)"
    by (rule provider_main) simp
  ultimately have "provider_daemon_moves\<^sup>*\<^sup>* (Exposed, ?r0) (Skeleton_destroyed, pool_stop_service ?r2)"
    by (meson converse_rtranclp_into_rtranclp rtranclp.rtrancl_refl)
  moreover have "Busy_plain c \<in> set (workers (pool_stop_service ?r2))"
    by (simp add: pool_stop_service_def pool_start_def pool_create_def post_plain_def numeral_2_eq_2)
  ultimately show ?thesis by blast
qed

end
