(* ===== verification/Spec2Isabelle.thy ===== *)
theory Spec2Isabelle
  imports Criteria Update_Policy Engine_Props Codec Provider_Selection Session Service_Skeleton Service_Properties Gps_Hal Sntp_Packet Connectivity_Props Ichnaea Geoclue Bus_Objects Remote_Provider Qt_Source Worker_Providers Client_Stubs Engine_Updates Gps_Assistance Service_Vehicles Bus_Types Skyhook Xtra_Download Engine_Events Daemon_Main
begin

text \<open>
  A verification library for the Lomiri location service.

  \<^bold>\<open>The program.\<close> The service runs as a daemon on the system bus. Providers (GPS, gpsd, Geoclue, remote ones, a dummy) deliver
  positions, headings and velocities; the engine switches them, keeps the best known updates and selects providers for a
  session; a client creates a session with a criteria, enables channels of it and receives updates; the service offers a few
  properties and, if the user allows it, reports positions together with the wireless networks and radio cells that the
  connectivity manager sees. File names below are relative to \<open>src/src/location_service/com/lomiri/location\<close>, those of
  headers to the same path under \<open>src/include/location_service\<close>.

  \<^bold>\<open>How the program is modelled.\<close> A class is a record, an enumeration a datatype, a method a function on the record. An
  exception is the left side of \<open>exn + 'a\<close>; the fault of a world of objects (dangling object, re-entered property, fuel) is the
  datatype \<open>fault\<close>. A \<open>double\<close> is a real, an infinity or a NaN with the comparisons of IEEE 754. Integers are words, or \<open>int\<close>
  with the wrap-around written out (\<open>int32\<close>). A \<open>core::Property\<close> is assigned with its documented semantics: it emits when
  the value changes. Threads are program counters, an interleaving is a step relation (\<open>hal_step\<close>, \<open>conn_step\<close>, \<open>pool_step\<close>, \<open>daemon_moves\<close>) or a list
  of events (\<open>dummy_step\<close>, \<open>gpsd_step\<close>, \<open>remote_step\<close>, \<open>source_step\<close>). Code of libraries and services is a parameter, with
  what they document as hypotheses: \<open>ptree_laws\<close> (Boost.PropertyTree), \<open>json_laws\<close> (json-c), \<open>reader_laws\<close> (dbus-cpp), \<open>rounds_ints\<close>
  (floating point).

  \<^bold>\<open>The theories.\<close>
  \<^item> \<open>Prelude\<close>, \<open>Std_Containers\<close>, \<open>Enum_Streams\<close>, \<open>Settings_Store\<close>: doubles, exceptions, ordered containers over a comparator (locales
    \<open>weak_order\<close>, \<open>total_order\<close>), the stream operators of the enumerations (locale \<open>enum_stream\<close>, with its round trip) and the
    persistent settings.
  \<^item> \<open>Data_Model\<close>, \<open>Criteria\<close>, \<open>Update_Policy\<close>, \<open>Space_Vehicles\<close>, \<open>Bounded_Integer\<close>: the values and the pure functions on them. The merge of criteria is a
    least upper bound; the policy of the engine keeps the most accurate update of a time bracket.
  \<^item> \<open>Codec\<close>, \<open>Bus_Types\<close>: the encoders and decoders of \<open>codec.h\<close>; the locale \<open>codec\<close> is the round trip, interpreted for every type; the
    declared types of the values against those of the D-Bus specification.
  \<^item> \<open>Provider_Controller\<close>: flags and the reference counting controller (\<open>provider.cpp\<close>), one interpretation of the
    locale \<open>refcounted\<close> per channel. A balanced sequence of requests leaves a channel running exactly when an observer is left.
  \<^item> \<open>Engine_World\<close>, \<open>Engine_Props\<close>, \<open>Engine_Updates\<close>: the engine (\<open>engine.cpp\<close>), the tracking, fusion and proxy providers as a store of shared objects,
    requests that travel through it, and the best known updates. In a well-formed world a request returns, faults never and
    leaves the engine state in agreement with its providers; every provider is told the reference the policy keeps. The runs behind
    the findings on re-entrancy and mixed channels are theorems too.
  \<^item> \<open>Provider_Selection\<close>, \<open>Engine_Events\<close>: the selection policies, the fusion of positions, session providers and the provider factory; the way of an
    event of the engine down to the implementations, and of an update up to a session, through every connected object.
  \<^item> \<open>Session\<close>, \<open>Service_Skeleton\<close>, \<open>Service_Properties\<close>, \<open>Reporting\<close>, \<open>Ichnaea\<close>: the server side (\<open>service/\<close>): sessions, permissions and the session store,
    the properties coupled to the engine, the harvester, the content of a report and the reporter that submits it, with the reference counts
    of the JSON objects. Requests of a session are balanced, sessions are created exactly for permitted callers, the properties
    mirror the engine, reports are only made while allowed and submitted while the reporter runs.
  \<^item> \<open>Client_Stubs\<close>, \<open>Service_Vehicles\<close>, \<open>Qt_Source\<close>: the client side (\<open>service/stub.cpp\<close>, \<open>service/session/stub.cpp\<close>, \<open>src/qt/position\<close>). The statuses, updates and
    properties a client sees agree with those of the service; the exceptions are stated.
  \<^item> \<open>Bus_Interfaces\<close>, \<open>Bus_Objects\<close>: the interfaces on the bus (\<open>interface.h\<close>, \<open>ofono.h\<close>, \<open>nm.h\<close>, \<open>geoclue.h\<close>) with their members and types, the handlers
    that the objects install and remove, and the calls of both sides. Every call finds its own handler.
  \<^item> \<open>Gps_Hal\<close>, \<open>Gps_Assistance\<close>, \<open>Xtra_Download\<close>, \<open>Worker_Providers\<close>, \<open>Geoclue\<close>, \<open>Skyhook\<close>, \<open>Remote_Provider\<close>: the providers. The handle of the GPS driver is never orphaned under any
    interleaving, a worker thread that is joined ends (locale \<open>joined_worker\<close>, interpreted for the dummy and the gpsd provider), the
    Geoclue providers share one bus thread, and a remote implementation runs a channel exactly when a client observes it as long as no transaction fails.
  \<^item> \<open>Endian\<close>, \<open>Endian_Buffers\<close>, \<open>Sntp\<close>, \<open>Sntp_Packet\<close>: the time of an SNTP server and the packet on the wire, over the byte orders and buffers the packet is
    made of (\<open>3rd-party/boost/endian\<close>; locales \<open>endian_reversible\<close> and \<open>integer_buffer\<close>, interpreted at each width in use). The error of the time is bounded,
    over the bytes that are sent and received.
  \<^item> \<open>Radio_Cell\<close>, \<open>Wireless_Network\<close>, \<open>Connectivity_Manager\<close>, \<open>Connectivity_Props\<close>: the connectivity manager over oFono and NetworkManager. Its caches are consistent under every
    interleaving of its two threads, listeners miss nothing without interference, its queue drains.
  \<^item> \<open>Platform\<close>, \<open>Runtime_Pool\<close>: the loop of a worker of the runtime, the pool with its strand under every interleaving, the time since boot and the
    configuration files of the GPS hardware. Dispatched tasks run one at a time and in order, and none begins after a stop.
  \<^item> \<open>Daemon\<close>, \<open>Runtime_Tests\<close>, \<open>Daemon_Main\<close>, \<open>Text_Output\<close>: command lines, loading of providers, the command-line client and its tests of the hardware; the executables put together from the
    parts, how they end and in which order the daemon takes itself apart; and the texts the stream operators write.

  This theory holds the statements that cross several of them.

  \<^bold>\<open>Bounds and fuel.\<close> A request in the store of provider objects takes fuel, one unit per object on its path; the
  theorems say that fuel above the address of the object is enough, because an object only refers to older ones. Counters of controllers
  are 32-bit; the theorems on them assume fewer than \<open>2 ^ 31\<close> requests. Object paths are numbered by a 32-bit
  counter; freshness is stated below its wrap-around. Every other function is total.

  \<^bold>\<open>Not modelled.\<close> The transport of dbus-cpp, the sockets of Boost.Asio and the HTTP client of the reports, which are not part of the repository; the
  NMEA logging of the GPS hardware; logging; how a stream
  writes a floating-point number; examples, tests and the parts of the vendored Boost.Endian that the program does not use. A data race
  on a plain variable has no meaning in the model: reads and writes are atomic.
\<close>

section \<open>From the client to the hardware\<close>



section \<open>From the hardware to the client\<close>



end
